(* ===== verification/Prelude.thy ===== *)
theory Prelude
  imports Main "HOL-Library.AList" "HOL-Library.Multiset"
begin

section \<open>Prelude: errors, Go maps and shared automation\<close>

text \<open>
  What every component of the development shares.

  \<^item> \<open>go_error\<close> is the type of the non-nil values of Go's \<open>error\<close> interface that the program
    creates or passes on; a Go result of type \<open>error\<close> is a \<open>go_error option\<close>, with \<open>None\<close>
    for \<open>nil\<close>.  One constructor stands for one \<open>errors.New\<close> or \<open>fmt.Errorf\<close> of the source and
    carries what the message is built from.  \<open>ErrExternal\<close> is an error that a call outside the
    repository returned.
  \<^item> A Go map whose entries the program iterates over is an association list with distinct
    keys; \<open>map_of\<close>, \<open>AList.update\<close> and \<open>AList.delete\<close> are its index, assignment and
    \<open>delete\<close>.  A \<open>range\<close> loop visits every entry once, in an order that the language leaves
    open: \<open>range_of r m\<close> says that \<open>r\<close> is one such order for \<open>m\<close>.
  \<^item> The collections \<open>gomap_simps\<close>, \<open>inv_simps\<close> and \<open>server_simps\<close> gather the rewrite rules
    that the proofs of the components unfold.
\<close>

named_theorems gomap_simps "rewrite rules for association lists used as Go maps"
named_theorems inv_simps "definitions of the components' invariants"
named_theorems server_simps "unfolding rules for the operations of the server"
named_theorems client_simps "unfolding rules for the operations of the client"

subsection \<open>Errors\<close>

datatype go_error =
    ErrExternal string
  | ErrHostInUse string
  | ErrEncoderNotInitialized
  | ErrControlClosed
  | ErrNilCallback string
  | ErrNoClientSession
  | ErrNoSession string
  | ErrTimeoutSession
  | ErrHostEmpty
  | ErrNoVirtualHost string
  | ErrNoRewriteRule
  | ErrReadTunnel go_error
  | ErrNoHijacker
  | ErrHijack go_error
  | ErrAfterHijack go_error
  | ErrWriteUpgrade go_error
  | ErrReadUpgrade go_error
  | ErrWriteUpgradeResponse go_error
  | ErrForwardFrames go_error
  | ErrInvalidSignature string
  | ErrNoHostFor string
  | ErrControlExists string
  | ErrWriteResponse go_error
  | ErrSetDeadline go_error
  | ErrHandshakeAborted string
  | ErrInvalidPattern string
  | ErrRedialAborted
  | ErrClient string
  | ErrClientOp string go_error
  | ErrTunnelServer nat "go_error + string"
  | ErrConfig string "string list"
  | ErrConfigOp string go_error
  | ErrNotExist

text \<open>\<open>errors.Is(err, errAfterHijack)\<close>: only \<open>afterHijack\<close> wraps an error with \<open>%w\<close>.\<close>

fun is_after_hijack :: "go_error \<Rightarrow> bool" where
  "is_after_hijack (ErrAfterHijack _) = True"
| "is_after_hijack _ = False"

subsection \<open>Go maps as association lists\<close>

definition range_of :: "('k \<times> 'v) list \<Rightarrow> ('k \<times> 'v) list \<Rightarrow> bool" where
  "range_of r m \<longleftrightarrow> mset r = mset m"

definition wf_map :: "('k \<times> 'v) list \<Rightarrow> bool" where
  "wf_map m \<longleftrightarrow> distinct (map fst m)"

lemma range_of_refl [simp]: "range_of m m"
  by (simp add: range_of_def)

lemma range_of_set: "range_of r m \<Longrightarrow> set r = set m"
  by (metis range_of_def set_mset_mset)

lemma range_of_distinct_map: "range_of r m \<Longrightarrow> distinct (map f r) = distinct (map f m)"
  unfolding range_of_def by (metis mset_eq_imp_distinct_iff mset_map)

lemma range_of_wf: "range_of r m \<Longrightarrow> wf_map r = wf_map m"
  unfolding wf_map_def by (rule range_of_distinct_map)

lemma wf_map_in_set: "wf_map m \<Longrightarrow> (k, v) \<in> set m \<longleftrightarrow> map_of m k = Some v"
  by (simp add: wf_map_def)

lemma wf_map_Nil [simp]: "wf_map []"
  by (simp add: wf_map_def)

lemma wf_map_update [simp]: "wf_map m \<Longrightarrow> wf_map (AList.update k v m)"
  by (simp add: wf_map_def distinct_update)

lemma wf_map_delete [simp]: "wf_map m \<Longrightarrow> wf_map (AList.delete k m)"
  by (simp add: wf_map_def distinct_delete)

lemma map_of_update [gomap_simps]:
  "map_of (AList.update k v m) k' = (if k' = k then Some v else map_of m k')"
  by (simp add: update_conv)

lemma map_of_delete [gomap_simps]:
  "map_of (AList.delete k m) k' = (if k' = k then None else map_of m k')"
  by (simp add: delete_conv')

text \<open>Deleting a list of keys one after the other removes exactly these keys.\<close>

lemma map_of_fold_delete:
  "map_of (fold AList.delete ks m) k = (if k \<in> set ks then None else map_of m k)"
  by (induction ks arbitrary: m) (auto simp: map_of_delete)

lemma wf_map_fold_delete [simp]: "wf_map m \<Longrightarrow> wf_map (fold AList.delete ks m)"
  by (induction ks arbitrary: m) auto

subsection \<open>Registries\<close>

text \<open>
  The contract that the keyed stores of the server share (control connections, sessions,
  callbacks): an entry is what was put last under its key, and gone once removed.
\<close>

locale registry =
  fixes put :: "string \<Rightarrow> 'v \<Rightarrow> 's \<Rightarrow> 's"
    and remove :: "string \<Rightarrow> 's \<Rightarrow> 's"
    and entry :: "string \<Rightarrow> 's \<Rightarrow> 'v option"
  assumes entry_put: "entry k (put k' v s) = (if k = k' then Some v else entry k s)"
    and entry_remove: "entry k (remove k' s) = (if k = k' then None else entry k s)"
begin

lemma entry_put_remove:
  "k \<noteq> k' \<Longrightarrow> entry k (put k v (remove k' s)) = Some v"
  "entry k (remove k (put k v s)) = None"
  by (simp_all add: entry_put entry_remove)

text \<open>Removals of other keys, in any number, leave an entry alone.\<close>

lemma entry_fold_remove: "k \<notin> set ks \<Longrightarrow> entry k (fold remove ks s) = entry k s"
  by (induction ks arbitrary: s) (auto simp: entry_remove)

lemma keys_remove: "{k. entry k (remove k' s) \<noteq> None} = {k. entry k s \<noteq> None} - {k'}"
  by (auto simp: entry_remove)

lemma keys_put: "{k. entry k (put k' v s) \<noteq> None} = insert k' {k. entry k s \<noteq> None}"
  by (auto simp: entry_put)

end

subsection \<open>Runs of a step function\<close>

text \<open>
  The shape that every safety argument of the development has: an invariant that each step
  keeps holds after any sequence of steps.
\<close>

locale invariant_steps =
  fixes step :: "'e \<Rightarrow> 's \<Rightarrow> 's"
    and inv :: "'s \<Rightarrow> bool"
    and admissible :: "'e \<Rightarrow> bool"
  assumes step_inv: "inv s \<Longrightarrow> admissible e \<Longrightarrow> inv (step e s)"
begin

lemma run_inv: "inv s \<Longrightarrow> list_all admissible es \<Longrightarrow> inv (fold step es s)"
  by (induction es arbitrary: s) (auto intro: step_inv)

lemma run_prefix_inv:
  "inv s \<Longrightarrow> list_all admissible (es @ fs) \<Longrightarrow> inv (fold step es s)"
  by (auto intro: run_inv)

end

end
