(* ===== verification/VirtualHosts.thy ===== *)
theory VirtualHosts
  imports Prelude
begin

section \<open>Virtual host storage (tunnel/virtualhost.go)\<close>

text \<open>
  The map from public host names to clients.  \<open>'re\<close> is the type of compiled regular
  expressions (\<open>*regexp.Regexp\<close>), which the storage only keeps.  Every operation takes the
  mutex for its whole body, so it is one atomic function of the map.  The \<open>range\<close> loops take
  the order of the iteration as their first argument \<open>r\<close>; \<open>range_of r m\<close> holds for every
  order that Go may choose.
\<close>

record 're rewrite_rule =
  rr_re :: 're
  rr_replacement :: string

record 're virtual_host =
  vh_identifier :: string
  vh_rewrite :: "'re rewrite_rule list"

type_synonym 're vhosts = "(string \<times> 're virtual_host) list"

definition newVirtualHosts :: "'re vhosts" where
  "newVirtualHosts = []"

subsection \<open>The operations\<close>

text \<open>The loop of \<open>AddHost\<close> that releases the other hosts of the identifier.\<close>

fun release_hosts :: "'re vhosts \<Rightarrow> string \<Rightarrow> string \<Rightarrow> 're vhosts \<Rightarrow> 're vhosts" where
  "release_hosts [] host ident m = m"
| "release_hosts ((hostname, hst) # r) host ident m =
     release_hosts r host ident
       (if vh_identifier hst = ident \<and> hostname \<noteq> host then AList.delete hostname m else m)"

definition AddHost :: "'re vhosts \<Rightarrow> string \<Rightarrow> string \<Rightarrow> 're rewrite_rule list \<Rightarrow>
    're vhosts \<Rightarrow> go_error option \<times> 're vhosts" where
  "AddHost r host ident rewrites m =
     (let new = \<lparr>vh_identifier = ident, vh_rewrite = rewrites\<rparr>;
          claim = (None, AList.update host new (release_hosts r host ident m))
      in case map_of m host of
           Some current \<Rightarrow>
             if vh_identifier current \<noteq> ident then (Some (ErrHostInUse host), m) else claim
         | None \<Rightarrow> claim)"

definition DeleteHost :: "string \<Rightarrow> 're vhosts \<Rightarrow> 're vhosts" where
  "DeleteHost host m = AList.delete host m"

definition GetIdentifier :: "string \<Rightarrow> 're vhosts \<Rightarrow> string \<times> bool" where
  "GetIdentifier host m =
     (case map_of m host of None \<Rightarrow> ('''', False) | Some ht \<Rightarrow> (vh_identifier ht, True))"

fun GetHost :: "'re vhosts \<Rightarrow> string \<Rightarrow> string \<times> bool" where
  "GetHost [] ident = ('''', False)"
| "GetHost ((hostname, hst) # r) ident =
     (if vh_identifier hst = ident then (hostname, True) else GetHost r ident)"

fun GetVirtualHost :: "'re vhosts \<Rightarrow> string \<Rightarrow> 're virtual_host option \<times> bool \<times> string" where
  "GetVirtualHost [] ident = (None, False, '''')"
| "GetVirtualHost ((hostId, hst) # r) ident =
     (if vh_identifier hst = ident then (Some hst, True, hostId) else GetVirtualHost r ident)"

subsection \<open>The contract of a virtual host storage\<close>

text \<open>
  The Go interface \<open>vhostStorage\<close>, with what the server relies on.  \<open>owner m h\<close> is the
  abstract content: the client that holds host \<open>h\<close>, with its rules.  \<open>order r m\<close> holds of the
  iteration orders that the storage may choose.
\<close>

locale vhost_storage =
  fixes add :: "'r \<Rightarrow> string \<Rightarrow> string \<Rightarrow> 'rw \<Rightarrow> 'm \<Rightarrow> go_error option \<times> 'm"
    and del :: "string \<Rightarrow> 'm \<Rightarrow> 'm"
    and ident_of :: "string \<Rightarrow> 'm \<Rightarrow> string \<times> bool"
    and host_of :: "'r \<Rightarrow> string \<Rightarrow> string \<times> bool"
    and vhost_of :: "'r \<Rightarrow> string \<Rightarrow> 'v option \<times> bool \<times> string"
    and make :: "string \<Rightarrow> 'rw \<Rightarrow> 'v"
    and order :: "'r \<Rightarrow> 'm \<Rightarrow> bool"
    and inv :: "'m \<Rightarrow> bool"
    and owner :: "'m \<Rightarrow> string \<Rightarrow> (string \<times> 'rw) option"
  assumes owner_unique:
      "inv m \<Longrightarrow> owner m h = Some (i, rw) \<Longrightarrow> owner m h' = Some (i, rw') \<Longrightarrow> h' = h"
    and add_refused:
      "owner m h = Some (j, rw) \<Longrightarrow> j \<noteq> i \<Longrightarrow> add r h i rs m = (Some (ErrHostInUse h), m)"
    and add_granted:
      "inv m \<Longrightarrow> order r m \<Longrightarrow> \<forall>j rw. owner m h = Some (j, rw) \<longrightarrow> j = i \<Longrightarrow>
       fst (add r h i rs m) = None \<and> inv (snd (add r h i rs m)) \<and>
       owner (snd (add r h i rs m)) =
         (\<lambda>k. if k = h then Some (i, rs)
              else (case owner m k of None \<Rightarrow> None
                    | Some (j, rw) \<Rightarrow> if j = i then None else Some (j, rw)))"
    and del_owner: "owner (del h m) = (owner m)(h := None)"
    and del_inv: "inv m \<Longrightarrow> inv (del h m)"
    and ident_of_owner:
      "ident_of h m = (case owner m h of None \<Rightarrow> ('''', False) | Some (i, rw) \<Rightarrow> (i, True))"
    and host_found:
      "inv m \<Longrightarrow> order r m \<Longrightarrow> owner m h = Some (i, rw) \<Longrightarrow>
       host_of r i = (h, True) \<and> vhost_of r i = (Some (make i rw), True, h)"
    and host_missing:
      "inv m \<Longrightarrow> order r m \<Longrightarrow> \<forall>h rw. owner m h \<noteq> Some (i, rw) \<Longrightarrow>
       host_of r i = ('''', False) \<and> vhost_of r i = (None, False, '''')"
begin

lemma lookup_cases:
  assumes "inv m" "order r m"
  obtains (found) h rw where "owner m h = Some (i, rw)" "host_of r i = (h, True)"
      "vhost_of r i = (Some (make i rw), True, h)"
  | (missing) "\<forall>h rw. owner m h \<noteq> Some (i, rw)" "host_of r i = ('''', False)"
      "vhost_of r i = (None, False, '''')"
proof (cases "\<exists>h rw. owner m h = Some (i, rw)")
  case True
  then obtain h rw where "owner m h = Some (i, rw)" by blast
  with host_found [OF assms this] show ?thesis using found by blast
next
  case False
  then have "\<forall>h rw. owner m h \<noteq> Some (i, rw)" by blast
  with host_missing [OF assms this] show ?thesis using missing by blast
qed

lemma lookup_order_irrelevant:
  assumes "inv m" "order r m" "order r' m"
  shows "host_of r i = host_of r' i" and "vhost_of r i = vhost_of r' i"
proof -
  have "host_of r i = host_of r' i \<and> vhost_of r i = vhost_of r' i"
    using assms(1,2)
  proof (cases rule: lookup_cases [where i = i])
    case (found h rw)
    with host_found [OF assms(1,3)] show ?thesis by simp
  next
    case missing
    with host_missing [OF assms(1,3) missing(1)] show ?thesis by simp
  qed
  then show "host_of r i = host_of r' i" and "vhost_of r i = vhost_of r' i" by simp_all
qed

lemma add_granted_iff:
  assumes "inv m" "order r m"
  shows "fst (add r h i rs m) = None \<longleftrightarrow> (\<forall>j rw. owner m h = Some (j, rw) \<longrightarrow> j = i)"
proof
  assume "fst (add r h i rs m) = None"
  then show "\<forall>j rw. owner m h = Some (j, rw) \<longrightarrow> j = i"
    using add_refused by (metis fst_conv option.distinct(1))
qed (use add_granted [OF assms] in blast)

lemma add_inv:
  assumes "inv m" "order r m"
  shows "inv (snd (add r h i rs m))"
proof (cases "\<forall>j rw. owner m h = Some (j, rw) \<longrightarrow> j = i")
  case True
  then show ?thesis using add_granted [OF assms] by blast
next
  case False
  then show ?thesis using add_refused assms(1) by (metis snd_conv)
qed

text \<open>After a granted claim the new owner is found both ways.\<close>

lemma add_found:
  assumes "inv m" "order r m" "add r h i rs m = (None, m')" "order r' m'"
  shows "ident_of h m' = (i, True)" and "host_of r' i = (h, True)"
    and "vhost_of r' i = (Some (make i rs), True, h)"
proof -
  have free: "\<forall>j rw. owner m h = Some (j, rw) \<longrightarrow> j = i"
    using add_granted_iff [OF assms(1,2)] assms(3) by (metis fst_conv)
  have m': "inv m'" "owner m' h = Some (i, rs)"
    using add_granted [OF assms(1,2) free, where rs = rs] assms(3) by simp_all
  show "ident_of h m' = (i, True)" using m'(2) by (simp add: ident_of_owner)
  show "host_of r' i = (h, True)" and "vhost_of r' i = (Some (make i rs), True, h)"
    using host_found [OF m'(1) assms(4) m'(2)] by simp_all
qed

text \<open>Nobody else's hosts change, whether the claim is granted or not.\<close>

lemma add_others:
  assumes "inv m" "order r m" "j \<noteq> i"
  shows "owner (snd (add r h i rs m)) k = Some (j, rw) \<longleftrightarrow> owner m k = Some (j, rw)"
proof (cases "\<forall>j rw. owner m h = Some (j, rw) \<longrightarrow> j = i")
  case True
  then have "owner (snd (add r h i rs m)) =
         (\<lambda>k. if k = h then Some (i, rs)
              else (case owner m k of None \<Rightarrow> None
                    | Some (j, rw) \<Rightarrow> if j = i then None else Some (j, rw)))"
    using add_granted [OF assms(1,2)] by blast
  with True assms(3) show ?thesis by (auto split: option.splits)
next
  case False
  then show ?thesis using add_refused by (metis snd_conv)
qed

text \<open>Deleting the host that a lookup returned leaves its client without a host.\<close>

lemma del_looked_up:
  assumes "inv m" "order r m" "vhost_of r i = (v, True, h)"
  shows "owner (del h m) k \<noteq> Some (i, rw)"
  using assms(1,2)
proof (cases rule: lookup_cases [where i = i])
  case (found h' rw')
  with assms(3) have "h' = h" by simp
  with found(1) owner_unique [OF assms(1)] show ?thesis by (auto simp: del_owner)
next
  case missing
  with assms(3) show ?thesis by simp
qed

end

subsection \<open>The implementation keeps the contract\<close>

definition vhosts_inv :: "'re vhosts \<Rightarrow> bool" where
  [inv_simps]: "vhosts_inv m \<longleftrightarrow> wf_map m \<and> distinct (map (vh_identifier \<circ> snd) m)"

definition vh_owner :: "'re vhosts \<Rightarrow> string \<Rightarrow> (string \<times> 're rewrite_rule list) option" where
  "vh_owner m h = map_option (\<lambda>v. (vh_identifier v, vh_rewrite v)) (map_of m h)"

definition vh_make :: "string \<Rightarrow> 're rewrite_rule list \<Rightarrow> 're virtual_host" where
  "vh_make i rw = \<lparr>vh_identifier = i, vh_rewrite = rw\<rparr>"

lemma vhosts_inv_iff:
  "vhosts_inv m \<longleftrightarrow> wf_map m \<and>
     (\<forall>h h' v v'. map_of m h = Some v \<longrightarrow> map_of m h' = Some v' \<longrightarrow>
        vh_identifier v = vh_identifier v' \<longrightarrow> h = h')"
proof -
  have "distinct (map (vh_identifier \<circ> snd) m) \<longleftrightarrow>
     (\<forall>h h' v v'. map_of m h = Some v \<longrightarrow> map_of m h' = Some v' \<longrightarrow>
        vh_identifier v = vh_identifier v' \<longrightarrow> h = h')" if w: "wf_map m"
  proof -
    have "distinct m" using w by (simp add: wf_map_def distinct_map)
    then have "distinct (map (vh_identifier \<circ> snd) m) \<longleftrightarrow> inj_on (vh_identifier \<circ> snd) (set m)"
      by (simp add: distinct_map)
    also have "\<dots> \<longleftrightarrow> (\<forall>h h' v v'. map_of m h = Some v \<longrightarrow> map_of m h' = Some v' \<longrightarrow>
        vh_identifier v = vh_identifier v' \<longrightarrow> h = h')"
      unfolding wf_map_in_set [OF w, symmetric] inj_on_def
      using w by (fastforce simp: wf_map_in_set)
    finally show ?thesis .
  qed
  then show ?thesis by (auto simp: vhosts_inv_def)
qed

lemma vhosts_inv_new [simp]: "vhosts_inv newVirtualHosts"
  by (simp add: vhosts_inv_def newVirtualHosts_def)

lemma release_hosts_fold:
  "release_hosts r host ident m =
     fold AList.delete (map fst (filter (\<lambda>(h, v). vh_identifier v = ident \<and> h \<noteq> host) r)) m"
  by (induction r host ident m rule: release_hosts.induct) auto

lemma map_of_release:
  assumes "wf_map m" "range_of r m"
  shows "map_of (release_hosts r host ident m) k =
    (case map_of m k of None \<Rightarrow> None
     | Some v \<Rightarrow> if vh_identifier v = ident \<and> k \<noteq> host then None else Some v)"
proof -
  have "k \<in> fst ` {x \<in> set r. case x of (h, v) \<Rightarrow> vh_identifier v = ident \<and> h \<noteq> host} \<longleftrightarrow>
    (\<exists>v. map_of m k = Some v \<and> vh_identifier v = ident \<and> k \<noteq> host)"
    using assms by (force simp: range_of_set wf_map_in_set)
  then show ?thesis
    by (auto simp: release_hosts_fold map_of_fold_delete split: option.splits)
qed

lemma wf_map_release [simp]: "wf_map m \<Longrightarrow> wf_map (release_hosts r host ident m)"
  by (simp add: release_hosts_fold)

lemma GetHost_found:
  "distinct (map (vh_identifier \<circ> snd) r) \<Longrightarrow> (h, v) \<in> set r \<Longrightarrow> GetHost r (vh_identifier v) = (h, True)"
  by (induction r "vh_identifier v" rule: GetHost.induct) force+

lemma GetVirtualHost_found:
  "distinct (map (vh_identifier \<circ> snd) r) \<Longrightarrow> (h, v) \<in> set r \<Longrightarrow>
     GetVirtualHost r (vh_identifier v) = (Some v, True, h)"
  by (induction r "vh_identifier v" rule: GetVirtualHost.induct) force+

lemma GetHost_missing:
  "\<forall>(h, v) \<in> set r. vh_identifier v \<noteq> ident \<Longrightarrow> GetHost r ident = ('''', False)"
  by (induction r ident rule: GetHost.induct) auto

lemma GetVirtualHost_missing:
  "\<forall>(h, v) \<in> set r. vh_identifier v \<noteq> ident \<Longrightarrow> GetVirtualHost r ident = (None, False, '''')"
  by (induction r ident rule: GetVirtualHost.induct) auto

lemma range_of_idents:
  "range_of r m \<Longrightarrow> vhosts_inv m \<Longrightarrow> distinct (map (vh_identifier \<circ> snd) r)"
  by (simp add: vhosts_inv_def range_of_distinct_map)

interpretation vh: vhost_storage AddHost DeleteHost GetIdentifier GetHost GetVirtualHost
  vh_make range_of vhosts_inv vh_owner
proof unfold_locales
  fix m :: "'a vhosts" and h i rw h' rw'
  show "vhosts_inv m \<Longrightarrow> vh_owner m h = Some (i, rw) \<Longrightarrow> vh_owner m h' = Some (i, rw') \<Longrightarrow> h' = h"
    unfolding vhosts_inv_iff by (fastforce simp: vh_owner_def)
next
  fix m :: "'a vhosts" and h j rw i r rs
  show "vh_owner m h = Some (j, rw) \<Longrightarrow> j \<noteq> i \<Longrightarrow> AddHost r h i rs m = (Some (ErrHostInUse h), m)"
    by (auto simp: vh_owner_def AddHost_def)
next
  fix m r :: "'a vhosts" and h i rs
  assume m: "vhosts_inv m" "range_of r m" and free: "\<forall>j rw. vh_owner m h = Some (j, rw) \<longrightarrow> j = i"
  let ?m' = "AList.update h \<lparr>vh_identifier = i, vh_rewrite = rs\<rparr> (release_hosts r h i m)"
  have add: "AddHost r h i rs m = (None, ?m')"
    using free by (auto simp: AddHost_def Let_def vh_owner_def split: option.splits)
  have wf: "wf_map m" using m by (simp add: vhosts_inv_def)
  have "vhosts_inv ?m'"
    using m(1) wf unfolding vhosts_inv_iff
    by (auto simp: map_of_update map_of_release [OF wf m(2)] split: option.splits if_splits)
  moreover have "vh_owner ?m' = (\<lambda>k. if k = h then Some (i, rs)
              else (case vh_owner m k of None \<Rightarrow> None
                    | Some (j, rw) \<Rightarrow> if j = i then None else Some (j, rw)))"
    by (auto simp: vh_owner_def map_of_update map_of_release [OF wf m(2)] split: option.splits)
  ultimately show "fst (AddHost r h i rs m) = None \<and> vhosts_inv (snd (AddHost r h i rs m)) \<and>
       vh_owner (snd (AddHost r h i rs m)) = (\<lambda>k. if k = h then Some (i, rs)
              else (case vh_owner m k of None \<Rightarrow> None
                    | Some (j, rw) \<Rightarrow> if j = i then None else Some (j, rw)))"
    unfolding add by simp
next
  fix m :: "'a vhosts" and h
  show "vh_owner (DeleteHost h m) = (vh_owner m)(h := None)"
    by (auto simp: vh_owner_def DeleteHost_def map_of_delete)
  show "vhosts_inv m \<Longrightarrow> vhosts_inv (DeleteHost h m)"
    unfolding vhosts_inv_iff by (auto simp: DeleteHost_def map_of_delete)
  show "GetIdentifier h m =
      (case vh_owner m h of None \<Rightarrow> ('''', False) | Some (i, rw) \<Rightarrow> (i, True))"
    by (auto simp: GetIdentifier_def vh_owner_def split: option.splits)
next
  fix m r :: "'a vhosts" and h i rw
  assume m: "vhosts_inv m" "range_of r m" and "vh_owner m h = Some (i, rw)"
  then obtain v where v: "map_of m h = Some v" "vh_identifier v = i" "vh_make i rw = v"
    by (auto simp: vh_owner_def vh_make_def)
  then have "(h, v) \<in> set r" using m by (simp add: range_of_set wf_map_in_set vhosts_inv_def)
  with v show "GetHost r i = (h, True) \<and> GetVirtualHost r i = (Some (vh_make i rw), True, h)"
    using GetHost_found GetVirtualHost_found range_of_idents [OF m(2,1)] by metis
next
  fix m r :: "'a vhosts" and i
  assume m: "vhosts_inv m" "range_of r m" and "\<forall>h rw. vh_owner m h \<noteq> Some (i, rw)"
  then have "\<forall>h v. map_of m h = Some v \<longrightarrow> vh_identifier v \<noteq> i"
    by (auto simp: vh_owner_def)
  then have "\<forall>(h, v) \<in> set r. vh_identifier v \<noteq> i"
    using m by (fastforce simp: range_of_set wf_map_in_set vhosts_inv_def)
  then show "GetHost r i = ('''', False) \<and> GetVirtualHost r i = (None, False, '''')"
    using GetHost_missing GetVirtualHost_missing by metis
qed

end
