(* ===== verification/Proto.thy ===== *)
theory Proto
  imports Prelude
begin

section \<open>Protocol constants and messages (proto/), configuration types (appConfig/)\<close>

definition DefaultControlPath :: string where
  "DefaultControlPath = ''/_controlPath''"

definition DefaultControlMethod :: string where
  "DefaultControlMethod = ''POST''"

definition ClientIdentifierHeader :: string where
  "ClientIdentifierHeader = ''X-Tunnel-Identifier''"

definition ClientIdentifierSignature :: string where
  "ClientIdentifierSignature = ''X-Tunnel-Signature''"

definition Connected :: string where
  "Connected = ''200 Connected to Tunnel''"

definition HandshakeRequest :: string where
  "HandshakeRequest = ''controlHandshake''"

definition HandshakeResponse :: string where
  "HandshakeResponse = ''controlOk''"

subsection \<open>Messages\<close>

text \<open>
  \<open>Action\<close> and \<open>Type\<close> are Go integer types: a decoded message may hold any integer, not only
  the named ones.
\<close>

definition RequestClientSession :: int where
  "RequestClientSession = 1"

definition proto_HTTP :: int where "proto_HTTP = 1"
definition proto_TCP :: int where "proto_TCP = 2"
definition proto_WS :: int where "proto_WS = 3"

record control_message =
  cm_action :: int
  cm_protocol :: int
  cm_local_port :: int

record path_rule =
  pr_from :: string
  pr_to :: string

record http_config =
  hc_domain :: string
  hc_target :: string
  hc_rewrite :: "path_rule list"

record connection_config =
  cc_http :: http_config

subsection \<open>Configuration files\<close>

record server_settings =
  ss_debug :: bool
  ss_signature_key :: string
  ss_listen :: string
  ss_listen_control :: string
  ss_allowed_hosts :: "string list"
  ss_allowed_clients :: "string list"
  ss_control_path :: string
  ss_control_method :: string

text \<open>
  The \<open>proxy.http\<close> part of the client's configuration.  A nil \<open>customHeaders\<close> map and an
  empty one behave alike.
\<close>

record client_http_settings =
  chs_domain :: string
  chs_target :: string
  chs_rewrite :: "path_rule list"
  chs_custom_headers :: "(string \<times> string) list"

record client_settings =
  cs_debug :: bool
  cs_identifier :: string
  cs_server_address :: string
  cs_signature_key :: string
  cs_proxy_http :: client_http_settings
  cs_control_path :: string
  cs_control_method :: string

end
