(* ===== verification/Control.thy ===== *)
theory Control
  imports Proto
begin

section \<open>Control connections (tunnel/control.go)\<close>

text \<open>
  A \<open>*control\<close> is shared: the registry and the goroutine that listens on it hold the same
  pointer.  The objects therefore live on a heap and the registry maps identifiers to
  pointers.  \<open>ct_enc\<close> says whether the encoder is set, \<open>ct_nc\<close> is the handle of the
  underlying connection, if any.
\<close>

record control =
  ct_enc :: bool
  ct_nc :: "nat option"
  ct_identifier :: string
  ct_closed :: bool

definition newControl :: "nat \<Rightarrow> control" where
  "newControl nc = \<lparr>ct_enc = True, ct_nc = Some nc, ct_identifier = '''', ct_closed = False\<rparr>"

text \<open>
  \<open>send\<close>: \<open>encoded\<close> is what \<open>enc.Encode\<close> returns when it is called; the second component says
  whether it is.
\<close>

definition control_send :: "go_error option \<Rightarrow> control \<Rightarrow> go_error option \<times> bool" where
  "control_send encoded c =
     (if \<not> ct_enc c then (Some ErrEncoderNotInitialized, False)
      else if ct_closed c then (Some ErrControlClosed, False)
      else (encoded, True))"

text \<open>\<open>Close\<close>: the second component is the connection on which \<open>nc.Close\<close> is called.\<close>

definition control_Close :: "control \<Rightarrow> control \<times> nat option" where
  "control_Close c =
     (case ct_nc c of None \<Rightarrow> (c, None) | Some nc \<Rightarrow> (c\<lparr>ct_closed := True\<rparr>, Some nc))"

subsection \<open>The registry\<close>

record controls =
  ck_heap :: "nat \<Rightarrow> control"
  ck_next :: nat
  ck_map :: "string \<rightharpoonup> nat"

definition newControls :: controls where
  "newControls = \<lparr>ck_heap = (\<lambda>_. newControl 0), ck_next = 0, ck_map = Map.empty\<rparr>"

text \<open>\<open>newControl\<close> as an allocation: the pointer is new.\<close>

definition alloc_control :: "nat \<Rightarrow> controls \<Rightarrow> nat \<times> controls" where
  "alloc_control nc k =
     (ck_next k, k\<lparr>ck_heap := (ck_heap k)(ck_next k := newControl nc), ck_next := Suc (ck_next k)\<rparr>)"

definition getControl :: "string \<Rightarrow> controls \<Rightarrow> nat option" where
  "getControl ident k = ck_map k ident"

definition addControl :: "string \<Rightarrow> nat \<Rightarrow> controls \<Rightarrow> controls" where
  "addControl ident p k =
     k\<lparr>ck_heap := (ck_heap k)(p := (ck_heap k p)\<lparr>ct_identifier := ident\<rparr>),
       ck_map := (ck_map k)(ident \<mapsto> p)\<rparr>"

definition deleteControl :: "string \<Rightarrow> controls \<Rightarrow> controls" where
  "deleteControl ident k = k\<lparr>ck_map := (ck_map k)(ident := None)\<rparr>"

text \<open>\<open>Close\<close> through a pointer.\<close>

definition close_control :: "nat \<Rightarrow> controls \<Rightarrow> controls \<times> nat option" where
  "close_control p k =
     (let (c, nc) = control_Close (ck_heap k p) in (k\<lparr>ck_heap := (ck_heap k)(p := c)\<rparr>, nc))"

interpretation ctl: registry addControl deleteControl getControl
  by unfold_locales (auto simp: addControl_def deleteControl_def getControl_def)

subsection \<open>Invariant\<close>

text \<open>
  Between two operations of the server every registered connection is open, has an
  allocated object, and carries the identifier it is registered under.
\<close>

definition controls_inv :: "controls \<Rightarrow> bool" where
  [inv_simps]: "controls_inv k \<longleftrightarrow>
     (\<forall>ident p. getControl ident k = Some p \<longrightarrow>
        p < ck_next k \<and> ct_identifier (ck_heap k p) = ident \<and>
        ct_enc (ck_heap k p) \<and> ct_nc (ck_heap k p) \<noteq> None \<and> \<not> ct_closed (ck_heap k p))"

lemma controls_inv_new [simp]: "controls_inv newControls"
  by (simp add: controls_inv_def newControls_def getControl_def)

lemma controls_invD:
  assumes "controls_inv k" "getControl ident k = Some p"
  shows "p < ck_next k" "ct_identifier (ck_heap k p) = ident" "ct_enc (ck_heap k p)"
    "ct_nc (ck_heap k p) \<noteq> None" "\<not> ct_closed (ck_heap k p)"
  using assms by (simp_all add: controls_inv_def)

lemma control_ident_inj:
  "controls_inv k \<Longrightarrow> getControl i k = Some p \<Longrightarrow> getControl j k = Some p \<Longrightarrow> i = j"
  by (metis controls_invD(2))

lemma controls_inv_alloc_add:
  assumes "controls_inv k"
  shows "controls_inv (addControl ident (fst (alloc_control nc k)) (snd (alloc_control nc k)))"
  using assms
  by (fastforce simp: controls_inv_def addControl_def alloc_control_def getControl_def newControl_def)

lemma controls_inv_delete: "controls_inv k \<Longrightarrow> controls_inv (deleteControl ident k)"
  by (auto simp: controls_inv_def deleteControl_def getControl_def)

text \<open>
  Closing an object and removing the entry of its identifier, in either of the program's
  uses: through the registry, or by the goroutine that kept the pointer.
\<close>

lemma controls_inv_close_delete:
  assumes "controls_inv k"
  shows "controls_inv (deleteControl (ct_identifier (ck_heap k p)) (fst (close_control p k)))"
  using assms
  by (fastforce simp: controls_inv_def deleteControl_def close_control_def control_Close_def
      getControl_def split: option.splits)

lemma close_control_simps [simp]:
  "getControl ident (fst (close_control p k)) = getControl ident k"
  "ck_next (fst (close_control p k)) = ck_next k"
  "ct_identifier (ck_heap (fst (close_control p k)) q) = ct_identifier (ck_heap k q)"
  by (auto simp: close_control_def control_Close_def getControl_def split: option.splits)

lemma deleteControl_heap [simp]:
  "ck_heap (deleteControl ident k) = ck_heap k" "ck_next (deleteControl ident k) = ck_next k"
  by (simp_all add: deleteControl_def)

lemma close_then_send:
  "ct_nc (ck_heap k p) \<noteq> None \<Longrightarrow>
     control_send encoded (ck_heap (fst (close_control p k)) p) =
       (if ct_enc (ck_heap k p) then (Some ErrControlClosed, False)
        else (Some ErrEncoderNotInitialized, False))"
  by (auto simp: close_control_def control_Close_def control_send_def split: option.splits)

end
