(* ===== verification/Callbacks.thy ===== *)
theory Callbacks
  imports Prelude
begin

section \<open>One-shot callbacks (tunnel/util.go)\<close>

text \<open>
  A callback is an opaque function value, here a number; \<open>None\<close> is a nil function.  \<open>run f\<close> is
  the error that calling \<open>f\<close> returns.  \<open>call\<close> reports which function it called.
\<close>

record callbacks =
  cb_name :: string
  cb_funcs :: "string \<rightharpoonup> nat option"

definition newCallbacks :: "string \<Rightarrow> callbacks" where
  "newCallbacks name = \<lparr>cb_name = name, cb_funcs = Map.empty\<rparr>"

definition callbacks_add :: "string \<Rightarrow> nat option \<Rightarrow> callbacks \<Rightarrow> callbacks" where
  "callbacks_add ident fn c = c\<lparr>cb_funcs := (cb_funcs c)(ident \<mapsto> fn)\<rparr>"

definition callbacks_pop :: "string \<Rightarrow> callbacks \<Rightarrow> (nat option \<times> go_error option) \<times> callbacks" where
  "callbacks_pop ident c =
     (case cb_funcs c ident of
        None \<Rightarrow> ((None, None), c)
      | Some fn \<Rightarrow>
          (let c' = c\<lparr>cb_funcs := (cb_funcs c)(ident := None)\<rparr>
           in case fn of
                None \<Rightarrow> ((None, Some (ErrNilCallback ident)), c')
              | Some f \<Rightarrow> ((Some f, None), c')))"

definition callbacks_call ::
    "(nat \<Rightarrow> go_error option) \<Rightarrow> string \<Rightarrow> callbacks \<Rightarrow> go_error option \<times> nat option \<times> callbacks" where
  "callbacks_call run ident c =
     (case callbacks_pop ident c of
        ((fn, Some err), c') \<Rightarrow> (Some err, None, c')
      | ((None, None), c') \<Rightarrow> (None, None, c')
      | ((Some f, None), c') \<Rightarrow> (run f, Some f, c'))"

interpretation cbs: registry callbacks_add "\<lambda>ident c. snd (callbacks_pop ident c)"
  "\<lambda>ident c. cb_funcs c ident"
  by unfold_locales (auto simp: callbacks_add_def callbacks_pop_def Let_def split: option.splits)

lemma callbacks_call_spec:
  "callbacks_call run ident c =
     (case cb_funcs c ident of
        None \<Rightarrow> (None, None, c)
      | Some None \<Rightarrow> (Some (ErrNilCallback ident), None, c\<lparr>cb_funcs := (cb_funcs c)(ident := None)\<rparr>)
      | Some (Some f) \<Rightarrow> (run f, Some f, c\<lparr>cb_funcs := (cb_funcs c)(ident := None)\<rparr>))"
  by (auto simp: callbacks_call_def callbacks_pop_def Let_def split: option.splits)

lemma callbacks_call_state:
  "snd (snd (callbacks_call run ident c)) = snd (callbacks_pop ident c)"
  by (auto simp: callbacks_call_def callbacks_pop_def Let_def split: option.splits)

lemma callbacks_call_funcs:
  "cb_funcs (snd (snd (callbacks_call run ident c))) = (cb_funcs c)(ident := None)"
  by (simp add: callbacks_call_state fun_eq_iff cbs.entry_remove)

end
