(* ===== verification/Client_State.thy ===== *)
theory Client_State
  imports Proto "HOL-Library.Word"
begin

section \<open>Connection states (tunnel/client.go, tunnel/clientstate_string.go)\<close>

text \<open>
  \<open>ClientState\<close> is an enumeration over \<open>uint32\<close>.  The datatype has its named values; the
  generated \<open>String\<close> method works on the underlying word and answers for values past the end,
  too.
\<close>

datatype client_state =
    ClientUnknown
  | ClientStarted
  | ClientConnecting
  | ClientConnected
  | ClientDisconnected
  | ClientClosed

fun state_code :: "client_state \<Rightarrow> 32 word" where
  "state_code ClientUnknown = 0"
| "state_code ClientStarted = 1"
| "state_code ClientConnecting = 2"
| "state_code ClientConnected = 3"
| "state_code ClientDisconnected = 4"
| "state_code ClientClosed = 5"

instantiation client_state :: linorder
begin

definition less_eq_client_state :: "client_state \<Rightarrow> client_state \<Rightarrow> bool" where
  "less_eq_client_state s t \<longleftrightarrow> state_code s \<le> state_code t"

definition less_client_state :: "client_state \<Rightarrow> client_state \<Rightarrow> bool" where
  "less_client_state s t \<longleftrightarrow> state_code s < state_code t"

lemma state_code_inject: "state_code s = state_code t \<longleftrightarrow> s = t"
  by (cases s; cases t) simp_all

instance
  by standard (auto simp: less_eq_client_state_def less_client_state_def less_le state_code_inject)

end

text \<open>The comment \<open>keep it always last\<close> on \<open>ClientClosed\<close>.\<close>

lemma ClientClosed_last: "s \<le> ClientClosed"
  by (cases s) (simp_all add: less_eq_client_state_def word_le_nat_alt)

subsection \<open>The generated stringer\<close>

definition ClientState_name :: string where
  "ClientState_name =
     ''ClientUnknownClientStartedClientConnectingClientConnectedClientDisconnectedClientClosed''"

definition ClientState_index :: "8 word list" where
  "ClientState_index = [0, 13, 26, 42, 57, 75, 87]"

fun digit_char :: "nat \<Rightarrow> char" where
  "digit_char d = char_of (48 + d)"

fun decimal :: "nat \<Rightarrow> string" where
  "decimal n = (if n < 10 then [digit_char n] else decimal (n div 10) @ [digit_char (n mod 10)])"

declare decimal.simps [simp del]

definition ClientState_String :: "32 word \<Rightarrow> string" where
  "ClientState_String i =
     (if i \<ge> word_of_nat (length ClientState_index - 1)
      then ''ClientState('' @ decimal (unat i) @ '')''
      else (let a = unat (ClientState_index ! unat i); b = unat (ClientState_index ! (unat i + 1))
            in drop a (take b ClientState_name)))"

subsection \<open>State changes\<close>

record state_change =
  sc_identifier :: string
  sc_previous :: client_state
  sc_current :: client_state
  sc_error :: "go_error option"

text \<open>
  \<open>(*ClientStateChange).String\<close>; \<open>err_text\<close> stands for the message of an error, its \<open>Error\<close>
  method.
\<close>

definition StateChange_String :: "(go_error \<Rightarrow> string) \<Rightarrow> state_change \<Rightarrow> string" where
  "StateChange_String err_text c =
     (let head = ''['' @ sc_identifier c @ ''] '' @ ClientState_String (state_code (sc_previous c)) @
            ''->'' @ ClientState_String (state_code (sc_current c))
      in case sc_error c of
           Some e \<Rightarrow> head @ '' ('' @ err_text e @ '')''
         | None \<Rightarrow> head)"

text \<open>
  A buffered channel that an embedder may pass for state changes.  The program only sends to
  it, in a \<open>select\<close> with a default branch: to a parked receiver when there is one, else into
  the buffer when it has room, else the value is dropped.
\<close>

record 'a chan =
  ch_cap :: nat
  ch_buf :: "'a list"
  ch_parked :: nat
  ch_taken :: "'a list"

definition try_send :: "'a \<Rightarrow> 'a chan \<Rightarrow> 'a chan \<times> bool" where
  "try_send x c =
     (if 0 < ch_parked c
        then (c\<lparr>ch_parked := ch_parked c - 1, ch_taken := ch_taken c @ [x]\<rparr>, True)
      else if length (ch_buf c) < ch_cap c then (c\<lparr>ch_buf := ch_buf c @ [x]\<rparr>, True)
      else (c, False))"

text \<open>A non-blocking receive, as \<open>setClosed\<close> uses it to clear a channel.\<close>

definition try_recv :: "'a chan \<Rightarrow> 'a chan" where
  "try_recv c = c\<lparr>ch_buf := tl (ch_buf c)\<rparr>"

definition chan_ok :: "'a chan \<Rightarrow> bool" where
  [inv_simps]: "chan_ok c \<longleftrightarrow> length (ch_buf c) \<le> ch_cap c"

lemma try_send_ok: "chan_ok c \<Longrightarrow> chan_ok (fst (try_send x c))"
  by (auto simp: try_send_def chan_ok_def)

lemma try_recv_ok: "chan_ok c \<Longrightarrow> chan_ok (try_recv c)"
  by (auto simp: try_recv_def chan_ok_def)

end
