(* ===== verification/Go_Strings.thy ===== *)
theory Go_Strings
  imports Prelude
begin

section \<open>The part of Go's strings package that the program uses\<close>

text \<open>
  A Go string is a sequence of bytes, a HOL \<open>string\<close> one of \<open>char\<close>s, which are bytes too.
  Functions that look at runes are written on the UTF-8 bytes.  Only the table-driven part of
  \<open>strings.ToLower\<close> for strings with non-ASCII bytes is left to a parameter.
\<close>

definition byte_of :: "char \<Rightarrow> nat" where
  "byte_of c = of_char c"

definition is_ascii :: "char \<Rightarrow> bool" where
  "is_ascii c \<longleftrightarrow> byte_of c < 128"

definition in_range :: "char \<Rightarrow> char \<Rightarrow> char \<Rightarrow> bool" where
  "in_range lo hi c \<longleftrightarrow> byte_of lo \<le> byte_of c \<and> byte_of c \<le> byte_of hi"

definition lower_ascii :: "char \<Rightarrow> char" where
  "lower_ascii c = (if in_range (CHR ''A'') (CHR ''Z'') c then char_of (byte_of c + 32) else c)"

definition upper_ascii :: "char \<Rightarrow> char" where
  "upper_ascii c = (if in_range (CHR ''a'') (CHR ''z'') c then char_of (byte_of c - 32) else c)"

lemma byte_of_less [simp]: "byte_of c < 256"
  using range_nat_of_char by (auto simp: byte_of_def)

lemma byte_of_char_of [simp]: "n < 256 \<Longrightarrow> byte_of (char_of n) = n"
  by (simp add: byte_of_def)

lemma byte_of_eq_iff: "byte_of c = byte_of d \<longleftrightarrow> c = d"
  by (simp add: byte_of_def of_char_eq_iff)

lemma byte_of_lower_ascii:
  "byte_of (lower_ascii c) = (if 65 \<le> byte_of c \<and> byte_of c \<le> 90 then byte_of c + 32 else byte_of c)"
proof -
  have "byte_of (CHR ''A'') = 65" "byte_of (CHR ''Z'') = 90" by (simp_all add: byte_of_def)
  then show ?thesis by (auto simp: lower_ascii_def in_range_def)
qed

lemma byte_of_upper_ascii:
  "byte_of (upper_ascii c) = (if 97 \<le> byte_of c \<and> byte_of c \<le> 122 then byte_of c - 32 else byte_of c)"
proof -
  have "byte_of (CHR ''a'') = 97" "byte_of (CHR ''z'') = 122" by (simp_all add: byte_of_def)
  then show ?thesis by (auto simp: upper_ascii_def in_range_def)
qed

lemma lower_ascii_idem [simp]: "lower_ascii (lower_ascii c) = lower_ascii c"
  by (simp add: byte_of_eq_iff [symmetric] byte_of_lower_ascii)

lemma lower_ascii_not_upper: "\<not> in_range (CHR ''A'') (CHR ''Z'') (lower_ascii c)"
proof -
  have "byte_of (CHR ''A'') = 65" "byte_of (CHR ''Z'') = 90" by (simp_all add: byte_of_def)
  then show ?thesis by (auto simp: in_range_def byte_of_lower_ascii split: if_splits)
qed

subsection \<open>Prefix, suffix, membership\<close>

definition HasPrefix :: "string \<Rightarrow> string \<Rightarrow> bool" where
  "HasPrefix s p \<longleftrightarrow> length p \<le> length s \<and> take (length p) s = p"

definition HasSuffix :: "string \<Rightarrow> string \<Rightarrow> bool" where
  "HasSuffix s p \<longleftrightarrow> length p \<le> length s \<and> drop (length s - length p) s = p"

definition ContainsAny :: "string \<Rightarrow> string \<Rightarrow> bool" where
  "ContainsAny s chars \<longleftrightarrow> list_ex (\<lambda>c. c \<in> set chars) s"

fun IndexByte :: "string \<Rightarrow> char \<Rightarrow> nat option" where
  "IndexByte [] c = None"
| "IndexByte (x # xs) c = (if x = c then Some 0 else map_option Suc (IndexByte xs c))"

definition LastIndexByte :: "string \<Rightarrow> char \<Rightarrow> nat option" where
  "LastIndexByte s c = map_option (\<lambda>i. length s - 1 - i) (IndexByte (rev s) c)"

lemma IndexByte_None_iff: "IndexByte s c = None \<longleftrightarrow> c \<notin> set s"
  by (induction s) auto

lemma IndexByte_append:
  "c \<notin> set xs \<Longrightarrow> IndexByte (xs @ c # ys) c = Some (length xs)"
  by (induction xs) auto

lemma IndexByte_SomeD:
  "IndexByte s c = Some i \<Longrightarrow> \<exists>xs ys. s = xs @ c # ys \<and> c \<notin> set xs \<and> i = length xs"
proof (induction s arbitrary: i)
  case Nil
  then show ?case by simp
next
  case (Cons x s)
  show ?case
  proof (cases "x = c")
    case True
    with Cons.prems have "x # s = [] @ c # s \<and> c \<notin> set [] \<and> i = length []" by simp
    then show ?thesis by blast
  next
    case False
    with Cons.prems obtain j where "IndexByte s c = Some j" "i = Suc j" by auto
    with Cons.IH obtain xs ys where "s = xs @ c # ys" "c \<notin> set xs" "j = length xs" by blast
    with False \<open>i = Suc j\<close> have "x # s = (x # xs) @ c # ys \<and> c \<notin> set (x # xs) \<and> i = length (x # xs)"
      by simp
    then show ?thesis by blast
  qed
qed

lemma LastIndexByte_None_iff: "LastIndexByte s c = None \<longleftrightarrow> c \<notin> set s"
  by (simp add: LastIndexByte_def IndexByte_None_iff)

lemma LastIndexByte_append:
  "c \<notin> set ys \<Longrightarrow> LastIndexByte (xs @ c # ys) c = Some (length xs)"
  using IndexByte_append [of c "rev ys" "rev xs"] by (simp add: LastIndexByte_def)

lemma LastIndexByte_SomeD:
  assumes "LastIndexByte s c = Some i"
  shows "\<exists>xs ys. s = xs @ c # ys \<and> c \<notin> set ys \<and> i = length xs"
proof -
  from assms obtain j where j: "IndexByte (rev s) c = Some j" "i = length s - 1 - j"
    by (auto simp: LastIndexByte_def)
  from IndexByte_SomeD [OF j(1)] obtain xs ys where
    *: "rev s = xs @ c # ys" "c \<notin> set xs" "j = length xs" by blast
  from *(1) have s: "s = rev ys @ c # rev xs" by (metis append.assoc append_Cons append_Nil
        rev.simps(2) rev_append rev_rev_ident)
  with j(2) *(2,3) have "s = rev ys @ c # rev xs \<and> c \<notin> set (rev xs) \<and> i = length (rev ys)" by simp
  then show ?thesis by blast
qed

subsection \<open>Split and Join\<close>

fun Split :: "char \<Rightarrow> string \<Rightarrow> string list" where
  "Split sep [] = [[]]"
| "Split sep (x # xs) =
     (if x = sep then [] # Split sep xs
      else (case Split sep xs of [] \<Rightarrow> [[x]] | part # parts \<Rightarrow> (x # part) # parts))"

fun Join :: "string \<Rightarrow> string list \<Rightarrow> string" where
  "Join sep [] = []"
| "Join sep [x] = x"
| "Join sep (x # y # ys) = x @ sep @ Join sep (y # ys)"

lemma Split_not_Nil [simp]: "Split sep s \<noteq> []"
  by (induction s) (auto split: list.splits)

lemma Join_Cons: "xs \<noteq> [] \<Longrightarrow> Join sep (x # xs) = x @ sep @ Join sep xs"
  by (cases xs) auto

lemma Join_Split [simp]: "Join [sep] (Split sep s) = s"
proof (induction s)
  case Nil
  then show ?case by simp
next
  case (Cons x s)
  obtain p ps where p: "Split sep s = p # ps" by (cases "Split sep s") auto
  with Cons show ?case by (cases ps) auto
qed

lemma Split_parts_no_sep: "p \<in> set (Split sep s) \<Longrightarrow> sep \<notin> set p"
  by (induction s arbitrary: p) (auto split: list.splits if_splits)

lemma Split_no_sep: "sep \<notin> set s \<Longrightarrow> Split sep s = [s]"
  by (induction s) auto

lemma Split_append: "sep \<notin> set p \<Longrightarrow> Split sep (p @ sep # s) = p # Split sep s"
  by (induction p) auto

lemma Split_Join:
  "ps \<noteq> [] \<Longrightarrow> \<forall>p \<in> set ps. sep \<notin> set p \<Longrightarrow> Split sep (Join [sep] ps) = ps"
proof (induction ps rule: induct_list012)
  case 1
  then show ?case by simp
next
  case (2 p)
  then show ?case by (simp add: Split_no_sep)
next
  case (3 p q ps)
  then show ?case by (simp add: Split_append)
qed

subsection \<open>TrimSpace\<close>

text \<open>
  The UTF-8 encodings of the code points that \<open>unicode.IsSpace\<close> accepts: tab, newline,
  vertical tab, form feed, carriage return, space, U+0085, U+00A0, U+1680, U+2000 to U+200A,
  U+2028, U+2029, U+202F, U+205F and U+3000.
\<close>

definition space_runes :: "string list" where
  "space_runes =
     [[CHR 0x09], [CHR 0x0A], [CHR 0x0B], [CHR 0x0C], [CHR 0x0D], [CHR 0x20],
      [CHR 0xC2, CHR 0x85], [CHR 0xC2, CHR 0xA0], [CHR 0xE1, CHR 0x9A, CHR 0x80],
      [CHR 0xE2, CHR 0x80, CHR 0x80], [CHR 0xE2, CHR 0x80, CHR 0x81],
      [CHR 0xE2, CHR 0x80, CHR 0x82], [CHR 0xE2, CHR 0x80, CHR 0x83],
      [CHR 0xE2, CHR 0x80, CHR 0x84], [CHR 0xE2, CHR 0x80, CHR 0x85],
      [CHR 0xE2, CHR 0x80, CHR 0x86], [CHR 0xE2, CHR 0x80, CHR 0x87],
      [CHR 0xE2, CHR 0x80, CHR 0x88], [CHR 0xE2, CHR 0x80, CHR 0x89],
      [CHR 0xE2, CHR 0x80, CHR 0x8A], [CHR 0xE2, CHR 0x80, CHR 0xA8],
      [CHR 0xE2, CHR 0x80, CHR 0xA9], [CHR 0xE2, CHR 0x80, CHR 0xAF],
      [CHR 0xE2, CHR 0x81, CHR 0x9F], [CHR 0xE3, CHR 0x80, CHR 0x80]]"

text \<open>How many bytes the first of the encodings \<open>rs\<close> that \<open>s\<close> starts with has; 0 for none.\<close>

definition lead_len :: "string list \<Rightarrow> string \<Rightarrow> nat" where
  "lead_len rs s = (case find (HasPrefix s) rs of None \<Rightarrow> 0 | Some r \<Rightarrow> length r)"

text \<open>
  Every round drops a leading rune, so no more rounds than bytes are needed; the first
  argument bounds them by the length.
\<close>

fun trim_lead :: "nat \<Rightarrow> string list \<Rightarrow> string \<Rightarrow> string" where
  "trim_lead 0 rs s = s"
| "trim_lead (Suc n) rs s =
     (if lead_len rs s = 0 then s else trim_lead n rs (drop (lead_len rs s) s))"

definition TrimLeftSpace :: "string \<Rightarrow> string" where
  "TrimLeftSpace s = trim_lead (length s) space_runes s"

definition TrimRightSpace :: "string \<Rightarrow> string" where
  "TrimRightSpace s = rev (trim_lead (length s) (map rev space_runes) (rev s))"

definition TrimSpace :: "string \<Rightarrow> string" where
  "TrimSpace s = TrimRightSpace (TrimLeftSpace s)"

lemma lead_len_le: "lead_len rs s \<le> length s"
  by (auto simp: lead_len_def HasPrefix_def find_Some_iff split: option.splits)

text \<open>The bound is enough: nothing is left to trim.\<close>

lemma trim_lead_done: "length s \<le> n \<Longrightarrow> lead_len rs (trim_lead n rs s) = 0"
proof (induction n arbitrary: s)
  case 0
  then show ?case using lead_len_le [of rs s] by simp
next
  case (Suc n)
  then show ?case by simp
qed

lemma trim_lead_suffix: "\<exists>p. s = p @ trim_lead n rs s"
proof (induction n arbitrary: s)
  case 0
  show ?case by simp
next
  case (Suc n)
  then obtain p where "drop (lead_len rs s) s = p @ trim_lead n rs (drop (lead_len rs s) s)" by blast
  then have "s = (take (lead_len rs s) s @ p) @ trim_lead n rs (drop (lead_len rs s) s)"
    by (metis append.assoc append_take_drop_id)
  then have "\<exists>p. s = p @ trim_lead n rs (drop (lead_len rs s) s)" by blast
  then show ?case by simp
qed

lemma TrimSpace_infix: "\<exists>p q. s = p @ TrimSpace s @ q"
proof -
  obtain p where p: "s = p @ TrimLeftSpace s"
    unfolding TrimLeftSpace_def using trim_lead_suffix by blast
  obtain q where "rev (TrimLeftSpace s) = q @ rev (TrimSpace s)"
    unfolding TrimSpace_def TrimRightSpace_def rev_rev_ident using trim_lead_suffix by blast
  then have "TrimLeftSpace s = TrimSpace s @ rev q" by (metis rev_append rev_rev_ident)
  with p show ?thesis by metis
qed

lemma TrimSpace_set: "set (TrimSpace s) \<subseteq> set s"
  using TrimSpace_infix [of s] by (metis Un_iff set_append subsetI)

lemma TrimSpace_no_trailing: "lead_len (map rev space_runes) (rev (TrimSpace s)) = 0"
  by (simp add: TrimSpace_def TrimRightSpace_def trim_lead_done)

text \<open>What is left after trimming starts and ends with no space, and so is left alone.\<close>

definition trimmed :: "string \<Rightarrow> bool" where
  "trimmed s \<longleftrightarrow> lead_len space_runes s = 0 \<and> lead_len (map rev space_runes) (rev s) = 0"

lemma space_runes_no_Nil: "[] \<notin> set space_runes" "[] \<notin> set (map rev space_runes)"
  by (simp_all add: space_runes_def)

lemma HasPrefix_iff: "HasPrefix s p \<longleftrightarrow> (\<exists>t. s = p @ t)"
  unfolding HasPrefix_def by (metis append_eq_conv_conj append_take_drop_id length_append le_add1)

lemma lead_len_0: "[] \<notin> set rs \<Longrightarrow> lead_len rs s = 0 \<longleftrightarrow> (\<forall>r \<in> set rs. \<not> HasPrefix s r)"
  by (auto simp: lead_len_def find_None_iff find_Some_iff split: option.splits) (metis nth_mem)

lemma lead_len_prefix: "[] \<notin> set rs \<Longrightarrow> lead_len rs (s @ t) = 0 \<Longrightarrow> lead_len rs s = 0"
  by (auto simp: lead_len_0 HasPrefix_iff)

lemma HasPrefix_before: "c \<notin> set p \<Longrightarrow> HasPrefix (x @ c # y) p \<Longrightarrow> HasPrefix x p"
  by (auto simp: HasPrefix_iff append_eq_append_conv2 Cons_eq_append_conv)

lemma lead_len_before:
  "[] \<notin> set rs \<Longrightarrow> \<forall>r \<in> set rs. c \<notin> set r \<Longrightarrow> lead_len rs x = 0 \<Longrightarrow> lead_len rs (x @ c # y) = 0"
  unfolding lead_len_0 using HasPrefix_before by blast

lemma trim_lead_id: "lead_len rs s = 0 \<Longrightarrow> trim_lead n rs s = s"
  by (cases n) simp_all

lemma trimmed_TrimSpace: "trimmed (TrimSpace s)"
proof -
  have "\<exists>t. TrimLeftSpace s = TrimSpace s @ t"
    unfolding TrimSpace_def TrimRightSpace_def
    using trim_lead_suffix [of "rev (TrimLeftSpace s)" "length (TrimLeftSpace s)" "map rev space_runes"]
    by (metis rev_append rev_rev_ident)
  moreover have "lead_len space_runes (TrimLeftSpace s) = 0"
    by (simp add: TrimLeftSpace_def trim_lead_done)
  ultimately have "lead_len space_runes (TrimSpace s) = 0"
    using lead_len_prefix [OF space_runes_no_Nil(1)] by metis
  with TrimSpace_no_trailing show ?thesis by (simp add: trimmed_def)
qed

lemma TrimSpace_trimmed: "TrimSpace s = s \<longleftrightarrow> trimmed s"
proof
  assume "TrimSpace s = s"
  then show "trimmed s" using trimmed_TrimSpace [of s] by simp
qed (simp add: trimmed_def TrimSpace_def TrimLeftSpace_def TrimRightSpace_def trim_lead_id)

text \<open>Joining items with a separator that is no part of a space keeps them trimmed at both ends.\<close>

lemma trimmed_between:
  assumes "lead_len space_runes x = 0" "lead_len (map rev space_runes) (rev y) = 0" "\<forall>r \<in> set space_runes. c \<notin> set r"
  shows "trimmed (x @ c # y)"
proof -
  have "lead_len space_runes (x @ c # y) = 0"
    by (rule lead_len_before [OF space_runes_no_Nil(1) assms(3,1)])
  moreover have "lead_len (map rev space_runes) (rev y @ c # rev x) = 0"
    by (rule lead_len_before [OF space_runes_no_Nil(2) _ assms(2)]) (use assms(3) in simp)
  ultimately show ?thesis by (simp add: trimmed_def)
qed

lemma lead_len_Join:
  assumes "\<forall>r \<in> set space_runes. c \<notin> set r" "\<forall>x \<in> set xs. trimmed x" "xs \<noteq> []"
  shows "lead_len space_runes (Join [c] xs) = 0 \<and> lead_len (map rev space_runes) (rev (Join [c] xs)) = 0"
  using assms(2,3)
proof (induction xs rule: induct_list012)
  case (3 x y ys)
  then have "lead_len space_runes x = 0" "lead_len (map rev space_runes) (rev (Join [c] (y # ys))) = 0"
    by (auto simp: trimmed_def)
  from trimmed_between [OF this assms(1)] show ?case by (simp add: trimmed_def)
qed (simp_all add: trimmed_def)

subsection \<open>ToLower and EqualFold\<close>

text \<open>
  \<open>strings.ToLower\<close> maps ASCII letters byte by byte when the whole string is ASCII.  For other
  strings it consults the Unicode tables: the parameter \<open>uni\<close>.
\<close>

definition ToLower :: "(string \<Rightarrow> string) \<Rightarrow> string \<Rightarrow> string" where
  "ToLower uni s = (if list_all is_ascii s then map lower_ascii s else uni s)"

text \<open>
  \<open>strings.EqualFold s t\<close> for a \<open>t\<close> of ASCII characters, which is how the program calls it.
  Under Unicode simple case folding an ASCII character equals its other case, and besides the
  letter s also U+017F (bytes C5 BF) and the letter k also U+212A (bytes E2 84 AA).
\<close>

fun EqualFold :: "string \<Rightarrow> string \<Rightarrow> bool" where
  "EqualFold [] [] = True"
| "EqualFold [] (t # ts) = False"
| "EqualFold (c # cs) [] = False"
| "EqualFold (c # cs) (t # ts) =
     (if is_ascii c then lower_ascii c = lower_ascii t \<and> EqualFold cs ts
      else if c = CHR 0xC5 \<and> take 1 cs = [CHR 0xBF]
        then lower_ascii t = CHR ''s'' \<and> EqualFold (drop 1 cs) ts
      else if c = CHR 0xE2 \<and> take 2 cs = [CHR 0x84, CHR 0xAA]
        then lower_ascii t = CHR ''k'' \<and> EqualFold (drop 2 cs) ts
      else False)"

lemma ToLower_ascii: "list_all is_ascii s \<Longrightarrow> ToLower uni s = map lower_ascii s"
  by (simp add: ToLower_def)

lemma lower_ascii_is_ascii: "is_ascii c \<Longrightarrow> is_ascii (lower_ascii c)"
  by (auto simp: is_ascii_def byte_of_lower_ascii)

lemma ToLower_ascii_idem:
  "list_all is_ascii s \<Longrightarrow> ToLower uni (ToLower uni s) = ToLower uni s"
  by (simp add: ToLower_def list_all_iff lower_ascii_is_ascii)

lemma EqualFold_ascii:
  "list_all is_ascii s \<Longrightarrow> EqualFold s t \<longleftrightarrow> map lower_ascii s = map lower_ascii t"
  by (induction s t rule: EqualFold.induct) auto

end
