(* ===== verification/Go_Http.thy ===== *)
theory Go_Http
  imports Go_Strings
begin

section \<open>The part of net/http and net/textproto that the program uses\<close>

text \<open>
  Header maps with canonical keys, requests, responses and the response writer of a server.
  Header values are kept as the map has them; the body of a request is the bytes that the
  decoder of the program reads.
\<close>

subsection \<open>Header keys\<close>

text \<open>A byte of a token as HTTP defines it: \<open>validHeaderFieldByte\<close> of net/textproto.\<close>

definition valid_field_byte :: "char \<Rightarrow> bool" where
  "valid_field_byte c \<longleftrightarrow>
     in_range (CHR ''a'') (CHR ''z'') c \<or> in_range (CHR ''A'') (CHR ''Z'') c \<or>
     in_range (CHR ''0'') (CHR ''9'') c \<or> c \<in> set (CHR 0x27 # ''!#$%&*+-.^_`|~'')"

fun canon_key :: "bool \<Rightarrow> string \<Rightarrow> string" where
  "canon_key upper [] = []"
| "canon_key upper (c # cs) =
     (if upper then upper_ascii c else lower_ascii c) # canon_key (c = CHR ''-'') cs"

definition CanonicalMIMEHeaderKey :: "string \<Rightarrow> string" where
  "CanonicalMIMEHeaderKey s = (if list_all valid_field_byte s then canon_key True s else s)"

type_synonym header = "string \<rightharpoonup> string list"

definition Header_Get :: "header \<Rightarrow> string \<Rightarrow> string" where
  "Header_Get h key =
     (case h (CanonicalMIMEHeaderKey key) of
        None \<Rightarrow> '''' | Some vs \<Rightarrow> (case vs of [] \<Rightarrow> '''' | v # _ \<Rightarrow> v))"

definition Header_Set :: "header \<Rightarrow> string \<Rightarrow> string \<Rightarrow> header" where
  "Header_Set h key value = h(CanonicalMIMEHeaderKey key \<mapsto> [value])"

text \<open>Reading the map directly, \<open>r.Header[key]\<close>: a missing key is the nil slice.\<close>

definition Header_Index :: "header \<Rightarrow> string \<Rightarrow> string list" where
  "Header_Index h key = (case h key of None \<Rightarrow> [] | Some vs \<Rightarrow> vs)"

lemma Header_Get_Set [simp]: "Header_Get (Header_Set h k v) k = v"
  by (simp add: Header_Get_def Header_Set_def)

lemma Header_Get_Set_other:
  "CanonicalMIMEHeaderKey k \<noteq> CanonicalMIMEHeaderKey k' \<Longrightarrow>
     Header_Get (Header_Set h k v) k' = Header_Get h k'"
  by (auto simp: Header_Get_def Header_Set_def)

lemma canon_key_Nil_iff [simp]: "canon_key u s = [] \<longleftrightarrow> s = []"
  by (cases s) auto

lemma CanonicalMIMEHeaderKey_Nil_iff: "CanonicalMIMEHeaderKey s = [] \<longleftrightarrow> s = []"
  by (simp add: CanonicalMIMEHeaderKey_def)

subsection \<open>Requests and responses\<close>

record http_request =
  rq_method :: string
  rq_scheme :: string
  rq_urlhost :: string
  rq_path :: string
  rq_query :: string
  rq_host :: string
  rq_uri :: string
  rq_header :: header
  rq_body :: string

record http_response =
  rs_status :: nat
  rs_header :: header
  rs_body :: string

text \<open>
  What the program writes as the body of a response: a text of its own, the message of an
  error followed by a newline (\<open>http.Error\<close>), or the bytes of a tunnelled response.
\<close>

datatype body_part = Text string | ErrText go_error | Bytes string

text \<open>
  A response writer.  Only the first \<open>WriteHeader\<close> counts; after a hijack the writer is dead
  and writes to it fail without an effect.  \<open>rw_hijackable\<close> says whether the writer implements
  \<open>http.Hijacker\<close>.
\<close>

record response_writer =
  rw_hijackable :: bool
  rw_hijacked :: bool
  rw_status :: "nat option"
  rw_header :: header
  rw_body :: "body_part list"

definition fresh_writer :: "bool \<Rightarrow> response_writer" where
  "fresh_writer h = \<lparr>rw_hijackable = h, rw_hijacked = False, rw_status = None,
     rw_header = Map.empty, rw_body = []\<rparr>"

definition WriteHeader :: "nat \<Rightarrow> response_writer \<Rightarrow> response_writer" where
  "WriteHeader code w =
     (if rw_hijacked w \<or> rw_status w \<noteq> None then w else w\<lparr>rw_status := Some code\<rparr>)"

text \<open>A \<open>Write\<close> without a status sends 200 first.\<close>

definition Write :: "body_part \<Rightarrow> response_writer \<Rightarrow> response_writer" where
  "Write b w =
     (if rw_hijacked w then w
      else let w' = WriteHeader 200 w in w'\<lparr>rw_body := rw_body w' @ [b]\<rparr>)"

definition http_Error :: "body_part \<Rightarrow> nat \<Rightarrow> response_writer \<Rightarrow> response_writer" where
  "http_Error msg code w = Write msg (WriteHeader code w)"

definition NotFound :: "response_writer \<Rightarrow> response_writer" where
  "NotFound w = http_Error (Text ''404 page not found'') 404 w"

lemma http_Error_hijacked [simp]: "rw_hijacked w \<Longrightarrow> http_Error msg code w = w"
  by (simp add: http_Error_def Write_def WriteHeader_def)

lemma http_Error_fresh [simp]:
  "http_Error msg code (fresh_writer h) =
     (fresh_writer h)\<lparr>rw_status := Some code, rw_body := [msg]\<rparr>"
  by (simp add: http_Error_def Write_def WriteHeader_def fresh_writer_def)

text \<open>A status once written stays.\<close>

lemma http_Error_keeps_status:
  "rw_status w = Some s \<Longrightarrow> rw_status (http_Error msg code w) = Some s"
  by (simp add: http_Error_def Write_def WriteHeader_def Let_def)

end
