(* ===== verification/Go_Net.thy ===== *)
theory Go_Net
  imports Go_Strings
begin

section \<open>net.SplitHostPort, net.JoinHostPort, strconv.ParseUint\<close>

text \<open>
  The functions of the standard library that take the program's addresses apart, written as
  the library has them: the checks in the same order, an error for each.
\<close>

definition errMissingPort :: go_error where
  "errMissingPort = ErrExternal ''missing port in address''"

definition errTooManyColons :: go_error where
  "errTooManyColons = ErrExternal ''too many colons in address''"

definition errMissingBracket :: go_error where
  "errMissingBracket = ErrExternal ''missing ']' in address''"

definition errUnexpectedOpen :: go_error where
  "errUnexpectedOpen = ErrExternal ''unexpected '[' in address''"

definition errUnexpectedClose :: go_error where
  "errUnexpectedClose = ErrExternal ''unexpected ']' in address''"

text \<open>The checks after the host has been cut out: \<open>j\<close> and \<open>k\<close> bound where brackets may occur.\<close>

definition split_tail :: "string \<Rightarrow> string \<Rightarrow> nat \<Rightarrow> nat \<Rightarrow> nat \<Rightarrow> go_error + string \<times> string" where
  "split_tail hostport host i j k =
     (if IndexByte (drop j hostport) (CHR ''['') \<noteq> None then Inl errUnexpectedOpen
      else if IndexByte (drop k hostport) (CHR '']'') \<noteq> None then Inl errUnexpectedClose
      else Inr (host, drop (i + 1) hostport))"

definition SplitHostPort :: "string \<Rightarrow> go_error + string \<times> string" where
  "SplitHostPort hostport =
     (case LastIndexByte hostport (CHR '':'') of
        None \<Rightarrow> Inl errMissingPort
      | Some i \<Rightarrow>
          if take 1 hostport = ''['' then
            (case IndexByte hostport (CHR '']'') of
               None \<Rightarrow> Inl errMissingBracket
             | Some e \<Rightarrow>
                 if e + 1 = length hostport then Inl errMissingPort
                 else if e + 1 = i
                   then split_tail hostport (drop 1 (take e hostport)) i 1 (e + 1)
                 else if take 1 (drop (e + 1) hostport) = '':'' then Inl errTooManyColons
                 else Inl errMissingPort)
          else if IndexByte (take i hostport) (CHR '':'') \<noteq> None then Inl errTooManyColons
          else split_tail hostport (take i hostport) i 0 0)"

definition JoinHostPort :: "string \<Rightarrow> string \<Rightarrow> string" where
  "JoinHostPort host port =
     (if IndexByte host (CHR '':'') \<noteq> None then ''['' @ host @ '']:'' @ port
      else host @ '':'' @ port)"

text \<open>
  \<open>strconv.ParseUint(s, 10, 16)\<close>: the value grows digit by digit and is checked against the
  16-bit bound after each one, so it never comes near the 64 bits it is kept in.
\<close>

definition digit_val :: "char \<Rightarrow> nat option" where
  "digit_val c = (if in_range (CHR ''0'') (CHR ''9'') c then Some (byte_of c - 48) else None)"

fun parse_digits :: "nat \<Rightarrow> string \<Rightarrow> go_error + nat" where
  "parse_digits n [] = Inr n"
| "parse_digits n (c # cs) =
     (case digit_val c of
        None \<Rightarrow> Inl (ErrExternal ''invalid syntax'')
      | Some d \<Rightarrow>
          if 65535 < n * 10 + d then Inl (ErrExternal ''value out of range'')
          else parse_digits (n * 10 + d) cs)"

definition ParseUint16 :: "string \<Rightarrow> go_error + nat" where
  "ParseUint16 s = (if s = [] then Inl (ErrExternal ''invalid syntax'') else parse_digits 0 s)"

subsection \<open>Properties\<close>

lemma parse_digits_bound: "parse_digits n s = Inr v \<Longrightarrow> n \<le> 65535 \<Longrightarrow> v \<le> 65535"
  by (induction n s rule: parse_digits.induct) (auto split: option.splits if_splits)

lemma ParseUint16_bound: "ParseUint16 s = Inr v \<Longrightarrow> v < 65536"
  by (auto simp: ParseUint16_def dest: parse_digits_bound split: if_splits)

text \<open>
  What a successful split says about the address: no colon in the port, no bracket anywhere.
\<close>

definition host_port_clean :: "string \<times> string \<Rightarrow> bool" where
  "host_port_clean hp \<longleftrightarrow>
     CHR ''['' \<notin> set (fst hp) \<and> CHR '']'' \<notin> set (fst hp) \<and>
     CHR ''['' \<notin> set (snd hp) \<and> CHR '']'' \<notin> set (snd hp) \<and> CHR '':'' \<notin> set (snd hp)"

lemma split_tail_Inr:
  "split_tail s h i j k = Inr hp \<longleftrightarrow>
     CHR ''['' \<notin> set (drop j s) \<and> CHR '']'' \<notin> set (drop k s) \<and> hp = (h, drop (i + 1) s)"
  unfolding split_tail_def IndexByte_None_iff [symmetric] by auto

lemma SplitHostPort_clean:
  assumes "SplitHostPort s = Inr hp"
  shows "host_port_clean hp"
proof -
  from assms obtain i where i: "LastIndexByte s (CHR '':'') = Some i"
    by (auto simp: SplitHostPort_def split: option.splits)
  from LastIndexByte_SomeD [OF i] obtain xs ys where
    s: "s = xs @ CHR '':'' # ys" "CHR '':'' \<notin> set ys" "i = length xs" by blast
  then have port: "drop (i + 1) s = ys" by simp
  show ?thesis
  proof (cases "take 1 s = ''[''")
    case True
    with assms i obtain e where e: "IndexByte s (CHR '']'') = Some e" "e + 1 = i"
      and t: "split_tail s (drop 1 (take e s)) i 1 (e + 1) = Inr hp"
      by (auto simp: SplitHostPort_def split: option.splits if_splits)
    from IndexByte_SomeD [OF e(1)] obtain us vs where
      u: "s = us @ CHR '']'' # vs" "CHR '']'' \<notin> set us" "e = length us" by blast
    then have host: "drop 1 (take e s) = drop 1 us" by simp
    have "CHR '']'' \<notin> set (drop 1 us)" using u(2) in_set_dropD by fastforce
    moreover have "CHR ''['' \<notin> set (drop 1 s)"
      and "CHR '']'' \<notin> set (drop i s)" and "hp = (drop 1 us, ys)"
      using t unfolding split_tail_Inr host port e(2) by auto
    moreover have "set (drop 1 us) \<subseteq> set (drop 1 s)" using u(1) by (cases us) auto
    moreover have "set ys \<subseteq> set (drop i s)" using s by auto
    moreover have "set ys \<subseteq> set (drop 1 s)" using s(1) by (cases xs) auto
    ultimately show ?thesis using s(2) by (auto simp: host_port_clean_def)
  next
    case False
    with assms i have t: "split_tail s (take i s) i 0 0 = Inr hp"
      by (auto simp: SplitHostPort_def split: option.splits if_splits)
    then have "CHR ''['' \<notin> set s" "CHR '']'' \<notin> set s" "hp = (xs, ys)"
      using s(1,3) unfolding split_tail_Inr port by auto
    then show ?thesis using s(1,2) by (auto simp: host_port_clean_def)
  qed
qed

lemma SplitHostPort_JoinHostPort:
  assumes "host_port_clean (host, port)"
  shows "SplitHostPort (JoinHostPort host port) = Inr (host, port)"
proof (cases "CHR '':'' \<in> set host")
  case True
  then have j: "JoinHostPort host port = ''['' @ host @ '']:'' @ port"
    by (auto simp: JoinHostPort_def IndexByte_None_iff)
  have l: "LastIndexByte (''['' @ host @ '']:'' @ port) (CHR '':'') = Some (length host + 2)"
    using assms LastIndexByte_append [of "CHR '':''" port "''['' @ host @ '']''"]
    by (simp add: host_port_clean_def)
  have e: "IndexByte (''['' @ host @ '']:'' @ port) (CHR '']'') = Some (length host + 1)"
    using assms IndexByte_append [of "CHR '']''" "''['' @ host" "'':'' @ port"]
    by (simp add: host_port_clean_def)
  show ?thesis
    using assms unfolding j SplitHostPort_def l e
    by (auto simp: split_tail_Inr host_port_clean_def)
next
  case False
  then have j: "JoinHostPort host port = host @ '':'' @ port"
    by (auto simp: JoinHostPort_def IndexByte_None_iff [symmetric])
  have l: "LastIndexByte (host @ '':'' @ port) (CHR '':'') = Some (length host)"
    using assms LastIndexByte_append [of "CHR '':''" port host]
    by (simp add: host_port_clean_def)
  have b: "take 1 (host @ '':'' @ port) \<noteq> ''[''"
    using assms by (cases host) (auto simp: host_port_clean_def)
  have n: "IndexByte (take (length host) (host @ '':'' @ port)) (CHR '':'') = None"
    using False by (simp add: IndexByte_None_iff)
  show ?thesis
    using assms b n unfolding j SplitHostPort_def l
    by (auto simp: split_tail_Inr host_port_clean_def)
qed

text \<open>
  An address that has been split and joined again means the same: joining normalises the
  spelling and keeps host and port.
\<close>

lemma SplitHostPort_normalised:
  "SplitHostPort s = Inr (host, port) \<Longrightarrow> SplitHostPort (JoinHostPort host port) = Inr (host, port)"
  using SplitHostPort_clean SplitHostPort_JoinHostPort by blast

lemma SplitHostPort_set:
  assumes "SplitHostPort s = Inr (host, port)"
  shows "set host \<subseteq> set s" "set port \<subseteq> set s"
  using assms
  by (auto simp: SplitHostPort_def split_tail_def split: option.splits if_splits
      dest!: in_set_takeD in_set_dropD)

end
