(* ===== verification/Go_Path.thy ===== *)
theory Go_Path
  imports Go_Strings
begin

section \<open>path.Clean\<close>

text \<open>
  The path is read element by element onto a stack (top first): empty and dot elements are
  skipped, a double dot takes back the element before it, is dropped at the root of a rooted
  path, and is kept at the front of another.
\<close>

definition clean_step :: "bool \<Rightarrow> string \<Rightarrow> string list \<Rightarrow> string list" where
  "clean_step rooted e st =
     (if e = '''' \<or> e = ''.'' then st
      else if e = ''..'' then
        (case st of
           [] \<Rightarrow> if rooted then [] else [''..'']
         | t # ts \<Rightarrow> if t = ''..'' then ''..'' # st else ts)
      else e # st)"

definition clean_stack :: "string \<Rightarrow> string list" where
  "clean_stack p = fold (clean_step (take 1 p = ''/'')) (Split (CHR ''/'') p) []"

definition Clean :: "string \<Rightarrow> string" where
  "Clean p =
     (let out = (if take 1 p = ''/'' then ''/'' else '''') @ Join ''/'' (rev (clean_stack p))
      in if out = [] then ''.'' else out)"

subsection \<open>Cleaning twice changes nothing\<close>

text \<open>The stacks that \<open>clean_step\<close> builds.\<close>

fun stack_ok :: "bool \<Rightarrow> string list \<Rightarrow> bool" where
  "stack_ok rooted [] = True"
| "stack_ok rooted (e # st) =
     (e \<noteq> [] \<and> e \<noteq> ''.'' \<and> CHR ''/'' \<notin> set e \<and>
      (e = ''..'' \<longrightarrow> \<not> rooted \<and> (st = [] \<or> hd st = ''..'')) \<and> stack_ok rooted st)"

lemma stack_ok_step:
  "stack_ok rooted st \<Longrightarrow> CHR ''/'' \<notin> set e \<Longrightarrow> stack_ok rooted (clean_step rooted e st)"
  by (cases st) (auto simp: clean_step_def)

lemma stack_ok_fold:
  "stack_ok rooted st \<Longrightarrow> \<forall>e \<in> set es. CHR ''/'' \<notin> set e \<Longrightarrow>
     stack_ok rooted (fold (clean_step rooted) es st)"
  by (induction es arbitrary: st) (auto simp: stack_ok_step)

lemma stack_ok_clean: "stack_ok (take 1 p = ''/'') (clean_stack p)"
  unfolding clean_stack_def by (intro stack_ok_fold) (auto dest: Split_parts_no_sep)

lemma fold_clean_rev: "stack_ok rooted st \<Longrightarrow> fold (clean_step rooted) (rev st) [] = st"
  by (induction st) (auto simp: clean_step_def split: list.splits)

lemma stack_ok_elem: "stack_ok rooted st \<Longrightarrow> e \<in> set st \<Longrightarrow> e \<noteq> [] \<and> CHR ''/'' \<notin> set e"
  by (induction st) auto

lemma Join_hd:
  assumes "stack_ok rooted st" "st \<noteq> []"
  shows "Join ''/'' (rev st) \<noteq> [] \<and> take 1 (Join ''/'' (rev st)) \<noteq> ''/''"
proof -
  from assms(2) obtain e es where r: "rev st = e # es" by (cases "rev st") auto
  then have "e \<in> set st" by (metis list.set_intros(1) set_rev)
  with assms(1) have "e \<noteq> []" "CHR ''/'' \<notin> set e" by (simp_all add: stack_ok_elem)
  then have "e \<noteq> [] \<and> take 1 e \<noteq> ''/''" by (cases e) auto
  with r show ?thesis by (cases es; cases e) auto
qed

lemma Clean_cases:
  obtains (root) "take 1 p = ''/''" "clean_stack p = []" "Clean p = ''/''"
  | (dot) "take 1 p \<noteq> ''/''" "clean_stack p = []" "Clean p = ''.''"
  | (rooted) "take 1 p = ''/''" "clean_stack p \<noteq> []" "Clean p = ''/'' @ Join ''/'' (rev (clean_stack p))"
  | (relative) "take 1 p \<noteq> ''/''" "clean_stack p \<noteq> []" "Clean p = Join ''/'' (rev (clean_stack p))"
  using Join_hd [OF stack_ok_clean [of p]] by (auto simp: Clean_def Let_def split: if_splits)

theorem Clean_idem [simp]: "Clean (Clean p) = Clean p"
proof (cases p rule: Clean_cases)
  case root
  then show ?thesis by (simp add: Clean_def clean_stack_def clean_step_def)
next
  case dot
  then show ?thesis by (simp add: Clean_def clean_stack_def clean_step_def)
next
  case rooted
  have ok: "stack_ok True (clean_stack p)" using stack_ok_clean [of p] rooted(1) by simp
  then have "Split (CHR ''/'') (Join ''/'' (rev (clean_stack p))) = rev (clean_stack p)"
    using rooted(2) stack_ok_elem by (intro Split_Join) auto
  then have "clean_stack (Clean p) = clean_stack p"
    using fold_clean_rev [OF ok] unfolding rooted(3) clean_stack_def [of "''/'' @ _"]
    by (simp add: clean_step_def)
  then show ?thesis using rooted(3) by (simp add: Clean_def [of "''/'' @ _"] Clean_def [of "CHR ''/'' # _"])
next
  case relative
  have ok: "stack_ok False (clean_stack p)" using stack_ok_clean [of p] relative(1) by simp
  have "Split (CHR ''/'') (Join ''/'' (rev (clean_stack p))) = rev (clean_stack p)"
    using relative(2) stack_ok_elem [OF ok] by (intro Split_Join) auto
  then have "clean_stack (Clean p) = clean_stack p"
    using fold_clean_rev [OF ok] Join_hd [OF ok relative(2)]
    unfolding relative(3) clean_stack_def [of "Join _ _"] by simp
  then show ?thesis
    using relative(3) Join_hd [OF ok relative(2)] by (simp add: Clean_def [of "Join _ _"])
qed

end
