(* ===== verification/Go_Crypto.thy ===== *)
theory Go_Crypto
  imports Go_Strings "HOL-Library.Word"
begin

unbundle bit_operations_syntax

section \<open>crypto/sha256, crypto/hmac and encoding/base64\<close>

text \<open>
  The signature of a client identifier is computed with these packages; they are modelled in
  full, on 32-bit words and bytes, so that a signature is a concrete string.
\<close>

subsection \<open>SHA-256\<close>

type_synonym u32 = "32 word"
type_synonym sha_state = "u32 \<times> u32 \<times> u32 \<times> u32 \<times> u32 \<times> u32 \<times> u32 \<times> u32"

definition rotr :: "nat \<Rightarrow> u32 \<Rightarrow> u32" where
  "rotr n x = drop_bit n x OR push_bit (32 - n) x"

definition sha_Ch :: "u32 \<Rightarrow> u32 \<Rightarrow> u32 \<Rightarrow> u32" where
  "sha_Ch x y z = (x AND y) XOR (NOT x AND z)"

definition sha_Maj :: "u32 \<Rightarrow> u32 \<Rightarrow> u32 \<Rightarrow> u32" where
  "sha_Maj x y z = (x AND y) XOR (x AND z) XOR (y AND z)"

definition big_sigma0 :: "u32 \<Rightarrow> u32" where
  "big_sigma0 x = rotr 2 x XOR rotr 13 x XOR rotr 22 x"

definition big_sigma1 :: "u32 \<Rightarrow> u32" where
  "big_sigma1 x = rotr 6 x XOR rotr 11 x XOR rotr 25 x"

definition small_sigma0 :: "u32 \<Rightarrow> u32" where
  "small_sigma0 x = rotr 7 x XOR rotr 18 x XOR drop_bit 3 x"

definition small_sigma1 :: "u32 \<Rightarrow> u32" where
  "small_sigma1 x = rotr 17 x XOR rotr 19 x XOR drop_bit 10 x"

definition sha_K :: "u32 list" where
  "sha_K =
    [0x428a2f98, 0x71374491, 0xb5c0fbcf, 0xe9b5dba5, 0x3956c25b, 0x59f111f1, 0x923f82a4, 0xab1c5ed5,
     0xd807aa98, 0x12835b01, 0x243185be, 0x550c7dc3, 0x72be5d74, 0x80deb1fe, 0x9bdc06a7, 0xc19bf174,
     0xe49b69c1, 0xefbe4786, 0x0fc19dc6, 0x240ca1cc, 0x2de92c6f, 0x4a7484aa, 0x5cb0a9dc, 0x76f988da,
     0x983e5152, 0xa831c66d, 0xb00327c8, 0xbf597fc7, 0xc6e00bf3, 0xd5a79147, 0x06ca6351, 0x14292967,
     0x27b70a85, 0x2e1b2138, 0x4d2c6dfc, 0x53380d13, 0x650a7354, 0x766a0abb, 0x81c2c92e, 0x92722c85,
     0xa2bfe8a1, 0xa81a664b, 0xc24b8b70, 0xc76c51a3, 0xd192e819, 0xd6990624, 0xf40e3585, 0x106aa070,
     0x19a4c116, 0x1e376c08, 0x2748774c, 0x34b0bcb5, 0x391c0cb3, 0x4ed8aa4a, 0x5b9cca4f, 0x682e6ff3,
     0x748f82ee, 0x78a5636f, 0x84c87814, 0x8cc70208, 0x90befffa, 0xa4506ceb, 0xbef9a3f7, 0xc67178f2]"

definition sha_init :: sha_state where
  "sha_init = (0x6a09e667, 0xbb67ae85, 0x3c6ef372, 0xa54ff53a,
               0x510e527f, 0x9b05688c, 0x1f83d9ab, 0x5be0cd19)"

fun sha_round :: "u32 \<Rightarrow> u32 \<Rightarrow> sha_state \<Rightarrow> sha_state" where
  "sha_round k w (a, b, c, d, e, f, g, h) =
     (let t1 = h + big_sigma1 e + sha_Ch e f g + k + w;
          t2 = big_sigma0 a + sha_Maj a b c
      in (t1 + t2, a, b, c, d + t1, e, f, g))"

text \<open>The message schedule is a window of sixteen words; each round appends one and drops one.\<close>

definition next_word :: "u32 list \<Rightarrow> u32" where
  "next_word w = small_sigma1 (w ! 14) + w ! 9 + small_sigma0 (w ! 1) + w ! 0"

fun sha_rounds :: "u32 list \<Rightarrow> u32 list \<Rightarrow> sha_state \<Rightarrow> sha_state" where
  "sha_rounds [] w s = s"
| "sha_rounds (k # ks) w s = sha_rounds ks (tl w @ [next_word w]) (sha_round k (hd w) s)"

definition be_word :: "string \<Rightarrow> u32" where
  "be_word bs = fold (\<lambda>c v. v * 256 + word_of_nat (byte_of c)) bs 0"

fun block_words :: "string \<Rightarrow> u32 list" where
  "block_words (a # b # c # d # r) = be_word [a, b, c, d] # block_words r"
| "block_words _ = []"

fun sha_add :: "sha_state \<Rightarrow> sha_state \<Rightarrow> sha_state" where
  "sha_add (a, b, c, d, e, f, g, h) (a', b', c', d', e', f', g', h') =
     (a + a', b + b', c + c', d + d', e + e', f + f', g + g', h + h')"

definition sha_block :: "sha_state \<Rightarrow> string \<Rightarrow> sha_state" where
  "sha_block s bs = sha_add s (sha_rounds sha_K (block_words bs) s)"

fun sha_blocks :: "sha_state \<Rightarrow> string \<Rightarrow> sha_state" where
  "sha_blocks s bs = (if length bs < 64 then s else sha_blocks (sha_block s (take 64 bs)) (drop 64 bs))"

declare sha_blocks.simps [simp del]

definition nat_bytes :: "nat \<Rightarrow> nat \<Rightarrow> string" where
  "nat_bytes n v = map (\<lambda>i. char_of (v div 256 ^ (n - 1 - i) mod 256)) [0..<n]"

definition sha_pad :: "string \<Rightarrow> string" where
  "sha_pad m = m @ [CHR 0x80] @ replicate ((119 - length m mod 64) mod 64) (CHR 0x00) @
     nat_bytes 8 (8 * length m)"

fun sha_digest :: "sha_state \<Rightarrow> string" where
  "sha_digest (a, b, c, d, e, f, g, h) = concat (map (nat_bytes 4 \<circ> unat) [a, b, c, d, e, f, g, h])"

definition sha256 :: "string \<Rightarrow> string" where
  "sha256 m = sha_digest (sha_blocks sha_init (sha_pad m))"

subsection \<open>HMAC\<close>

definition xor_byte :: "char \<Rightarrow> nat \<Rightarrow> char" where
  "xor_byte c n = char_of (byte_of c XOR n)"

definition hmac_key :: "string \<Rightarrow> string" where
  "hmac_key key = (let k = (if 64 < length key then sha256 key else key)
                   in k @ replicate (64 - length k) (CHR 0x00))"

definition hmac_sha256 :: "string \<Rightarrow> string \<Rightarrow> string" where
  "hmac_sha256 key msg =
     (let k = hmac_key key
      in sha256 (map (\<lambda>c. xor_byte c 0x5c) k @ sha256 (map (\<lambda>c. xor_byte c 0x36) k @ msg)))"

text \<open>
  \<open>hmac.Equal\<close> is a constant-time comparison: lengths first, then the disjunction of the
  exclusive disjunctions of all bytes.
\<close>

definition ConstantTimeCompare :: "string \<Rightarrow> string \<Rightarrow> bool" where
  "ConstantTimeCompare x y \<longleftrightarrow>
     length x = length y \<and>
     fold (\<lambda>(a, b) v. v OR (word_of_nat (byte_of a) XOR word_of_nat (byte_of b))) (zip x y) (0 :: 8 word) = 0"

subsection \<open>URL-safe base64\<close>

definition url_alphabet :: string where
  "url_alphabet = ''ABCDEFGHIJKLMNOPQRSTUVWXYZabcdefghijklmnopqrstuvwxyz0123456789-_''"

definition b64_char :: "nat \<Rightarrow> char" where
  "b64_char n = url_alphabet ! (n mod 64)"

fun b64_encode :: "string \<Rightarrow> string" where
  "b64_encode [] = []"
| "b64_encode [a] =
     (let v = byte_of a * 65536 in [b64_char (v div 262144), b64_char (v div 4096), CHR ''='', CHR ''=''])"
| "b64_encode [a, b] =
     (let v = byte_of a * 65536 + byte_of b * 256
      in [b64_char (v div 262144), b64_char (v div 4096), b64_char (v div 64), CHR ''=''])"
| "b64_encode (a # b # c # r) =
     (let v = byte_of a * 65536 + byte_of b * 256 + byte_of c
      in b64_char (v div 262144) # b64_char (v div 4096) # b64_char (v div 64) # b64_char v #
         b64_encode r)"

subsection \<open>Lengths and alphabets\<close>

lemma length_nat_bytes [simp]: "length (nat_bytes n v) = n"
  by (simp add: nat_bytes_def)

lemma length_sha256 [simp]: "length (sha256 m) = 32"
proof -
  have "length (sha_digest s) = 32" for s by (cases s rule: sha_digest.cases) simp
  then show ?thesis by (simp add: sha256_def)
qed

lemma length_hmac_sha256 [simp]: "length (hmac_sha256 key msg) = 32"
  by (simp add: hmac_sha256_def Let_def)

lemma length_hmac_key: "length (hmac_key key) = 64"
  by (simp add: hmac_key_def Let_def)

lemma length_b64_encode: "length (b64_encode s) = 4 * ((length s + 2) div 3)"
proof (induction s rule: b64_encode.induct)
  case (4 a b c r)
  have "(length (a # b # c # r) + 2) div 3 = (length r + 2) div 3 + 1" by simp
  with 4 show ?case by (simp add: Let_def)
qed (simp_all add: Let_def)

lemma url_alphabet_distinct: "distinct url_alphabet"
  by (simp add: url_alphabet_def)

lemma length_url_alphabet [simp]: "length url_alphabet = 64"
  by (simp add: url_alphabet_def)

lemma pad_notin_alphabet: "CHR ''='' \<notin> set url_alphabet"
  by (simp add: url_alphabet_def)

lemma b64_char_in [simp]: "b64_char n \<in> set url_alphabet"
  by (simp add: b64_char_def)

lemma b64_char_pad [simp]: "b64_char n \<noteq> CHR ''=''" "CHR ''='' \<noteq> b64_char n"
  using b64_char_in [of n] pad_notin_alphabet by metis+

lemma b64_char_eq [simp]: "b64_char m = b64_char n \<longleftrightarrow> m mod 64 = n mod 64"
  by (simp add: b64_char_def nth_eq_iff_index_eq [OF url_alphabet_distinct])

lemma b64_encode_set: "set (b64_encode s) \<subseteq> set url_alphabet \<union> {CHR ''=''}"
  by (induction s rule: b64_encode.induct) (auto simp: Let_def)

text \<open>Four digits determine the three bytes they encode.\<close>

lemma div64_eq: "m div 64 = n div 64 \<Longrightarrow> m mod 64 = n mod 64 \<Longrightarrow> m = (n::nat)"
  by (metis div_mult_mod_eq)

lemma quad_eq:
  fixes v w :: nat
  assumes "v < 16777216" "w < 16777216"
    and "v div 262144 mod 64 = w div 262144 mod 64" "v div 4096 mod 64 = w div 4096 mod 64"
    and "v div 64 mod 64 = w div 64 mod 64" "v mod 64 = w mod 64"
  shows "v = w"
proof -
  have "v div 262144 = w div 262144" using assms(1-3) by simp
  then have "v div 4096 div 64 = w div 4096 div 64" by (simp add: div_mult2_eq [symmetric])
  then have "v div 4096 = w div 4096" using assms(4) by (rule div64_eq)
  then have "v div 64 div 64 = w div 64 div 64" by (simp add: div_mult2_eq [symmetric])
  then have "v div 64 = w div 64" using assms(5) by (rule div64_eq)
  then show ?thesis using assms(6) by (rule div64_eq)
qed

lemma three_bytes_bound:
  "byte_of a * 65536 + byte_of b * 256 + byte_of c < 16777216"
  using byte_of_less [of a] byte_of_less [of b] byte_of_less [of c] by linarith

lemma three_bytes_digits:
  fixes a b c :: nat
  assumes "b < 256" "c < 256"
  shows "(a * 65536 + b * 256 + c) mod 256 = c"
    and "(a * 65536 + b * 256 + c) div 256 mod 256 = b"
    and "(a * 65536 + b * 256 + c) div 65536 = a"
proof -
  have e: "a * 65536 + b * 256 + c = c + (b + a * 256) * 256" by simp
  show "(a * 65536 + b * 256 + c) mod 256 = c"
    unfolding e mod_mult_self1 using assms by simp
  have d: "(a * 65536 + b * 256 + c) div 256 = b + a * 256"
    unfolding e using assms by simp
  then show "(a * 65536 + b * 256 + c) div 256 mod 256 = b" using assms by simp
  have "(a * 65536 + b * 256 + c) div 65536 = (a * 65536 + b * 256 + c) div 256 div 256"
    by (simp only: div_mult2_eq [symmetric]) simp
  then show "(a * 65536 + b * 256 + c) div 65536 = a" using assms unfolding d by simp
qed

lemma three_bytes_eq:
  assumes "byte_of a * 65536 + byte_of b * 256 + byte_of c
         = byte_of a' * 65536 + byte_of b' * 256 + byte_of c'"
  shows "a = a' \<and> b = b' \<and> c = c'"
  using three_bytes_digits [OF byte_of_less byte_of_less, of "byte_of a" b c]
    three_bytes_digits [OF byte_of_less byte_of_less, of "byte_of a'" b' c'] assms
  by (simp add: byte_of_eq_iff)

text \<open>A last group of one or two bytes is the group of three with zero bytes in its place.\<close>

lemma three_bytes_mod64:
  "(byte_of a * 65536 + byte_of b * 256) mod 64 = 0" "(byte_of a * 65536) div 64 mod 64 = 0"
  "(byte_of a * 65536) mod 64 = 0"
proof -
  have a: "byte_of a * 65536 + byte_of b * 256 = (byte_of a * 1024 + byte_of b * 4) * 64"
    and b: "byte_of a * 65536 = (byte_of a * 16 * 64) * 64" by simp_all
  show "(byte_of a * 65536 + byte_of b * 256) mod 64 = 0" unfolding a by simp
  show "(byte_of a * 65536) div 64 mod 64 = 0" "(byte_of a * 65536) mod 64 = 0"
    unfolding b by simp_all
qed

lemma b64_encode_inj: "b64_encode x = b64_encode y \<Longrightarrow> x = y"
proof (induction x arbitrary: y rule: b64_encode.induct)
  case 1
  then show ?case by (cases y rule: b64_encode.cases) (simp_all add: Let_def)
next
  case (2 a)
  show ?case
  proof (cases y rule: b64_encode.cases)
    case (2 a')
    with "2.prems" quad_eq [of "byte_of a * 65536" "byte_of a' * 65536"]
      three_bytes_bound [of a "CHR 0x00" "CHR 0x00"] three_bytes_bound [of a' "CHR 0x00" "CHR 0x00"]
    show ?thesis by (simp add: Let_def three_bytes_mod64 byte_of_eq_iff)
  qed (use "2.prems" in \<open>simp_all add: Let_def\<close>)
next
  case (3 a b)
  show ?case
  proof (cases y rule: b64_encode.cases)
    case (3 a' b')
    with "3.prems" quad_eq [of "byte_of a * 65536 + byte_of b * 256" "byte_of a' * 65536 + byte_of b' * 256"]
      three_bytes_bound [of a b "CHR 0x00"] three_bytes_bound [of a' b' "CHR 0x00"]
      three_bytes_eq [of a b "CHR 0x00" a' b' "CHR 0x00"]
    show ?thesis by (simp add: Let_def three_bytes_mod64)
  qed (use "3.prems" in \<open>simp_all add: Let_def\<close>)
next
  case (4 a b c r)
  show ?case
  proof (cases y rule: b64_encode.cases)
    case (4 a' b' c' r')
    with "4.prems" have "b64_encode r = b64_encode r'" by (simp add: Let_def)
    then have "r = r'" by (rule "4.IH" [OF refl])
    with 4 "4.prems" quad_eq [OF three_bytes_bound [of a b c] three_bytes_bound [of a' b' c']]
      three_bytes_eq [of a b c a' b' c']
    show ?thesis by (simp add: Let_def)
  qed (use "4.prems" in \<open>simp_all add: Let_def\<close>)
qed

subsection \<open>The comparison decides equality\<close>

lemma byte_word_eq:
  "word_of_nat (byte_of a) = (word_of_nat (byte_of b) :: 8 word) \<longleftrightarrow> a = b"
proof -
  have "unat (word_of_nat (byte_of c) :: 8 word) = byte_of c" for c
    using byte_of_less [of c] by (simp add: unat_of_nat)
  then show ?thesis by (metis byte_of_eq_iff)
qed

lemma word_xor_0: "v XOR w = 0 \<longleftrightarrow> v = (w :: 8 word)"
proof
  assume "v XOR w = 0"
  then have "(v XOR w) XOR w = 0 XOR w" by simp
  then show "v = w" by (simp add: xor.assoc)
qed simp

lemma fold_or_0:
  "length x = length y \<Longrightarrow>
     fold (\<lambda>(a, b) v. v OR (word_of_nat (byte_of a) XOR word_of_nat (byte_of b))) (zip x y) (v :: 8 word) = 0
     \<longleftrightarrow> v = 0 \<and> x = y"
  by (induction x y arbitrary: v rule: list_induct2) (auto simp: or_eq_0_iff word_xor_0 byte_word_eq)

lemma ConstantTimeCompare_iff [simp]: "ConstantTimeCompare x y \<longleftrightarrow> x = y"
  using fold_or_0 [of x y 0] by (auto simp: ConstantTimeCompare_def)

end
