(* ===== verification/Signature.thy ===== *)
theory Signature
  imports Go_Crypto Go_Http
begin

section \<open>Identifier signatures (tunnel/util.go)\<close>

text \<open>
  The shared-key signature that a client sends with its identifier and the server checks.
\<close>

definition signIdentifier :: "string \<Rightarrow> string \<Rightarrow> string" where
  "signIdentifier ident key = b64_encode (hmac_sha256 key ident)"

definition checkIdentifierSignature :: "string \<Rightarrow> string \<Rightarrow> string \<Rightarrow> bool" where
  "checkIdentifierSignature ident key signature =
     ConstantTimeCompare signature (signIdentifier ident key)"

subsection \<open>The contract between the two sides\<close>

text \<open>
  What the server relies on: the check accepts exactly the signature that the signer makes,
  and the signature can travel in a header.
\<close>

locale signature_scheme =
  fixes sign :: "string \<Rightarrow> string \<Rightarrow> string"
    and check :: "string \<Rightarrow> string \<Rightarrow> string \<Rightarrow> bool"
    and header_safe :: "char \<Rightarrow> bool"
  assumes check_iff: "check ident key s \<longleftrightarrow> s = sign ident key"
    and sign_header_safe: "c \<in> set (sign ident key) \<Longrightarrow> header_safe c"
    and sign_not_empty: "sign ident key \<noteq> []"
begin

lemma own_signature_accepted: "check ident key (sign ident key)"
  by (simp add: check_iff)

lemma missing_signature_rejected: "\<not> check ident key []"
  by (metis check_iff sign_not_empty)

text \<open>A signature is good for one signed value only.\<close>

lemma signature_binds: "check ident key s \<Longrightarrow> check ident' key' s \<Longrightarrow> sign ident key = sign ident' key'"
  by (simp add: check_iff)

lemma accepted_header_safe: "check ident key s \<Longrightarrow> list_all header_safe s"
  by (auto simp: check_iff list_all_iff sign_header_safe)

end

text \<open>A printable ASCII character: what \<open>TestSignatureIsHeaderSafe\<close> asks of every byte.\<close>

definition printable_ascii :: "char \<Rightarrow> bool" where
  "printable_ascii c \<longleftrightarrow> 32 \<le> byte_of c \<and> byte_of c \<le> 126"

lemma url_alphabet_printable: "list_all printable_ascii url_alphabet"
  by code_simp

lemma length_signIdentifier: "length (signIdentifier ident key) = 44"
  by (simp add: signIdentifier_def length_b64_encode)

interpretation sig: signature_scheme signIdentifier checkIdentifierSignature printable_ascii
proof unfold_locales
  fix ident key s c
  show "checkIdentifierSignature ident key s \<longleftrightarrow> s = signIdentifier ident key"
    by (simp add: checkIdentifierSignature_def)
  show "signIdentifier ident key \<noteq> []" using length_signIdentifier [of ident key] by auto
  assume "c \<in> set (signIdentifier ident key)"
  then have "c \<in> set url_alphabet \<union> {CHR ''=''}"
    unfolding signIdentifier_def using b64_encode_set by blast
  then show "printable_ascii c"
    using url_alphabet_printable by (auto simp: list_all_iff printable_ascii_def byte_of_def)
qed

lemma signIdentifier_eq_iff:
  "signIdentifier i k = signIdentifier i' k' \<longleftrightarrow> hmac_sha256 k i = hmac_sha256 k' i'"
  using b64_encode_inj by (auto simp: signIdentifier_def)

end
