(* ===== verification/Server_State.thy ===== *)
theory Server_State
  imports VirtualHosts Control Callbacks Client_State Go_Http Go_Net Go_Path Signature
begin

section \<open>The server's state and its elementary operations (tunnel/server.go)\<close>

text \<open>
  The state of \<open>Server\<close> and the small operations on it.  Every operation takes its mutexes for
  the whole of its access, so it is one function of the state.  What an operation does outside
  the state (closing connections, writing to them, running callbacks, starting goroutines) is
  appended to \<open>sv_effects\<close> in program order; handles of connections, sessions and streams are
  numbers, and those of control connections are pointers to the heap of \<open>controls\<close>.
\<close>

datatype effect =
    CloseConn nat
  | CloseStream nat
  | WriteConn nat string
  | SessionGoAway nat
  | SessionClose nat
  | SendControl nat control_message
  | WriteRequest nat http_request
  | WriteResponseTo nat http_response
  | ForwardFrames nat string
  | JoinStreams nat nat
  | ReplyHandshake nat string
  | RunCallback nat
  | SpawnListen nat

record 're server =
  sv_sessions :: "string \<rightharpoonup> nat"
  sv_controls :: controls
  sv_vhosts :: "'re vhosts"
  sv_onConnect :: callbacks
  sv_onDisconnect :: callbacks
  sv_states :: "string \<rightharpoonup> client_state"
  sv_stateCh :: "state_change chan option"
  sv_effects :: "effect list"

text \<open>What \<open>NewServer\<close> fixes: \<open>'re\<close> is the type of compiled regular expressions.\<close>

record 're server_conf =
  sf_director :: "(http_request \<Rightarrow> http_request) option"
  sf_signature_key :: string
  sf_allowed_hosts :: "'re list"
  sf_allowed_clients :: "string list"
  sf_control_path :: string
  sf_control_method :: string

text \<open>
  What the model takes as parameters: the regexp engine (\<open>regexp.Compile\<close>, \<open>MatchString\<close>,
  \<open>ReplaceAllString\<close>), the JSON decoder of the connection configuration, the Unicode part of
  \<open>strings.ToLower\<close>, the iteration order of the virtual host map, and what a callback returns.
\<close>

record 're runtime =
  rt_compile :: "string \<Rightarrow> 're option"
  rt_match :: "'re \<Rightarrow> string \<Rightarrow> bool"
  rt_replace :: "'re \<Rightarrow> string \<Rightarrow> string \<Rightarrow> string"
  rt_decode :: "string \<Rightarrow> connection_config option"
  rt_lower :: "string \<Rightarrow> string"
  rt_range :: "'re vhosts \<Rightarrow> 're vhosts"
  rt_run :: "nat \<Rightarrow> go_error option"

definition runtime_ok :: "'re runtime \<Rightarrow> bool" where
  "runtime_ok rt \<longleftrightarrow> (\<forall>m. range_of (rt_range rt m) m)"

lemma runtime_range: "runtime_ok rt \<Longrightarrow> range_of (rt_range rt m) m"
  by (simp add: runtime_ok_def)

subsection \<open>Construction\<close>

record server_options =
  so_state_changes :: "state_change chan option"
  so_director :: "(http_request \<Rightarrow> http_request) option"
  so_yamux_config :: "go_error option option"
  so_signature_key :: string
  so_allowed_hosts :: "string list"
  so_allowed_clients :: "string list"
  so_control_path :: string
  so_control_method :: string

text \<open>
  The patterns of \<open>AllowedHosts\<close>: the first that does not compile ends the construction; the
  second component collects those that the code warns about.
\<close>

fun compile_hosts :: "'re runtime \<Rightarrow> string list \<Rightarrow> go_error + 're list \<times> string list" where
  "compile_hosts rt [] = Inr ([], [])"
| "compile_hosts rt (h # hs) =
     (case rt_compile rt h of
        None \<Rightarrow> Inl (ErrInvalidPattern h)
      | Some re \<Rightarrow>
          (case compile_hosts rt hs of
             Inl e \<Rightarrow> Inl e
           | Inr (res, warned) \<Rightarrow>
               Inr (re # res,
                 if \<not> HasPrefix h ''^'' \<and> \<not> HasSuffix h ''$'' then h # warned else warned)))"

text \<open>
  \<open>so_yamux_config\<close> is the outcome of \<open>yamux.VerifyConfig\<close> on the given configuration, \<open>None\<close>
  when none is given.
\<close>

definition NewServer :: "'re runtime \<Rightarrow> server_options \<Rightarrow>
    go_error + 're server_conf \<times> 're server \<times> string list" where
  "NewServer rt cfg =
     (case so_yamux_config cfg of
        Some (Some err) \<Rightarrow> Inl err
      | _ \<Rightarrow>
          (case compile_hosts rt (so_allowed_hosts cfg) of
             Inl err \<Rightarrow> Inl err
           | Inr (allowedHosts, warned) \<Rightarrow>
               Inr (\<lparr>sf_director = so_director cfg,
                     sf_signature_key = so_signature_key cfg,
                     sf_allowed_hosts = allowedHosts,
                     sf_allowed_clients = so_allowed_clients cfg,
                     sf_control_path = so_control_path cfg,
                     sf_control_method = so_control_method cfg\<rparr>,
                    \<lparr>sv_sessions = Map.empty,
                     sv_controls = newControls,
                     sv_vhosts = newVirtualHosts,
                     sv_onConnect = newCallbacks ''OnConnect'',
                     sv_onDisconnect = newCallbacks ''OnDisconnect'',
                     sv_states = Map.empty,
                     sv_stateCh = so_state_changes cfg,
                     sv_effects = []\<rparr>,
                    warned)))"

subsection \<open>Virtual hosts, control connections, sessions\<close>

definition emit :: "effect list \<Rightarrow> 're server \<Rightarrow> 're server" where
  "emit es sv = sv\<lparr>sv_effects := sv_effects sv @ es\<rparr>"

definition server_AddHost :: "'re runtime \<Rightarrow> string \<Rightarrow> string \<Rightarrow> 're rewrite_rule list \<Rightarrow>
    're server \<Rightarrow> go_error option \<times> 're server" where
  "server_AddHost rt host ident rewrites sv =
     (let (err, m) = AddHost (rt_range rt (sv_vhosts sv)) host ident rewrites (sv_vhosts sv)
      in (err, sv\<lparr>sv_vhosts := m\<rparr>))"

definition server_DeleteHost :: "string \<Rightarrow> 're server \<Rightarrow> 're server" where
  "server_DeleteHost host sv = sv\<lparr>sv_vhosts := DeleteHost host (sv_vhosts sv)\<rparr>"

definition getIdentifier :: "string \<Rightarrow> 're server \<Rightarrow> string \<times> bool" where
  "getIdentifier host sv = GetIdentifier host (sv_vhosts sv)"

definition getHost :: "'re runtime \<Rightarrow> string \<Rightarrow> 're server \<Rightarrow> string \<times> bool" where
  "getHost rt ident sv = GetHost (rt_range rt (sv_vhosts sv)) ident"

definition server_addControl :: "string \<Rightarrow> nat \<Rightarrow> 're server \<Rightarrow> 're server" where
  "server_addControl ident p sv = sv\<lparr>sv_controls := addControl ident p (sv_controls sv)\<rparr>"

definition server_getControl :: "string \<Rightarrow> 're server \<Rightarrow> nat option" where
  "server_getControl ident sv = getControl ident (sv_controls sv)"

definition server_deleteControl :: "string \<Rightarrow> 're server \<Rightarrow> 're server" where
  "server_deleteControl ident sv = sv\<lparr>sv_controls := deleteControl ident (sv_controls sv)\<rparr>"

text \<open>\<open>ct.Close()\<close>: the object is marked closed and its stream is closed.\<close>

definition close_ct :: "nat \<Rightarrow> 're server \<Rightarrow> 're server" where
  "close_ct p sv =
     (let (k, nc) = close_control p (sv_controls sv)
      in emit (case nc of None \<Rightarrow> [] | Some s \<Rightarrow> [CloseStream s]) (sv\<lparr>sv_controls := k\<rparr>))"

definition getSession :: "string \<Rightarrow> 're server \<Rightarrow> go_error + nat" where
  "getSession ident sv =
     (case sv_sessions sv ident of None \<Rightarrow> Inl (ErrNoSession ident) | Some s \<Rightarrow> Inr s)"

definition addSession :: "string \<Rightarrow> nat \<Rightarrow> 're server \<Rightarrow> 're server" where
  "addSession ident s sv = sv\<lparr>sv_sessions := (sv_sessions sv)(ident \<mapsto> s)\<rparr>"

text \<open>
  \<open>deleteSession\<close>.  The sessions that are added come from a \<open>yamux.Server\<close> call without an
  error, so they are not nil.  With the session goes the virtual host of its client.
\<close>

definition deleteSession :: "'re runtime \<Rightarrow> string \<Rightarrow> 're server \<Rightarrow> 're server" where
  "deleteSession rt ident sv =
     (case sv_sessions sv ident of
        None \<Rightarrow> sv
      | Some s \<Rightarrow>
          (let sv1 = emit [SessionGoAway s, SessionClose s] sv;
               sv2 = sv1\<lparr>sv_sessions := (sv_sessions sv1)(ident := None)\<rparr>
           in case GetVirtualHost (rt_range rt (sv_vhosts sv2)) ident of
                (_, found, hostId) \<Rightarrow> if found then server_DeleteHost hostId sv2 else sv2))"

subsection \<open>State changes and callbacks\<close>

definition changeState :: "string \<Rightarrow> client_state \<Rightarrow> go_error option \<Rightarrow> 're server \<Rightarrow>
    client_state \<times> 're server" where
  "changeState ident st err sv =
     (let prev = (case sv_states sv ident of None \<Rightarrow> ClientUnknown | Some s \<Rightarrow> s);
          sv1 = sv\<lparr>sv_states := (sv_states sv)(ident \<mapsto> st)\<rparr>;
          change = \<lparr>sc_identifier = ident, sc_previous = prev, sc_current = st, sc_error = err\<rparr>
      in case sv_stateCh sv1 of
           None \<Rightarrow> (prev, sv1)
         | Some ch \<Rightarrow> (prev, sv1\<lparr>sv_stateCh := Some (fst (try_send change ch))\<rparr>))"

definition OnConnect :: "string \<Rightarrow> nat option \<Rightarrow> 're server \<Rightarrow> 're server" where
  "OnConnect ident fn sv = sv\<lparr>sv_onConnect := callbacks_add ident fn (sv_onConnect sv)\<rparr>"

definition OnDisconnect :: "string \<Rightarrow> nat option \<Rightarrow> 're server \<Rightarrow> 're server" where
  "OnDisconnect ident fn sv = sv\<lparr>sv_onDisconnect := callbacks_add ident fn (sv_onDisconnect sv)\<rparr>"

text \<open>An error that a callback returns is only logged.\<close>

definition ran_effects :: "nat option \<Rightarrow> effect list" where
  "ran_effects called = (case called of None \<Rightarrow> [] | Some f \<Rightarrow> [RunCallback f])"

definition onConnect :: "'re runtime \<Rightarrow> string \<Rightarrow> 're server \<Rightarrow> 're server" where
  "onConnect rt ident sv =
     (case callbacks_call (rt_run rt) ident (sv_onConnect sv) of
        (_, called, cbs) \<Rightarrow>
          snd (changeState ident ClientConnected None
            (emit (ran_effects called) (sv\<lparr>sv_onConnect := cbs\<rparr>))))"

definition onDisconnect :: "'re runtime \<Rightarrow> string \<Rightarrow> go_error option \<Rightarrow> 're server \<Rightarrow> 're server" where
  "onDisconnect rt ident err sv =
     (case callbacks_call (rt_run rt) ident (sv_onDisconnect sv) of
        (_, called, cbs) \<Rightarrow>
          snd (changeState ident ClientClosed err
            (emit (ran_effects called) (sv\<lparr>sv_onDisconnect := cbs\<rparr>))))"

subsection \<open>Checks\<close>

definition checkIdentifier :: "'re server_conf \<Rightarrow> string \<Rightarrow> bool" where
  "checkIdentifier cf ident \<longleftrightarrow>
     sf_allowed_clients cf = [] \<or> list_ex (\<lambda>c. c = ident) (sf_allowed_clients cf)"

definition checkHost :: "'re runtime \<Rightarrow> 're server_conf \<Rightarrow> string \<Rightarrow> bool" where
  "checkHost rt cf host \<longleftrightarrow> list_ex (\<lambda>re. rt_match rt re host) (sf_allowed_hosts cf)"

definition isControlRequest :: "'re server_conf \<Rightarrow> http_request \<Rightarrow> bool" where
  "isControlRequest cf r \<longleftrightarrow> Clean (rq_path r) = sf_control_path cf"

fun convert_rules :: "'re runtime \<Rightarrow> path_rule list \<Rightarrow> go_error + 're rewrite_rule list" where
  "convert_rules rt [] = Inr []"
| "convert_rules rt (r # rs) =
     (case rt_compile rt (pr_from r) of
        None \<Rightarrow> Inl (ErrInvalidPattern (pr_from r))
      | Some re \<Rightarrow>
          (case convert_rules rt rs of
             Inl e \<Rightarrow> Inl e
           | Inr rules \<Rightarrow> Inr (\<lparr>rr_re = re, rr_replacement = pr_to r\<rparr> # rules)))"

definition convertHTTPPathRules :: "'re runtime \<Rightarrow> connection_config \<Rightarrow> go_error + 're rewrite_rule list" where
  "convertHTTPPathRules rt t = convert_rules rt (hc_rewrite (cc_http t))"

definition parseHostPort :: "string \<Rightarrow> string \<times> int \<times> go_error option" where
  "parseHostPort addr =
     (case SplitHostPort addr of
        Inl err \<Rightarrow> ('''', 0, Some err)
      | Inr (host, port) \<Rightarrow>
          (case ParseUint16 port of
             Inl err \<Rightarrow> ('''', 0, Some err)
           | Inr n \<Rightarrow> (host, int n, None)))"

definition headerContains :: "string list \<Rightarrow> string \<Rightarrow> bool" where
  "headerContains hdr val \<longleftrightarrow>
     list_ex (\<lambda>h. list_ex (\<lambda>v. EqualFold (TrimSpace v) val) (Split (CHR '','') h)) hdr"

definition isWebsocketConn :: "http_request \<Rightarrow> bool" where
  "isWebsocketConn r \<longleftrightarrow>
     rq_method r = ''GET'' \<and> headerContains (Header_Index (rq_header r) ''Connection'') ''upgrade'' \<and>
     headerContains (Header_Index (rq_header r) ''Upgrade'') ''websocket''"

fun nonil :: "go_error option list \<Rightarrow> go_error option" where
  "nonil [] = None"
| "nonil (e # es) = (case e of Some err \<Rightarrow> Some err | None \<Rightarrow> nonil es)"

definition copyHeader :: "header \<Rightarrow> header \<Rightarrow> header" where
  "copyHeader dst src = (\<lambda>k. case src k of None \<Rightarrow> dst k | Some vv \<Rightarrow> Some vv)"

end
