(* ===== verification/Server_Connect.thy ===== *)
theory Server_Connect
  imports Server_State
begin

section \<open>The control protocol on the server (tunnel/server.go)\<close>

text \<open>
  \<open>checkConnect\<close> and \<open>controlHandler\<close>: how a client becomes the owner of a host and gets a
  control connection, and \<open>listenControl\<close>, the goroutine that tears everything down again.
  What the network answers is an input: a \<open>connect_env\<close> holds the outcome of every blocking
  call of one run of the handler.
\<close>

text \<open>The \<open>select\<close> on \<open>session.Accept\<close> and the timeout.\<close>

datatype accept_outcome = Accepted nat | AcceptFailed go_error | AcceptTimeout

record connect_env =
  ce_hijack :: "go_error + nat"
  ce_write :: "go_error option"
  ce_deadline :: "go_error option"
  ce_session :: "go_error + nat"
  ce_accept :: accept_outcome
  ce_read :: "go_error + string"
  ce_reply :: "go_error option"

text \<open>
  \<open>buf := make([]byte, n); stream.Read(buf)\<close>: one read fills as much of the zeroed buffer as
  the bytes that have arrived.
\<close>

definition read_into :: "nat \<Rightarrow> string \<Rightarrow> string" where
  "read_into n arrived = take n (arrived @ replicate n (CHR 0x00))"

definition connected_line :: string where
  "connected_line = ''HTTP/1.1 '' @ Connected @ [CHR 0x0A, CHR 0x0A]"

text \<open>
  The deferred clean-up of \<open>controlHandler\<close>, which runs for errors after the session has been
  added.
\<close>

definition abort_connect :: "'re runtime \<Rightarrow> string \<Rightarrow> nat option \<Rightarrow> nat \<Rightarrow> 're server \<Rightarrow> 're server" where
  "abort_connect rt ident stream conn sv =
     emit [CloseConn conn]
       (deleteSession rt ident
         (emit (case stream of None \<Rightarrow> [] | Some s \<Rightarrow> [CloseStream s]) sv))"

text \<open>The part of \<open>controlHandler\<close> after the session has been added.\<close>

definition handshake :: "'re runtime \<Rightarrow> connect_env \<Rightarrow> string \<Rightarrow> nat \<Rightarrow> 're server \<Rightarrow>
    go_error option \<times> 're server" where
  "handshake rt env ident conn sv =
     (let failed = (\<lambda>stream err sv'.
            (Some (ErrAfterHijack err), abort_connect rt ident stream conn sv'))
      in case ce_accept env of
           AcceptFailed err \<Rightarrow> failed None err sv
         | AcceptTimeout \<Rightarrow> failed None ErrTimeoutSession sv
         | Accepted stream \<Rightarrow>
             (case ce_read env of
                Inl err \<Rightarrow> failed (Some stream) err sv
              | Inr arrived \<Rightarrow>
                  (let buf = read_into (length HandshakeRequest) arrived
                   in if buf \<noteq> HandshakeRequest
                      then failed (Some stream) (ErrHandshakeAborted buf) sv
                      else
                        (let sv1 = emit [ReplyHandshake stream HandshakeResponse] sv
                         in case ce_reply env of
                              Some err \<Rightarrow> failed (Some stream) err sv1
                            | None \<Rightarrow>
                                (let (p, k) = alloc_control stream (sv_controls sv1);
                                     sv2 = server_addControl ident p (sv1\<lparr>sv_controls := k\<rparr>)
                                 in (None, emit [SpawnListen p] sv2))))))"

text \<open>
  \<open>controlHandler\<close> up to the point where it waits for the client's stream: the error that it returns
  with, or the hijacked connection, with the session on it registered.
\<close>

definition connect_open :: "'re runtime \<Rightarrow> 're server_conf \<Rightarrow> connect_env \<Rightarrow> http_request \<Rightarrow>
    response_writer \<Rightarrow> 're server \<Rightarrow> (go_error + nat) \<times> response_writer \<times> 're server" where
  "connect_open rt cf env r w sv =
     (let ident = Header_Get (rq_header r) ClientIdentifierHeader;
          signature = Header_Get (rq_header r) ClientIdentifierSignature
      in if \<not> checkIdentifierSignature ident (sf_signature_key cf) signature
           then (Inl (ErrInvalidSignature ident), w, sv)
         else if \<not> snd (getHost rt ident sv) then (Inl (ErrNoHostFor ident), w, sv)
         else (case server_getControl ident sv of
           Some p \<Rightarrow>
             (Inl (ErrControlExists ident), w,
              deleteSession rt ident (server_deleteControl ident (close_ct p sv)))
         | None \<Rightarrow>
             if \<not> rw_hijackable w then (Inl ErrNoHijacker, w, sv)
             else (case ce_hijack env of
               Inl err \<Rightarrow> (Inl (ErrHijack err), w, sv)
             | Inr conn \<Rightarrow>
                 (let w1 = w\<lparr>rw_hijacked := True\<rparr>;
                      sv1 = emit [WriteConn conn connected_line] sv
                  in case ce_write env of
                       Some err \<Rightarrow> (Inl (ErrAfterHijack (ErrWriteResponse err)), w1, sv1)
                     | None \<Rightarrow>
                         (case ce_deadline env of
                            Some err \<Rightarrow> (Inl (ErrAfterHijack (ErrSetDeadline err)), w1, sv1)
                          | None \<Rightarrow>
                              (case ce_session env of
                                 Inl err \<Rightarrow> (Inl (ErrAfterHijack err), w1, sv1)
                               | Inr s \<Rightarrow> (Inr conn, w1, addSession ident s sv1)))))))"

text \<open>
  \<open>controlHandler\<close> in one go: nothing else of this client happens while it waits.  The theory
  \<open>Overlapping_Connects\<close> has the two halves as steps of their own.
\<close>

definition controlHandler :: "'re runtime \<Rightarrow> 're server_conf \<Rightarrow> connect_env \<Rightarrow> http_request \<Rightarrow>
    response_writer \<Rightarrow> 're server \<Rightarrow> go_error option \<times> response_writer \<times> 're server" where
  "controlHandler rt cf env r w sv =
     (case connect_open rt cf env r w sv of
        (Inl err, w1, sv1) \<Rightarrow> (Some err, w1, sv1)
      | (Inr conn, w1, sv1) \<Rightarrow>
          (let (err, sv2) = handshake rt env (Header_Get (rq_header r) ClientIdentifierHeader) conn sv1
           in (err, w1, sv2)))"

text \<open>
  \<open>checkConnect\<close>: the checks up to the claim of the host, which end in an answer (\<open>Some\<close>) or go on to
  the handler, and what is done with the handler's error.
\<close>

definition connect_checks :: "'re runtime \<Rightarrow> 're server_conf \<Rightarrow> http_request \<Rightarrow>
    response_writer \<Rightarrow> 're server \<Rightarrow> response_writer option \<times> 're server" where
  "connect_checks rt cf r w sv =
     (let ident = Header_Get (rq_header r) ClientIdentifierHeader;
          signature = Header_Get (rq_header r) ClientIdentifierSignature
      in if rq_method r \<noteq> sf_control_method cf
           then (Some (http_Error (Text (''405 must '' @ sf_control_method cf @ [CHR 0x0A])) 405 w), sv)
         else if \<not> checkIdentifier cf ident then (Some (http_Error (Text ''403 Forbidden'') 403 w), sv)
         else if \<not> checkIdentifierSignature ident (sf_signature_key cf) signature
           then (Some (http_Error (Text (''403 invalid signature'' @ [CHR 0x0A])) 403 w), sv)
         else (case rt_decode rt (rq_body r) of
           None \<Rightarrow> (Some (http_Error (Text (''400 invalid connection config'' @ [CHR 0x0A])) 400 w), sv)
         | Some t \<Rightarrow>
             if \<not> checkHost rt cf (hc_domain (cc_http t))
               then (Some (http_Error (Text (''400 invalid host name'' @ [CHR 0x0A])) 400 w), sv)
             else (case convertHTTPPathRules rt t of
               Inl _ \<Rightarrow> (Some (http_Error (Text (''400 invalid rewrite rule'' @ [CHR 0x0A])) 400 w), sv)
             | Inr rules \<Rightarrow>
                 (case server_AddHost rt (hc_domain (cc_http t)) ident rules sv of
                    (Some _, sv1) \<Rightarrow>
                      (Some (http_Error (Text (''409 host already in use'' @ [CHR 0x0A])) 409 w), sv1)
                  | (None, sv1) \<Rightarrow> (None, sv1)))))"

definition connect_done :: "'re runtime \<Rightarrow> string \<Rightarrow> go_error option \<Rightarrow> response_writer \<Rightarrow> 're server \<Rightarrow>
    response_writer \<times> 're server" where
  "connect_done rt ident result w sv =
     (case result of
        None \<Rightarrow> (w, sv)
      | Some err \<Rightarrow>
          (let sv1 = (if ident \<noteq> '''' then onDisconnect rt ident (Some err) sv else sv)
           in if \<not> is_after_hijack err then (http_Error (ErrText err) 502 w, sv1) else (w, sv1)))"

definition checkConnect :: "'re runtime \<Rightarrow> 're server_conf \<Rightarrow> connect_env \<Rightarrow> http_request \<Rightarrow>
    response_writer \<Rightarrow> 're server \<Rightarrow> response_writer \<times> 're server" where
  "checkConnect rt cf env r w sv =
     (case connect_checks rt cf r w sv of
        (Some w1, sv1) \<Rightarrow> (w1, sv1)
      | (None, sv1) \<Rightarrow>
          (case controlHandler rt cf env r w sv1 of
             (result, w1, sv2) \<Rightarrow>
               connect_done rt (Header_Get (rq_header r) ClientIdentifierHeader) result w1 sv2))"

text \<open>The handlers by cases, without the intermediate results.\<close>

lemma controlHandler_unfold:
  "controlHandler rt cf env r w sv =
     (let ident = Header_Get (rq_header r) ClientIdentifierHeader;
          signature = Header_Get (rq_header r) ClientIdentifierSignature
      in if \<not> checkIdentifierSignature ident (sf_signature_key cf) signature
           then (Some (ErrInvalidSignature ident), w, sv)
         else if \<not> snd (getHost rt ident sv) then (Some (ErrNoHostFor ident), w, sv)
         else (case server_getControl ident sv of
           Some p \<Rightarrow>
             (Some (ErrControlExists ident), w,
              deleteSession rt ident (server_deleteControl ident (close_ct p sv)))
         | None \<Rightarrow>
             if \<not> rw_hijackable w then (Some ErrNoHijacker, w, sv)
             else (case ce_hijack env of
               Inl err \<Rightarrow> (Some (ErrHijack err), w, sv)
             | Inr conn \<Rightarrow>
                 (let w1 = w\<lparr>rw_hijacked := True\<rparr>;
                      sv1 = emit [WriteConn conn connected_line] sv
                  in case ce_write env of
                       Some err \<Rightarrow> (Some (ErrAfterHijack (ErrWriteResponse err)), w1, sv1)
                     | None \<Rightarrow>
                         (case ce_deadline env of
                            Some err \<Rightarrow> (Some (ErrAfterHijack (ErrSetDeadline err)), w1, sv1)
                          | None \<Rightarrow>
                              (case ce_session env of
                                 Inl err \<Rightarrow> (Some (ErrAfterHijack err), w1, sv1)
                               | Inr s \<Rightarrow>
                                   (let (err, sv2) = handshake rt env ident conn (addSession ident s sv1)
                                    in (err, w1, sv2))))))))"
  by (auto simp: controlHandler_def connect_open_def Let_def split: option.splits sum.splits prod.splits)

lemma checkConnect_unfold:
  "checkConnect rt cf env r w sv =
     (let ident = Header_Get (rq_header r) ClientIdentifierHeader;
          signature = Header_Get (rq_header r) ClientIdentifierSignature
      in if rq_method r \<noteq> sf_control_method cf
           then (http_Error (Text (''405 must '' @ sf_control_method cf @ [CHR 0x0A])) 405 w, sv)
         else if \<not> checkIdentifier cf ident then (http_Error (Text ''403 Forbidden'') 403 w, sv)
         else if \<not> checkIdentifierSignature ident (sf_signature_key cf) signature
           then (http_Error (Text (''403 invalid signature'' @ [CHR 0x0A])) 403 w, sv)
         else (case rt_decode rt (rq_body r) of
           None \<Rightarrow> (http_Error (Text (''400 invalid connection config'' @ [CHR 0x0A])) 400 w, sv)
         | Some t \<Rightarrow>
             if \<not> checkHost rt cf (hc_domain (cc_http t))
               then (http_Error (Text (''400 invalid host name'' @ [CHR 0x0A])) 400 w, sv)
             else (case convertHTTPPathRules rt t of
               Inl _ \<Rightarrow> (http_Error (Text (''400 invalid rewrite rule'' @ [CHR 0x0A])) 400 w, sv)
             | Inr rules \<Rightarrow>
                 (case server_AddHost rt (hc_domain (cc_http t)) ident rules sv of
                    (Some _, sv1) \<Rightarrow>
                      (http_Error (Text (''409 host already in use'' @ [CHR 0x0A])) 409 w, sv1)
                  | (None, sv1) \<Rightarrow>
                      (case controlHandler rt cf env r w sv1 of
                         (None, w1, sv2) \<Rightarrow> (w1, sv2)
                       | (Some err, w1, sv2) \<Rightarrow>
                           (let sv3 = (if ident \<noteq> '''' then onDisconnect rt ident (Some err) sv2 else sv2)
                            in if \<not> is_after_hijack err then (http_Error (ErrText err) 502 w1, sv3)
                               else (w1, sv3)))))))"
  by (auto simp: checkConnect_def connect_checks_def connect_done_def Let_def
      split: option.splits sum.splits prod.splits)

subsection \<open>The listener\<close>

text \<open>
  \<open>listenControl\<close> runs in a goroutine of its own: it reports the connection, reads messages
  without acting on them, and cleans up after the first error.
\<close>

definition listen_start :: "'re runtime \<Rightarrow> nat \<Rightarrow> 're server \<Rightarrow> 're server" where
  "listen_start rt p sv = onConnect rt (ct_identifier (ck_heap (sv_controls sv) p)) sv"

definition listen_message :: "nat \<Rightarrow> 're server \<Rightarrow> 're server" where
  "listen_message p sv = sv"

definition listen_error :: "'re runtime \<Rightarrow> nat \<Rightarrow> go_error \<Rightarrow> 're server \<Rightarrow> 're server" where
  "listen_error rt p err sv =
     (let ident = ct_identifier (ck_heap (sv_controls sv) p)
      in onDisconnect rt ident (Some err)
           (deleteSession rt ident (server_deleteControl ident (close_ct p sv))))"

end
