(* ===== verification/Server_Http.thy ===== *)
theory Server_Http
  imports Server_Connect
begin

section \<open>Public traffic on the server (tunnel/server.go)\<close>

text \<open>
  Routing a public request to the client that owns its host, rewriting its path, and carrying
  it through the tunnel.  An \<open>http_env\<close> holds the outcomes of the network calls of one run:
  those of \<open>dial\<close>, of the exchange over the stream, and for a websocket of the hijack and of
  the forwarding of the buffered frames.  What \<open>Accept\<close> gives depends on the session it is called
  on; \<open>he_copy\<close> is the number of bytes after which \<open>io.Copy\<close> breaks off, if it does.
\<close>

record http_env =
  he_send :: "go_error option"
  he_accept :: "nat \<Rightarrow> accept_outcome"
  he_write :: "go_error option"
  he_response :: "go_error + http_response"
  he_copy :: "nat option"
  he_hijack :: "go_error + nat"
  he_upgrade :: "go_error option"
  he_buffered :: string
  he_forward :: "go_error option"

subsection \<open>Path rewriting\<close>

fun rewrite_loop :: "'re runtime \<Rightarrow> string \<Rightarrow> 're rewrite_rule list \<Rightarrow> http_request \<Rightarrow> bool \<times> http_request" where
  "rewrite_loop rt originalPath [] r = (False, r)"
| "rewrite_loop rt originalPath (rule # rules) r =
     (if rt_match rt (rr_re rule) (rq_path r)
      then (True, r\<lparr>rq_path := rt_replace rt (rr_re rule) originalPath (rr_replacement rule)\<rparr>)
      else rewrite_loop rt originalPath rules r)"

definition rewriteRequest :: "'re runtime \<Rightarrow> http_request \<Rightarrow> string \<Rightarrow> 're server \<Rightarrow> bool \<times> http_request" where
  "rewriteRequest rt r ident sv =
     (case GetVirtualHost (rt_range rt (sv_vhosts sv)) ident of
        (Some vh, True, _) \<Rightarrow> rewrite_loop rt (rq_path r) (vh_rewrite vh) (r\<lparr>rq_host := ''''\<rparr>)
      | _ \<Rightarrow> (False, r))"

subsection \<open>Opening a stream to a client\<close>

definition dial :: "go_error option \<Rightarrow> (nat \<Rightarrow> accept_outcome) \<Rightarrow> string \<Rightarrow> int \<Rightarrow> int \<Rightarrow> 're server \<Rightarrow>
    (go_error + nat) \<times> 're server" where
  "dial sent accepted ident p port sv =
     (case server_getControl ident sv of
        None \<Rightarrow> (Inl ErrNoClientSession, sv)
      | Some ct \<Rightarrow>
          (case getSession ident sv of
             Inl err \<Rightarrow> (Inl err, sv)
           | Inr session \<Rightarrow>
               (let msg = \<lparr>cm_action = RequestClientSession, cm_protocol = p, cm_local_port = port\<rparr>;
                    (err, called) = control_send sent (ck_heap (sv_controls sv) ct);
                    sv1 = (if called then emit [SendControl ct msg] sv else sv)
                in if err \<noteq> None
                   then (Inl ErrNoClientSession, server_deleteControl ident (close_ct ct sv1))
                   else (case accepted session of
                           Accepted stream \<Rightarrow> (Inr stream, sv1)
                         | AcceptFailed e \<Rightarrow> (Inl e, sv1)
                         | AcceptTimeout \<Rightarrow> (Inl ErrTimeoutSession, sv1)))))"

subsection \<open>Websockets\<close>

text \<open>\<open>nonil(err, stream.Close())\<close> after a failure: the stream is closed, the error is \<open>err\<close>.\<close>

definition fail_stream :: "go_error \<Rightarrow> nat \<Rightarrow> 're server \<Rightarrow> go_error option \<times> 're server" where
  "fail_stream err stream sv = (nonil [Some err, None], emit [CloseStream stream] sv)"

definition handleWSConn :: "http_env \<Rightarrow> http_request \<Rightarrow> response_writer \<Rightarrow> string \<Rightarrow> int \<Rightarrow> 're server \<Rightarrow>
    go_error option \<times> response_writer \<times> 're server" where
  "handleWSConn env r w ident port sv =
     (if \<not> rw_hijackable w then (Some ErrNoHijacker, w, sv)
      else (case he_hijack env of
        Inl err \<Rightarrow> (Some (ErrHijack err), w, sv)
      | Inr conn \<Rightarrow>
          (let w1 = w\<lparr>rw_hijacked := True\<rparr>
           in case dial (he_send env) (he_accept env) ident proto_WS port sv of
                (Inl err, sv1) \<Rightarrow> (Some err, w1, sv1)
              | (Inr stream, sv1) \<Rightarrow>
                  (let sv2 = emit [WriteRequest stream r] sv1
                   in case he_write env of
                        Some err \<Rightarrow>
                          (let (e, sv3) = fail_stream (ErrWriteUpgrade err) stream sv2 in (e, w1, sv3))
                      | None \<Rightarrow>
                          (case he_response env of
                             Inl err \<Rightarrow>
                               (let (e, sv3) = fail_stream (ErrReadUpgrade err) stream sv2 in (e, w1, sv3))
                           | Inr resp \<Rightarrow>
                               (let sv3 = emit [WriteResponseTo conn resp] sv2
                                in case he_upgrade env of
                                     Some err \<Rightarrow>
                                       (let (e, sv4) = fail_stream (ErrWriteUpgradeResponse err) stream sv3
                                        in (e, w1, sv4))
                                   | None \<Rightarrow>
                                       (let sv4 = (if he_buffered env \<noteq> ''''
                                              then emit [ForwardFrames conn (he_buffered env)] sv3 else sv3)
                                        in case (if he_buffered env \<noteq> '''' then he_forward env else None) of
                                             Some err \<Rightarrow>
                                               (let (e, sv5) = fail_stream (ErrForwardFrames err) stream sv4
                                                in (e, w1, sv5))
                                           | None \<Rightarrow>
                                               (None, w1, emit [JoinStreams conn stream] sv4))))))))"

subsection \<open>HTTP requests\<close>

text \<open>What \<open>io.Copy(w, resp.Body)\<close> has written when it ends; an error of it is only logged.\<close>

definition copied_body :: "http_env \<Rightarrow> http_response \<Rightarrow> string" where
  "copied_body env resp = (case he_copy env of None \<Rightarrow> rs_body resp | Some n \<Rightarrow> take n (rs_body resp))"

text \<open>The exchange over an open stream, which the deferred call closes whatever happens.\<close>

definition exchange :: "http_env \<Rightarrow> nat \<Rightarrow> http_request \<Rightarrow> response_writer \<Rightarrow> 're server \<Rightarrow>
    go_error option \<times> response_writer \<times> 're server" where
  "exchange env stream r w sv =
     (let sv1 = emit [WriteRequest stream r] sv;
          finish = (\<lambda>err w'. (err, w', emit [CloseStream stream] sv1))
      in case he_write env of
           Some err \<Rightarrow> finish (Some err) w
         | None \<Rightarrow>
             (case he_response env of
                Inl err \<Rightarrow> finish (Some (ErrReadTunnel err)) w
              | Inr resp \<Rightarrow>
                  (let w1 = WriteHeader (rs_status resp)
                              (w\<lparr>rw_header := copyHeader (rw_header w) (rs_header resp)\<rparr>);
                       w2 = (if copied_body env resp = '''' then w1 else Write (Bytes (copied_body env resp)) w1)
                   in finish None w2)))"

text \<open>
  The lookup of the request's host: the whole of \<open>Host\<close> first, then the host without its port.
\<close>

definition route :: "'re server \<Rightarrow> string \<Rightarrow> string \<times> bool" where
  "route sv hostPort =
     (let (host, _, _) = parseHostPort hostPort
      in case getIdentifier hostPort sv of
           (ident, True) \<Rightarrow> (ident, True)
         | (_, False) \<Rightarrow> getIdentifier host sv)"

definition handleHTTP :: "'re runtime \<Rightarrow> 're server_conf \<Rightarrow> http_env \<Rightarrow> http_request \<Rightarrow>
    response_writer \<Rightarrow> 're server \<Rightarrow> go_error option \<times> response_writer \<times> 're server" where
  "handleHTTP rt cf env r0 w sv =
     (let r = (case sf_director cf of None \<Rightarrow> r0 | Some f \<Rightarrow> f r0);
          hostPort = ToLower (rt_lower rt) (rq_host r)
      in if hostPort = '''' then (Some ErrHostEmpty, w, sv)
         else (case route sv hostPort of
           (_, False) \<Rightarrow> (Some (ErrNoVirtualHost hostPort), w, sv)
         | (ident, True) \<Rightarrow>
             (case rewriteRequest rt r ident sv of
                (False, _) \<Rightarrow> (Some ErrNoRewriteRule, http_Error (Text ''403 Forbidden'') 403 w, sv)
              | (True, r1) \<Rightarrow>
                  if isWebsocketConn r1 then handleWSConn env r1 w ident 0 sv
                  else (case dial (he_send env) (he_accept env) ident proto_HTTP 0 sv of
                    (Inl err, sv1) \<Rightarrow> (Some err, w, sv1)
                  | (Inr stream, sv1) \<Rightarrow> exchange env stream r1 w sv1))))"

subsection \<open>The three handlers\<close>

definition PublicHandler :: "'re runtime \<Rightarrow> 're server_conf \<Rightarrow> http_env \<Rightarrow> http_request \<Rightarrow>
    response_writer \<Rightarrow> 're server \<Rightarrow> response_writer \<times> 're server" where
  "PublicHandler rt cf env r w sv =
     (case handleHTTP rt cf env r w sv of
        (None, w1, sv1) \<Rightarrow> (w1, sv1)
      | (Some err, w1, sv1) \<Rightarrow> (http_Error (ErrText err) 502 w1, sv1))"

definition ControlHandler :: "'re runtime \<Rightarrow> 're server_conf \<Rightarrow> connect_env \<Rightarrow> http_request \<Rightarrow>
    response_writer \<Rightarrow> 're server \<Rightarrow> response_writer \<times> 're server" where
  "ControlHandler rt cf env r w sv =
     (if \<not> isControlRequest cf r then (NotFound w, sv) else checkConnect rt cf env r w sv)"

definition ServeHTTP :: "'re runtime \<Rightarrow> 're server_conf \<Rightarrow> connect_env \<Rightarrow> http_env \<Rightarrow> http_request \<Rightarrow>
    response_writer \<Rightarrow> 're server \<Rightarrow> response_writer \<times> 're server" where
  "ServeHTTP rt cf cenv henv r w sv =
     (if isControlRequest cf r then checkConnect rt cf cenv r w sv
      else PublicHandler rt cf henv r w sv)"

end
