(* ===== verification/Server_Lemmas.thy ===== *)
theory Server_Lemmas
  imports Server_Http
begin

section \<open>What the server's operations do: case rules and frame lemmas\<close>

text \<open>
  The facts that the properties of the server share.  \<open>controlHandler_cases\<close>,
  \<open>checkConnect_cases\<close> and \<open>dial_cases\<close> name the ways a run of a handler can end; the simp rules
  in \<open>server_simps\<close> say which part of the state each elementary operation changes.
\<close>

subsection \<open>Frame lemmas\<close>

lemma emit_simps [server_simps, simp]:
  "sv_sessions (emit es sv) = sv_sessions sv"
  "sv_controls (emit es sv) = sv_controls sv"
  "sv_vhosts (emit es sv) = sv_vhosts sv"
  "sv_onConnect (emit es sv) = sv_onConnect sv"
  "sv_onDisconnect (emit es sv) = sv_onDisconnect sv"
  "sv_states (emit es sv) = sv_states sv"
  "sv_stateCh (emit es sv) = sv_stateCh sv"
  "sv_effects (emit es sv) = sv_effects sv @ es"
  by (simp_all add: emit_def)

lemma emit_Nil [simp]: "emit [] sv = sv"
  by (simp add: emit_def)

lemma server_DeleteHost_simps [server_simps, simp]:
  "sv_sessions (server_DeleteHost h sv) = sv_sessions sv"
  "sv_controls (server_DeleteHost h sv) = sv_controls sv"
  "sv_vhosts (server_DeleteHost h sv) = DeleteHost h (sv_vhosts sv)"
  "sv_onConnect (server_DeleteHost h sv) = sv_onConnect sv"
  "sv_onDisconnect (server_DeleteHost h sv) = sv_onDisconnect sv"
  "sv_states (server_DeleteHost h sv) = sv_states sv"
  "sv_stateCh (server_DeleteHost h sv) = sv_stateCh sv"
  "sv_effects (server_DeleteHost h sv) = sv_effects sv"
  by (simp_all add: server_DeleteHost_def)

lemma server_AddHost_simps [server_simps, simp]:
  "sv_sessions (snd (server_AddHost rt h i rs sv)) = sv_sessions sv"
  "sv_controls (snd (server_AddHost rt h i rs sv)) = sv_controls sv"
  "sv_onConnect (snd (server_AddHost rt h i rs sv)) = sv_onConnect sv"
  "sv_onDisconnect (snd (server_AddHost rt h i rs sv)) = sv_onDisconnect sv"
  "sv_states (snd (server_AddHost rt h i rs sv)) = sv_states sv"
  "sv_stateCh (snd (server_AddHost rt h i rs sv)) = sv_stateCh sv"
  "sv_effects (snd (server_AddHost rt h i rs sv)) = sv_effects sv"
  by (simp_all add: server_AddHost_def Let_def split: prod.splits)

lemma server_AddHost_vhosts:
  "fst (server_AddHost rt h i rs sv) = fst (AddHost (rt_range rt (sv_vhosts sv)) h i rs (sv_vhosts sv))"
  "sv_vhosts (snd (server_AddHost rt h i rs sv)) =
     snd (AddHost (rt_range rt (sv_vhosts sv)) h i rs (sv_vhosts sv))"
  by (simp_all add: server_AddHost_def Let_def split: prod.splits)

lemma close_ct_simps [server_simps, simp]:
  "sv_sessions (close_ct p sv) = sv_sessions sv"
  "sv_controls (close_ct p sv) = fst (close_control p (sv_controls sv))"
  "sv_vhosts (close_ct p sv) = sv_vhosts sv"
  "sv_onConnect (close_ct p sv) = sv_onConnect sv"
  "sv_onDisconnect (close_ct p sv) = sv_onDisconnect sv"
  "sv_states (close_ct p sv) = sv_states sv"
  "sv_stateCh (close_ct p sv) = sv_stateCh sv"
  by (simp_all add: close_ct_def Let_def split: prod.splits)

lemma close_ct_effects:
  "sv_effects (close_ct p sv) = sv_effects sv @
     (case ct_nc (ck_heap (sv_controls sv) p) of None \<Rightarrow> [] | Some s \<Rightarrow> [CloseStream s])"
  by (simp add: close_ct_def close_control_def control_Close_def split: option.splits)

lemma server_deleteControl_simps [server_simps, simp]:
  "sv_sessions (server_deleteControl i sv) = sv_sessions sv"
  "sv_controls (server_deleteControl i sv) = deleteControl i (sv_controls sv)"
  "sv_vhosts (server_deleteControl i sv) = sv_vhosts sv"
  "sv_onConnect (server_deleteControl i sv) = sv_onConnect sv"
  "sv_onDisconnect (server_deleteControl i sv) = sv_onDisconnect sv"
  "sv_states (server_deleteControl i sv) = sv_states sv"
  "sv_stateCh (server_deleteControl i sv) = sv_stateCh sv"
  "sv_effects (server_deleteControl i sv) = sv_effects sv"
  by (simp_all add: server_deleteControl_def)

lemma addSession_simps [server_simps, simp]:
  "sv_sessions (addSession i s sv) = (sv_sessions sv)(i \<mapsto> s)"
  "sv_controls (addSession i s sv) = sv_controls sv"
  "sv_vhosts (addSession i s sv) = sv_vhosts sv"
  "sv_onConnect (addSession i s sv) = sv_onConnect sv"
  "sv_onDisconnect (addSession i s sv) = sv_onDisconnect sv"
  "sv_states (addSession i s sv) = sv_states sv"
  "sv_stateCh (addSession i s sv) = sv_stateCh sv"
  "sv_effects (addSession i s sv) = sv_effects sv"
  by (simp_all add: addSession_def)

lemma server_addControl_simps [server_simps, simp]:
  "sv_sessions (server_addControl i p sv) = sv_sessions sv"
  "sv_controls (server_addControl i p sv) = addControl i p (sv_controls sv)"
  "sv_vhosts (server_addControl i p sv) = sv_vhosts sv"
  "sv_onConnect (server_addControl i p sv) = sv_onConnect sv"
  "sv_onDisconnect (server_addControl i p sv) = sv_onDisconnect sv"
  "sv_states (server_addControl i p sv) = sv_states sv"
  "sv_stateCh (server_addControl i p sv) = sv_stateCh sv"
  "sv_effects (server_addControl i p sv) = sv_effects sv"
  by (simp_all add: server_addControl_def)

lemma deleteSession_simps [server_simps, simp]:
  "sv_sessions (deleteSession rt i sv) = (sv_sessions sv)(i := None)"
  "sv_controls (deleteSession rt i sv) = sv_controls sv"
  "sv_onConnect (deleteSession rt i sv) = sv_onConnect sv"
  "sv_onDisconnect (deleteSession rt i sv) = sv_onDisconnect sv"
  "sv_states (deleteSession rt i sv) = sv_states sv"
  "sv_stateCh (deleteSession rt i sv) = sv_stateCh sv"
  by (auto simp: deleteSession_def Let_def split: option.splits prod.splits)

lemma deleteSession_effects:
  "sv_effects (deleteSession rt i sv) = sv_effects sv @
     (case sv_sessions sv i of None \<Rightarrow> [] | Some s \<Rightarrow> [SessionGoAway s, SessionClose s])"
  by (auto simp: deleteSession_def Let_def split: option.splits prod.splits)

lemma deleteSession_vhosts:
  "sv_vhosts (deleteSession rt i sv) =
     (case sv_sessions sv i of
        None \<Rightarrow> sv_vhosts sv
      | Some s \<Rightarrow> (case GetVirtualHost (rt_range rt (sv_vhosts sv)) i of
           (_, found, h) \<Rightarrow> if found then DeleteHost h (sv_vhosts sv) else sv_vhosts sv))"
  by (auto simp: deleteSession_def Let_def split: option.splits prod.splits)

lemma changeState_simps [server_simps, simp]:
  "sv_sessions (snd (changeState i st e sv)) = sv_sessions sv"
  "sv_controls (snd (changeState i st e sv)) = sv_controls sv"
  "sv_vhosts (snd (changeState i st e sv)) = sv_vhosts sv"
  "sv_onConnect (snd (changeState i st e sv)) = sv_onConnect sv"
  "sv_onDisconnect (snd (changeState i st e sv)) = sv_onDisconnect sv"
  "sv_states (snd (changeState i st e sv)) = (sv_states sv)(i \<mapsto> st)"
  "sv_effects (snd (changeState i st e sv)) = sv_effects sv"
  by (auto simp: changeState_def Let_def split: option.splits)

lemma onConnect_simps [server_simps, simp]:
  "sv_sessions (onConnect rt i sv) = sv_sessions sv"
  "sv_controls (onConnect rt i sv) = sv_controls sv"
  "sv_vhosts (onConnect rt i sv) = sv_vhosts sv"
  "sv_onDisconnect (onConnect rt i sv) = sv_onDisconnect sv"
  "sv_states (onConnect rt i sv) = (sv_states sv)(i \<mapsto> ClientConnected)"
  by (auto simp: onConnect_def split: prod.splits)

lemma onDisconnect_simps [server_simps, simp]:
  "sv_sessions (onDisconnect rt i e sv) = sv_sessions sv"
  "sv_controls (onDisconnect rt i e sv) = sv_controls sv"
  "sv_vhosts (onDisconnect rt i e sv) = sv_vhosts sv"
  "sv_onConnect (onDisconnect rt i e sv) = sv_onConnect sv"
  "sv_states (onDisconnect rt i e sv) = (sv_states sv)(i \<mapsto> ClientClosed)"
  by (auto simp: onDisconnect_def split: prod.splits)

subsection \<open>Who owns a host\<close>

text \<open>The client that a host is routed to, if any.\<close>

definition host_owner :: "'re server \<Rightarrow> string \<Rightarrow> string option" where
  "host_owner sv h = map_option fst (vh_owner (sv_vhosts sv) h)"

lemma getIdentifier_owner:
  "getIdentifier h sv = (case host_owner sv h of None \<Rightarrow> ('''', False) | Some i \<Rightarrow> (i, True))"
  by (auto simp: getIdentifier_def host_owner_def vh.ident_of_owner split: option.splits)

lemma host_owner_unique:
  "vhosts_inv (sv_vhosts sv) \<Longrightarrow> host_owner sv h = Some i \<Longrightarrow> host_owner sv h' = Some i \<Longrightarrow> h' = h"
  by (auto simp: host_owner_def dest: vh.owner_unique)

lemma host_owner_cong: "sv_vhosts sv = sv_vhosts sv' \<Longrightarrow> host_owner sv = host_owner sv'"
  by (simp add: host_owner_def fun_eq_iff)

lemma getHost_iff:
  assumes "runtime_ok rt" "vhosts_inv (sv_vhosts sv)"
  shows "snd (getHost rt i sv) \<longleftrightarrow> (\<exists>h. host_owner sv h = Some i)"
  using assms(2) runtime_range [OF assms(1), of "sv_vhosts sv"]
proof (cases rule: vh.lookup_cases [where i = i])
  case (found h rw)
  then show ?thesis by (auto simp: getHost_def host_owner_def)
next
  case missing
  then show ?thesis by (auto simp: getHost_def host_owner_def)
qed

lemma host_owner_deleteSession:
  assumes "runtime_ok rt" "vhosts_inv (sv_vhosts sv)"
  shows "host_owner (deleteSession rt i sv) h =
    (if host_owner sv h = Some i \<and> sv_sessions sv i \<noteq> None then None else host_owner sv h)"
  using assms(2) runtime_range [OF assms(1), of "sv_vhosts sv"]
proof (cases rule: vh.lookup_cases [where i = i])
  case (found h' rw)
  then show ?thesis
    using assms(2) vh.owner_unique [OF assms(2)]
    by (auto simp: host_owner_def deleteSession_vhosts vh.del_owner split: option.splits)
next
  case missing
  then show ?thesis
    by (auto simp: host_owner_def deleteSession_vhosts split: option.splits)
qed

lemma vhosts_inv_deleteSession:
  "vhosts_inv (sv_vhosts sv) \<Longrightarrow> vhosts_inv (sv_vhosts (deleteSession rt i sv))"
  by (auto simp: deleteSession_vhosts vh.del_inv split: option.splits prod.splits)

lemma vhosts_inv_AddHost:
  "runtime_ok rt \<Longrightarrow> vhosts_inv (sv_vhosts sv) \<Longrightarrow> vhosts_inv (sv_vhosts (snd (server_AddHost rt h i rs sv)))"
  by (simp add: server_AddHost_vhosts vh.add_inv runtime_range)

lemma server_AddHost_granted_iff:
  assumes "runtime_ok rt" "vhosts_inv (sv_vhosts sv)"
  shows "fst (server_AddHost rt h i rs sv) = None \<longleftrightarrow> host_owner sv h \<in> {None, Some i}"
  unfolding server_AddHost_vhosts(1) vh.add_granted_iff [OF assms(2) runtime_range [OF assms(1)]]
  by (cases "vh_owner (sv_vhosts sv) h") (auto simp: host_owner_def)

lemma server_AddHost_refused:
  "fst (server_AddHost rt h i rs sv) \<noteq> None \<Longrightarrow> snd (server_AddHost rt h i rs sv) = sv"
  by (auto simp: server_AddHost_def AddHost_def Let_def split: option.splits if_splits)

lemma host_owner_AddHost:
  assumes "runtime_ok rt" "vhosts_inv (sv_vhosts sv)" "fst (server_AddHost rt h i rs sv) = None"
  shows "host_owner (snd (server_AddHost rt h i rs sv)) k =
    (if k = h then Some i else if host_owner sv k = Some i then None else host_owner sv k)"
proof -
  have "\<forall>j rw. vh_owner (sv_vhosts sv) h = Some (j, rw) \<longrightarrow> j = i"
    using assms server_AddHost_granted_iff [OF assms(1,2)] by (auto simp: host_owner_def)
  with vh.add_granted [OF assms(2) runtime_range [OF assms(1)] this] show ?thesis
    by (auto simp: host_owner_def server_AddHost_vhosts split: option.splits)
qed

subsection \<open>How the handlers end\<close>

text \<open>The part of a tear-down that \<open>controlHandler\<close> and \<open>listenControl\<close> share.\<close>

definition teardown :: "'re runtime \<Rightarrow> string \<Rightarrow> nat \<Rightarrow> 're server \<Rightarrow> 're server" where
  "teardown rt ident p sv = deleteSession rt ident (server_deleteControl ident (close_ct p sv))"

lemma teardown_simps [simp]:
  "sv_sessions (teardown rt i p sv) = (sv_sessions sv)(i := None)"
  "sv_controls (teardown rt i p sv) = deleteControl i (fst (close_control p (sv_controls sv)))"
  "sv_onConnect (teardown rt i p sv) = sv_onConnect sv"
  "sv_onDisconnect (teardown rt i p sv) = sv_onDisconnect sv"
  "sv_states (teardown rt i p sv) = sv_states sv"
  "sv_stateCh (teardown rt i p sv) = sv_stateCh sv"
  by (simp_all add: teardown_def)

lemma vhosts_inv_teardown:
  "vhosts_inv (sv_vhosts sv) \<Longrightarrow> vhosts_inv (sv_vhosts (teardown rt i p sv))"
  by (simp add: teardown_def vhosts_inv_deleteSession)

lemma host_owner_teardown:
  assumes "runtime_ok rt" "vhosts_inv (sv_vhosts sv)"
  shows "host_owner (teardown rt i p sv) h =
    (if host_owner sv h = Some i \<and> sv_sessions sv i \<noteq> None then None else host_owner sv h)"
proof -
  have "host_owner (server_deleteControl i (close_ct p sv)) h = host_owner sv h"
    by (rule fun_cong [OF host_owner_cong]) simp
  then show ?thesis
    unfolding teardown_def using assms by (simp add: host_owner_deleteSession)
qed

lemma abort_connect_simps [simp]:
  "sv_sessions (abort_connect rt i st c sv) = (sv_sessions sv)(i := None)"
  "sv_controls (abort_connect rt i st c sv) = sv_controls sv"
  "sv_onConnect (abort_connect rt i st c sv) = sv_onConnect sv"
  "sv_onDisconnect (abort_connect rt i st c sv) = sv_onDisconnect sv"
  "sv_states (abort_connect rt i st c sv) = sv_states sv"
  "sv_stateCh (abort_connect rt i st c sv) = sv_stateCh sv"
  by (simp_all add: abort_connect_def)

lemma vhosts_inv_abort:
  "vhosts_inv (sv_vhosts sv) \<Longrightarrow> vhosts_inv (sv_vhosts (abort_connect rt i st c sv))"
  by (simp add: abort_connect_def vhosts_inv_deleteSession)

lemma host_owner_abort:
  assumes "runtime_ok rt" "vhosts_inv (sv_vhosts sv)"
  shows "host_owner (abort_connect rt i st c sv) h =
    (if host_owner sv h = Some i \<and> sv_sessions sv i \<noteq> None then None else host_owner sv h)"
proof -
  let ?a = "emit (case st of None \<Rightarrow> [] | Some s \<Rightarrow> [CloseStream s]) sv"
  have "host_owner (abort_connect rt i st c sv) h = host_owner (deleteSession rt i ?a) h"
    unfolding abort_connect_def by (rule fun_cong [OF host_owner_cong]) simp
  also have "\<dots> = (if host_owner ?a h = Some i \<and> sv_sessions ?a i \<noteq> None then None else host_owner ?a h)"
    using assms by (simp add: host_owner_deleteSession)
  also have "host_owner ?a h = host_owner sv h"
    by (rule fun_cong [OF host_owner_cong]) simp
  finally show ?thesis by simp
qed

text \<open>A new control connection on \<open>stream\<close>, registered for \<open>ident\<close>.\<close>

definition establish :: "string \<Rightarrow> nat \<Rightarrow> 're server \<Rightarrow> 're server" where
  "establish ident stream sv =
     emit [SpawnListen (ck_next (sv_controls sv))]
       (server_addControl ident (ck_next (sv_controls sv))
         (sv\<lparr>sv_controls := snd (alloc_control stream (sv_controls sv))\<rparr>))"

lemma establish_simps [simp]:
  "sv_sessions (establish i st sv) = sv_sessions sv"
  "sv_controls (establish i st sv) =
     addControl i (fst (alloc_control st (sv_controls sv))) (snd (alloc_control st (sv_controls sv)))"
  "sv_vhosts (establish i st sv) = sv_vhosts sv"
  "sv_onConnect (establish i st sv) = sv_onConnect sv"
  "sv_onDisconnect (establish i st sv) = sv_onDisconnect sv"
  "sv_states (establish i st sv) = sv_states sv"
  "sv_stateCh (establish i st sv) = sv_stateCh sv"
  by (simp_all add: establish_def alloc_control_def)

lemma abort_connect_ex:
  "\<exists>st' es. abort_connect rt i st c sv = abort_connect rt i st' c (emit es sv)"
  "\<exists>st' es'. abort_connect rt i st c (emit es sv) = abort_connect rt i st' c (emit es' sv)"
  by (metis emit_Nil) blast

lemma handshake_cases:
  obtains (aborted) err st es where
      "handshake rt env ident conn sv =
         (Some (ErrAfterHijack err), abort_connect rt ident st conn (emit es sv))"
  | (established) st where
      "handshake rt env ident conn sv =
         (None, establish ident st (emit [ReplyHandshake st HandshakeResponse] sv))"
      "ce_accept env = Accepted st"
      "\<exists>arrived. ce_read env = Inr arrived \<and> read_into (length HandshakeRequest) arrived = HandshakeRequest"
      "ce_reply env = None"
proof (cases "\<exists>st. ce_accept env = Accepted st \<and> ce_reply env = None \<and>
    (\<exists>arrived. ce_read env = Inr arrived \<and> read_into (length HandshakeRequest) arrived = HandshakeRequest)")
  case True
  then obtain st where st: "ce_accept env = Accepted st" "ce_reply env = None"
    "\<exists>arrived. ce_read env = Inr arrived \<and> read_into (length HandshakeRequest) arrived = HandshakeRequest"
    by blast
  then have "handshake rt env ident conn sv =
      (None, establish ident st (emit [ReplyHandshake st HandshakeResponse] sv))"
    by (auto simp: handshake_def Let_def establish_def alloc_control_def)
  then show thesis using st by (intro established)
next
  case False
  then have "\<exists>err st es. handshake rt env ident conn sv =
      (Some (ErrAfterHijack err), abort_connect rt ident st conn (emit es sv))"
    by (cases "ce_accept env"; cases "ce_read env"; cases "ce_reply env")
       (auto simp: handshake_def Let_def intro: abort_connect_ex)
  then show thesis using aborted by blast
qed

text \<open>
  The five ways \<open>controlHandler\<close> ends: refused before it has done anything, torn down because
  the client already had a connection, failed right after the hijack, failed after the session
  was added, established.
\<close>

lemma controlHandler_cases:
  assumes "controlHandler rt cf env r w sv = (err, w', sv')"
    and "ident = Header_Get (rq_header r) ClientIdentifierHeader"
  obtains (refused) e where "err = Some e" "\<not> is_after_hijack e" "w' = w" "sv' = sv"
      "\<not> snd (getHost rt ident sv) \<or> server_getControl ident sv = None \<or>
       \<not> checkIdentifierSignature ident (sf_signature_key cf)
           (Header_Get (rq_header r) ClientIdentifierSignature)"
  | (exists) p where "server_getControl ident sv = Some p" "err = Some (ErrControlExists ident)"
      "w' = w" "sv' = teardown rt ident p sv" "snd (getHost rt ident sv)"
  | (early) e conn where "err = Some (ErrAfterHijack e)" "w' = w\<lparr>rw_hijacked := True\<rparr>"
      "sv' = emit [WriteConn conn connected_line] sv" "server_getControl ident sv = None"
      "ce_hijack env = Inr conn" "snd (getHost rt ident sv)"
      "ce_write env \<noteq> None \<or> ce_deadline env \<noteq> None \<or> (\<exists>e. ce_session env = Inl e)"
  | (aborted) e conn s st es where "err = Some (ErrAfterHijack e)" "w' = w\<lparr>rw_hijacked := True\<rparr>"
      "sv' = abort_connect rt ident st conn
               (emit es (addSession ident s (emit [WriteConn conn connected_line] sv)))"
      "server_getControl ident sv = None" "ce_hijack env = Inr conn" "ce_session env = Inr s"
      "snd (getHost rt ident sv)"
  | (established) conn s st where "err = None" "w' = w\<lparr>rw_hijacked := True\<rparr>"
      "sv' = establish ident st (emit [ReplyHandshake st HandshakeResponse]
               (addSession ident s (emit [WriteConn conn connected_line] sv)))"
      "server_getControl ident sv = None" "ce_hijack env = Inr conn" "ce_session env = Inr s"
      "snd (getHost rt ident sv)" "ce_accept env = Accepted st"
      "checkIdentifierSignature ident (sf_signature_key cf)
         (Header_Get (rq_header r) ClientIdentifierSignature)"
proof -
  note def = assms(1) [unfolded controlHandler_unfold Let_def, folded assms(2)]
  show thesis
  proof (cases "ce_write env = None \<and> ce_deadline env = None \<and> server_getControl ident sv = None \<and>
      rw_hijackable w \<and> snd (getHost rt ident sv) \<and>
      checkIdentifierSignature ident (sf_signature_key cf)
        (Header_Get (rq_header r) ClientIdentifierSignature) \<and>
      (\<exists>conn s. ce_hijack env = Inr conn \<and> ce_session env = Inr s)")
    case True
    then obtain conn s where cs: "ce_hijack env = Inr conn" "ce_session env = Inr s" by blast
    show thesis
      by (rule handshake_cases [of rt env ident conn
            "addSession ident s (emit [WriteConn conn connected_line] sv)"])
         (use def True cs in \<open>auto intro: aborted established\<close>)
  next
    case False
    with def show thesis
      by (auto simp: teardown_def split: if_splits option.splits sum.splits prod.splits
          intro: refused exists early)
  qed
qed

text \<open>
  A connect request is rejected without a trace, or claims its host and runs
  \<open>controlHandler\<close>.
\<close>

lemma checkConnect_cases:
  assumes "checkConnect rt cf env r w sv = (w', sv')"
    and "ident = Header_Get (rq_header r) ClientIdentifierHeader"
  obtains (rejected) msg code where "w' = http_Error msg code w" "sv' = sv" "code \<in> {400, 403, 405, 409}"
  | (claimed) t rules sv1 err w1 sv2 where
      "rq_method r = sf_control_method cf" "checkIdentifier cf ident"
      "checkIdentifierSignature ident (sf_signature_key cf)
         (Header_Get (rq_header r) ClientIdentifierSignature)"
      "rt_decode rt (rq_body r) = Some t" "checkHost rt cf (hc_domain (cc_http t))"
      "convertHTTPPathRules rt t = Inr rules"
      "server_AddHost rt (hc_domain (cc_http t)) ident rules sv = (None, sv1)"
      "controlHandler rt cf env r w sv1 = (err, w1, sv2)"
      "w' = (case err of None \<Rightarrow> w1
             | Some e \<Rightarrow> if is_after_hijack e then w1 else http_Error (ErrText e) 502 w1)"
      "sv' = (case err of None \<Rightarrow> sv2
              | Some e \<Rightarrow> if ident \<noteq> '''' then onDisconnect rt ident (Some e) sv2 else sv2)"
proof -
  note def = assms(1) [unfolded checkConnect_unfold Let_def, folded assms(2)]
  show thesis
  proof (cases "rq_method r = sf_control_method cf \<and> checkIdentifier cf ident \<and>
      checkIdentifierSignature ident (sf_signature_key cf)
        (Header_Get (rq_header r) ClientIdentifierSignature) \<and>
      (\<exists>t rules. rt_decode rt (rq_body r) = Some t \<and> checkHost rt cf (hc_domain (cc_http t)) \<and>
         convertHTTPPathRules rt t = Inr rules \<and>
         fst (server_AddHost rt (hc_domain (cc_http t)) ident rules sv) = None)")
    case True
    then obtain t rules sv1 where t: "rt_decode rt (rq_body r) = Some t"
      "checkHost rt cf (hc_domain (cc_http t))" "convertHTTPPathRules rt t = Inr rules"
      "server_AddHost rt (hc_domain (cc_http t)) ident rules sv = (None, sv1)"
      by (metis prod.collapse)
    obtain err w1 sv2 where h: "controlHandler rt cf env r w sv1 = (err, w1, sv2)"
      using prod_cases3 by blast
    from def True t h show thesis
      by (intro claimed [of t rules sv1 err w1 sv2]) (auto split: option.splits if_splits)
  next
    case False
    have "snd (server_AddHost rt h ident rs sv) = sv" if "fst (server_AddHost rt h ident rs sv) = Some e" for h rs e
      using server_AddHost_refused [of rt h ident rs sv] that by simp
    with False def have "\<exists>msg code. w' = http_Error msg code w \<and> sv' = sv \<and> code \<in> {400, 403, 405, 409}"
      by (auto split: if_splits option.splits sum.splits prod.splits)
         (metis fst_conv snd_conv option.distinct(1))+
    then show thesis using rejected by blast
  qed
qed

subsection \<open>How the HTTP side ends\<close>

definition session_request :: "int \<Rightarrow> int \<Rightarrow> control_message" where
  "session_request p port = \<lparr>cm_action = RequestClientSession, cm_protocol = p, cm_local_port = port\<rparr>"

lemma dial_cases:
  assumes "dial sent accepted ident p port sv = (res, sv')"
  obtains (unavailable) e where "res = Inl e" "sv' = sv"
      "server_getControl ident sv = None \<or> sv_sessions sv ident = None"
  | (broken) ct es where "res = Inl ErrNoClientSession" "server_getControl ident sv = Some ct"
      "sv' = server_deleteControl ident (close_ct ct (emit es sv))"
      "fst (control_send sent (ck_heap (sv_controls sv) ct)) \<noteq> None"
      "set es \<subseteq> {SendControl ct (session_request p port)}" "sv_sessions sv ident \<noteq> None"
  | (no_stream) e ct s where "res = Inl e" "server_getControl ident sv = Some ct"
      "sv_sessions sv ident = Some s"
      "sv' = emit [SendControl ct (session_request p port)] sv"
      "accepted s = AcceptFailed e \<or> accepted s = AcceptTimeout \<and> e = ErrTimeoutSession"
  | (opened) stream ct s where "res = Inr stream" "server_getControl ident sv = Some ct"
      "sv_sessions sv ident = Some s"
      "sv' = emit [SendControl ct (session_request p port)] sv" "accepted s = Accepted stream"
proof (cases "server_getControl ident sv")
  case None
  with assms unavailable show thesis by (auto simp: dial_def)
next
  case (Some ct)
  note ct = this
  show thesis
  proof (cases "sv_sessions sv ident")
    case None
    with ct assms unavailable show thesis by (auto simp: dial_def getSession_def)
  next
    case (Some s)
    obtain err called where c: "control_send sent (ck_heap (sv_controls sv) ct) = (err, called)"
      by (cases "control_send sent (ck_heap (sv_controls sv) ct)")
    show thesis
    proof (cases err)
      case None
      then have "called" using c by (auto simp: control_send_def split: if_splits)
      with None c ct Some assms no_stream opened show thesis
        by (cases "accepted s") (auto simp: dial_def getSession_def session_request_def Let_def)
    next
      case (Some e)
      with c ct \<open>sv_sessions sv ident = Some s\<close> assms show thesis
        by (intro broken [of ct "if called then [SendControl ct (session_request p port)] else []"])
           (auto simp: dial_def getSession_def session_request_def Let_def split: if_splits)
    qed
  qed
qed

text \<open>
  What public traffic can do to the state: append effects, and drop one control connection
  that does not take messages any more.
\<close>

definition http_change :: "'re server \<Rightarrow> 're server \<Rightarrow> bool" where
  "http_change sv sv' \<longleftrightarrow>
     (\<exists>es. sv' = emit es sv) \<or>
     (\<exists>ident ct es es'. server_getControl ident sv = Some ct \<and>
        sv' = emit es' (server_deleteControl ident (close_ct ct (emit es sv))))"

lemma emit_emit [simp]: "emit es' (emit es sv) = emit (es @ es') sv"
  by (simp add: emit_def)

lemma http_change_refl [simp]: "http_change sv sv"
  unfolding http_change_def by (metis emit_Nil)

lemma http_change_emit: "http_change sv sv' \<Longrightarrow> http_change sv (emit es sv')"
  unfolding http_change_def by (metis emit_emit)

lemma http_change_dial: "dial sent accepted ident p port sv = (res, sv') \<Longrightarrow> http_change sv sv'"
  by (erule dial_cases) (auto simp: http_change_def, metis emit_Nil)

lemma fail_stream_simps [simp]:
  "fst (fail_stream err stream sv) = Some err"
  "snd (fail_stream err stream sv) = emit [CloseStream stream] sv"
  by (simp_all add: fail_stream_def)

lemma http_change_handleWSConn: "http_change sv (snd (snd (handleWSConn env r w ident port sv)))"
proof -
  obtain res sv1 where d: "dial (he_send env) (he_accept env) ident proto_WS port sv = (res, sv1)"
    by (cases "dial (he_send env) (he_accept env) ident proto_WS port sv")
  then have "http_change sv sv1" by (rule http_change_dial)
  then have "http_change sv (emit es sv1)" for es by (rule http_change_emit)
  with \<open>http_change sv sv1\<close> show ?thesis
    by (auto simp: handleWSConn_def Let_def d fail_stream_def split: sum.splits option.splits)
qed

lemma http_change_handleHTTP: "http_change sv (snd (snd (handleHTTP rt cf env r w sv)))"
proof -
  have "http_change sv (snd (snd (exchange env stream r1 w sv1)))"
    if "dial (he_send env) (he_accept env) ident proto_HTTP 0 sv = (Inr stream, sv1)" for ident stream r1 sv1
  proof -
    from that have "http_change sv sv1" by (rule http_change_dial)
    moreover have "\<exists>es. snd (snd (exchange env stream r1 w sv1)) = emit es sv1"
      by (auto simp: exchange_def Let_def split: option.splits sum.splits)
    ultimately show ?thesis by (metis http_change_emit)
  qed
  then show ?thesis
    using http_change_dial http_change_handleWSConn
    by (fastforce simp: handleHTTP_def Let_def split: prod.splits sum.splits bool.splits option.splits)
qed

lemma http_change_PublicHandler: "http_change sv (snd (PublicHandler rt cf env r w sv))"
  using http_change_handleHTTP [of sv rt cf env r w]
  by (auto simp: PublicHandler_def split: prod.splits option.splits)

end
