(* ===== verification/Server_Steps.thy ===== *)
theory Server_Steps
  imports Server_Lemmas
begin

section \<open>The server as a state machine: invariant and reachable states\<close>

text \<open>
  Requests on the three handlers, the events of the listening goroutines and the calls of the
  embedding program, as one step function, with the invariant that every step keeps.  Each
  step carries its own \<open>runtime\<close>, so the iteration order of the host map may differ from step
  to step, as it does in Go.
\<close>

datatype 're server_event =
    EvServe connect_env http_env http_request bool
  | EvControl connect_env http_request bool
  | EvPublic http_env http_request bool
  | EvListenStart nat
  | EvListenMessage nat
  | EvListenError nat go_error
  | EvOnConnect string "nat option"
  | EvOnDisconnect string "nat option"
  | EvAddHost string string "'re rewrite_rule list"
  | EvDeleteHost string

fun server_step :: "'re server_conf \<Rightarrow> 're runtime \<times> 're server_event \<Rightarrow> 're server \<Rightarrow> 're server" where
  "server_step cf (rt, EvServe cenv henv r h) sv = snd (ServeHTTP rt cf cenv henv r (fresh_writer h) sv)"
| "server_step cf (rt, EvControl cenv r h) sv = snd (ControlHandler rt cf cenv r (fresh_writer h) sv)"
| "server_step cf (rt, EvPublic henv r h) sv = snd (PublicHandler rt cf henv r (fresh_writer h) sv)"
| "server_step cf (rt, EvListenStart p) sv = listen_start rt p sv"
| "server_step cf (rt, EvListenMessage p) sv = listen_message p sv"
| "server_step cf (rt, EvListenError p err) sv = listen_error rt p err sv"
| "server_step cf (rt, EvOnConnect i fn) sv = OnConnect i fn sv"
| "server_step cf (rt, EvOnDisconnect i fn) sv = OnDisconnect i fn sv"
| "server_step cf (rt, EvAddHost h i rs) sv = snd (server_AddHost rt h i rs sv)"
| "server_step cf (rt, EvDeleteHost h) sv = server_DeleteHost h sv"

definition server_run :: "'re server_conf \<Rightarrow> ('re runtime \<times> 're server_event) list \<Rightarrow> 're server \<Rightarrow> 're server" where
  "server_run cf = fold (server_step cf)"

text \<open>
  Every client holds at most one host; every registered control connection is open and under
  its own identifier; every client with a control connection has a session; the state channel
  is within its capacity.
\<close>

definition state_chan_ok :: "'re server \<Rightarrow> bool" where
  [inv_simps]: "state_chan_ok sv \<longleftrightarrow> (\<forall>ch. sv_stateCh sv = Some ch \<longrightarrow> chan_ok ch)"

definition sessions_cover :: "'re server \<Rightarrow> bool" where
  [inv_simps]: "sessions_cover sv \<longleftrightarrow> (\<forall>i. server_getControl i sv \<noteq> None \<longrightarrow> sv_sessions sv i \<noteq> None)"

definition server_inv :: "'re server \<Rightarrow> bool" where
  "server_inv sv \<longleftrightarrow>
     vhosts_inv (sv_vhosts sv) \<and> controls_inv (sv_controls sv) \<and> sessions_cover sv \<and> state_chan_ok sv"

text \<open>The part of it that holds even when the connects of one client overlap.\<close>

definition core_inv :: "'re server \<Rightarrow> bool" where
  "core_inv sv \<longleftrightarrow> vhosts_inv (sv_vhosts sv) \<and> controls_inv (sv_controls sv) \<and> state_chan_ok sv"

lemma server_inv_core: "server_inv sv \<longleftrightarrow> core_inv sv \<and> sessions_cover sv"
  by (auto simp: server_inv_def core_inv_def)

subsection \<open>The elementary operations\<close>

lemma core_inv_cong:
  assumes "sv_vhosts sv' = sv_vhosts sv" "sv_controls sv' = sv_controls sv" "sv_stateCh sv' = sv_stateCh sv"
  shows "core_inv sv' = core_inv sv"
  using assms by (simp add: core_inv_def state_chan_ok_def)

lemma sessions_cover_cong:
  assumes "sv_controls sv' = sv_controls sv" "sv_sessions sv' = sv_sessions sv"
  shows "sessions_cover sv' = sessions_cover sv"
  using assms by (simp add: sessions_cover_def server_getControl_def)

lemma server_inv_cong:
  assumes "sv_vhosts sv' = sv_vhosts sv" "sv_controls sv' = sv_controls sv"
    and "sv_sessions sv' = sv_sessions sv" "sv_stateCh sv' = sv_stateCh sv"
  shows "server_inv sv' = server_inv sv"
  unfolding server_inv_core using assms by (simp add: core_inv_cong [of sv' sv] sessions_cover_cong [of sv' sv])

lemma core_inv_frame [simp]:
  "core_inv (emit es sv) = core_inv sv" "core_inv (addSession i s sv) = core_inv sv"
  "core_inv (OnConnect i fn sv) = core_inv sv" "core_inv (OnDisconnect i fn sv) = core_inv sv"
  by (rule core_inv_cong; simp add: OnConnect_def OnDisconnect_def)+

lemma sessions_cover_frame [simp]:
  "sessions_cover (emit es sv) = sessions_cover sv"
  "sessions_cover (OnConnect i fn sv) = sessions_cover sv" "sessions_cover (OnDisconnect i fn sv) = sessions_cover sv"
  "sessions_cover (onConnect rt i sv) = sessions_cover sv" "sessions_cover (onDisconnect rt i e sv) = sessions_cover sv"
  "sessions_cover (snd (server_AddHost rt h i rs sv)) = sessions_cover sv"
  "sessions_cover (server_DeleteHost h sv) = sessions_cover sv"
  by (rule sessions_cover_cong; simp add: OnConnect_def OnDisconnect_def)+

lemma server_inv_emit [simp]: "server_inv (emit es sv) = server_inv sv"
  by (simp add: server_inv_core)

lemma sv_stateCh_changeState:
  "sv_stateCh (snd (changeState i st e sv)) =
     map_option (\<lambda>ch. fst (try_send \<lparr>sc_identifier = i,
         sc_previous = (case sv_states sv i of None \<Rightarrow> ClientUnknown | Some s \<Rightarrow> s),
         sc_current = st, sc_error = e\<rparr> ch)) (sv_stateCh sv)"
  by (auto simp: changeState_def Let_def split: option.splits)

lemma core_inv_changeState: "core_inv sv \<Longrightarrow> core_inv (snd (changeState i st e sv))"
  by (auto simp: core_inv_def state_chan_ok_def sv_stateCh_changeState try_send_ok)

lemma core_inv_onConnect: "core_inv sv \<Longrightarrow> core_inv (onConnect rt i sv)"
  unfolding onConnect_def
  by (auto split: prod.splits intro!: core_inv_changeState elim: core_inv_cong [THEN iffD2, rotated 3])

lemma core_inv_onDisconnect: "core_inv sv \<Longrightarrow> core_inv (onDisconnect rt i e sv)"
  unfolding onDisconnect_def
  by (auto split: prod.splits intro!: core_inv_changeState elim: core_inv_cong [THEN iffD2, rotated 3])

lemma core_inv_deleteSession: "core_inv sv \<Longrightarrow> core_inv (deleteSession rt i sv)"
  by (simp add: core_inv_def state_chan_ok_def vhosts_inv_deleteSession)

lemma core_inv_teardown:
  assumes "core_inv sv" "ct_identifier (ck_heap (sv_controls sv) p) = i"
  shows "core_inv (teardown rt i p sv)"
  using assms controls_inv_close_delete [of "sv_controls sv" p]
  by (auto simp: core_inv_def vhosts_inv_teardown state_chan_ok_def)

lemma core_inv_AddHost: "runtime_ok rt \<Longrightarrow> core_inv sv \<Longrightarrow> core_inv (snd (server_AddHost rt h i rs sv))"
  by (simp add: core_inv_def vhosts_inv_AddHost state_chan_ok_def)

lemma core_inv_DeleteHost: "core_inv sv \<Longrightarrow> core_inv (server_DeleteHost h sv)"
  by (simp add: core_inv_def vh.del_inv state_chan_ok_def)

lemma core_inv_abort: "core_inv sv \<Longrightarrow> core_inv (abort_connect rt i st c sv)"
  by (simp add: abort_connect_def core_inv_deleteSession)

lemma core_inv_establish: "core_inv sv \<Longrightarrow> core_inv (establish i st sv)"
  using controls_inv_alloc_add [of "sv_controls sv" i st] by (simp add: core_inv_def state_chan_ok_def)

lemma core_inv_control:
  assumes "core_inv sv" "server_getControl i sv = Some p"
  shows "ct_identifier (ck_heap (sv_controls sv) p) = i" "\<not> ct_closed (ck_heap (sv_controls sv) p)"
    "ct_enc (ck_heap (sv_controls sv) p)" "ct_nc (ck_heap (sv_controls sv) p) \<noteq> None"
    "server_getControl j sv = Some p \<Longrightarrow> j = i"
  using assms by (auto simp: core_inv_def server_getControl_def dest: controls_invD control_ident_inj)

text \<open>Where sessions are dropped, or control connections added.\<close>

lemma sessions_cover_remove:
  assumes "sessions_cover sv"
    and "\<And>j. server_getControl j sv' = (if j = i then None else server_getControl j sv)"
    and "sv_sessions sv' = (sv_sessions sv)(i := None)"
  shows "sessions_cover sv'"
  using assms by (auto simp: sessions_cover_def)

lemma sessions_cover_teardown: "sessions_cover sv \<Longrightarrow> sessions_cover (teardown rt i p sv)"
  by (rule sessions_cover_remove [where sv = sv and i = i])
    (auto simp: server_getControl_def ctl.entry_remove)

lemma sessions_cover_abort:
  assumes "sessions_cover sv" "server_getControl i sv = None"
  shows "sessions_cover (abort_connect rt i st c (emit es (addSession i s sv)))"
  by (rule sessions_cover_remove [where sv = sv and i = i]) (use assms in \<open>auto simp: server_getControl_def\<close>)

lemma sessions_cover_establish:
  assumes "sessions_cover sv"
  shows "sessions_cover (establish i st (emit es (addSession i s sv)))"
  using assms by (auto simp: sessions_cover_def server_getControl_def ctl.entry_put)
    (auto simp: alloc_control_def getControl_def)

lemma server_inv_onDisconnect: "server_inv sv \<Longrightarrow> server_inv (onDisconnect rt i e sv)"
  by (simp add: server_inv_core core_inv_onDisconnect)

lemma server_inv_AddHost:
  "runtime_ok rt \<Longrightarrow> server_inv sv \<Longrightarrow> server_inv (snd (server_AddHost rt h i rs sv))"
  by (simp add: server_inv_core core_inv_AddHost)

subsection \<open>The handlers\<close>

lemma core_inv_connect_open:
  assumes "connect_open rt cf env r w sv = (res, w', sv')" "core_inv sv"
  shows "core_inv sv'"
  using assms core_inv_teardown [OF assms(2) core_inv_control(1) [OF assms(2)]]
  by (auto simp: connect_open_def Let_def teardown_def split: if_splits option.splits sum.splits)

lemma core_inv_handshake:
  assumes "core_inv sv"
  shows "core_inv (snd (handshake rt env i conn sv))"
  by (rule handshake_cases [of rt env i conn sv])
    (use assms in \<open>simp_all add: core_inv_abort core_inv_establish\<close>)

lemma core_inv_connect_done: "core_inv sv \<Longrightarrow> core_inv (snd (connect_done rt i res w sv))"
  by (auto simp: connect_done_def Let_def core_inv_onDisconnect split: option.splits)

lemma connect_checks_state:
  "snd (connect_checks rt cf r w sv) = sv \<or>
   (\<exists>d rules. snd (connect_checks rt cf r w sv) =
      snd (server_AddHost rt d (Header_Get (rq_header r) ClientIdentifierHeader) rules sv))"
  by (auto simp: connect_checks_def Let_def split: option.splits sum.splits prod.splits) (metis snd_conv)+

lemma core_inv_connect_checks: "runtime_ok rt \<Longrightarrow> core_inv sv \<Longrightarrow> core_inv (snd (connect_checks rt cf r w sv))"
  using connect_checks_state [of rt cf r w sv] by (auto simp: core_inv_AddHost)

lemma core_inv_controlHandler:
  assumes "controlHandler rt cf env r w sv = (err, w', sv')" "core_inv sv"
  shows "core_inv sv'"
proof -
  obtain res w1 sv1 where o: "connect_open rt cf env r w sv = (res, w1, sv1)" using prod_cases3 by blast
  with assms core_inv_connect_open [OF o assms(2)] show ?thesis
    using core_inv_handshake [of sv1 rt env "Header_Get (rq_header r) ClientIdentifierHeader"]
    by (auto simp: controlHandler_def split: sum.splits prod.splits) (metis snd_conv)
qed

lemma core_inv_checkConnect:
  assumes "runtime_ok rt" "core_inv sv"
  shows "core_inv (snd (checkConnect rt cf env r w sv))"
proof -
  obtain res sv1 where c: "connect_checks rt cf r w sv = (res, sv1)" by fastforce
  obtain err w1 sv2 where h: "controlHandler rt cf env r w sv1 = (err, w1, sv2)" using prod_cases3 by blast
  have "core_inv sv1" using core_inv_connect_checks [OF assms, of cf r w] c by simp
  moreover from this have "core_inv sv2" by (rule core_inv_controlHandler [OF h])
  ultimately show ?thesis
    using c h by (auto simp: checkConnect_def core_inv_connect_done split: option.splits)
qed

lemma server_inv_controlHandler:
  assumes "controlHandler rt cf env r w sv = (err, w', sv')" "server_inv sv"
  shows "server_inv sv'"
proof -
  have "core_inv sv'" using assms by (auto simp: server_inv_core intro: core_inv_controlHandler)
  moreover have cover: "sessions_cover sv" using assms(2) by (simp add: server_inv_core)
  from assms(1) refl have "sessions_cover sv'"
  proof (cases rule: controlHandler_cases)
    case (exists p)
    show ?thesis unfolding exists using cover by (rule sessions_cover_teardown)
  next
    case (aborted e conn s st es)
    then have "server_getControl (Header_Get (rq_header r) ClientIdentifierHeader)
        (emit [WriteConn conn connected_line] sv) = None"
      by (simp add: server_getControl_def)
    with cover show ?thesis unfolding aborted(3) by (intro sessions_cover_abort) simp_all
  next
    case (established conn s st)
    then show ?thesis using cover by (simp add: sessions_cover_establish)
  qed (use cover in simp_all)
  ultimately show ?thesis by (simp add: server_inv_core)
qed

lemma server_inv_checkConnect:
  assumes "runtime_ok rt" "server_inv sv"
  shows "server_inv (snd (checkConnect rt cf env r w sv))"
proof -
  obtain w' sv' where c: "checkConnect rt cf env r w sv = (w', sv')" by fastforce
  then show ?thesis using refl
  proof (cases rule: checkConnect_cases)
    case (claimed t rules sv1 err w1 sv2)
    from claimed(7) have "server_inv sv1"
      using server_inv_AddHost [OF assms, of "hc_domain (cc_http t)" _ rules] by (metis snd_conv)
    with claimed(8) have "server_inv sv2" by (rule server_inv_controlHandler)
    then show ?thesis using c claimed(10) by (auto simp: server_inv_onDisconnect split: option.splits)
  qed (use c assms in simp)
qed

lemma core_inv_http_change: "http_change sv sv' \<Longrightarrow> core_inv sv \<Longrightarrow> core_inv sv'"
proof (unfold http_change_def, elim disjE exE conjE)
  fix ident ct es es'
  assume ct: "server_getControl ident sv = Some ct"
    and sv': "sv' = emit es' (server_deleteControl ident (close_ct ct (emit es sv)))"
    and inv: "core_inv sv"
  have "controls_inv (sv_controls sv')"
    using inv controls_inv_close_delete [of "sv_controls sv" ct] core_inv_control(1) [OF inv ct]
    by (auto simp: core_inv_def sv')
  then show "core_inv sv'" using inv by (simp add: core_inv_def state_chan_ok_def sv')
qed simp

lemma sessions_cover_http_change: "http_change sv sv' \<Longrightarrow> sessions_cover sv \<Longrightarrow> sessions_cover sv'"
  unfolding http_change_def by (auto simp: sessions_cover_def server_getControl_def ctl.entry_remove split: if_splits)

lemma core_inv_PublicHandler: "core_inv sv \<Longrightarrow> core_inv (snd (PublicHandler rt cf env r w sv))"
  using http_change_PublicHandler by (rule core_inv_http_change)

lemma sessions_cover_PublicHandler:
  "sessions_cover sv \<Longrightarrow> sessions_cover (snd (PublicHandler rt cf env r w sv))"
  using http_change_PublicHandler by (rule sessions_cover_http_change)

lemma core_inv_listen_error: "core_inv sv \<Longrightarrow> core_inv (listen_error rt p err sv)"
  unfolding listen_error_def Let_def teardown_def [symmetric]
  by (intro core_inv_onDisconnect core_inv_teardown) simp_all

lemma sessions_cover_listen_error: "sessions_cover sv \<Longrightarrow> sessions_cover (listen_error rt p err sv)"
  unfolding listen_error_def Let_def teardown_def [symmetric] by (simp add: sessions_cover_teardown)

lemma core_inv_step: "core_inv sv \<Longrightarrow> runtime_ok rt \<Longrightarrow> core_inv (server_step cf (rt, ev) sv)"
  by (cases ev)
     (auto simp: ServeHTTP_def ControlHandler_def listen_start_def listen_message_def core_inv_checkConnect
       core_inv_PublicHandler core_inv_listen_error core_inv_onConnect core_inv_AddHost core_inv_DeleteHost)

lemma server_inv_step:
  assumes "server_inv sv" "runtime_ok rt"
  shows "server_inv (server_step cf (rt, ev) sv)"
proof -
  have "core_inv (server_step cf (rt, ev) sv)"
    using assms by (auto simp: server_inv_core intro: core_inv_step)
  moreover have "sessions_cover (server_step cf (rt, ev) sv)"
    using assms server_inv_checkConnect [OF assms(2,1)]
    by (cases ev) (auto simp: server_inv_core ServeHTTP_def ControlHandler_def listen_start_def listen_message_def
        sessions_cover_PublicHandler sessions_cover_listen_error)
  ultimately show ?thesis by (simp add: server_inv_core)
qed

interpretation srv: invariant_steps "server_step cf" server_inv "\<lambda>(rt, _). runtime_ok rt" for cf
  by unfold_locales (auto simp: server_inv_step)

text \<open>A server as \<open>NewServer\<close> makes it.\<close>

definition initial_server :: "state_change chan option \<Rightarrow> 're server" where
  "initial_server ch =
     \<lparr>sv_sessions = Map.empty, sv_controls = newControls, sv_vhosts = newVirtualHosts,
      sv_onConnect = newCallbacks ''OnConnect'', sv_onDisconnect = newCallbacks ''OnDisconnect'',
      sv_states = Map.empty, sv_stateCh = ch, sv_effects = []\<rparr>"

lemma NewServer_initial:
  "NewServer rt opts = Inr (cf, sv, warned) \<Longrightarrow> sv = initial_server (so_state_changes opts)"
  by (auto simp: NewServer_def initial_server_def split: option.splits sum.splits prod.splits)

lemma server_inv_initial:
  "(\<And>c. ch = Some c \<Longrightarrow> chan_ok c) \<Longrightarrow> server_inv (initial_server ch)"
  by (simp add: initial_server_def server_inv_def sessions_cover_def state_chan_ok_def
      server_getControl_def newControls_def getControl_def controls_inv_def)

definition run_admissible :: "('re runtime \<times> 're server_event) list \<Rightarrow> bool" where
  "run_admissible evs \<longleftrightarrow> list_all (\<lambda>(rt, _). runtime_ok rt) evs"

lemma server_run_inv:
  "server_inv sv \<Longrightarrow> run_admissible evs \<Longrightarrow> server_inv (server_run cf evs sv)"
  unfolding server_run_def run_admissible_def by (rule srv.run_inv)

end
