(* ===== verification/Example_Runtime.thy ===== *)
theory Example_Runtime
  imports Server_Steps
begin

section \<open>A concrete runtime for the witnesses\<close>

text \<open>
  An instance of the parameters: patterns without metacharacters, which match where they
  occur as a substring and of which every occurrence is replaced; a decoder that knows two
  configurations; the identity as iteration order; callbacks that succeed.
\<close>

fun lit_match :: "string \<Rightarrow> string \<Rightarrow> bool" where
  "lit_match p [] = (p = [])"
| "lit_match p (c # s) = (HasPrefix (c # s) p \<or> lit_match p s)"

fun lit_replace :: "nat \<Rightarrow> string \<Rightarrow> string \<Rightarrow> string \<Rightarrow> string" where
  "lit_replace 0 p s repl = s"
| "lit_replace (Suc n) p [] repl = []"
| "lit_replace (Suc n) p (c # s) repl =
     (if HasPrefix (c # s) p then repl @ lit_replace n p (drop (length p) (c # s)) repl
      else c # lit_replace n p s repl)"

definition ex_config :: "string \<Rightarrow> connection_config" where
  "ex_config domain =
     \<lparr>cc_http = \<lparr>hc_domain = domain, hc_target = ''http://127.0.0.1:8080'',
                hc_rewrite = [\<lparr>pr_from = ''/cb'', pr_to = ''/api/cb''\<rparr>]\<rparr>\<rparr>"

definition ex_runtime :: "string runtime" where
  "ex_runtime =
     \<lparr>rt_compile = (\<lambda>p. if p = ''('' then None else Some p),
      rt_match = lit_match,
      rt_replace = (\<lambda>re src repl. lit_replace (length src) re src repl),
      rt_decode = (\<lambda>b. if b = ''a'' then Some (ex_config ''app.example.com'')
                       else if b = ''b'' then Some (ex_config ''web.example.com'') else None),
      rt_lower = (\<lambda>s. s),
      rt_range = (\<lambda>m. m),
      rt_run = (\<lambda>_. None)\<rparr>"

definition ex_conf :: "string server_conf" where
  "ex_conf =
     \<lparr>sf_director = None, sf_signature_key = ''k'', sf_allowed_hosts = [''.example.com''],
      sf_allowed_clients = [], sf_control_path = ''/_controlPath'', sf_control_method = ''POST''\<rparr>"

definition ex_request :: "string \<Rightarrow> string \<Rightarrow> string \<Rightarrow> http_request" where
  "ex_request meth path host =
     \<lparr>rq_method = meth, rq_scheme = '''', rq_urlhost = '''', rq_path = path, rq_query = '''', rq_host = host,
      rq_uri = path, rq_header = Map.empty, rq_body = ''''\<rparr>"

text \<open>A connect request of \<open>ident\<close> with the right signature.\<close>

definition ex_connect :: "string \<Rightarrow> string \<Rightarrow> http_request" where
  "ex_connect ident body =
     (ex_request ''POST'' ''/_controlPath'' ''server'')
       \<lparr>rq_header := [''X-Tunnel-Identifier'' \<mapsto> [ident],
                      ''X-Tunnel-Signature'' \<mapsto> [signIdentifier ident ''k'']],
        rq_body := body\<rparr>"

text \<open>Network outcomes of a connect that succeeds: connection 1, session 2, stream 3.\<close>

definition ex_cenv :: connect_env where
  "ex_cenv =
     \<lparr>ce_hijack = Inr 1, ce_write = None, ce_deadline = None, ce_session = Inr 2,
      ce_accept = Accepted 3, ce_read = Inr HandshakeRequest, ce_reply = None\<rparr>"

definition ex_henv :: http_env where
  "ex_henv =
     \<lparr>he_send = None, he_accept = (\<lambda>s. if s = 2 then Accepted 9 else AcceptTimeout), he_write = None,
      he_response = Inr \<lparr>rs_status = 201, rs_header = Map.empty, rs_body = ''ok''\<rparr>,
      he_copy = None, he_hijack = Inr 8, he_upgrade = None, he_buffered = '''',
      he_forward = None\<rparr>"

lemma ex_henv_simps [simp]:
  "he_send ex_henv = None" "he_accept ex_henv = (\<lambda>s. if s = 2 then Accepted 9 else AcceptTimeout)"
  "he_write ex_henv = None" "he_copy ex_henv = None" "he_hijack ex_henv = Inr 8" "he_upgrade ex_henv = None"
  "he_response ex_henv = Inr \<lparr>rs_status = 201, rs_header = Map.empty, rs_body = ''ok''\<rparr>"
  "he_buffered ex_henv = ''''" "he_forward ex_henv = None"
  by (simp_all add: ex_henv_def)

text \<open>The event that \<open>ident\<close> connects and asks for \<open>app.example.com\<close>.\<close>

abbreviation ex_join :: "string \<Rightarrow> string server_event" where
  "ex_join ident \<equiv> EvControl ex_cenv (ex_connect ident ''a'') True"

lemma ex_runtime_ok [simp]: "runtime_ok ex_runtime"
  by (simp add: runtime_ok_def ex_runtime_def)

text \<open>Client \<open>ident\<close> holds \<open>app.example.com\<close> and is connected over stream 3.\<close>

definition ex_rules :: "string rewrite_rule list" where
  "ex_rules = [\<lparr>rr_re = ''/cb'', rr_replacement = ''/api/cb''\<rparr>]"

definition ex_server :: "string \<Rightarrow> string server" where
  "ex_server ident =
     (initial_server None)
       \<lparr>sv_sessions := [ident \<mapsto> 2],
        sv_controls := addControl ident 0 (snd (alloc_control 3 newControls)),
        sv_vhosts := [(''app.example.com'', \<lparr>vh_identifier = ident, vh_rewrite = ex_rules\<rparr>)]\<rparr>"

lemma ex_server_inv [simp]: "server_inv (ex_server ident)"
  by (simp add: ex_server_def initial_server_def server_inv_def vhosts_inv_def wf_map_def
      sessions_cover_def state_chan_ok_def server_getControl_def controls_inv_def getControl_def
      addControl_def alloc_control_def newControls_def newControl_def)

lemma ex_server_simps [simp]:
  "server_getControl i (ex_server ident) = (if i = ident then Some 0 else None)"
  "sv_sessions (ex_server ident) = [ident \<mapsto> 2]"
  "host_owner (ex_server ident) h = (if h = ''app.example.com'' then Some ident else None)"
  "ct_identifier (ck_heap (sv_controls (ex_server ident)) 0) = ident"
  "ct_enc (ck_heap (sv_controls (ex_server ident)) 0)"
  "\<not> ct_closed (ck_heap (sv_controls (ex_server ident)) 0)"
  "sv_effects (ex_server ident) = []"
  "sv_vhosts (ex_server ident) = [(''app.example.com'', \<lparr>vh_identifier = ident, vh_rewrite = ex_rules\<rparr>)]"
  by (simp_all add: ex_server_def initial_server_def server_getControl_def getControl_def
      addControl_def alloc_control_def newControls_def newControl_def host_owner_def vh_owner_def)

lemma ex_canonical [simp]:
  "CanonicalMIMEHeaderKey ''X-Tunnel-Identifier'' = ''X-Tunnel-Identifier''"
  "CanonicalMIMEHeaderKey ''X-Tunnel-Signature'' = ''X-Tunnel-Signature''"
  by code_simp+

lemma ex_connect_simps [simp]:
  "Header_Get (rq_header (ex_connect ident body)) ClientIdentifierHeader = ident"
  "Header_Get (rq_header (ex_connect ident body)) ClientIdentifierSignature = signIdentifier ident ''k''"
  "rq_method (ex_connect ident body) = ''POST''"
  "rq_path (ex_connect ident body) = ''/_controlPath''"
  "rq_body (ex_connect ident body) = body"
  by (simp_all add: ex_connect_def ex_request_def Header_Get_def ClientIdentifierHeader_def
      ClientIdentifierSignature_def)

lemma ex_clean [simp]: "Clean ''/_controlPath'' = ''/_controlPath''"
  by code_simp

lemma ex_decode [simp]:
  "rt_decode ex_runtime ''a'' = Some (ex_config ''app.example.com'')"
  "rt_decode ex_runtime ''b'' = Some (ex_config ''web.example.com'')"
  by (simp_all add: ex_runtime_def)

lemma ex_check [simp]:
  "checkHost ex_runtime ex_conf ''app.example.com''" "checkHost ex_runtime ex_conf ''web.example.com''"
  "convertHTTPPathRules ex_runtime (ex_config d) = Inr ex_rules"
  "checkIdentifier ex_conf ident"
  by (simp_all add: checkHost_def ex_runtime_def ex_conf_def HasPrefix_def convertHTTPPathRules_def
      ex_config_def ex_rules_def checkIdentifier_def)

text \<open>A connect to a new server goes through.\<close>

lemma ex_parts [simp]:
  "isControlRequest ex_conf (ex_connect i b)"
  "sf_control_method ex_conf = ''POST''" "sf_signature_key ex_conf = ''k''"
  "runtime.rt_range ex_runtime m = m"
  "hc_domain (cc_http (ex_config d)) = d"
  "rw_hijackable (fresh_writer hj) = hj"
  "ce_hijack ex_cenv = Inr 1" "ce_write ex_cenv = None" "ce_deadline ex_cenv = None"
  "ce_session ex_cenv = Inr 2" "ce_accept ex_cenv = Accepted 3" "ce_read ex_cenv = Inr HandshakeRequest"
  "ce_reply ex_cenv = None"
  by (simp_all add: isControlRequest_def ex_conf_def ex_runtime_def ex_config_def fresh_writer_def ex_cenv_def)

lemma read_into_exact [simp]: "read_into (length s) s = s"
  by (simp add: read_into_def)

lemma ex_initial [simp]:
  "server_getControl i (initial_server ch) = None" "sv_vhosts (initial_server ch) = []"
  "host_owner (initial_server ch) h = None" "sv_sessions (initial_server ch) = Map.empty"
  "sv_effects (initial_server ch) = []" "sv_states (initial_server ch) = Map.empty"
  by (simp_all add: initial_server_def server_getControl_def newControls_def getControl_def host_owner_def vh_owner_def newVirtualHosts_def)

lemma ex_initial_inv [simp]: "server_inv (initial_server None)"
  by (rule server_inv_initial) simp

lemma ex_connects [simp]:
  "server_getControl ident (snd (ControlHandler ex_runtime ex_conf ex_cenv (ex_connect ident ''a'')
     (fresh_writer True) (initial_server ch))) = Some 0"
  by (simp add: ControlHandler_def checkConnect_unfold Let_def sig.check_iff server_AddHost_def AddHost_def
      GetIdentifier_def controlHandler_unfold getHost_def server_getControl_def getControl_def addControl_def
      initial_server_def newControls_def newVirtualHosts_def emit_def addSession_def handshake_def
      alloc_control_def server_addControl_def)
end
