(* ===== verification/Server_Props.thy ===== *)
theory Server_Props
  imports Example_Runtime
begin

section \<open>Properties of the server: ownership, authentication, clean-up\<close>

subsection \<open>Ownership of hosts\<close>

text \<open>Who can change what a host is routed to.\<close>

lemma host_owner_onConnect [simp]: "host_owner (onConnect rt i sv) = host_owner sv"
  by (rule host_owner_cong) simp

lemma host_owner_onDisconnect [simp]: "host_owner (onDisconnect rt i e sv) = host_owner sv"
  by (rule host_owner_cong) simp

lemma host_owner_emit [simp]: "host_owner (emit es sv) = host_owner sv"
  by (rule host_owner_cong) simp

lemma host_owner_addSession [simp]: "host_owner (addSession i s sv) = host_owner sv"
  by (rule host_owner_cong) simp

lemma host_owner_establish [simp]: "host_owner (establish i st sv) = host_owner sv"
  by (rule host_owner_cong) simp

lemma host_owner_http_change: "http_change sv sv' \<Longrightarrow> host_owner sv' = host_owner sv"
  by (rule host_owner_cong) (auto simp: http_change_def)

lemma host_owner_PublicHandler [simp]:
  "host_owner (snd (PublicHandler rt cf env r w sv)) = host_owner sv"
  by (rule host_owner_http_change [OF http_change_PublicHandler])

lemma host_owner_DeleteHost:
  "host_owner (server_DeleteHost h sv) k = (if k = h then None else host_owner sv k)"
  by (simp add: host_owner_def vh.del_owner)

lemma host_owner_controlHandler:
  assumes "controlHandler rt cf env r w sv = (err, w', sv')"
    and "runtime_ok rt" "vhosts_inv (sv_vhosts sv)"
    and "host_owner sv h \<noteq> Some (Header_Get (rq_header r) ClientIdentifierHeader)"
  shows "host_owner sv' h = host_owner sv h"
  using assms(1) refl
proof (cases rule: controlHandler_cases)
  case (aborted e conn s st es)
  show ?thesis
    unfolding aborted(3) using assms(2-4) by (subst host_owner_abort) simp_all
qed (use assms(2-4) in \<open>simp_all add: host_owner_teardown\<close>)

lemma host_owner_checkConnect:
  assumes "runtime_ok rt" "server_inv sv" "ident = Header_Get (rq_header r) ClientIdentifierHeader"
    and "host_owner sv h = Some i" "i \<noteq> ident"
  shows "host_owner (snd (checkConnect rt cf env r w sv)) h = Some i"
proof -
  have inv: "vhosts_inv (sv_vhosts sv)" using assms(2) by (simp add: server_inv_def)
  obtain w' sv' where c: "checkConnect rt cf env r w sv = (w', sv')" by fastforce
  then show ?thesis using assms(3)
  proof (cases rule: checkConnect_cases)
    case (claimed t rules sv1 err w1 sv2)
    let ?d = "hc_domain (cc_http t)"
    have sv1: "sv1 = snd (server_AddHost rt ?d ident rules sv)" and granted: "fst (server_AddHost rt ?d ident rules sv) = None"
      using claimed(7) by simp_all
    then have "host_owner sv ?d \<in> {None, Some ident}"
      using server_AddHost_granted_iff [OF assms(1) inv] by metis
    with assms(4,5) have "host_owner sv1 h = Some i"
      unfolding sv1 by (auto simp: host_owner_AddHost [OF assms(1) inv granted])
    moreover have "vhosts_inv (sv_vhosts sv1)" unfolding sv1 using assms(1) inv by (rule vhosts_inv_AddHost)
    ultimately have "host_owner sv2 h = Some i"
      using host_owner_controlHandler [OF claimed(8) assms(1)] assms(3,5) by simp
    then show ?thesis using c claimed(10) by (auto split: option.splits)
  qed (use c assms in simp)
qed

text \<open>A connect request that \<open>checkConnect\<close> lets through its first three checks.\<close>

definition authentic :: "'re server_conf \<Rightarrow> http_request \<Rightarrow> string \<Rightarrow> bool" where
  "authentic cf r i \<longleftrightarrow>
     isControlRequest cf r \<and> rq_method r = sf_control_method cf \<and>
     Header_Get (rq_header r) ClientIdentifierHeader = i \<and> checkIdentifier cf i \<and>
     Header_Get (rq_header r) ClientIdentifierSignature = signIdentifier i (sf_signature_key cf)"

text \<open>
  The events that can take a host away from client \<open>i\<close>: its own authentic connect requests,
  the end of one of its control connections, and the embedding program's calls.
\<close>

fun may_release :: "'re server_conf \<Rightarrow> 're server \<Rightarrow> string \<Rightarrow> string \<Rightarrow> 're server_event \<Rightarrow> bool" where
  "may_release cf sv i h (EvServe cenv henv r hj) = authentic cf r i"
| "may_release cf sv i h (EvControl cenv r hj) = authentic cf r i"
| "may_release cf sv i h (EvListenError p err) = (ct_identifier (ck_heap (sv_controls sv) p) = i)"
| "may_release cf sv i h (EvAddHost h' i' rs) = (i' = i)"
| "may_release cf sv i h (EvDeleteHost h') = (h' = h)"
| "may_release cf sv i h _ = False"

lemma checkConnect_unauthentic:
  assumes "isControlRequest cf r" "\<not> authentic cf r (Header_Get (rq_header r) ClientIdentifierHeader)"
  shows "snd (checkConnect rt cf env r w sv) = sv"
proof -
  obtain w' sv' where c: "checkConnect rt cf env r w sv = (w', sv')" by fastforce
  then show ?thesis using refl
  proof (cases rule: checkConnect_cases)
    case (claimed t rules sv1 err w1 sv2)
    then show ?thesis using assms by (simp add: authentic_def sig.check_iff)
  qed (use c in simp)
qed

lemma host_kept_by_connect:
  assumes "runtime_ok rt" "server_inv sv" "host_owner sv h = Some i" "isControlRequest cf r" "\<not> authentic cf r i"
  shows "host_owner (snd (checkConnect rt cf env r w sv)) h = Some i"
proof (cases "Header_Get (rq_header r) ClientIdentifierHeader = i")
  case True
  then show ?thesis using assms by (simp add: checkConnect_unauthentic)
next
  case False
  then show ?thesis using assms by (simp add: host_owner_checkConnect)
qed

text \<open>
  C3: A host that is routed to a client stays routed to it under every request, listener event
  and API call except the client's own authentic connect requests (valid signature for its
  identifier), the end of one of its own control connections, and the embedding program's
  calls for this client or host.  In particular no other client can take it over.
\<close>

theorem host_kept:
  assumes "runtime_ok rt" "server_inv sv" "host_owner sv h = Some i" "\<not> may_release cf sv i h ev"
  shows "host_owner (server_step cf (rt, ev) sv) h = Some i"
proof (cases ev)
  case (EvServe cenv henv r hj)
  then show ?thesis
    using assms by (simp add: ServeHTTP_def host_kept_by_connect)
next
  case (EvControl cenv r hj)
  then show ?thesis using assms by (simp add: ControlHandler_def host_kept_by_connect)
next
  case (EvPublic henv r hj)
  then show ?thesis using assms by simp
next
  case (EvListenError p err)
  then show ?thesis
    using assms by (simp add: listen_error_def Let_def teardown_def [symmetric] host_owner_teardown server_inv_def)
next
  case (EvAddHost h' i' rs)
  have inv: "vhosts_inv (sv_vhosts sv)" using assms(2) by (simp add: server_inv_def)
  show ?thesis
  proof (cases "fst (server_AddHost rt h' i' rs sv) = None")
    case True
    then have "host_owner sv h' \<in> {None, Some i'}"
      using server_AddHost_granted_iff [OF assms(1) inv] by metis
    with True EvAddHost assms show ?thesis by (auto simp: host_owner_AddHost inv)
  next
    case False
    with EvAddHost assms show ?thesis by (simp add: server_AddHost_refused)
  qed
next
  case (EvDeleteHost h')
  then show ?thesis using assms by (simp add: host_owner_DeleteHost)
next
  case (EvOnConnect i' fn)
  have "host_owner (OnConnect i' fn sv) = host_owner sv"
    by (rule host_owner_cong) (simp add: OnConnect_def)
  with EvOnConnect assms show ?thesis by simp
next
  case (EvOnDisconnect i' fn)
  have "host_owner (OnDisconnect i' fn sv) = host_owner sv"
    by (rule host_owner_cong) (simp add: OnDisconnect_def)
  with EvOnDisconnect assms show ?thesis by simp
qed (use assms in \<open>simp_all add: listen_start_def listen_message_def\<close>)

text \<open>Another client, with a signature of its own, asks for a host that is taken.\<close>

theorem host_kept_witness:
  "host_owner (server_step ex_conf
     (ex_runtime, EvControl ex_cenv (ex_connect ''mallory'' ''a'') True) (ex_server ''alice''))
     ''app.example.com'' = Some ''alice''"
proof (rule host_kept)
  show "\<not> may_release ex_conf (ex_server ''alice'') ''alice'' ''app.example.com''
      (EvControl ex_cenv (ex_connect ''mallory'' ''a'') True)"
    by (simp add: authentic_def)
qed simp_all

subsection \<open>Control connections\<close>

text \<open>Control connections only disappear, except where a handshake is completed.\<close>

lemma getControl_teardown:
  "server_getControl j (teardown rt i p sv) = (if j = i then None else server_getControl j sv)"
  by (simp add: server_getControl_def ctl.entry_remove)

lemma getControl_establish:
  "server_getControl j (establish i st sv) =
     (if j = i then Some (ck_next (sv_controls sv)) else server_getControl j sv)"
  by (simp add: server_getControl_def ctl.entry_put) (simp add: alloc_control_def getControl_def)

lemma getControl_frame [simp]:
  "server_getControl j (emit es sv) = server_getControl j sv"
  "server_getControl j (addSession i s sv) = server_getControl j sv"
  "server_getControl j (snd (server_AddHost rt h i rs sv)) = server_getControl j sv"
  "server_getControl j (server_DeleteHost h sv) = server_getControl j sv"
  "server_getControl j (onConnect rt i sv) = server_getControl j sv"
  "server_getControl j (onDisconnect rt i e sv) = server_getControl j sv"
  "server_getControl j (abort_connect rt i st' c sv) = server_getControl j sv"
  "server_getControl j (close_ct p sv) = server_getControl j sv"
  "server_getControl j (OnConnect i fn sv) = server_getControl j sv"
  "server_getControl j (OnDisconnect i fn sv) = server_getControl j sv"
  by (simp_all add: server_getControl_def OnConnect_def OnDisconnect_def)

lemma getControl_http_change:
  "http_change sv sv' \<Longrightarrow> server_getControl j sv' = Some p \<Longrightarrow> server_getControl j sv = Some p"
  unfolding http_change_def
  by (auto simp: server_getControl_def ctl.entry_remove split: if_splits)

lemma getControl_PublicHandler:
  "server_getControl j (snd (PublicHandler rt cf env r w sv)) = Some p \<Longrightarrow> server_getControl j sv = Some p"
  by (rule getControl_http_change [OF http_change_PublicHandler])

lemma new_control_checkConnect:
  assumes "runtime_ok rt" "server_inv sv" "isControlRequest cf r"
    and "server_getControl i (snd (checkConnect rt cf env r w sv)) = Some p"
    and "server_getControl i sv \<noteq> Some p"
  shows "authentic cf r i \<and>
    (\<exists>h. checkHost rt cf h \<and> host_owner (snd (checkConnect rt cf env r w sv)) h = Some i)"
proof -
  obtain w' sv' where c: "checkConnect rt cf env r w sv = (w', sv')" by fastforce
  then show ?thesis using refl
  proof (cases rule: checkConnect_cases)
    case (claimed t rules sv1 err w1 sv2)
    let ?i = "Header_Get (rq_header r) ClientIdentifierHeader" and ?d = "hc_domain (cc_http t)"
    have sv1: "sv1 = snd (server_AddHost rt ?d ?i rules sv)"
      and granted: "fst (server_AddHost rt ?d ?i rules sv) = None"
      using claimed(7) by simp_all
    then have owner: "host_owner sv1 ?d = Some ?i"
      using assms(1,2) by (simp add: host_owner_AddHost server_inv_def)
    have ctl1: "server_getControl j sv1 = server_getControl j sv" for j unfolding sv1 by simp
    from claimed(8) refl show ?thesis
    proof (cases rule: controlHandler_cases)
      case (established conn s st)
      have "i = ?i"
        using assms(4,5) c claimed(10) established ctl1 by (auto simp: getControl_establish split: if_splits)
      then show ?thesis
        using assms(3) c claimed owner established by (auto simp: authentic_def sig.check_iff)
    qed (use assms(4,5) c claimed(10) ctl1 in
        \<open>auto simp: getControl_teardown split: if_splits\<close>)
  qed (use assms c in simp)
qed

text \<open>
  C5: A control connection comes into being only through a connect request with the control
  method on the control path, whose identifier is allowed and whose signature is the HMAC of
  that identifier; afterwards the client holds a host that the server's patterns allow.
\<close>

theorem control_requires_signature:
  assumes "runtime_ok rt" "server_inv sv"
    and "server_getControl i (server_step cf (rt, ev) sv) = Some p"
    and "server_getControl i sv \<noteq> Some p"
  shows "\<exists>cenv r hj. (ev = EvControl cenv r hj \<or> (\<exists>henv. ev = EvServe cenv henv r hj)) \<and>
    authentic cf r i \<and>
    (\<exists>h. checkHost rt cf h \<and> host_owner (server_step cf (rt, ev) sv) h = Some i)"
proof (cases ev)
  case (EvServe cenv henv r hj)
  then show ?thesis
    using assms new_control_checkConnect [OF assms(1,2), of cf r i cenv]
    by (auto simp: ServeHTTP_def dest: getControl_PublicHandler split: if_splits)
next
  case (EvControl cenv r hj)
  then show ?thesis
    using assms new_control_checkConnect [OF assms(1,2), of cf r i cenv]
    by (auto simp: ControlHandler_def split: if_splits)
next
  case (EvPublic henv r hj)
  then show ?thesis using assms by (auto dest: getControl_PublicHandler)
next
  case (EvListenError q err)
  then show ?thesis
    using assms by (auto simp: listen_error_def Let_def teardown_def [symmetric] getControl_teardown split: if_splits)
qed (use assms in \<open>simp_all add: listen_start_def listen_message_def\<close>)

text \<open>The first connection of a client to a new server.\<close>

theorem control_requires_signature_witness:
  "\<exists>cenv r hj. (ex_join ''alice'' = EvControl cenv r hj \<or>
       (\<exists>henv. ex_join ''alice'' = EvServe cenv henv r hj)) \<and>
     authentic ex_conf r ''alice'' \<and>
     (\<exists>h. checkHost ex_runtime ex_conf h \<and>
        host_owner (server_step ex_conf (ex_runtime, ex_join ''alice'')
          (initial_server None)) h = Some ''alice'')"
  by (rule control_requires_signature [where p = 0]) (simp_all add: server_inv_initial)

subsection \<open>Reachable servers\<close>

definition ex_chan :: "state_change chan" where
  "ex_chan = \<lparr>ch_cap = 1, ch_buf = [], ch_parked = 0, ch_taken = []\<rparr>"

definition ex_options :: server_options where
  "ex_options =
     \<lparr>so_state_changes = Some ex_chan, so_director = None, so_yamux_config = None,
      so_signature_key = ''k'', so_allowed_hosts = [''.example.com''], so_allowed_clients = [],
      so_control_path = ''/_controlPath'', so_control_method = ''POST''\<rparr>"

lemma ex_NewServer:
  "NewServer ex_runtime ex_options =
     Inr (ex_conf, initial_server (Some ex_chan), [''.example.com''])"
  by (simp add: NewServer_def ex_options_def ex_runtime_def ex_conf_def initial_server_def
      HasPrefix_def HasSuffix_def)

text \<open>A client connects to the new server.\<close>

definition ex_run :: "(string runtime \<times> string server_event) list" where
  "ex_run = [(ex_runtime, ex_join ''alice'')]"

lemma ex_run_simps [simp]: "run_admissible ex_run"
  "server_getControl ''alice'' (server_run ex_conf ex_run (initial_server ch)) = Some 0"
  by (simp_all add: run_admissible_def ex_run_def server_run_def)

lemma ex_options_chan: "\<forall>ch. so_state_changes ex_options = Some ch \<longrightarrow> chan_ok ch"
  by (simp add: ex_options_def ex_chan_def chan_ok_def)

text \<open>
  As long as the embedding program does not delete hosts, a client with a control connection
  also holds a host.
\<close>

definition control_routed :: "'re server \<Rightarrow> bool" where
  "control_routed sv \<longleftrightarrow> (\<forall>i. server_getControl i sv \<noteq> None \<longrightarrow> (\<exists>h. host_owner sv h = Some i))"

lemma control_routed_frame:
  assumes "control_routed sv" "\<And>h. host_owner sv' h = host_owner sv h"
    and "\<And>j. server_getControl j sv' \<noteq> None \<Longrightarrow> server_getControl j sv \<noteq> None"
  shows "control_routed sv'"
  using assms by (auto simp: control_routed_def)

lemma control_routed_simps [simp]:
  "control_routed (onConnect rt i sv) = control_routed sv"
  "control_routed (onDisconnect rt i e sv) = control_routed sv"
  "control_routed (emit es sv) = control_routed sv"
  by (simp_all add: control_routed_def)

lemma control_routed_teardown:
  assumes "control_routed sv" "runtime_ok rt" "vhosts_inv (sv_vhosts sv)"
  shows "control_routed (teardown rt i p sv)"
proof -
  have "\<exists>h. host_owner (teardown rt i p sv) h = Some j"
    if j: "server_getControl j (teardown rt i p sv) \<noteq> None" for j
  proof -
    have "j \<noteq> i" "server_getControl j sv \<noteq> None" using j by (auto simp: getControl_teardown split: if_splits)
    moreover from this obtain h where "host_owner sv h = Some j" using assms(1) by (auto simp: control_routed_def)
    ultimately have "host_owner (teardown rt i p sv) h = Some j"
      using assms(2,3) by (simp add: host_owner_teardown)
    then show ?thesis by blast
  qed
  then show ?thesis by (simp add: control_routed_def)
qed

lemma control_routed_AddHost:
  assumes "control_routed sv" "runtime_ok rt" "vhosts_inv (sv_vhosts sv)"
  shows "control_routed (snd (server_AddHost rt d i rs sv))"
proof (cases "fst (server_AddHost rt d i rs sv) = None")
  case True
  have "\<exists>h. host_owner (snd (server_AddHost rt d i rs sv)) h = Some j"
    if j: "server_getControl j sv \<noteq> None" for j
  proof -
    obtain h where "host_owner sv h = Some j" using assms(1) j by (auto simp: control_routed_def)
    moreover have "host_owner sv d \<in> {None, Some i}"
      using True server_AddHost_granted_iff [OF assms(2,3)] by blast
    ultimately have "host_owner (snd (server_AddHost rt d i rs sv)) (if j = i then d else h) = Some j"
      by (auto simp: host_owner_AddHost [OF assms(2,3) True])
    then show ?thesis by blast
  qed
  then show ?thesis by (simp add: control_routed_def)
next
  case False
  then show ?thesis using assms(1) by (simp add: server_AddHost_refused)
qed

lemma control_routed_controlHandler:
  assumes "controlHandler rt cf env r w sv = (err, w', sv')"
    and "control_routed sv" "runtime_ok rt" "vhosts_inv (sv_vhosts sv)"
  shows "control_routed sv'"
  using assms(1) refl
proof (cases rule: controlHandler_cases)
  case (exists p)
  then show ?thesis using assms(2-4) by (simp add: control_routed_teardown)
next
  case (aborted e conn s st es)
  let ?i = "Header_Get (rq_header r) ClientIdentifierHeader"
  have "\<exists>h. host_owner sv' h = Some j" if j: "server_getControl j sv' \<noteq> None" for j
  proof -
    have "j \<noteq> ?i" "server_getControl j sv \<noteq> None" using j aborted(3,4) by auto
    moreover from this obtain h where "host_owner sv h = Some j" using assms(2) by (auto simp: control_routed_def)
    ultimately have "host_owner sv' h = Some j"
      unfolding aborted(3) using assms(3,4) by (simp add: host_owner_abort)
    then show ?thesis by blast
  qed
  then show ?thesis by (simp add: control_routed_def)
next
  case (established conn s st)
  then show ?thesis
    using assms(2-4) by (auto simp: control_routed_def getControl_establish getHost_iff split: if_splits)
qed (use assms(2) in simp_all)

lemma control_routed_checkConnect:
  assumes "control_routed sv" "runtime_ok rt" "server_inv sv"
  shows "control_routed (snd (checkConnect rt cf env r w sv))"
proof -
  obtain w' sv' where c: "checkConnect rt cf env r w sv = (w', sv')" by fastforce
  then show ?thesis using refl
  proof (cases rule: checkConnect_cases)
    case (claimed t rules sv1 err w1 sv2)
    have sv1: "sv1 = snd (server_AddHost rt (hc_domain (cc_http t))
        (Header_Get (rq_header r) ClientIdentifierHeader) rules sv)" using claimed(7) by simp
    have inv1: "control_routed sv1" "vhosts_inv (sv_vhosts sv1)"
      unfolding sv1 using assms by (simp_all add: server_inv_def control_routed_AddHost vhosts_inv_AddHost)
    then have "control_routed sv2"
      using assms(2) by (intro control_routed_controlHandler [OF claimed(8)])
    then show ?thesis using c claimed(10) by (auto split: option.splits)
  qed (use c assms in simp)
qed

lemma control_routed_PublicHandler:
  "control_routed sv \<Longrightarrow> control_routed (snd (PublicHandler rt cf env r w sv))"
  by (erule control_routed_frame) (auto dest: getControl_PublicHandler)

fun keeps_hosts :: "'re server_event \<Rightarrow> bool" where
  "keeps_hosts (EvDeleteHost h) = False"
| "keeps_hosts _ = True"

lemma control_routed_listen_error:
  assumes "runtime_ok rt" "server_inv sv" "control_routed sv"
  shows "control_routed (listen_error rt p err sv)"
proof -
  have "control_routed (teardown rt i p sv)" for i
    using assms(2) by (intro control_routed_teardown [OF assms(3,1)]) (simp add: server_inv_def)
  then show ?thesis by (simp add: listen_error_def Let_def teardown_def [symmetric])
qed

lemma host_owner_callbacks [simp]:
  "host_owner (OnConnect i fn sv) = host_owner sv" "host_owner (OnDisconnect i fn sv) = host_owner sv"
  by (rule host_owner_cong, simp add: OnConnect_def OnDisconnect_def)+

lemma control_routed_callbacks:
  "control_routed sv \<Longrightarrow> control_routed (OnConnect i fn sv)"
  "control_routed sv \<Longrightarrow> control_routed (OnDisconnect i fn sv)"
  by (erule control_routed_frame; simp)+

lemma control_routed_step:
  assumes "runtime_ok rt" "keeps_hosts ev" "server_inv sv" "control_routed sv"
  shows "control_routed (server_step cf (rt, ev) sv)"
  using assms
  by (cases ev)
     (simp_all add: ServeHTTP_def ControlHandler_def control_routed_checkConnect 
       control_routed_PublicHandler control_routed_AddHost server_inv_def listen_start_def
       listen_message_def control_routed_listen_error control_routed_callbacks)

end
