(* ===== verification/Server_Traffic.thy ===== *)
theory Server_Traffic
  imports Server_Props
begin

section \<open>Properties of the server: public traffic\<close>

text \<open>
  What \<open>PublicHandler\<close> does with a request: which client it reaches, what the client is sent,
  what the visitor gets back, and what becomes of the streams it opens.
\<close>

subsection \<open>A specification of the routing\<close>

text \<open>The request after the director, and its host as the lookup uses it.\<close>

definition directed :: "'re server_conf \<Rightarrow> http_request \<Rightarrow> http_request" where
  "directed cf r = (case sf_director cf of None \<Rightarrow> r | Some f \<Rightarrow> f r)"

definition lookup_host :: "'re runtime \<Rightarrow> 're server_conf \<Rightarrow> http_request \<Rightarrow> string" where
  "lookup_host rt cf r = ToLower (rt_lower rt) (rq_host (directed cf r))"

text \<open>The client and the rules for a host: of the whole name first, then without its port.\<close>

definition routed :: "'re server \<Rightarrow> string \<Rightarrow> (string \<times> 're rewrite_rule list) option" where
  "routed sv hp =
     (case vh_owner (sv_vhosts sv) hp of
        Some x \<Rightarrow> Some x
      | None \<Rightarrow> vh_owner (sv_vhosts sv) (fst (parseHostPort hp)))"

text \<open>The first rule that matches a path, and the request that is sent through the tunnel.\<close>

definition first_rule :: "'re runtime \<Rightarrow> 're rewrite_rule list \<Rightarrow> string \<Rightarrow> 're rewrite_rule option" where
  "first_rule rt rules p = find (\<lambda>q. rt_match rt (rr_re q) p) rules"

definition tunnelled_request :: "'re runtime \<Rightarrow> 're rewrite_rule \<Rightarrow> http_request \<Rightarrow> http_request" where
  "tunnelled_request rt q r =
     r\<lparr>rq_host := '''', rq_path := rt_replace rt (rr_re q) (rq_path r) (rr_replacement q)\<rparr>"

lemma rewrite_loop_find:
  "rewrite_loop rt p rules r =
     (case first_rule rt rules (rq_path r) of
        None \<Rightarrow> (False, r)
      | Some q \<Rightarrow> (True, r\<lparr>rq_path := rt_replace rt (rr_re q) p (rr_replacement q)\<rparr>))"
  by (induction rt p rules r rule: rewrite_loop.induct) (auto simp: first_rule_def)

lemma route_routed:
  "route sv hp = (case routed sv hp of None \<Rightarrow> ('''', False) | Some (i, rules) \<Rightarrow> (i, True))"
  by (auto simp: route_def routed_def getIdentifier_def vh.ident_of_owner Let_def
      split: option.splits prod.splits)

lemma routed_owner:
  "routed sv hp = Some (i, rules) \<Longrightarrow> \<exists>h. vh_owner (sv_vhosts sv) h = Some (i, rules)"
  by (auto simp: routed_def split: option.splits)

lemma rewriteRequest_spec:
  assumes "runtime_ok rt" "vhosts_inv (sv_vhosts sv)" "routed sv hp = Some (i, rules)"
  shows "rewriteRequest rt r i sv =
    (case first_rule rt rules (rq_path r) of
       None \<Rightarrow> (False, r\<lparr>rq_host := ''''\<rparr>)
     | Some q \<Rightarrow> (True, tunnelled_request rt q r))"
proof -
  obtain h where h: "vh_owner (sv_vhosts sv) h = Some (i, rules)" using routed_owner [OF assms(3)] by blast
  from assms(2) runtime_range [OF assms(1), of "sv_vhosts sv"] show ?thesis
  proof (cases rule: vh.lookup_cases [where i = i])
    case (found h' rw)
    then have "rw = rules" using h vh.owner_unique [OF assms(2)] by fastforce
    with found show ?thesis
      by (auto simp: rewriteRequest_def vh_make_def rewrite_loop_find tunnelled_request_def split: option.splits)
  next
    case missing
    with h show ?thesis by simp
  qed
qed

text \<open>\<open>handleHTTP\<close> by cases of the routing alone; the iteration order plays no role.\<close>

lemma handleHTTP_spec:
  assumes "runtime_ok rt" "vhosts_inv (sv_vhosts sv)"
  shows "handleHTTP rt cf env r w sv =
    (if lookup_host rt cf r = '''' then (Some ErrHostEmpty, w, sv)
     else case routed sv (lookup_host rt cf r) of
       None \<Rightarrow> (Some (ErrNoVirtualHost (lookup_host rt cf r)), w, sv)
     | Some (i, rules) \<Rightarrow>
         (case first_rule rt rules (rq_path (directed cf r)) of
            None \<Rightarrow> (Some ErrNoRewriteRule, http_Error (Text ''403 Forbidden'') 403 w, sv)
          | Some q \<Rightarrow>
              let r1 = tunnelled_request rt q (directed cf r)
              in if isWebsocketConn (directed cf r) then handleWSConn env r1 w i 0 sv
                 else (case dial (he_send env) (he_accept env) i proto_HTTP 0 sv of
                   (Inl err, sv1) \<Rightarrow> (Some err, w, sv1)
                 | (Inr stream, sv1) \<Rightarrow> exchange env stream r1 w sv1)))"
proof -
  have "isWebsocketConn (tunnelled_request rt q r1) = isWebsocketConn r1" for q r1
    by (simp add: isWebsocketConn_def tunnelled_request_def)
  then show ?thesis
    using rewriteRequest_spec [OF assms]
    by (auto simp: handleHTTP_def Let_def route_routed directed_def [symmetric] lookup_host_def [symmetric]
        split: option.splits prod.splits)
qed

subsection \<open>Whom a request reaches\<close>

definition since :: "'re server \<Rightarrow> 're server \<Rightarrow> effect list" where
  "since sv sv' = drop (length (sv_effects sv)) (sv_effects sv')"

lemma since_append: "sv_effects sv' = sv_effects sv @ es \<Longrightarrow> since sv sv' = es"
  by (simp add: since_def)

lemma since_same [simp]: "since sv sv = []" "since sv (emit es sv) = es"
  by (simp_all add: since_def)

text \<open>The stream that \<open>Accept\<close> hands out on the session of client \<open>i\<close>.\<close>

definition client_stream :: "'re server \<Rightarrow> string \<Rightarrow> http_env \<Rightarrow> nat \<Rightarrow> bool" where
  "client_stream sv i env st \<longleftrightarrow> (\<exists>s. sv_sessions sv i = Some s \<and> he_accept env s = Accepted st)"

text \<open>
  The effects that the request \<open>r\<close> may have on its way to client \<open>i\<close>: a message on the client's
  control connection, the request on the stream that arrived on the client's own session, the answer back, and
  the end of that stream or of a control connection that does not work any more.
\<close>

fun traffic_effect :: "'re server \<Rightarrow> string \<Rightarrow> http_env \<Rightarrow> http_request \<Rightarrow> effect \<Rightarrow> bool" where
  "traffic_effect sv i env r (SendControl ct m) =
     (server_getControl i sv = Some ct \<and>
      m \<in> {session_request proto_HTTP 0, session_request proto_WS 0})"
| "traffic_effect sv i env r (WriteRequest st r') = (client_stream sv i env st \<and> r' = r)"
| "traffic_effect sv i env r (WriteResponseTo c resp) = (he_hijack env = Inr c \<and> he_response env = Inr resp)"
| "traffic_effect sv i env r (ForwardFrames c bs) = (he_hijack env = Inr c \<and> bs = he_buffered env)"
| "traffic_effect sv i env r (JoinStreams c st) = (he_hijack env = Inr c \<and> client_stream sv i env st)"
| "traffic_effect sv i env r (CloseStream st) =
     (client_stream sv i env st \<or>
      (\<exists>ct. server_getControl i sv = Some ct \<and> ct_nc (ck_heap (sv_controls sv) ct) = Some st))"
| "traffic_effect sv i env r _ = False"

lemma dial_effects:
  assumes "dial (he_send env) (he_accept env) i p 0 sv = (res, sv')" "p \<in> {proto_HTTP, proto_WS}"
  shows "\<exists>es. sv_effects sv' = sv_effects sv @ es \<and> list_all (traffic_effect sv i env r) es"
  using assms(1)
proof (cases rule: dial_cases)
  case (broken ct es)
  then have "list_all (traffic_effect sv i env r) es"
    using assms(2) by (fastforce simp: list_all_iff)
  with broken(2) show ?thesis
    unfolding broken(3) by (auto simp: close_ct_effects split: option.splits)
next
  case (opened stream ct s)
  then show ?thesis using assms(2) by auto
qed (use assms(2) in auto)

lemma exchange_effects:
  "sv_effects (snd (snd (exchange env stream r w sv))) = sv_effects sv @ [WriteRequest stream r, CloseStream stream]"
  by (auto simp: exchange_def Let_def split: option.splits sum.splits)

lemma handleWSConn_effects:
  "\<exists>es. sv_effects (snd (snd (handleWSConn env r w i 0 sv))) = sv_effects sv @ es \<and>
     list_all (traffic_effect sv i env r) es"
proof -
  obtain res sv1 where d: "dial (he_send env) (he_accept env) i proto_WS 0 sv = (res, sv1)" by fastforce
  then obtain es where es: "sv_effects sv1 = sv_effects sv @ es" "list_all (traffic_effect sv i env r) es"
    using dial_effects [where p = proto_WS] by blast
  show ?thesis
  proof (cases res)
    case (Inl e)
    with d es show ?thesis by (auto simp: handleWSConn_def Let_def split: sum.splits)
  next
    case (Inr stream)
    from d [unfolded Inr] have "client_stream sv i env stream" by (cases rule: dial_cases) (auto simp: client_stream_def)
    with d es Inr show ?thesis
      by (auto simp: handleWSConn_def Let_def fail_stream_def split: sum.splits option.splits)
  qed
qed

lemma handleHTTP_effects:
  assumes "runtime_ok rt" "vhosts_inv (sv_vhosts sv)"
    and "e \<in> set (since sv (snd (snd (handleHTTP rt cf env r w sv))))"
  obtains i rules q where "routed sv (lookup_host rt cf r) = Some (i, rules)"
    "first_rule rt rules (rq_path (directed cf r)) = Some q"
    "traffic_effect sv i env (tunnelled_request rt q (directed cf r)) e"
proof -
  note spec = handleHTTP_spec [OF assms(1,2), of cf env r w]
  from assms(3) obtain i rules q where
    routed: "routed sv (lookup_host rt cf r) = Some (i, rules)" "lookup_host rt cf r \<noteq> ''''"
    and rule: "first_rule rt rules (rq_path (directed cf r)) = Some q"
    unfolding spec by (auto split: if_splits option.splits)
  let ?r1 = "tunnelled_request rt q (directed cf r)"
  have "\<exists>es. sv_effects (snd (snd (handleHTTP rt cf env r w sv))) = sv_effects sv @ es \<and>
     list_all (traffic_effect sv i env ?r1) es"
  proof (cases "isWebsocketConn (directed cf r)")
    case True
    then show ?thesis
      using handleWSConn_effects [of env ?r1 w i sv] by (simp add: spec routed rule)
  next
    case False
    obtain res sv1 where d: "dial (he_send env) (he_accept env) i proto_HTTP 0 sv = (res, sv1)" by fastforce
    then obtain es where es: "sv_effects sv1 = sv_effects sv @ es" "list_all (traffic_effect sv i env ?r1) es"
      using dial_effects [where p = proto_HTTP] by blast
    show ?thesis
    proof (cases res)
      case (Inl e)
      with False d es show ?thesis by (simp add: spec routed rule)
    next
      case (Inr stream)
      from d [unfolded Inr] have "client_stream sv i env stream" by (cases rule: dial_cases) (auto simp: client_stream_def)
      with False d es Inr show ?thesis by (simp add: spec routed rule exchange_effects)
    qed
  qed
  with assms(3) have "traffic_effect sv i env ?r1 e" by (auto simp: since_def list_all_iff)
  with routed(1) rule show thesis by (rule that)
qed

lemma PublicHandler_state:
  "snd (PublicHandler rt cf env r w sv) = snd (snd (handleHTTP rt cf env r w sv))"
  by (auto simp: PublicHandler_def split: prod.splits option.splits)

text \<open>
  C6: Whatever a public request makes the server do, it does it towards the client that owns the
  request's host and has a rule for its path: it asks that client for a session over
  that client's control connection, sends it the rewritten request on the stream that
  arrives, and copies the answer back.  No other client, session or connection is touched.
\<close>

theorem request_reaches_owner:
  assumes "runtime_ok rt" "server_inv sv"
    and "e \<in> set (since sv (snd (PublicHandler rt cf env r w sv)))"
  shows "\<exists>i rules q. routed sv (lookup_host rt cf r) = Some (i, rules) \<and>
    first_rule rt rules (rq_path (directed cf r)) = Some q \<and>
    traffic_effect sv i env (tunnelled_request rt q (directed cf r)) e"
  using assms by (auto simp: PublicHandler_state server_inv_def elim!: handleHTTP_effects)

text \<open>A request for \<open>alice\<close>'s host, with a port and capitals, and what the model makes of it.\<close>

definition ex_public :: http_request where
  "ex_public = ex_request ''GET'' ''/cb/1'' ''App.Example.com:80''"

lemma ex_public_simps [simp]:
  "directed ex_conf ex_public = ex_public" "rq_path ex_public = ''/cb/1''"
  "lookup_host ex_runtime ex_conf ex_public = ''app.example.com:80''"
  "\<not> isWebsocketConn ex_public"
proof -
  show "directed ex_conf ex_public = ex_public" by (simp add: directed_def ex_conf_def)
  show "rq_path ex_public = ''/cb/1''" by (simp add: ex_public_def ex_request_def)
  have "ToLower (\<lambda>s. s) ''App.Example.com:80'' = ''app.example.com:80''" by code_simp
  then show "lookup_host ex_runtime ex_conf ex_public = ''app.example.com:80''"
    by (simp add: lookup_host_def directed_def ex_conf_def ex_public_def ex_request_def ex_runtime_def)
  have "\<not> headerContains (Header_Index Map.empty ''Connection'') ''upgrade''" by code_simp
  then show "\<not> isWebsocketConn ex_public"
    by (simp add: isWebsocketConn_def ex_public_def ex_request_def)
qed

lemma ex_parse [simp]:
  "fst (parseHostPort ''app.example.com:80'') = ''app.example.com''"
  "fst (parseHostPort ''other.example.com'') = ''''"
  by (simp_all add: parseHostPort_def SplitHostPort_def split_tail_def ParseUint16_def digit_val_def
      in_range_def byte_of_def LastIndexByte_def errMissingPort_def)

lemma ex_routed [simp]:
  "routed (ex_server i) ''app.example.com:80'' = Some (i, ex_rules)"
  "first_rule ex_runtime ex_rules ''/cb/1'' = Some \<lparr>rr_re = ''/cb'', rr_replacement = ''/api/cb''\<rparr>"
  "first_rule ex_runtime ex_rules ''/x'' = None"
  by (simp_all add: routed_def vh_owner_def first_rule_def ex_runtime_def ex_rules_def HasPrefix_def)

lemma ex_tunnelled [simp]:
  "tunnelled_request ex_runtime \<lparr>rr_re = ''/cb'', rr_replacement = ''/api/cb''\<rparr> ex_public =
     ex_public\<lparr>rq_host := '''', rq_path := ''/api/cb/1''\<rparr>"
  by (simp add: tunnelled_request_def ex_runtime_def HasPrefix_def)

subsection \<open>What the visitor gets\<close>

lemma copyHeader_empty [simp]: "copyHeader Map.empty src = src"
  by (auto simp: copyHeader_def split: option.splits)

lemma server_inv_session:
  "server_inv sv \<Longrightarrow> server_getControl i sv = Some ct \<Longrightarrow> \<exists>s. sv_sessions sv i = Some s"
  by (auto simp: server_inv_def sessions_cover_def)

lemma server_inv_usable:
  assumes "server_inv sv" "server_getControl i sv = Some ct"
  shows "ct_enc (ck_heap (sv_controls sv) ct)" "\<not> ct_closed (ck_heap (sv_controls sv) ct)"
  using assms by (auto simp: server_inv_def server_getControl_def controls_inv_def)

lemma dial_opens:
  assumes "server_inv sv" "server_getControl i sv = Some ct" "client_stream sv i env st"
  shows "dial None (he_accept env) i p port sv = (Inr st, emit [SendControl ct (session_request p port)] sv)"
  using assms server_inv_usable [OF assms(1,2)]
  by (auto simp: client_stream_def dial_def getSession_def control_send_def session_request_def Let_def)

lemma public_dialled:
  assumes "runtime_ok rt" "server_inv sv"
    and "lookup_host rt cf r \<noteq> ''''" "routed sv (lookup_host rt cf r) = Some (i, rules)"
    and "first_rule rt rules (rq_path (directed cf r)) = Some q"
    and "\<not> isWebsocketConn (directed cf r)"
    and "server_getControl i sv = Some ct" "he_send env = None" "client_stream sv i env st"
  shows "handleHTTP rt cf env r w sv =
      exchange env st (tunnelled_request rt q (directed cf r)) w
        (emit [SendControl ct (session_request proto_HTTP 0)] sv)"
    "since sv (snd (PublicHandler rt cf env r w sv)) =
      [SendControl ct (session_request proto_HTTP 0),
       WriteRequest st (tunnelled_request rt q (directed cf r)), CloseStream st]"
proof -
  show "handleHTTP rt cf env r w sv =
      exchange env st (tunnelled_request rt q (directed cf r)) w
        (emit [SendControl ct (session_request proto_HTTP 0)] sv)"
    using assms dial_opens [OF assms(2,7,9)]
    by (subst handleHTTP_spec) (simp_all add: server_inv_def)
  then show "since sv (snd (PublicHandler rt cf env r w sv)) =
      [SendControl ct (session_request proto_HTTP 0),
       WriteRequest st (tunnelled_request rt q (directed cf r)), CloseStream st]"
    by (simp add: PublicHandler_state since_def exchange_effects)
qed

lemma public_exchange:
  assumes "runtime_ok rt" "server_inv sv"
    and "lookup_host rt cf r \<noteq> ''''" "routed sv (lookup_host rt cf r) = Some (i, rules)"
    and "first_rule rt rules (rq_path (directed cf r)) = Some q"
    and "\<not> isWebsocketConn (directed cf r)"
    and "server_getControl i sv = Some ct" "he_send env = None" "client_stream sv i env st"
    and "he_write env = None" "he_response env = Inr resp"
  shows "PublicHandler rt cf env r (fresh_writer hj) sv =
    (\<lparr>rw_hijackable = hj, rw_hijacked = False, rw_status = Some (rs_status resp),
      rw_header = rs_header resp,
      rw_body = (if copied_body env resp = '''' then [] else [Bytes (copied_body env resp)])\<rparr>,
     emit [SendControl ct (session_request proto_HTTP 0),
           WriteRequest st (tunnelled_request rt q (directed cf r)), CloseStream st] sv)"
  using assms public_dialled(1) [OF assms(1-9)]
  by (simp add: PublicHandler_def exchange_def fresh_writer_def WriteHeader_def Write_def Let_def)

lemma ex_stream [simp]: "client_stream (ex_server i) i env st \<longleftrightarrow> he_accept env 2 = Accepted st"
  by (simp add: client_stream_def)

text \<open>
  C7: A public request for a host whose client is connected, with a path that one of its rules
  matches, is answered with the status, the header and the body that the client sends back:
  the first matching rule rewrites the path, the client is asked for a stream, the stream
  that arrives on the client's session carries one request, and it is closed.  When copying the
  body breaks off after \<open>n\<close> bytes, these \<open>n\<close> bytes of it and nothing else have reached the visitor.
\<close>

theorem tunnelled_response:
  assumes "runtime_ok rt" "server_inv sv"
    and "lookup_host rt cf r \<noteq> ''''" "routed sv (lookup_host rt cf r) = Some (i, rules)"
    and "first_rule rt rules (rq_path (directed cf r)) = Some q"
    and "\<not> isWebsocketConn (directed cf r)"
    and "server_getControl i sv = Some ct" "he_send env = None" "client_stream sv i env st"
    and "he_write env = None" "he_response env = Inr resp"
    and "body = (case he_copy env of None \<Rightarrow> rs_body resp | Some n \<Rightarrow> take n (rs_body resp))"
  shows "PublicHandler rt cf env r (fresh_writer hj) sv =
    (\<lparr>rw_hijackable = hj, rw_hijacked = False, rw_status = Some (rs_status resp),
      rw_header = rs_header resp, rw_body = (if body = '''' then [] else [Bytes body])\<rparr>,
     emit [SendControl ct (session_request proto_HTTP 0),
           WriteRequest st (tunnelled_request rt q (directed cf r)), CloseStream st] sv)"
  unfolding assms(12) copied_body_def [symmetric] by (rule public_exchange [OF assms(1-11)])

theorem tunnelled_response_witness:
  "PublicHandler ex_runtime ex_conf ex_henv ex_public (fresh_writer True) (ex_server ''alice'') =
    (\<lparr>rw_hijackable = True, rw_hijacked = False, rw_status = Some 201, rw_header = Map.empty,
      rw_body = [Bytes ''ok'']\<rparr>,
     emit [SendControl 0 (session_request proto_HTTP 0),
           WriteRequest 9 (ex_public\<lparr>rq_host := '''', rq_path := ''/api/cb/1''\<rparr>), CloseStream 9]
       (ex_server ''alice''))"
  using tunnelled_response [of ex_runtime "ex_server ''alice''" ex_conf ex_public "''alice''" ex_rules
      "\<lparr>rr_re = ''/cb'', rr_replacement = ''/api/cb''\<rparr>" 0 ex_henv 9
      "\<lparr>rs_status = 201, rs_header = Map.empty, rs_body = ''ok''\<rparr>" "''ok''" True]
  by simp

text \<open>The same request reaches \<open>alice\<close>'s control connection.\<close>

lemma ex_since:
  "since (ex_server ''alice'') (snd (PublicHandler ex_runtime ex_conf ex_henv ex_public
     (fresh_writer True) (ex_server ''alice''))) =
   [SendControl 0 (session_request proto_HTTP 0),
    WriteRequest 9 (ex_public\<lparr>rq_host := '''', rq_path := ''/api/cb/1''\<rparr>), CloseStream 9]"
  using public_dialled(2) [of ex_runtime "ex_server ''alice''" ex_conf ex_public "''alice''" ex_rules
      "\<lparr>rr_re = ''/cb'', rr_replacement = ''/api/cb''\<rparr>" 0 ex_henv 9]
  by simp

theorem request_reaches_owner_witness:
  "\<exists>i rules q. routed (ex_server ''alice'') ''app.example.com:80'' = Some (i, rules) \<and>
    first_rule ex_runtime rules ''/cb/1'' = Some q \<and>
    traffic_effect (ex_server ''alice'') i ex_henv (tunnelled_request ex_runtime q ex_public)
      (SendControl 0 (session_request proto_HTTP 0))"
  using request_reaches_owner [of ex_runtime "ex_server ''alice''" _ ex_conf ex_henv ex_public "fresh_writer True",
      unfolded ex_since]
  by simp

subsection \<open>Errors of public requests\<close>

definition error_page :: "bool \<Rightarrow> body_part list \<Rightarrow> nat \<Rightarrow> response_writer" where
  "error_page hj parts code = (fresh_writer hj)\<lparr>rw_status := Some code, rw_body := parts\<rparr>"

lemma http_Error_page:
  "http_Error msg code (fresh_writer hj) = error_page hj [msg] code"
  "http_Error msg code (error_page hj parts code') = error_page hj (parts @ [msg]) code'"
  by (simp_all add: error_page_def http_Error_def Write_def WriteHeader_def fresh_writer_def)

lemma dial_no_control: "server_getControl i sv = None \<Longrightarrow> dial sent acc i p port sv = (Inl ErrNoClientSession, sv)"
  by (simp add: dial_def)

text \<open>
  C22: A public request that cannot be forwarded leaves the server as it was, contacts nobody, and
  is answered with an error: 502 for an empty host, an unknown host or a client that is not
  connected, and 403 when no rule of the client matches the path.  In the last case
  the body carries two messages, since the error is reported a second time.
\<close>

theorem public_refusals:
  assumes "runtime_ok rt" "server_inv sv"
  shows
    "(lookup_host rt cf r = '''' \<longrightarrow>
        PublicHandler rt cf env r (fresh_writer hj) sv = (error_page hj [ErrText ErrHostEmpty] 502, sv)) \<and>
     (lookup_host rt cf r \<noteq> '''' \<and> routed sv (lookup_host rt cf r) = None \<longrightarrow>
        PublicHandler rt cf env r (fresh_writer hj) sv =
          (error_page hj [ErrText (ErrNoVirtualHost (lookup_host rt cf r))] 502, sv)) \<and>
     (\<forall>i rules. lookup_host rt cf r \<noteq> '''' \<and> routed sv (lookup_host rt cf r) = Some (i, rules) \<longrightarrow>
        (first_rule rt rules (rq_path (directed cf r)) = None \<longrightarrow>
           PublicHandler rt cf env r (fresh_writer hj) sv =
             (error_page hj [Text ''403 Forbidden'', ErrText ErrNoRewriteRule] 403, sv)) \<and>
        (first_rule rt rules (rq_path (directed cf r)) \<noteq> None \<and> \<not> isWebsocketConn (directed cf r) \<and>
         server_getControl i sv = None \<longrightarrow>
           PublicHandler rt cf env r (fresh_writer hj) sv =
             (error_page hj [ErrText ErrNoClientSession] 502, sv)))"
proof -
  have inv: "vhosts_inv (sv_vhosts sv)" using assms(2) by (simp add: server_inv_def)
  show ?thesis
    using handleHTTP_spec [OF assms(1) inv, of cf env r "fresh_writer hj"]
    by (auto simp: PublicHandler_def http_Error_page dial_no_control Let_def simp del: http_Error_fresh
        split: option.splits)
qed

theorem public_refusals_witness:
  "PublicHandler ex_runtime ex_conf ex_henv (ex_public\<lparr>rq_path := ''/x''\<rparr>) (fresh_writer True)
     (ex_server ''alice'') =
   (error_page True [Text ''403 Forbidden'', ErrText ErrNoRewriteRule] 403, ex_server ''alice'')"
proof -
  have "directed ex_conf (ex_public\<lparr>rq_path := ''/x''\<rparr>) = ex_public\<lparr>rq_path := ''/x''\<rparr>"
    by (simp add: directed_def ex_conf_def)
  moreover have "lookup_host ex_runtime ex_conf (ex_public\<lparr>rq_path := ''/x''\<rparr>) = ''app.example.com:80''"
    using ex_public_simps(3) by (simp add: lookup_host_def directed_def ex_conf_def)
  ultimately show ?thesis
    using public_refusals [of ex_runtime "ex_server ''alice''" ex_conf "ex_public\<lparr>rq_path := ''/x''\<rparr>" ex_henv True]
    by simp
qed

text \<open>
  C23: When the control connection does not take the message, the request fails with 502, the
  connection is closed and forgotten, and nothing else changes: the client keeps its host and
  its session, so the next connect of the client can take over.
\<close>

theorem broken_control_dropped:
  assumes "runtime_ok rt" "server_inv sv"
    and "lookup_host rt cf r \<noteq> ''''" "routed sv (lookup_host rt cf r) = Some (i, rules)"
    and "first_rule rt rules (rq_path (directed cf r)) = Some q"
    and "\<not> isWebsocketConn (directed cf r)"
    and "server_getControl i sv = Some ct" "he_send env = Some e"
    and "PublicHandler rt cf env r (fresh_writer hj) sv = (w', sv')"
  shows "w' = error_page hj [ErrText ErrNoClientSession] 502 \<and>
    server_getControl i sv' = None \<and> ct_closed (ck_heap (sv_controls sv') ct) \<and>
    (\<forall>j. j \<noteq> i \<longrightarrow> server_getControl j sv' = server_getControl j sv) \<and>
    sv_vhosts sv' = sv_vhosts sv \<and> sv_sessions sv' = sv_sessions sv"
proof -
  obtain s where s: "sv_sessions sv i = Some s" using server_inv_session [OF assms(2,7)] by blast
  have inv: "controls_inv (sv_controls sv)" using assms(2) by (simp add: server_inv_def)
  have "dial (Some e) (he_accept env) i proto_HTTP 0 sv =
      (Inl ErrNoClientSession,
       server_deleteControl i (close_ct ct (emit [SendControl ct (session_request proto_HTTP 0)] sv)))"
    using assms(7) server_inv_usable [OF assms(2,7)] s
    by (simp add: dial_def getSession_def control_send_def session_request_def)
  then have "(w', sv') = (error_page hj [ErrText ErrNoClientSession] 502,
       server_deleteControl i (close_ct ct (emit [SendControl ct (session_request proto_HTTP 0)] sv)))"
    using assms handleHTTP_spec [OF assms(1), of sv cf env r "fresh_writer hj"]
    by (simp add: PublicHandler_def http_Error_page server_inv_def del: http_Error_fresh)
  moreover have "ct_closed (ck_heap (fst (close_control ct (sv_controls sv))) ct)"
    using controls_invD(4) [OF inv] assms(7)
    by (fastforce simp: server_getControl_def close_control_def control_Close_def split: option.splits)
  ultimately show ?thesis
    by (simp add: server_getControl_def ctl.entry_remove)
qed

theorem broken_control_dropped_witness:
  "server_getControl ''alice'' (snd (PublicHandler ex_runtime ex_conf
     (ex_henv\<lparr>he_send := Some (ErrExternal ''broken pipe'')\<rparr>) ex_public (fresh_writer True) (ex_server ''alice'')))
   = None"
  using broken_control_dropped [of ex_runtime "ex_server ''alice''" ex_conf ex_public "''alice''" ex_rules
      "\<lparr>rr_re = ''/cb'', rr_replacement = ''/api/cb''\<rparr>" 0
      "ex_henv\<lparr>he_send := Some (ErrExternal ''broken pipe'')\<rparr>" "ErrExternal ''broken pipe''" True,
      OF _ _ _ _ _ _ _ _ prod.collapse [symmetric]]
  by simp

subsection \<open>Streams and hijacked connections\<close>

lemma handleWSConn_settles:
  assumes "dial (he_send env) (he_accept env) i proto_WS 0 sv = (Inr st, emit [SendControl ct m] sv)"
    and "rw_hijackable w" "he_hijack env = Inr conn"
  shows "\<exists>es. since sv (snd (snd (handleWSConn env r w i 0 sv))) = SendControl ct m # WriteRequest st r # es \<and>
    (CloseStream st \<in> set es \<longleftrightarrow> JoinStreams conn st \<notin> set es)"
  using assms by (auto simp: handleWSConn_def Let_def fail_stream_def since_def split: sum.splits option.splits)

lemma dial_times_out:
  assumes "server_inv sv" "server_getControl i sv = Some ct" "sv_sessions sv i = Some s"
    "he_accept env s = AcceptTimeout"
  shows "dial None (he_accept env) i p port sv = (Inl ErrTimeoutSession, emit [SendControl ct (session_request p port)] sv)"
  using assms server_inv_usable [OF assms(1,2)]
  by (auto simp: dial_def getSession_def control_send_def session_request_def Let_def)

text \<open>
  C24: A stream that arrives in time is not forgotten.  When a public request has asked its client for a
  stream and \<open>Accept\<close> gives one, the request is written to that stream and by the end of the
  handler the stream is closed, or (for a websocket whose handshake succeeded) joined to the
  visitor's connection, and not both.  When the wait times out nothing is closed or joined at
  all: a stream that arrives after that is left to itself.
\<close>

theorem streams_settled:
  assumes "runtime_ok rt" "server_inv sv"
    and "lookup_host rt cf r \<noteq> ''''" "routed sv (lookup_host rt cf r) = Some (i, rules)"
    and "first_rule rt rules (rq_path (directed cf r)) = Some q"
    and "server_getControl i sv = Some ct" "sv_sessions sv i = Some s" "he_send env = None"
    and "rw_hijackable w" "he_hijack env = Inr conn"
    and "p = (if isWebsocketConn (directed cf r) then proto_WS else proto_HTTP)"
    and "es = since sv (snd (PublicHandler rt cf env r w sv))"
  shows "(\<forall>st. he_accept env s = Accepted st \<longrightarrow>
       WriteRequest st (tunnelled_request rt q (directed cf r)) \<in> set es \<and>
       (CloseStream st \<in> set es \<longleftrightarrow> JoinStreams conn st \<notin> set es)) \<and>
    (he_accept env s = AcceptTimeout \<longrightarrow> es = [SendControl ct (session_request p 0)])"
proof -
  let ?r1 = "tunnelled_request rt q (directed cf r)"
  have h: "snd (PublicHandler rt cf env r w sv) = snd (snd
      (if isWebsocketConn (directed cf r) then handleWSConn env ?r1 w i 0 sv
       else (case dial (he_send env) (he_accept env) i proto_HTTP 0 sv of
         (Inl err, sv1) \<Rightarrow> (Some err, w, sv1)
       | (Inr stream, sv1) \<Rightarrow> exchange env stream ?r1 w sv1)))"
    using assms(2-5) by (simp add: PublicHandler_state handleHTTP_spec [OF assms(1)] server_inv_def Let_def)
  have "WriteRequest st ?r1 \<in> set es \<and> (CloseStream st \<in> set es \<longleftrightarrow> JoinStreams conn st \<notin> set es)"
    if "he_accept env s = Accepted st" for st
  proof -
    have d: "dial (he_send env) (he_accept env) i p 0 sv = (Inr st, emit [SendControl ct (session_request p 0)] sv)" for p
      using dial_opens [OF assms(2,6), of env st] assms(7,8) that by (simp add: client_stream_def)
    show ?thesis
    proof (cases "isWebsocketConn (directed cf r)")
      case True
      then show ?thesis
        using handleWSConn_settles [OF d assms(9,10), of ?r1] unfolding assms(12) h by auto
    next
      case False
      then show ?thesis unfolding assms(12) h by (simp add: d since_def exchange_effects)
    qed
  qed
  moreover have "es = [SendControl ct (session_request p 0)]" if "he_accept env s = AcceptTimeout"
    using dial_times_out [OF assms(2,6,7) that] assms(8-11) unfolding assms(12) h
    by (simp add: handleWSConn_def)
  ultimately show ?thesis by blast
qed

theorem streams_settled_witness:
  "CloseStream 9 \<in> set (since (ex_server ''alice'') (snd (PublicHandler ex_runtime ex_conf ex_henv ex_public
     (fresh_writer True) (ex_server ''alice'')))) \<longleftrightarrow>
   JoinStreams 8 9 \<notin> set (since (ex_server ''alice'') (snd (PublicHandler ex_runtime ex_conf ex_henv
     ex_public (fresh_writer True) (ex_server ''alice''))))"
proof -
  have env: "he_send ex_henv = None" "he_hijack ex_henv = Inr 8" "he_accept ex_henv 2 = Accepted 9"
    by simp_all
  show ?thesis
    using streams_settled [OF ex_runtime_ok ex_server_inv _ _ _ _ _ env(1) _ env(2) refl refl,
      where cf = ex_conf and r = ex_public and i = "''alice''" and rules = ex_rules and ct = 0 and s = 2 and
        w = "fresh_writer True" and q = "\<lparr>rr_re = ''/cb'', rr_replacement = ''/api/cb''\<rparr>"] env(3)
    by simp
qed

lemma isWebsocketConn_tunnelled [simp]: "isWebsocketConn (tunnelled_request rt q r) = isWebsocketConn r"
  by (simp add: isWebsocketConn_def tunnelled_request_def)

text \<open>
  C25: A websocket request whose upgrade the client answers is switched over to raw bytes: the
  connection is hijacked, the upgrade request with the rewritten path goes out on a
  stream of its own, the answer and any frames that came right behind it are written
  back, in that order, and the two connections are joined.
\<close>

theorem tunnelled_websocket:
  assumes "runtime_ok rt" "server_inv sv"
    and "lookup_host rt cf r \<noteq> ''''" "routed sv (lookup_host rt cf r) = Some (i, rules)"
    and "first_rule rt rules (rq_path (directed cf r)) = Some q"
    and "isWebsocketConn (directed cf r)"
    and "server_getControl i sv = Some ct" "he_send env = None" "client_stream sv i env st"
    and "he_hijack env = Inr conn" "he_write env = None" "he_response env = Inr resp"
    and "he_upgrade env = None" "he_forward env = None"
  shows "PublicHandler rt cf env r (fresh_writer True) sv =
    ((fresh_writer True)\<lparr>rw_hijacked := True\<rparr>,
     emit ([SendControl ct (session_request proto_WS 0),
            WriteRequest st (tunnelled_request rt q (directed cf r)), WriteResponseTo conn resp] @
           (if he_buffered env = '''' then [] else [ForwardFrames conn (he_buffered env)]) @
           [JoinStreams conn st]) sv)"
  using assms handleHTTP_spec [OF assms(1), of sv cf env r "fresh_writer True"] dial_opens [OF assms(2,7,9)]
  by (simp add: PublicHandler_def handleWSConn_def server_inv_def fresh_writer_def)

definition ex_ws :: http_request where
  "ex_ws = ex_public\<lparr>rq_header := [''Connection'' \<mapsto> [''keep-alive, Upgrade''], ''Upgrade'' \<mapsto> [''websocket'']]\<rparr>"

lemma ex_ws_simps [simp]:
  "directed ex_conf ex_ws = ex_ws" "rq_path ex_ws = ''/cb/1''"
  "lookup_host ex_runtime ex_conf ex_ws = ''app.example.com:80''" "isWebsocketConn ex_ws"
proof -
  show "directed ex_conf ex_ws = ex_ws" by (simp add: directed_def ex_conf_def)
  show "rq_path ex_ws = ''/cb/1''" by (simp add: ex_ws_def)
  show "lookup_host ex_runtime ex_conf ex_ws = ''app.example.com:80''"
    using ex_public_simps(3) by (simp add: lookup_host_def directed_def ex_conf_def ex_ws_def)
  have "headerContains [''keep-alive, Upgrade''] ''upgrade''" "headerContains [''websocket''] ''websocket''"
    by code_simp+
  then show "isWebsocketConn ex_ws"
    by (simp add: isWebsocketConn_def ex_ws_def ex_public_def ex_request_def Header_Index_def)
qed

theorem tunnelled_websocket_witness:
  "fst (PublicHandler ex_runtime ex_conf (ex_henv\<lparr>he_buffered := ''hello''\<rparr>) ex_ws (fresh_writer True)
     (ex_server ''alice'')) = (fresh_writer True)\<lparr>rw_hijacked := True\<rparr>"
  using tunnelled_websocket [of ex_runtime "ex_server ''alice''" ex_conf ex_ws "''alice''" ex_rules
      "\<lparr>rr_re = ''/cb'', rr_replacement = ''/api/cb''\<rparr>" 0 "ex_henv\<lparr>he_buffered := ''hello''\<rparr>" 9 8]
  by simp

text \<open>
  When such an upgrade fails after the hijack, because the client is gone or does not answer,
  no HTTP error can be sent any more, and the hijacked connection is neither joined to
  anything nor closed: it is leaked.  If the failure comes before the client's answer, the
  visitor does not get a single byte.
\<close>

theorem failed_upgrade_leaks:
  assumes "handleWSConn env r w i port sv = (Some e, w', sv')"
    and "rw_hijackable w" "he_hijack env = Inr conn" "rw_status w = None"
  shows "rw_hijacked w' \<and> rw_status (http_Error (ErrText e) 502 w') = None \<and>
    CloseConn conn \<notin> set (since sv sv') \<and> (\<forall>st. JoinStreams conn st \<notin> set (since sv sv')) \<and>
    (he_upgrade env = None \<and> he_forward env = None \<longrightarrow>
       (\<forall>resp. WriteResponseTo conn resp \<notin> set (since sv sv')))"
proof -
  obtain res sv1 where d: "dial (he_send env) (he_accept env) i proto_WS port sv = (res, sv1)" by fastforce
  then obtain es where es: "sv_effects sv1 = sv_effects sv @ es"
    "\<forall>x \<in> set es. (\<exists>ct m. x = SendControl ct m) \<or> (\<exists>s. x = CloseStream s)"
  proof (cases rule: dial_cases)
    case (broken ct es)
    then show thesis
      using that [of "es @ (case ct_nc (ck_heap (sv_controls sv) ct) of None \<Rightarrow> [] | Some s \<Rightarrow> [CloseStream s])"]
      by (auto simp: close_ct_effects split: option.splits)
  qed (use that in auto)
  from es(2) have none: "CloseConn conn \<notin> set es" "\<forall>c. JoinStreams conn c \<notin> set es"
    "\<forall>resp. WriteResponseTo conn resp \<notin> set es" by fastforce+
  show ?thesis
    using assms d es(1) none
    by (auto simp: handleWSConn_def Let_def fail_stream_def since_def split: sum.splits option.splits if_splits)
qed

text \<open>\<open>alice\<close> does not open a stream within the timeout.\<close>

theorem failed_upgrade_leaks_witness:
  "CloseConn 8 \<notin> set (since (ex_server ''alice'') (snd (snd (handleWSConn (ex_henv\<lparr>he_accept := (\<lambda>_. AcceptTimeout)\<rparr>)
     ex_ws (fresh_writer True) ''alice'' 0 (ex_server ''alice'')))))"
proof -
  let ?sv = "ex_server ''alice''" and ?env = "ex_henv\<lparr>he_accept := (\<lambda>_. AcceptTimeout)\<rparr>"
  have "dial None (\<lambda>_. AcceptTimeout) ''alice'' proto_WS 0 ?sv =
      (Inl ErrTimeoutSession, emit [SendControl 0 (session_request proto_WS 0)] ?sv)"
    by (simp add: dial_def getSession_def control_send_def session_request_def)
  then have h: "handleWSConn ?env ex_ws (fresh_writer True) ''alice'' 0 ?sv =
      (Some ErrTimeoutSession, (fresh_writer True)\<lparr>rw_hijacked := True\<rparr>,
       emit [SendControl 0 (session_request proto_WS 0)] ?sv)"
    by (simp add: handleWSConn_def)
  show ?thesis
    unfolding h using failed_upgrade_leaks [OF h, of 8] by (simp add: fresh_writer_def)
qed

end
