(* ===== verification/Server_Life.thy ===== *)
theory Server_Life
  imports Server_Traffic
begin

section \<open>Properties of the server: connecting and disconnecting\<close>

text \<open>
  What becomes of a connect request on each of its paths, what a listener cleans up, and what
  the embedding program is told.
\<close>

subsection \<open>Rejections\<close>

text \<open>
  C16: A connect request is rejected by the first check that it fails, in the order method (405),
  identifier (403), signature (403), body (400), host name (400), rewrite rules (400), host
  taken by another client (409); a rejected request changes nothing.
\<close>

theorem connect_rejections:
  assumes "runtime_ok rt" "server_inv sv"
    and "i = Header_Get (rq_header r) ClientIdentifierHeader"
    and "valid = (Header_Get (rq_header r) ClientIdentifierSignature = signIdentifier i (sf_signature_key cf))"
    and "answer = checkConnect rt cf env r (fresh_writer hj) sv"
  shows
    "(rq_method r \<noteq> sf_control_method cf \<longrightarrow>
        answer = (error_page hj [Text (''405 must '' @ sf_control_method cf @ [CHR 0x0A])] 405, sv)) \<and>
     (rq_method r = sf_control_method cf \<longrightarrow>
       (\<not> checkIdentifier cf i \<longrightarrow> answer = (error_page hj [Text ''403 Forbidden''] 403, sv)) \<and>
       (checkIdentifier cf i \<longrightarrow>
         (\<not> valid \<longrightarrow> answer = (error_page hj [Text (''403 invalid signature'' @ [CHR 0x0A])] 403, sv)) \<and>
         (valid \<longrightarrow>
           (rt_decode rt (rq_body r) = None \<longrightarrow>
              answer = (error_page hj [Text (''400 invalid connection config'' @ [CHR 0x0A])] 400, sv)) \<and>
           (\<forall>t. rt_decode rt (rq_body r) = Some t \<longrightarrow>
             (\<not> checkHost rt cf (hc_domain (cc_http t)) \<longrightarrow>
                answer = (error_page hj [Text (''400 invalid host name'' @ [CHR 0x0A])] 400, sv)) \<and>
             (checkHost rt cf (hc_domain (cc_http t)) \<longrightarrow>
               (\<forall>e. convertHTTPPathRules rt t = Inl e \<longrightarrow>
                  answer = (error_page hj [Text (''400 invalid rewrite rule'' @ [CHR 0x0A])] 400, sv)) \<and>
               (\<forall>rules j. convertHTTPPathRules rt t = Inr rules \<and>
                    host_owner sv (hc_domain (cc_http t)) = Some j \<and> j \<noteq> i \<longrightarrow>
                  answer = (error_page hj [Text (''409 host already in use'' @ [CHR 0x0A])] 409, sv)))))))"
proof -
  have taken: "\<forall>rules. server_AddHost rt d i rules sv = (Some (ErrHostInUse d), sv)"
    if "host_owner sv d = Some j" "j \<noteq> i" for d j
    using that by (auto simp: host_owner_def server_AddHost_def vh.add_refused)
  show ?thesis
    unfolding assms(4,5) checkConnect_unfold Let_def assms(3) [symmetric]
    by (auto simp: sig.check_iff http_Error_page simp del: http_Error_fresh dest!: taken)
qed

theorem connect_rejections_witness:
  "checkConnect ex_runtime ex_conf ex_cenv (ex_connect ''bob'' ''a'') (fresh_writer True) (ex_server ''alice'') =
     (error_page True [Text (''409 host already in use'' @ [CHR 0x0A])] 409, ex_server ''alice'')"
  using connect_rejections [of ex_runtime "ex_server ''alice''" "''bob''" "ex_connect ''bob'' ''a''" True ex_conf _
      ex_cenv True] by simp

text \<open>What is written to hijacked connections.\<close>

definition conn_writes :: "effect list \<Rightarrow> effect list" where
  "conn_writes es = filter (\<lambda>e. \<exists>c bs. e = WriteConn c bs) es"

lemma conn_writes_simps [simp]:
  "conn_writes [] = []" "conn_writes (WriteConn c bs # es) = WriteConn c bs # conn_writes es"
  "(\<And>c bs. e \<noteq> WriteConn c bs) \<Longrightarrow> conn_writes (e # es) = conn_writes es"
  "conn_writes (es @ fs) = conn_writes es @ conn_writes fs" "conn_writes (map RunCallback cs) = []"
  by (auto simp: conn_writes_def filter_empty_conv)

lemma handshake_writes:
  "\<exists>es. sv_effects (snd (handshake rt env i conn sv)) = sv_effects sv @ es \<and> conn_writes es = []"
  by (auto simp: handshake_def Let_def abort_connect_def deleteSession_effects alloc_control_def
      split: accept_outcome.splits sum.splits option.splits)

lemma connect_open_writes:
  assumes "connect_open rt cf env r w sv = (res, w1, sv1)"
  shows "w1 = w \<and> (\<exists>es. sv_effects sv1 = sv_effects sv @ es \<and> conn_writes es = []) \<and>
      (\<exists>e. res = Inl e \<and> \<not> is_after_hijack e) \<or>
    (\<exists>conn. ce_hijack env = Inr conn \<and> w1 = w\<lparr>rw_hijacked := True\<rparr> \<and>
       sv_effects sv1 = sv_effects sv @ [WriteConn conn connected_line] \<and>
       (\<forall>e. res = Inl e \<longrightarrow> is_after_hijack e))"
  using assms
  by (auto simp: connect_open_def Let_def deleteSession_effects close_ct_effects
      split: if_splits option.splits sum.splits)

lemma controlHandler_writes:
  assumes "controlHandler rt cf env r w sv = (err, w1, sv1)"
  shows "w1 = w \<and> (\<exists>es. sv_effects sv1 = sv_effects sv @ es \<and> conn_writes es = []) \<and>
      (\<exists>e. err = Some e \<and> \<not> is_after_hijack e) \<or>
    (\<exists>conn. ce_hijack env = Inr conn \<and> w1 = w\<lparr>rw_hijacked := True\<rparr> \<and>
       (\<exists>es. sv_effects sv1 = sv_effects sv @ es \<and> conn_writes es = [WriteConn conn connected_line]) \<and>
       (\<forall>e. err = Some e \<longrightarrow> is_after_hijack e))"
proof -
  obtain res w2 sv2 where o: "connect_open rt cf env r w sv = (res, w2, sv2)" using prod_cases3 by blast
  show ?thesis
  proof (cases res)
    case (Inl e)
    then show ?thesis using assms o connect_open_writes [OF o] by (auto simp: controlHandler_def)
  next
    case (Inr conn)
    let ?h = "handshake rt env (Header_Get (rq_header r) ClientIdentifierHeader) conn sv2"
    obtain es where es: "sv_effects (snd ?h) = sv_effects sv2 @ es" "conn_writes es = []"
      using handshake_writes by blast
    have "\<forall>e. fst ?h = Some e \<longrightarrow> is_after_hijack e"
      by (auto simp: handshake_def Let_def alloc_control_def split: accept_outcome.splits sum.splits option.splits)
    then show ?thesis
      using assms o connect_open_writes [OF o] Inr es
      by (auto simp: controlHandler_def split: prod.splits)
  qed
qed

lemma onDisconnect_effects:
  "\<exists>cs. sv_effects (onDisconnect rt i e sv) = sv_effects sv @ map RunCallback cs"
proof -
  have "ran_effects called = map RunCallback (case called of None \<Rightarrow> [] | Some f \<Rightarrow> [f])" for called
    by (simp add: ran_effects_def split: option.splits)
  then show ?thesis by (auto simp: onDisconnect_def split: prod.splits)
qed

lemma connect_done_effects:
  assumes "connect_done rt i err w sv = (w', sv')"
  shows "\<exists>cs. sv_effects sv' = sv_effects sv @ map RunCallback cs"
proof -
  obtain cs where "\<forall>e. err = Some e \<longrightarrow> sv_effects (onDisconnect rt i (Some e) sv) = sv_effects sv @ map RunCallback cs"
    using onDisconnect_effects [of rt i err sv] by (cases err) auto
  moreover have "sv_effects sv = sv_effects sv @ map RunCallback []" by simp
  ultimately show ?thesis
    using assms by (auto simp: connect_done_def Let_def split: option.splits if_splits)
qed

text \<open>
  C17: Whatever the network does, the peer of a connect request gets exactly one answer: an HTTP error
  from the server's writer, and then nothing is written to a raw connection; or the status line of
  the control protocol, written once to the hijacked connection, and then the server's writer is not
  used any more, not even for the errors that come after it.
\<close>

theorem connect_answered_once:
  assumes "checkConnect rt cf env r (fresh_writer hj) sv = (w', sv')"
  shows "(\<not> rw_hijacked w' \<and> (\<exists>msg code. w' = error_page hj [msg] code \<and> code \<in> {400, 403, 405, 409, 502}) \<and>
       conn_writes (since sv sv') = []) \<or>
    (rw_hijacked w' \<and> rw_status w' = None \<and> rw_body w' = [] \<and>
       (\<exists>conn. ce_hijack env = Inr conn \<and> conn_writes (since sv sv') = [WriteConn conn connected_line]))"
proof -
  have fresh: "\<not> rw_hijacked (error_page hj [msg] code)" "rw_status (fresh_writer hj) = None"
    "rw_body (fresh_writer hj) = []" for msg code
    by (simp_all add: error_page_def fresh_writer_def)
  from assms refl show ?thesis
  proof (cases rule: checkConnect_cases)
    case (claimed t rules sv1 err w1 sv2)
    let ?i = "Header_Get (rq_header r) ClientIdentifierHeader"
    have "sv1 = snd (server_AddHost rt (hc_domain (cc_http t)) ?i rules sv)" using claimed(7) by simp
    then have sv1: "sv_effects sv1 = sv_effects sv" by simp
    have "connect_done rt ?i err w1 sv2 = (w', sv')"
      using claimed(9,10) by (auto simp: connect_done_def split: option.splits)
    then obtain cs where cs: "sv_effects sv' = sv_effects sv2 @ map RunCallback cs"
      using connect_done_effects by blast
    have since: "conn_writes (since sv sv') = conn_writes es"
      if "sv_effects sv2 = sv_effects sv1 @ es" for es
      using since_append [of sv' sv "es @ map RunCallback cs"] that cs sv1 by simp
    from controlHandler_writes [OF claimed(8)] show ?thesis
    proof (elim disjE exE conjE)
      fix e es assume "w1 = fresh_writer hj" "err = Some e" "\<not> is_after_hijack e"
        "sv_effects sv2 = sv_effects sv1 @ es" "conn_writes es = []"
      with since have "w' = error_page hj [ErrText e] 502" "conn_writes (since sv sv') = []"
        using claimed(9) by (simp_all add: http_Error_page del: http_Error_fresh)
      with fresh show ?thesis by blast
    next
      fix conn es assume "ce_hijack env = Inr conn" "w1 = fresh_writer hj\<lparr>rw_hijacked := True\<rparr>"
        "sv_effects sv2 = sv_effects sv1 @ es" "conn_writes es = [WriteConn conn connected_line]"
        "\<forall>e. err = Some e \<longrightarrow> is_after_hijack e"
      with since fresh show ?thesis using claimed(9) by (auto split: option.splits)
    qed
  next
    case (rejected msg code)
    with fresh show ?thesis by (auto simp: http_Error_page simp del: http_Error_fresh)
  qed
qed

text \<open>A client that does not complete its hello has been told that it is connected, and nothing after that.\<close>

theorem connect_answered_once_witness:
  "\<exists>w' sv'. checkConnect ex_runtime ex_conf (ex_cenv\<lparr>ce_accept := AcceptTimeout\<rparr>) (ex_connect ''alice'' ''a'')
       (fresh_writer True) (initial_server None) = (w', sv') \<and>
     rw_hijacked w' \<and> rw_status w' = None \<and> conn_writes (since (initial_server None) sv') = [WriteConn 1 connected_line]"
proof -
  obtain w' sv' where c: "checkConnect ex_runtime ex_conf (ex_cenv\<lparr>ce_accept := AcceptTimeout\<rparr>)
      (ex_connect ''alice'' ''a'') (fresh_writer True) (initial_server None) = (w', sv')" by fastforce
  then have "rw_hijacked w'"
    by (auto simp: checkConnect_unfold Let_def sig.check_iff server_AddHost_def AddHost_def GetIdentifier_def
        controlHandler_unfold getHost_def server_getControl_def getControl_def initial_server_def newControls_def
        newVirtualHosts_def emit_def addSession_def handshake_def)
  with connect_answered_once [OF c] c show ?thesis by auto
qed

subsection \<open>Connecting\<close>

text \<open>A connect request of \<open>i\<close> that passes every check and so claims host \<open>d\<close> with \<open>rules\<close>.\<close>

definition claims :: "'re runtime \<Rightarrow> 're server_conf \<Rightarrow> http_request \<Rightarrow> 're server \<Rightarrow>
    string \<Rightarrow> string \<Rightarrow> 're rewrite_rule list \<Rightarrow> bool" where
  "claims rt cf r sv i d rules \<longleftrightarrow>
     rq_method r = sf_control_method cf \<and> Header_Get (rq_header r) ClientIdentifierHeader = i \<and>
     checkIdentifier cf i \<and>
     Header_Get (rq_header r) ClientIdentifierSignature = signIdentifier i (sf_signature_key cf) \<and>
     (\<exists>t. rt_decode rt (rq_body r) = Some t \<and> hc_domain (cc_http t) = d \<and>
        convertHTTPPathRules rt t = Inr rules) \<and>
     checkHost rt cf d \<and> (host_owner sv d = None \<or> host_owner sv d = Some i)"

lemma claims_granted:
  assumes "runtime_ok rt" "server_inv sv" "claims rt cf r sv i d rules"
  shows "server_AddHost rt d i rules sv = (None, snd (server_AddHost rt d i rules sv))"
proof -
  have "fst (server_AddHost rt d i rules sv) = None"
    using assms server_AddHost_granted_iff [of rt sv d i rules] by (auto simp: claims_def server_inv_def)
  then show ?thesis by (metis prod.collapse)
qed

lemma checkConnect_claims:
  assumes "runtime_ok rt" "server_inv sv" "claims rt cf r sv i d rules"
  shows "checkConnect rt cf env r w sv =
    (case controlHandler rt cf env r w (snd (server_AddHost rt d i rules sv)) of
       (None, w1, sv2) \<Rightarrow> (w1, sv2)
     | (Some err, w1, sv2) \<Rightarrow>
         (if is_after_hijack err then w1 else http_Error (ErrText err) 502 w1,
          if i \<noteq> '''' then onDisconnect rt i (Some err) sv2 else sv2))"
  using assms(3) claims_granted [OF assms]
  by (auto simp: checkConnect_unfold claims_def sig.check_iff Let_def split: prod.splits option.splits)

lemma claims_vhosts:
  assumes "runtime_ok rt" "server_inv sv" "claims rt cf r sv i d rules"
  shows "vhosts_inv (sv_vhosts (snd (server_AddHost rt d i rules sv)))"
    and "vh_owner (sv_vhosts (snd (server_AddHost rt d i rules sv))) =
      (\<lambda>h. if h = d then Some (i, rules)
           else if host_owner sv h = Some i then None else vh_owner (sv_vhosts sv) h)"
    and "host_owner (snd (server_AddHost rt d i rules sv)) h =
      (if h = d then Some i else if host_owner sv h = Some i then None else host_owner sv h)"
proof -
  have inv: "vhosts_inv (sv_vhosts sv)" using assms(2) by (simp add: server_inv_def)
  show "vhosts_inv (sv_vhosts (snd (server_AddHost rt d i rules sv)))"
    using assms(1) inv by (rule vhosts_inv_AddHost)
  have "\<forall>j rw. vh_owner (sv_vhosts sv) d = Some (j, rw) \<longrightarrow> j = i"
    using assms(3) by (auto simp: claims_def host_owner_def)
  with vh.add_granted [OF inv runtime_range [OF assms(1)] this]
  show vh: "vh_owner (sv_vhosts (snd (server_AddHost rt d i rules sv))) =
      (\<lambda>h. if h = d then Some (i, rules)
           else if host_owner sv h = Some i then None else vh_owner (sv_vhosts sv) h)"
    by (auto simp: host_owner_def server_AddHost_vhosts fun_eq_iff split: option.splits)
  show "host_owner (snd (server_AddHost rt d i rules sv)) h =
      (if h = d then Some i else if host_owner sv h = Some i then None else host_owner sv h)"
    unfolding host_owner_def vh by simp
qed

text \<open>The network does its part: the connection is hijacked, and the client completes the handshake.\<close>

definition handshake_ok :: "connect_env \<Rightarrow> nat \<Rightarrow> nat \<Rightarrow> nat \<Rightarrow> bool" where
  "handshake_ok env conn s st \<longleftrightarrow>
     ce_hijack env = Inr conn \<and> ce_write env = None \<and> ce_deadline env = None \<and>
     ce_session env = Inr s \<and> ce_accept env = Accepted st \<and>
     (\<exists>arrived. ce_read env = Inr arrived \<and> read_into (length HandshakeRequest) arrived = HandshakeRequest) \<and>
     ce_reply env = None"

lemma claims_controlHandler:
  assumes "runtime_ok rt" "server_inv sv" "claims rt cf r sv i d rules"
  shows "snd (getHost rt i (snd (server_AddHost rt d i rules sv)))"
    "checkIdentifierSignature i (sf_signature_key cf) (Header_Get (rq_header r) ClientIdentifierSignature)"
    "Header_Get (rq_header r) ClientIdentifierHeader = i"
  using claims_vhosts(3) [OF assms, of d] assms(1,3)
  by (auto simp: getHost_iff claims_vhosts(1) [OF assms] claims_def sig.check_iff)

lemma connect_established:
  assumes "runtime_ok rt" "server_inv sv" "claims rt cf r sv i d rules"
    and "server_getControl i sv = None" "handshake_ok env conn s st"
    and "checkConnect rt cf env r (fresh_writer True) sv = (w', sv')"
  shows "w' = (fresh_writer True)\<lparr>rw_hijacked := True\<rparr> \<and>
    since sv sv' = [WriteConn conn connected_line, ReplyHandshake st HandshakeResponse,
                    SpawnListen (ck_next (sv_controls sv))] \<and>
    (\<forall>j. server_getControl j sv' = (if j = i then Some (ck_next (sv_controls sv)) else server_getControl j sv)) \<and>
    ct_nc (ck_heap (sv_controls sv') (ck_next (sv_controls sv))) = Some st \<and>
    sv_sessions sv' = (sv_sessions sv)(i \<mapsto> s) \<and>
    (\<forall>h. vh_owner (sv_vhosts sv') h =
       (if h = d then Some (i, rules)
        else if host_owner sv h = Some i then None else vh_owner (sv_vhosts sv) h))"
proof -
  let ?sv1 = "snd (server_AddHost rt d i rules sv)"
  obtain arrived where env: "ce_hijack env = Inr conn" "ce_write env = None" "ce_deadline env = None"
    "ce_session env = Inr s" "ce_accept env = Accepted st" "ce_read env = Inr arrived"
    "read_into (length HandshakeRequest) arrived = HandshakeRequest" "ce_reply env = None"
    using assms(5) by (auto simp: handshake_ok_def)
  have "controlHandler rt cf env r (fresh_writer True) ?sv1 =
    (None, (fresh_writer True)\<lparr>rw_hijacked := True\<rparr>,
     establish i st (emit [ReplyHandshake st HandshakeResponse]
       (addSession i s (emit [WriteConn conn connected_line] ?sv1))))"
    using env assms(4) claims_controlHandler [OF assms(1-3)]
    by (simp add: controlHandler_unfold handshake_def establish_def alloc_control_def fresh_writer_def)
  then have r: "w' = (fresh_writer True)\<lparr>rw_hijacked := True\<rparr>"
    "sv' = establish i st (emit [ReplyHandshake st HandshakeResponse]
       (addSession i s (emit [WriteConn conn connected_line] ?sv1)))"
    using assms(6) checkConnect_claims [OF assms(1-3), of env "fresh_writer True"] by simp_all
  have "since sv sv' = [WriteConn conn connected_line, ReplyHandshake st HandshakeResponse,
                    SpawnListen (ck_next (sv_controls sv))]"
    unfolding r(2) by (rule since_append) (simp add: establish_def)
  moreover have "ct_nc (ck_heap (sv_controls sv') (ck_next (sv_controls sv))) = Some st"
    unfolding r(2) by (simp add: addControl_def alloc_control_def newControl_def)
  ultimately show ?thesis
    using r by (simp add: getControl_establish claims_vhosts(2) [OF assms(1-3)])
qed

text \<open>
  C8: A client that asks for an allowed host which is free or its own, signs its identifier, and
  completes the handshake, is connected: it gets the host with its rewrite rules and loses any other
  host it had, its session and control connection are registered, a listener is
  started, and no other client notices anything.
\<close>

theorem connect_succeeds:
  assumes "runtime_ok rt" "server_inv sv" "claims rt cf r sv i d rules"
    and "server_getControl i sv = None" "handshake_ok env conn s st"
    and "checkConnect rt cf env r (fresh_writer True) sv = (w', sv')"
  shows "w' = (fresh_writer True)\<lparr>rw_hijacked := True\<rparr> \<and>
    since sv sv' = [WriteConn conn connected_line, ReplyHandshake st HandshakeResponse,
                    SpawnListen (ck_next (sv_controls sv))] \<and>
    (\<forall>j. server_getControl j sv' = (if j = i then Some (ck_next (sv_controls sv)) else server_getControl j sv)) \<and>
    ct_nc (ck_heap (sv_controls sv') (ck_next (sv_controls sv))) = Some st \<and>
    sv_sessions sv' = (sv_sessions sv)(i \<mapsto> s) \<and>
    (\<forall>h. vh_owner (sv_vhosts sv') h =
       (if h = d then Some (i, rules)
        else if host_owner sv h = Some i then None else vh_owner (sv_vhosts sv) h))"
  using assms by (rule connect_established)

lemma ex_claims:
  "host_owner sv ''app.example.com'' = None \<or> host_owner sv ''app.example.com'' = Some i \<Longrightarrow>
     claims ex_runtime ex_conf (ex_connect i ''a'') sv i ''app.example.com'' ex_rules"
  by (auto simp: claims_def intro!: exI [of _ "ex_config ''app.example.com''"])

lemma ex_initial_claims:
  "claims ex_runtime ex_conf (ex_connect ''alice'' ''a'') (initial_server None) ''alice'' ''app.example.com'' ex_rules"
  by (rule ex_claims) simp

lemma ex_handshake_ok [simp]: "handshake_ok ex_cenv 1 2 3"
  by (simp add: handshake_ok_def)

theorem connect_succeeds_witness:
  "sv_sessions (snd (checkConnect ex_runtime ex_conf ex_cenv (ex_connect ''alice'' ''a'') (fresh_writer True)
     (initial_server None))) = [''alice'' \<mapsto> 2]"
  using connect_succeeds [OF ex_runtime_ok ex_initial_inv ex_initial_claims _ ex_handshake_ok prod.collapse [symmetric]]
  by simp

subsection \<open>Failed connects\<close>

lemma abort_connect_same [simp]:
  "\<exists>es. abort_connect rt i st c sv = abort_connect rt i st c (emit es sv)"
  "\<exists>es'. abort_connect rt i st c (emit es sv) = abort_connect rt i st c (emit es' sv)"
  by (metis emit_Nil) blast

lemma handshake_aborts:
  assumes "ce_hijack env = Inr conn" "ce_write env = None" "ce_deadline env = None" "ce_session env = Inr s"
    and "\<forall>st. \<not> handshake_ok env conn s st"
  shows "\<exists>err es. handshake rt env i conn sv =
    (Some (ErrAfterHijack err),
     abort_connect rt i (case ce_accept env of Accepted st \<Rightarrow> Some st | _ \<Rightarrow> None) conn (emit es sv))"
proof (cases "ce_accept env")
  case (Accepted st)
  have "\<not> handshake_ok env conn s st" using assms(5) by blast
  then show ?thesis
    using assms Accepted
    by (cases "ce_read env"; cases "ce_reply env")
       (auto simp: handshake_def handshake_ok_def Let_def)
qed (auto simp: handshake_def)

lemma abort_connect_effects:
  "sv_effects (abort_connect rt i st conn sv) = sv_effects sv @
     (case st of None \<Rightarrow> [] | Some x \<Rightarrow> [CloseStream x]) @
     (case sv_sessions sv i of None \<Rightarrow> [] | Some s \<Rightarrow> [SessionGoAway s, SessionClose s]) @ [CloseConn conn]"
  by (simp add: abort_connect_def deleteSession_effects)

text \<open>A connect that fails after the session was made takes everything back.\<close>

lemma late_failure_cleans:
  assumes "runtime_ok rt" "server_inv sv" "claims rt cf r sv i d rules"
    and "server_getControl i sv = None"
    and "ce_hijack env = Inr conn" "ce_write env = None" "ce_deadline env = None" "ce_session env = Inr s"
    and "\<forall>st. \<not> handshake_ok env conn s st"
    and "checkConnect rt cf env r (fresh_writer True) sv = (w', sv')"
  shows "sv_sessions sv' = (sv_sessions sv)(i := None)"
    "\<forall>h. host_owner sv' h = (if host_owner sv h = Some i \<or> h = d then None else host_owner sv h)"
    "{SessionClose s, CloseConn conn} \<subseteq> set (since sv sv')"
    "\<forall>st. ce_accept env = Accepted st \<longrightarrow> CloseStream st \<in> set (since sv sv')"
    "rw_hijacked w'" "\<forall>j. server_getControl j sv' = server_getControl j sv"
    "i \<noteq> '''' \<longrightarrow> sv_states sv' i = Some ClientClosed"
proof -
  let ?sv1 = "snd (server_AddHost rt d i rules sv)"
  let ?sv2 = "addSession i s (emit [WriteConn conn connected_line] ?sv1)"
  let ?st = "case ce_accept env of Accepted st \<Rightarrow> Some st | _ \<Rightarrow> None"
  obtain err es where h: "handshake rt env i conn ?sv2 =
      (Some (ErrAfterHijack err), abort_connect rt i ?st conn (emit es ?sv2))"
    using handshake_aborts [OF assms(5-9)] by blast
  let ?sv3 = "abort_connect rt i ?st conn (emit es ?sv2)"
  have "controlHandler rt cf env r (fresh_writer True) ?sv1 =
    (Some (ErrAfterHijack err), (fresh_writer True)\<lparr>rw_hijacked := True\<rparr>, ?sv3)"
    using assms(4-8) claims_controlHandler [OF assms(1-3)] h
    by (simp add: controlHandler_unfold fresh_writer_def)
  then have sv': "sv' = (if i \<noteq> '''' then onDisconnect rt i (Some (ErrAfterHijack err)) ?sv3 else ?sv3)"
    and w': "w' = (fresh_writer True)\<lparr>rw_hijacked := True\<rparr>"
    using assms(10) checkConnect_claims [OF assms(1-3), of env "fresh_writer True"] by simp_all
  have "connect_done rt i (Some (ErrAfterHijack err)) w' ?sv3 = (w', sv')" by (simp add: connect_done_def sv' Let_def)
  then obtain cs where cs: "sv_effects sv' = sv_effects ?sv3 @ map RunCallback cs"
    using connect_done_effects by blast
  have since: "since sv sv' = [WriteConn conn connected_line] @ es @
     (case ?st of None \<Rightarrow> [] | Some x \<Rightarrow> [CloseStream x]) @ [SessionGoAway s, SessionClose s] @ [CloseConn conn] @
     map RunCallback cs"
    by (rule since_append) (simp add: cs abort_connect_effects)
  show "{SessionClose s, CloseConn conn} \<subseteq> set (since sv sv')"
    "\<forall>st. ce_accept env = Accepted st \<longrightarrow> CloseStream st \<in> set (since sv sv')"
    unfolding since by auto
  have inv: "vhosts_inv (sv_vhosts (emit es ?sv2))"
    using claims_vhosts(1) [OF assms(1-3)] by simp
  have owner: "host_owner sv' = host_owner ?sv3" by (simp add: sv')
  show "\<forall>h. host_owner sv' h = (if host_owner sv h = Some i \<or> h = d then None else host_owner sv h)"
    using host_owner_abort [OF assms(1) inv, of i ?st conn] unfolding owner
    by (simp add: claims_vhosts(3) [OF assms(1-3)])
  show "sv_sessions sv' = (sv_sessions sv)(i := None)" "rw_hijacked w'"
    "\<forall>j. server_getControl j sv' = server_getControl j sv" "i \<noteq> '''' \<longrightarrow> sv_states sv' i = Some ClientClosed"
    by (simp_all add: sv' w')
qed

text \<open>
  A failure between the hijack and the creation of the session is not cleaned up: the hijacked
  connection is not closed although nobody holds it any more, and the host stays with the client
  that is not connected, so other clients go on being refused it.
\<close>

lemma early_failure_leaks:
  assumes "runtime_ok rt" "server_inv sv" "claims rt cf r sv i d rules"
    and "server_getControl i sv = None" "ce_hijack env = Inr conn"
    and "ce_write env \<noteq> None \<or> ce_deadline env \<noteq> None \<or> (\<exists>e. ce_session env = Inl e)"
    and "checkConnect rt cf env r (fresh_writer True) sv = (w', sv')"
  shows "rw_hijacked w'" "CloseConn conn \<notin> set (since sv sv')"
    "\<forall>h. host_owner sv' h = (if h = d then Some i else if host_owner sv h = Some i then None else host_owner sv h)"
    "\<forall>j. server_getControl j sv' = server_getControl j sv" "sv_sessions sv' = sv_sessions sv"
    "i \<noteq> '''' \<longrightarrow> sv_states sv' i = Some ClientClosed"
proof -
  let ?sv1 = "snd (server_AddHost rt d i rules sv)"
  let ?sv2 = "emit [WriteConn conn connected_line] ?sv1"
  have "\<exists>e. controlHandler rt cf env r (fresh_writer True) ?sv1 =
    (Some (ErrAfterHijack e), (fresh_writer True)\<lparr>rw_hijacked := True\<rparr>, ?sv2)"
    using assms(4-6) claims_controlHandler [OF assms(1-3)]
    by (cases "ce_write env"; cases "ce_deadline env") (auto simp: controlHandler_unfold fresh_writer_def)
  then obtain e where w': "w' = (fresh_writer True)\<lparr>rw_hijacked := True\<rparr>" and
    sv': "sv' = (if i \<noteq> '''' then onDisconnect rt i (Some (ErrAfterHijack e)) ?sv2 else ?sv2)"
    using assms(7) checkConnect_claims [OF assms(1-3), of env "fresh_writer True"] by auto
  have "connect_done rt i (Some (ErrAfterHijack e)) w' ?sv2 = (w', sv')" by (simp add: connect_done_def sv' Let_def)
  then obtain cs where "sv_effects sv' = sv_effects ?sv2 @ map RunCallback cs"
    using connect_done_effects by blast
  then have "since sv sv' = [WriteConn conn connected_line] @ map RunCallback cs"
    by (intro since_append) simp
  then show "CloseConn conn \<notin> set (since sv sv')" by auto
  have owner: "host_owner sv' = host_owner ?sv1" by (simp add: sv')
  show "rw_hijacked w'" "sv_sessions sv' = sv_sessions sv" "i \<noteq> '''' \<longrightarrow> sv_states sv' i = Some ClientClosed"
    "\<forall>j. server_getControl j sv' = server_getControl j sv"
    "\<forall>h. host_owner sv' h = (if h = d then Some i else if host_owner sv h = Some i then None else host_owner sv h)"
    using claims_vhosts(3) [OF assms(1-3)] owner by (simp_all add: w' sv')
qed

text \<open>
  C9: What a connect leaves behind that is hijacked and then fails.  Once the yamux session has been made, nothing
  of it: the session is closed and forgotten, the connection and the control stream (if one was
  opened) are closed, and the host that the request claimed is released.  When the failure comes
  before (the status line cannot be written, the deadline not be set, the session not be made) two things stay: the
  hijacked connection is not closed, and the host remains with the client, which has no
  connection.  Either way the other clients keep their hosts and every control connection stays,
  and a client with a name is reported as closed.
\<close>

theorem failed_connect_outcome:
  assumes "runtime_ok rt" "server_inv sv" "claims rt cf r sv i d rules"
    and "server_getControl i sv = None" "ce_hijack env = Inr conn"
    and "\<forall>s st. \<not> handshake_ok env conn s st"
    and "late = (ce_write env = None \<and> ce_deadline env = None \<and> (\<exists>s. ce_session env = Inr s))"
    and "checkConnect rt cf env r (fresh_writer True) sv = (w', sv')"
  shows "(\<forall>j. server_getControl j sv' = server_getControl j sv) \<and> rw_hijacked w' \<and>
    (i \<noteq> '''' \<longrightarrow> sv_states sv' i = Some ClientClosed) \<and>
    (\<forall>h. host_owner sv' h =
       (if h = d then (if late then None else Some i)
        else if host_owner sv h = Some i then None else host_owner sv h)) \<and>
    sv_sessions sv' = (if late then (sv_sessions sv)(i := None) else sv_sessions sv) \<and>
    (CloseConn conn \<in> set (since sv sv') \<longleftrightarrow> late) \<and>
    (late \<longrightarrow> (\<forall>s. ce_session env = Inr s \<longrightarrow> SessionClose s \<in> set (since sv sv')) \<and>
       (\<forall>st. ce_accept env = Accepted st \<longrightarrow> CloseStream st \<in> set (since sv sv')))"
proof (cases late)
  case True
  then obtain s where "ce_write env = None" "ce_deadline env = None" "ce_session env = Inr s"
    using assms(7) by blast
  note late = late_failure_cleans [OF assms(1-5) this _ assms(8)]
  show ?thesis using True late assms(6) \<open>ce_session env = Inr s\<close> by auto
next
  case False
  then have "ce_write env \<noteq> None \<or> ce_deadline env \<noteq> None \<or> (\<exists>e. ce_session env = Inl e)"
    using assms(7) by (cases "ce_session env") auto
  from early_failure_leaks [OF assms(1-5) this assms(8)] False show ?thesis by auto
qed

text \<open>The client sends only half of the hello before its packet ends.\<close>

theorem failed_connect_outcome_witness:
  "host_owner (snd (checkConnect ex_runtime ex_conf (ex_cenv\<lparr>ce_read := Inr ''control''\<rparr>)
     (ex_connect ''alice'' ''a'') (fresh_writer True) (initial_server None))) ''app.example.com'' = None"
proof -
  have "\<forall>s st. \<not> handshake_ok (ex_cenv\<lparr>ce_read := Inr ''control''\<rparr>) 1 s st"
    by (simp add: handshake_ok_def read_into_def HandshakeRequest_def)
  from failed_connect_outcome [OF ex_runtime_ok ex_initial_inv ex_initial_claims _ _ this refl
      prod.collapse [symmetric]] show ?thesis by simp
qed

subsection \<open>Second connections and listeners\<close>

lemma teardown_effects:
  "sv_effects (teardown rt i p sv) = sv_effects sv @
     (case ct_nc (ck_heap (sv_controls sv) p) of None \<Rightarrow> [] | Some x \<Rightarrow> [CloseStream x]) @
     (case sv_sessions sv i of None \<Rightarrow> [] | Some s \<Rightarrow> [SessionGoAway s, SessionClose s])"
  by (simp add: teardown_def deleteSession_effects close_ct_effects)

lemma close_control_other:
  "q \<noteq> p \<Longrightarrow> ck_heap (fst (close_control p k)) q = ck_heap k q"
  by (auto simp: close_control_def control_Close_def split: option.splits)

lemma close_control_closes:
  "ct_nc (ck_heap k p) \<noteq> None \<Longrightarrow> ct_closed (ck_heap (fst (close_control p k)) p)"
  by (auto simp: close_control_def control_Close_def split: option.splits)

text \<open>
  C21: A client that is connected and connects again is refused with 502, and its first connection is
  torn down as well: control connection and session are closed and forgotten, its host is
  released, and it is reported as closed.  Its next connect finds a clean slate.
\<close>

theorem second_connect_tears_down:
  assumes "runtime_ok rt" "server_inv sv" "claims rt cf r sv i d rules" "i \<noteq> ''''"
    and "server_getControl i sv = Some p"
    and "checkConnect rt cf env r (fresh_writer hj) sv = (w', sv')"
  shows "w' = error_page hj [ErrText (ErrControlExists i)] 502 \<and>
    (\<forall>j. server_getControl j sv' = (if j = i then None else server_getControl j sv)) \<and>
    sv_sessions sv' = (sv_sessions sv)(i := None) \<and> ct_closed (ck_heap (sv_controls sv') p) \<and>
    (\<forall>h. host_owner sv' h = (if host_owner sv h = Some i \<or> h = d then None else host_owner sv h)) \<and>
    sv_states sv' = (sv_states sv)(i \<mapsto> ClientClosed)"
proof -
  let ?sv1 = "snd (server_AddHost rt d i rules sv)"
  have s: "sv_sessions ?sv1 i \<noteq> None" using server_inv_session [OF assms(2,5)] by auto
  have "ct_nc (ck_heap (sv_controls sv) p) \<noteq> None"
    using assms(2,5) controls_invD(4) by (auto simp: server_inv_def server_getControl_def)
  then have closed: "ct_closed (ck_heap (fst (close_control p (sv_controls sv))) p)"
    by (rule close_control_closes)
  have "controlHandler rt cf env r (fresh_writer hj) ?sv1 =
    (Some (ErrControlExists i), fresh_writer hj, teardown rt i p ?sv1)"
    using assms(5) claims_controlHandler [OF assms(1-3)] by (simp add: controlHandler_unfold teardown_def)
  then have r: "w' = error_page hj [ErrText (ErrControlExists i)] 502"
    "sv' = onDisconnect rt i (Some (ErrControlExists i)) (teardown rt i p ?sv1)"
    using assms(4,6) checkConnect_claims [OF assms(1-3), of env "fresh_writer hj"]
    by (simp_all add: http_Error_page del: http_Error_fresh)
  have "host_owner sv' h = (if host_owner sv h = Some i \<or> h = d then None else host_owner sv h)" for h
    using host_owner_teardown [OF assms(1) claims_vhosts(1) [OF assms(1-3)], of i p h] s
    by (simp add: r(2) claims_vhosts(3) [OF assms(1-3)])
  then show ?thesis using closed by (simp add: r getControl_teardown)
qed

lemma ex_server_claims:
  "claims ex_runtime ex_conf (ex_connect ''alice'' ''a'') (ex_server ''alice'') ''alice'' ''app.example.com'' ex_rules"
  by (rule ex_claims) simp

theorem second_connect_tears_down_witness:
  "server_getControl ''alice'' (snd (checkConnect ex_runtime ex_conf ex_cenv (ex_connect ''alice'' ''a'')
     (fresh_writer True) (ex_server ''alice''))) = None"
  using second_connect_tears_down [OF ex_runtime_ok ex_server_inv ex_server_claims _ _ prod.collapse [symmetric],
      of 0 ex_cenv True] by simp

text \<open>
  C18: When the control connection of a client breaks, its listener leaves nothing of the client
  behind: no control connection, no session, no host; the client is reported as closed, and
  everything that belongs to other clients stays as it is.
\<close>

theorem listener_cleans:
  assumes "runtime_ok rt" "server_inv sv" "server_getControl i sv = Some p"
  shows "(\<forall>j. server_getControl j (listen_error rt p err sv) =
           (if j = i then None else server_getControl j sv)) \<and>
    sv_sessions (listen_error rt p err sv) = (sv_sessions sv)(i := None) \<and>
    (\<forall>h. host_owner (listen_error rt p err sv) h =
       (if host_owner sv h = Some i then None else host_owner sv h)) \<and>
    (\<forall>s. sv_sessions sv i = Some s \<longrightarrow> SessionClose s \<in> set (since sv (listen_error rt p err sv))) \<and>
    (\<forall>st. ct_nc (ck_heap (sv_controls sv) p) = Some st \<longrightarrow>
       CloseStream st \<in> set (since sv (listen_error rt p err sv))) \<and>
    sv_states (listen_error rt p err sv) = (sv_states sv)(i \<mapsto> ClientClosed)"
proof -
  have i: "ct_identifier (ck_heap (sv_controls sv) p) = i"
    using assms(2,3) controls_invD(2) by (auto simp: server_inv_def server_getControl_def)
  have inv: "vhosts_inv (sv_vhosts sv)" using assms(2) by (simp add: server_inv_def)
  have e: "listen_error rt p err sv = onDisconnect rt i (Some err) (teardown rt i p sv)"
    by (simp add: listen_error_def i teardown_def)
  obtain cs where "sv_effects (listen_error rt p err sv) = sv_effects (teardown rt i p sv) @ map RunCallback cs"
    unfolding e using onDisconnect_effects by blast
  then have "since sv (listen_error rt p err sv) =
      (case ct_nc (ck_heap (sv_controls sv) p) of None \<Rightarrow> [] | Some x \<Rightarrow> [CloseStream x]) @
      (case sv_sessions sv i of None \<Rightarrow> [] | Some s \<Rightarrow> [SessionGoAway s, SessionClose s]) @ map RunCallback cs"
    by (intro since_append) (simp add: teardown_effects)
  then show ?thesis
    using server_inv_session [OF assms(2,3)]
    by (auto simp: e getControl_teardown host_owner_teardown [OF assms(1) inv])
qed

theorem listener_cleans_witness:
  "host_owner (listen_error ex_runtime 0 (ErrExternal ''EOF'') (ex_server ''alice'')) ''app.example.com'' = None"
  using listener_cleans [OF ex_runtime_ok ex_server_inv, of "''alice''" "''alice''" 0] by simp

text \<open>
  C10: A listener cleans up by identifier, not by connection.  When the listener of an old connection
  of a client ends after the client has connected again, it takes the new connection down:
  the new control connection is forgotten without being closed, its session is closed, and
  the host is released.
\<close>

theorem stale_listener_takes_down_successor:
  assumes "runtime_ok rt" "server_inv sv"
    and "server_getControl i sv = Some q" "ct_identifier (ck_heap (sv_controls sv) p) = i" "p \<noteq> q"
  shows "server_getControl i (listen_error rt p err sv) = None \<and>
    \<not> ct_closed (ck_heap (sv_controls (listen_error rt p err sv)) q) \<and>
    sv_sessions (listen_error rt p err sv) i = None \<and>
    (\<forall>h. host_owner (listen_error rt p err sv) h \<noteq> Some i)"
proof -
  have inv: "vhosts_inv (sv_vhosts sv)" using assms(2) by (simp add: server_inv_def)
  have e: "listen_error rt p err sv = onDisconnect rt i (Some err) (teardown rt i p sv)"
    by (simp add: listen_error_def assms(4) teardown_def)
  have "\<not> ct_closed (ck_heap (sv_controls sv) q)" using server_inv_usable [OF assms(2,3)] by simp
  then show ?thesis
    using server_inv_session [OF assms(2,3)] assms(5)
    by (simp add: e getControl_teardown host_owner_teardown [OF assms(1) inv] close_control_other)
qed

text \<open>
  It happens: \<open>alice\<close> connects, connects again before the server has noticed that the first
  connection is gone (and is refused), connects once more, and only then the listener of the
  first connection ends.
\<close>

definition ex_twice :: "(string runtime \<times> string server_event) list" where
  "ex_twice = [(ex_runtime, ex_join ''alice''), (ex_runtime, ex_join ''alice''), (ex_runtime, ex_join ''alice'')]"

lemma ex_twice_simps:
  "server_getControl ''alice'' (server_run ex_conf ex_twice (initial_server None)) = Some 1"
  "ct_identifier (ck_heap (sv_controls (server_run ex_conf ex_twice (initial_server None))) 0) = ''alice''"
  by (simp_all add: ex_twice_def server_run_def ControlHandler_def checkConnect_unfold Let_def sig.check_iff
      server_AddHost_def AddHost_def GetIdentifier_def controlHandler_unfold getHost_def server_getControl_def
      getControl_def addControl_def initial_server_def newControls_def newVirtualHosts_def emit_def
      addSession_def handshake_def alloc_control_def server_addControl_def close_ct_def close_control_def
      control_Close_def newControl_def server_deleteControl_def deleteControl_def deleteSession_def
      server_DeleteHost_def DeleteHost_def onDisconnect_def changeState_def callbacks_call_spec newCallbacks_def
      ran_effects_def)

theorem stale_listener_takes_down_successor_witness:
  "server_getControl ''alice'' (listen_error ex_runtime 0 (ErrExternal ''timeout'')
     (server_run ex_conf ex_twice (initial_server None))) = None \<and>
   \<not> ct_closed (ck_heap (sv_controls (listen_error ex_runtime 0 (ErrExternal ''timeout'')
     (server_run ex_conf ex_twice (initial_server None)))) 1)"
proof -
  have "server_inv (server_run ex_conf ex_twice (initial_server None))"
    by (rule server_run_inv) (simp_all add: run_admissible_def ex_twice_def)
  from stale_listener_takes_down_successor [OF ex_runtime_ok this ex_twice_simps] show ?thesis by simp
qed

subsection \<open>What the embedding program is told\<close>

definition changes_run :: "(string \<times> client_state \<times> go_error option) list \<Rightarrow> 're server \<Rightarrow> 're server" where
  "changes_run cs = fold (\<lambda>(i, st, e) sv. snd (changeState i st e sv)) cs"

text \<open>Every report begins where the previous one of the client ended.\<close>

fun chained :: "client_state \<Rightarrow> state_change list \<Rightarrow> bool" where
  "chained s [] = True"
| "chained s (c # cs) = (sc_previous c = s \<and> chained (sc_current c) cs)"

definition state_of :: "'re server \<Rightarrow> string \<Rightarrow> client_state" where
  "state_of sv i = (case sv_states sv i of None \<Rightarrow> ClientUnknown | Some s \<Rightarrow> s)"

definition last_state :: "client_state \<Rightarrow> state_change list \<Rightarrow> client_state" where
  "last_state s cs = (if cs = [] then s else sc_current (last cs))"

lemma chained_append:
  "chained s (cs @ [c]) \<longleftrightarrow> chained s cs \<and> sc_previous c = last_state s cs"
  by (induction s cs rule: chained.induct) (auto simp: last_state_def)

lemma changes_run_snoc:
  "changes_run (cs @ [(i, st, e)]) sv = snd (changeState i st e (changes_run cs sv))"
  by (simp add: changes_run_def)

text \<open>
  C26: The reports on a state channel that nobody reads are the first ones, as many as its buffer has
  room for, complete and in order: there is one for each change, with its state and error, and for
  every client each starts in the state in which the previous one ended, beginning with
  \<open>ClientUnknown\<close>.  The changes after that are not reported, and their states are kept all the
  same; no report is lost exactly when the buffer has room for all changes.
\<close>

theorem state_reports_chain:
  assumes "sv_stateCh sv = Some ch" "ch_buf ch = []" "ch_parked ch = 0" "sv_states sv = Map.empty"
  shows "\<exists>reports. map (\<lambda>c. (sc_identifier c, sc_current c, sc_error c)) reports = cs \<and>
    (\<forall>i. chained ClientUnknown (filter (\<lambda>c. sc_identifier c = i) reports) \<and>
         state_of (changes_run cs sv) i = last_state ClientUnknown (filter (\<lambda>c. sc_identifier c = i) reports)) \<and>
    sv_stateCh (changes_run cs sv) = Some (ch\<lparr>ch_buf := take (ch_cap ch) reports\<rparr>) \<and>
    (take (ch_cap ch) reports = reports \<longleftrightarrow> length cs \<le> ch_cap ch)"
proof (induction cs rule: rev_induct)
  case Nil
  then show ?case using assms by (auto simp: changes_run_def state_of_def last_state_def)
next
  case (snoc c cs)
  obtain i st e where c: "c = (i, st, e)" by (cases c)
  from snoc obtain reports where r: "map (\<lambda>c. (sc_identifier c, sc_current c, sc_error c)) reports = cs"
    "\<forall>i. chained ClientUnknown (filter (\<lambda>c. sc_identifier c = i) reports) \<and>
         state_of (changes_run cs sv) i = last_state ClientUnknown (filter (\<lambda>c. sc_identifier c = i) reports)"
    "sv_stateCh (changes_run cs sv) = Some (ch\<lparr>ch_buf := take (ch_cap ch) reports\<rparr>)"
    by auto
  let ?c = "\<lparr>sc_identifier = i, sc_previous = state_of (changes_run cs sv) i, sc_current = st, sc_error = e\<rparr>"
  have "sv_stateCh (changes_run (cs @ [c]) sv) = Some (ch\<lparr>ch_buf := take (ch_cap ch) (reports @ [?c])\<rparr>)"
    using r(3) assms(3)
    by (simp add: c changes_run_snoc sv_stateCh_changeState try_send_def state_of_def)
  moreover have "state_of (changes_run (cs @ [c]) sv) j =
      (if j = i then st else state_of (changes_run cs sv) j)" for j
    by (simp add: c changes_run_snoc state_of_def)
  then have "chained ClientUnknown (filter (\<lambda>c. sc_identifier c = j) (reports @ [?c])) \<and>
      state_of (changes_run (cs @ [c]) sv) j =
        last_state ClientUnknown (filter (\<lambda>c. sc_identifier c = j) (reports @ [?c]))" for j
    using r(2) by (simp add: chained_append last_state_def)
  moreover have map: "map (\<lambda>c. (sc_identifier c, sc_current c, sc_error c)) (reports @ [?c]) = cs @ [c]"
    using r(1) by (simp add: c)
  moreover have "take (ch_cap ch) (reports @ [?c]) = reports @ [?c] \<longleftrightarrow> length (cs @ [c]) \<le> ch_cap ch"
    unfolding take_all_iff using arg_cong [OF map, of length] by simp
  ultimately show ?case by (intro exI [of _ "reports @ [?c]"] conjI allI) simp_all
qed

text \<open>Room for one report, and two changes.\<close>

theorem state_reports_chain_witness:
  "\<exists>report. sv_stateCh (changes_run [(''alice'', ClientConnected, None), (''alice'', ClientClosed, None)]
       (initial_server (Some ex_chan) :: string server)) = Some (ex_chan\<lparr>ch_buf := [report]\<rparr>) \<and>
     sc_current report = ClientConnected"
proof -
  let ?cs = "[(''alice'', ClientConnected, None :: go_error option), (''alice'', ClientClosed, None)]"
  have ch: "sv_stateCh (initial_server (Some ex_chan) :: string server) = Some ex_chan" "ch_buf ex_chan = []"
    "ch_parked ex_chan = 0" "sv_states (initial_server (Some ex_chan) :: string server) = Map.empty"
    by (simp_all add: ex_chan_def initial_server_def)
  from state_reports_chain [OF ch, of ?cs] obtain reports where
    "map (\<lambda>c. (sc_identifier c, sc_current c, sc_error c)) reports = ?cs"
    "sv_stateCh (changes_run ?cs (initial_server (Some ex_chan) :: string server)) =
       Some (ex_chan\<lparr>ch_buf := take (ch_cap ex_chan) reports\<rparr>)"
    by (elim exE conjE) (rule that)
  then show ?thesis by (auto simp: ex_chan_def)
qed

text \<open>
  A slow reader never blocks the server and never loses the state itself: when the channel is full
  and nobody waits on it, the report is dropped, the state of the client is recorded all the
  same, and the channel is left as it was.
\<close>

theorem full_channel_drops_report:
  assumes "sv_stateCh sv = Some ch" "ch_parked ch = 0" "ch_cap ch \<le> length (ch_buf ch)"
  shows "changeState i st e sv = (state_of sv i, sv\<lparr>sv_states := (sv_states sv)(i \<mapsto> st)\<rparr>)"
  using assms by (simp add: changeState_def try_send_def state_of_def)

theorem full_channel_drops_report_witness:
  "fst (changeState ''alice'' ClientConnected None
     (initial_server (Some (ex_chan\<lparr>ch_cap := 0\<rparr>)) :: string server)) = ClientUnknown"
proof -
  have "sv_stateCh (initial_server (Some (ex_chan\<lparr>ch_cap := 0\<rparr>)) :: string server) = Some (ex_chan\<lparr>ch_cap := 0\<rparr>)"
    by (simp add: initial_server_def)
  from full_channel_drops_report [OF this] show ?thesis by (simp add: ex_chan_def state_of_def)
qed

lemma listen_start_since:
  assumes "ct_identifier (ck_heap (sv_controls sv) p) = i"
  shows "since sv (listen_start rt p sv) =
    (case cb_funcs (sv_onConnect sv) i of Some (Some f) \<Rightarrow> [RunCallback f] | _ \<Rightarrow> [])"
    and "cb_funcs (sv_onConnect (listen_start rt p sv)) = (cb_funcs (sv_onConnect sv))(i := None)"
proof -
  have e: "listen_start rt p sv = onConnect rt i sv" by (simp add: listen_start_def assms)
  show "since sv (listen_start rt p sv) =
    (case cb_funcs (sv_onConnect sv) i of Some (Some f) \<Rightarrow> [RunCallback f] | _ \<Rightarrow> [])"
    unfolding e
    by (rule since_append)
       (auto simp: onConnect_def callbacks_call_spec ran_effects_def split: option.splits)
  show "cb_funcs (sv_onConnect (listen_start rt p sv)) = (cb_funcs (sv_onConnect sv))(i := None)"
    unfolding e by (auto simp: onConnect_def callbacks_call_spec split: option.splits)
qed

lemma listen_start_controls [simp]: "sv_controls (listen_start rt p sv) = sv_controls sv"
  by (simp add: listen_start_def)

text \<open>
  C27: A callback that is registered for a client runs at that client's next connection and only
  once: not at the connection of another client before, and not at a second connection after.
  The callbacks of other clients stay registered.
\<close>

theorem callback_runs_once:
  assumes "ct_identifier (ck_heap (sv_controls sv) p) = i"
    and "ct_identifier (ck_heap (sv_controls sv) q) = j" "j \<noteq> i" "cb_funcs (sv_onConnect sv) j = None"
    and "sv1 = listen_start rt q (OnConnect i (Some f) sv)"
    and "sv2 = listen_start rt p sv1" "sv3 = listen_start rt p sv2"
  shows "since sv sv1 = [] \<and> since sv1 sv2 = [RunCallback f] \<and> since sv2 sv3 = [] \<and>
    (\<forall>k. k \<notin> {i, j} \<longrightarrow> cb_funcs (sv_onConnect sv3) k = cb_funcs (sv_onConnect sv) k)"
proof -
  have reg: "cb_funcs (sv_onConnect (OnConnect i (Some f) sv)) = (cb_funcs (sv_onConnect sv))(i \<mapsto> Some f)"
    "sv_controls (OnConnect i (Some f) sv) = sv_controls sv"
    "since sv sv' = since (OnConnect i (Some f) sv) sv'" for sv'
    by (simp_all add: OnConnect_def callbacks_add_def since_def)
  have fs: "cb_funcs (sv_onConnect sv1) = (cb_funcs (sv_onConnect sv))(i \<mapsto> Some f, j := None)"
    "cb_funcs (sv_onConnect sv2) = (cb_funcs (sv_onConnect sv))(j := None, i := None)"
    using assms by (simp_all add: listen_start_since(2) reg(1,2) fun_upd_twist)
  show ?thesis
    using assms fs by (simp add: listen_start_since reg)
qed

theorem callback_runs_once_witness:
  "since (ex_server ''alice'') (listen_start ex_runtime 1 (OnConnect ''alice'' (Some 7) (ex_server ''alice''))) = []"
proof -
  have "ct_identifier (ck_heap (sv_controls (ex_server ''alice'')) 1) = ''''"
    "cb_funcs (sv_onConnect (ex_server ''alice'')) = Map.empty"
    by (simp_all add: ex_server_def initial_server_def addControl_def alloc_control_def newControls_def
        newControl_def newCallbacks_def)
  then show ?thesis
    using callback_runs_once [of "ex_server ''alice''" 0 "''alice''" 1 "''''", OF _ _ _ _ refl refl refl] by simp
qed

end
