(* ===== verification/Server_Names.thy ===== *)
theory Server_Names
  imports Server_Traffic
begin

section \<open>Properties of the server: handlers, paths and names\<close>

text \<open>
  Which handler answers what, and three corners of the naming: a control path that is not clean,
  a domain with capital letters, and the empty domain.
\<close>

subsection \<open>The three handlers\<close>

text \<open>
  The public listener and the control listener are separate.  A public request, whatever its
  path or headers, never creates or touches a session, a host, a callback or a
  recorded state, and does not depend on the control settings; the control listener answers
  404 on every other path and does nothing; the combined listener is one or the other.
\<close>

theorem handlers_separated:
  "(let sv' = snd (PublicHandler rt cf henv r w sv)
    in sv_sessions sv' = sv_sessions sv \<and> sv_vhosts sv' = sv_vhosts sv \<and>
       sv_onConnect sv' = sv_onConnect sv \<and> sv_onDisconnect sv' = sv_onDisconnect sv \<and>
       sv_states sv' = sv_states sv \<and> sv_stateCh sv' = sv_stateCh sv) \<and>
   PublicHandler rt (cf\<lparr>sf_control_path := p, sf_control_method := m, sf_signature_key := k,
     sf_allowed_hosts := hs, sf_allowed_clients := cs\<rparr>) henv r w sv = PublicHandler rt cf henv r w sv \<and>
   ControlHandler rt cf cenv r w sv =
     (if isControlRequest cf r then checkConnect rt cf cenv r w sv else (NotFound w, sv)) \<and>
   ServeHTTP rt cf cenv henv r w sv =
     (if isControlRequest cf r then ControlHandler rt cf cenv r w sv else PublicHandler rt cf henv r w sv)"
proof -
  have "http_change sv (snd (PublicHandler rt cf henv r w sv))" by (rule http_change_PublicHandler)
  then show ?thesis
    unfolding http_change_def
    by (auto simp: Let_def ControlHandler_def ServeHTTP_def PublicHandler_def handleHTTP_def)
qed

text \<open>
  Control requests are recognised by their cleaned path.  A control path that is not clean itself
  (a trailing slash is enough) is therefore never matched, and the control protocol cannot be
  reached at all; a clean one is reached by every spelling of it.
\<close>

theorem control_path_reachable_iff_clean:
  "((\<exists>r. isControlRequest cf r) \<longleftrightarrow> Clean (sf_control_path cf) = sf_control_path cf) \<and>
   (Clean (sf_control_path cf) = sf_control_path cf \<longrightarrow>
      isControlRequest cf r = (Clean (rq_path r) = Clean (sf_control_path cf)))"
proof -
  have "\<exists>r. isControlRequest cf r" if "Clean (sf_control_path cf) = sf_control_path cf"
    using that by (intro exI [of _ "r\<lparr>rq_path := sf_control_path cf\<rparr>"]) (simp add: isControlRequest_def)
  moreover have "Clean (sf_control_path cf) = sf_control_path cf" if "isControlRequest cf r'" for r'
    using that Clean_idem [of "rq_path r'"] by (simp add: isControlRequest_def)
  ultimately show ?thesis by (auto simp: isControlRequest_def [of cf r])
qed

theorem control_path_reachable_iff_clean_witness:
  "isControlRequest ex_conf (ex_request ''GET'' ''/./_controlPath/'' ''server'')"
proof -
  have "Clean ''/./_controlPath/'' = ''/_controlPath''" by code_simp
  then show ?thesis
    using control_path_reachable_iff_clean [of ex_conf "ex_request ''GET'' ''/./_controlPath/'' ''server''"]
    by (simp add: ex_conf_def ex_request_def)
qed

subsection \<open>Host names\<close>

text \<open>An upper case ASCII letter.\<close>

definition capital :: "char \<Rightarrow> bool" where
  "capital c = in_range (CHR ''A'') (CHR ''Z'') c"

lemma ToLower_no_capital:
  assumes "\<forall>s. \<not> list_ex capital (uni s)"
  shows "\<not> list_ex capital (ToLower uni s)"
  using assms by (auto simp: ToLower_def list_ex_iff capital_def lower_ascii_not_upper)

lemma parseHostPort_set: "set (fst (parseHostPort hp)) \<subseteq> set hp"
proof (cases "SplitHostPort hp")
  case (Inr x)
  obtain h p where "x = (h, p)" by (cases x)
  with Inr show ?thesis
    using SplitHostPort_set [of hp h p] by (auto simp: parseHostPort_def split: sum.splits)
qed (simp add: parseHostPort_def)

text \<open>
  The host of a request is lowered before it is looked up, but the domain of a client is not.  A
  domain with a capital letter passes all checks and is claimed, yet no request is ever
  routed to it.
\<close>

theorem capital_domain_unreachable:
  assumes "runtime_ok rt" "server_inv sv" "\<forall>s. \<not> list_ex capital (rt_lower rt s)" "list_ex capital d"
    and "server_AddHost rt d i rules sv = (None, sv')"
  shows "host_owner sv' d = Some i \<and> map_option fst (routed sv' (lookup_host rt cf r)) \<noteq> Some i"
proof -
  let ?hp = "lookup_host rt cf r"
  have inv: "vhosts_inv (sv_vhosts sv)" using assms(2) by (simp add: server_inv_def)
  have sv': "sv' = snd (server_AddHost rt d i rules sv)" using assms(5) by simp
  have granted: "fst (server_AddHost rt d i rules sv) = None" using assms(5) by simp
  then have owner: "host_owner sv' d = Some i"
    unfolding sv' by (simp add: host_owner_AddHost [OF assms(1) inv])
  have inv': "vhosts_inv (sv_vhosts sv')" unfolding sv' using assms(1) inv by (rule vhosts_inv_AddHost)
  have no: "\<not> list_ex capital ?hp"
    unfolding lookup_host_def by (rule ToLower_no_capital [OF assms(3)])
  then have "\<not> list_ex capital (fst (parseHostPort ?hp))"
    using parseHostPort_set [of ?hp] by (auto simp: list_ex_iff)
  with no assms(4) have "?hp \<noteq> d" "fst (parseHostPort ?hp) \<noteq> d" by metis+
  moreover have "host_owner sv' ?hp = Some i \<or> host_owner sv' (fst (parseHostPort ?hp)) = Some i"
    if "map_option fst (routed sv' ?hp) = Some i"
    using that by (auto simp: routed_def host_owner_def split: option.splits)
  ultimately show ?thesis using owner host_owner_unique [OF inv' owner] by blast
qed

theorem capital_domain_unreachable_witness:
  "map_option fst (routed (snd (server_AddHost ex_runtime ''App.example.com'' ''alice'' ex_rules
      (initial_server None)))
     (lookup_host (ex_runtime\<lparr>rt_lower := (\<lambda>_. '''')\<rparr>) ex_conf ex_public)) \<noteq> Some ''alice''"
proof -
  let ?rt = "ex_runtime\<lparr>rt_lower := (\<lambda>_. '''')\<rparr>"
  have "runtime_ok ?rt" by (simp add: runtime_ok_def ex_runtime_def)
  moreover have "list_ex capital ''App.example.com''" by (simp add: capital_def in_range_def byte_of_def)
  moreover have "server_AddHost ?rt ''App.example.com'' ''alice'' ex_rules (initial_server None) =
      (None, snd (server_AddHost ex_runtime ''App.example.com'' ''alice'' ex_rules (initial_server None)))"
    by (simp add: server_AddHost_def AddHost_def)
  ultimately show ?thesis
    using capital_domain_unreachable [of ?rt "initial_server None" "''App.example.com''" "''alice''" ex_rules _ ex_conf]
    by simp
qed

text \<open>
  The owner of the empty domain is a catch-all.  When a host is not registered and has no port (or
  none that can be parsed), the fallback looks up the empty name, so the request goes to the
  client that registered it.
\<close>

theorem empty_domain_catches_all:
  assumes "vh_owner (sv_vhosts sv) '''' = Some (i, rules)"
    and "host_owner sv hp = None" "snd (snd (parseHostPort hp)) \<noteq> None"
  shows "routed sv hp = Some (i, rules) \<and> route sv hp = (i, True)"
proof -
  have "fst (parseHostPort hp) = ''''"
    using assms(3) by (auto simp: parseHostPort_def split: sum.splits)
  then have "routed sv hp = Some (i, rules)"
    using assms(1,2) by (simp add: routed_def host_owner_def)
  then show ?thesis by (simp add: route_routed)
qed

text \<open>A server whose pattern allows every name, and a client that asks for the empty one.\<close>

theorem empty_domain_catches_all_witness:
  "route ((initial_server None)\<lparr>sv_vhosts := [('''', \<lparr>vh_identifier = ''mallory'', vh_rewrite = ex_rules\<rparr>)]\<rparr>)
     ''other.example.com'' = (''mallory'', True)"
proof -
  let ?sv = "(initial_server None)\<lparr>sv_vhosts := [('''', \<lparr>vh_identifier = ''mallory'', vh_rewrite = ex_rules\<rparr>)]\<rparr>"
  have "snd (snd (parseHostPort ''other.example.com'')) \<noteq> None"
    by (simp add: parseHostPort_def SplitHostPort_def LastIndexByte_def)
  moreover have "vh_owner (sv_vhosts ?sv) '''' = Some (''mallory'', ex_rules)"
    "host_owner ?sv ''other.example.com'' = None"
    by (simp_all add: vh_owner_def host_owner_def)
  ultimately show ?thesis using empty_domain_catches_all by blast
qed

end
