(* ===== verification/Host_Table.thy ===== *)
theory Host_Table
  imports VirtualHosts
begin

section \<open>The host table as an abstract data type\<close>

text \<open>
  What \<open>virtualhost.go\<close> promises, without loops and iteration orders: two maps that are
  inverse to each other, the owner of a host and the one host of a client.
\<close>

record 're host_spec =
  hs_owner :: "string \<rightharpoonup> string \<times> 're rewrite_rule list"
  hs_home :: "string \<rightharpoonup> string"

datatype 're host_op =
    OpAdd string string "'re rewrite_rule list"
  | OpDelete string
  | OpIdentifier string
  | OpHost string
  | OpVirtualHost string

datatype 're host_answer =
    Claimed "go_error option"
  | Deleted
  | Named "string \<times> bool"
  | Rules "'re virtual_host option \<times> bool \<times> string"

text \<open>The operations of the code; \<open>ord\<close> gives the iteration order for each state.\<close>

fun host_step :: "('re vhosts \<Rightarrow> 're vhosts) \<Rightarrow> 're host_op \<Rightarrow> 're vhosts \<Rightarrow> 're host_answer \<times> 're vhosts" where
  "host_step ord (OpAdd h i rs) m = (let (err, m') = AddHost (ord m) h i rs m in (Claimed err, m'))"
| "host_step ord (OpDelete h) m = (Deleted, DeleteHost h m)"
| "host_step ord (OpIdentifier h) m = (Named (GetIdentifier h m), m)"
| "host_step ord (OpHost i) m = (Named (GetHost (ord m) i), m)"
| "host_step ord (OpVirtualHost i) m = (Rules (GetVirtualHost (ord m) i), m)"

text \<open>The same operations on the two maps.\<close>

fun spec_step :: "'re host_op \<Rightarrow> 're host_spec \<Rightarrow> 're host_answer \<times> 're host_spec" where
  "spec_step (OpAdd h i rs) s =
     (let freed = (case hs_home s i of None \<Rightarrow> hs_owner s | Some h' \<Rightarrow> (hs_owner s)(h' := None));
          claim = (Claimed None, \<lparr>hs_owner = freed(h \<mapsto> (i, rs)), hs_home = (hs_home s)(i \<mapsto> h)\<rparr>)
      in case hs_owner s h of
           Some (j, _) \<Rightarrow> if j \<noteq> i then (Claimed (Some (ErrHostInUse h)), s) else claim
         | None \<Rightarrow> claim)"
| "spec_step (OpDelete h) s =
     (Deleted,
      case hs_owner s h of
        None \<Rightarrow> s
      | Some (i, _) \<Rightarrow> \<lparr>hs_owner = (hs_owner s)(h := None), hs_home = (hs_home s)(i := None)\<rparr>)"
| "spec_step (OpIdentifier h) s =
     (Named (case hs_owner s h of None \<Rightarrow> ('''', False) | Some (i, _) \<Rightarrow> (i, True)), s)"
| "spec_step (OpHost i) s =
     (Named (case hs_home s i of None \<Rightarrow> ('''', False) | Some h \<Rightarrow> (h, True)), s)"
| "spec_step (OpVirtualHost i) s =
     (Rules (case hs_home s i of
               None \<Rightarrow> (None, False, '''')
             | Some h \<Rightarrow> (map_option (\<lambda>(j, rs). vh_make j rs) (hs_owner s h), True, h)), s)"

fun answers :: "('op \<Rightarrow> 's \<Rightarrow> 'a \<times> 's) \<Rightarrow> 'op list \<Rightarrow> 's \<Rightarrow> 'a list" where
  "answers step [] s = []"
| "answers step (x # xs) s = (let (a, s') = step x s in a # answers step xs s')"

definition empty_spec :: "'re host_spec" where
  "empty_spec = \<lparr>hs_owner = Map.empty, hs_home = Map.empty\<rparr>"

subsection \<open>The refinement\<close>

text \<open>\<open>hs_home\<close> inverts \<open>hs_owner\<close>, and the owners are those of the table.\<close>

definition host_rel :: "'re vhosts \<Rightarrow> 're host_spec \<Rightarrow> bool" where
  "host_rel m s \<longleftrightarrow>
     vhosts_inv m \<and> hs_owner s = vh_owner m \<and>
     (\<forall>i h. hs_home s i = Some h \<longleftrightarrow> (\<exists>rs. vh_owner m h = Some (i, rs)))"

lemma host_rel_home_None: "host_rel m s \<Longrightarrow> hs_home s i = None \<longleftrightarrow> (\<forall>h rs. vh_owner m h \<noteq> Some (i, rs))"
  unfolding host_rel_def by (metis not_None_eq)

lemma host_rel_empty: "host_rel newVirtualHosts empty_spec"
  by (simp add: host_rel_def empty_spec_def newVirtualHosts_def vh_owner_def vhosts_inv_def fun_eq_iff)

lemma host_rel_lookup:
  assumes "host_rel m s" "range_of r m"
  shows "GetHost r i = (case hs_home s i of None \<Rightarrow> ('''', False) | Some h \<Rightarrow> (h, True))"
    "GetVirtualHost r i = (case hs_home s i of None \<Rightarrow> (None, False, '''')
       | Some h \<Rightarrow> (map_option (\<lambda>(j, rs). vh_make j rs) (hs_owner s h), True, h))"
proof -
  have m: "vhosts_inv m" and o: "hs_owner s = vh_owner m"
    and home: "\<And>h. hs_home s i = Some h \<longleftrightarrow> (\<exists>rs. vh_owner m h = Some (i, rs))"
    using assms(1) by (auto simp: host_rel_def)
  from m assms(2) have "GetHost r i = (case hs_home s i of None \<Rightarrow> ('''', False) | Some h \<Rightarrow> (h, True)) \<and>
    GetVirtualHost r i = (case hs_home s i of None \<Rightarrow> (None, False, '''')
       | Some h \<Rightarrow> (map_option (\<lambda>(j, rs). vh_make j rs) (hs_owner s h), True, h))"
  proof (cases rule: vh.lookup_cases [where i = i])
    case (found h rw)
    then have "hs_home s i = Some h" using home by blast
    with found o show ?thesis by simp
  next
    case missing
    then have "hs_home s i = None" using host_rel_home_None [OF assms(1)] by blast
    with missing show ?thesis by simp
  qed
  then show "GetHost r i = (case hs_home s i of None \<Rightarrow> ('''', False) | Some h \<Rightarrow> (h, True))"
    "GetVirtualHost r i = (case hs_home s i of None \<Rightarrow> (None, False, '''')
       | Some h \<Rightarrow> (map_option (\<lambda>(j, rs). vh_make j rs) (hs_owner s h), True, h))" by blast+
qed

lemma host_rel_claim:
  assumes "host_rel m s" "range_of r m" "\<forall>j rw. vh_owner m h = Some (j, rw) \<longrightarrow> j = i"
  shows "host_rel (snd (AddHost r h i rs m))
    \<lparr>hs_owner = (case hs_home s i of None \<Rightarrow> hs_owner s | Some h' \<Rightarrow> (hs_owner s)(h' := None))(h \<mapsto> (i, rs)),
     hs_home = (hs_home s)(i \<mapsto> h)\<rparr>"
proof -
  have m: "vhosts_inv m" and o: "hs_owner s = vh_owner m"
    and home: "\<And>i h. hs_home s i = Some h \<longleftrightarrow> (\<exists>rs. vh_owner m h = Some (i, rs))"
    using assms(1) by (auto simp: host_rel_def)
  let ?own = "\<lambda>k. if k = h then Some (i, rs)
      else (case vh_owner m k of None \<Rightarrow> None | Some (j, rw) \<Rightarrow> if j = i then None else Some (j, rw))"
  have own: "vhosts_inv (snd (AddHost r h i rs m))" "vh_owner (snd (AddHost r h i rs m)) = ?own"
    using vh.add_granted [OF m assms(2,3)] by blast+
  have claim: "((case hs_home s i of None \<Rightarrow> vh_owner m | Some h' \<Rightarrow> (vh_owner m)(h' := None))(h \<mapsto> (i, rs))) k = ?own k"
    for k
  proof (cases "hs_home s i")
    case None
    then have "\<forall>rw. vh_owner m k \<noteq> Some (i, rw)" using host_rel_home_None [OF assms(1)] by blast
    with None show ?thesis by (auto split: option.splits)
  next
    case (Some h')
    then obtain rw where h': "vh_owner m h' = Some (i, rw)" using home by blast
    then have "vh_owner m k = Some (i, rw') \<Longrightarrow> k = h'" for rw' using vh.owner_unique [OF m] by blast
    with h' Some show ?thesis by (cases "vh_owner m k") auto
  qed
  have "((hs_home s)(i \<mapsto> h)) j = Some k \<longleftrightarrow> (\<exists>rw. ?own k = Some (j, rw))" for j k
  proof (cases "vh_owner m k")
    case None
    then have "hs_home s j \<noteq> Some k" using home by simp
    with None show ?thesis by auto
  next
    case (Some p)
    then obtain l rw where p: "vh_owner m k = Some (l, rw)" by (cases p) auto
    then have "hs_home s j = Some k \<longleftrightarrow> l = j" using home by auto
    with p assms(3) show ?thesis by auto
  qed
  then show ?thesis unfolding host_rel_def own(2) using own(1) unfolding o ext [OF claim] by simp
qed

text \<open>One operation: the same answer, and the relation is kept.\<close>

lemma host_step_refines:
  assumes "host_rel m s" "\<forall>m. range_of (ord m) m"
  shows "fst (host_step ord x m) = fst (spec_step x s) \<and>
    host_rel (snd (host_step ord x m)) (snd (spec_step x s))"
proof (cases x)
  case (OpAdd h i rs)
  have o: "hs_owner s = vh_owner m" and r: "range_of (ord m) m" using assms by (auto simp: host_rel_def)
  show ?thesis
  proof (cases "\<forall>j rw. vh_owner m h = Some (j, rw) \<longrightarrow> j = i")
    case True
    then have "fst (AddHost (ord m) h i rs m) = None"
      using vh.add_granted_iff [of m "ord m"] assms by (auto simp: host_rel_def)
    with True OpAdd o host_rel_claim [OF assms(1) r True, of rs] show ?thesis
      by (auto simp: Let_def split: prod.split option.splits)
  next
    case False
    then obtain j rw where j: "vh_owner m h = Some (j, rw)" "j \<noteq> i" by blast
    with vh.add_refused [OF j] OpAdd assms(1) o show ?thesis by simp
  qed
next
  case (OpDelete h)
  have m: "vhosts_inv m" and o: "hs_owner s = vh_owner m"
    and home: "\<And>i h. hs_home s i = Some h \<longleftrightarrow> (\<exists>rs. vh_owner m h = Some (i, rs))"
    using assms(1) by (auto simp: host_rel_def)
  have "host_rel (DeleteHost h m) (case hs_owner s h of None \<Rightarrow> s
      | Some (i, _) \<Rightarrow> \<lparr>hs_owner = (hs_owner s)(h := None), hs_home = (hs_home s)(i := None)\<rparr>)"
  proof (cases "vh_owner m h")
    case None
    then have "(vh_owner m)(h := None) = vh_owner m" by (simp add: fun_upd_idem)
    with None m o home show ?thesis by (simp add: host_rel_def vh.del_owner vh.del_inv)
  next
    case (Some p)
    then obtain i rw where p: "vh_owner m h = Some (i, rw)" by (cases p) auto
    have "((hs_home s)(i := None)) j = Some k \<longleftrightarrow> (\<exists>rs. ((vh_owner m)(h := None)) k = Some (j, rs))" for j k
    proof (cases "j = i")
      case True
      have "k = h" if "vh_owner m k = Some (i, rs)" for rs by (rule vh.owner_unique [OF m p that])
      with True show ?thesis by auto
    next
      case False
      with home [of j k] p show ?thesis by simp
    qed
    with p m o show ?thesis by (simp add: host_rel_def vh.del_owner vh.del_inv)
  qed
  with OpDelete show ?thesis by simp
qed (use assms host_rel_lookup [OF assms(1)] in \<open>auto simp: host_rel_def vh.ident_of_owner\<close>)

lemma answers_refine:
  assumes "host_rel m s" "\<forall>m. range_of (ord m) m"
  shows "answers (host_step ord) xs m = answers spec_step xs s"
  using assms(1)
proof (induction xs arbitrary: m s)
  case (Cons x xs)
  obtain a m' b s' where "host_step ord x m = (a, m')" "spec_step x s = (b, s')" by fastforce
  with host_step_refines [OF Cons.prems assms(2), of x] Cons.IH [of m' s'] show ?case by simp
qed simp

text \<open>
  C11: The host table refines a pair of inverse maps.  Any sequence of claims, deletions and lookups on
  a new table gets the answers that the two maps give, whatever order Go chooses for every
  iteration: a host has one owner, a client one host, and a claim is refused exactly when somebody
  else holds the host.
\<close>

theorem host_table_refines:
  assumes "\<forall>m. range_of (ord m) m"
  shows "answers (host_step ord) xs newVirtualHosts = answers spec_step xs empty_spec"
  by (rule answers_refine [OF host_rel_empty assms])

theorem host_table_refines_witness:
  "answers (host_step rev)
     [OpAdd ''a.example.com'' ''alice'' [], OpAdd ''a.example.com'' ''bob'' [], OpAdd ''b.example.com'' ''alice'' [],
      OpIdentifier ''a.example.com'', OpHost ''alice''] (newVirtualHosts :: bool vhosts) =
   [Claimed None, Claimed (Some (ErrHostInUse ''a.example.com'')), Claimed None, Named ('''', False),
    Named (''b.example.com'', True)]"
proof -
  have "\<forall>m :: bool vhosts. range_of (rev m) m" by (simp add: range_of_def)
  show ?thesis
    unfolding host_table_refines [OF \<open>\<forall>m :: bool vhosts. range_of (rev m) m\<close>] by (simp add: empty_spec_def)
qed

end
