(* ===== verification/Overlapping_Connects.thy ===== *)
theory Overlapping_Connects
  imports Server_Life
begin

section \<open>Connects that overlap (tunnel/server.go)\<close>

text \<open>
  \<open>controlHandler\<close> waits up to ten seconds for the client's stream.  Here a connect is two steps, up
  to that wait and from it on, and any other event of the server comes between them, further
  connects of the same client included.  The first half leaves a \<open>pending\<close> handler behind, under a
  number of its own.

  A step is the code between two points at which its goroutine waits for a peer.  The wait of \<open>dial\<close>
  needs no step of its own: after it a request changes nothing of the server's state
  (\<open>http_change\<close>).
\<close>

definition checkConnect_begin :: "'re runtime \<Rightarrow> 're server_conf \<Rightarrow> connect_env \<Rightarrow> http_request \<Rightarrow>
    response_writer \<Rightarrow> 're server \<Rightarrow> nat option \<times> response_writer \<times> 're server" where
  "checkConnect_begin rt cf env r w sv =
     (case connect_checks rt cf r w sv of
        (Some w1, sv1) \<Rightarrow> (None, w1, sv1)
      | (None, sv1) \<Rightarrow>
          (case connect_open rt cf env r w sv1 of
             (Inl err, w1, sv2) \<Rightarrow>
               (None, connect_done rt (Header_Get (rq_header r) ClientIdentifierHeader) (Some err) w1 sv2)
           | (Inr conn, w1, sv2) \<Rightarrow> (Some conn, w1, sv2)))"

definition checkConnect_finish :: "'re runtime \<Rightarrow> connect_env \<Rightarrow> string \<Rightarrow> nat \<Rightarrow>
    response_writer \<Rightarrow> 're server \<Rightarrow> response_writer \<times> 're server" where
  "checkConnect_finish rt env ident conn w sv =
     (case handshake rt env ident conn sv of (result, sv1) \<Rightarrow> connect_done rt ident result w sv1)"

text \<open>\<open>checkConnect\<close> is the two halves with nothing between them.\<close>

lemma checkConnect_split:
  "checkConnect rt cf env r w sv =
     (case checkConnect_begin rt cf env r w sv of
        (None, w1, sv1) \<Rightarrow> (w1, sv1)
      | (Some conn, w1, sv1) \<Rightarrow>
          checkConnect_finish rt env (Header_Get (rq_header r) ClientIdentifierHeader) conn w1 sv1)"
  by (auto simp: checkConnect_def checkConnect_begin_def checkConnect_finish_def controlHandler_def
      split: prod.splits option.splits sum.splits)

subsection \<open>The machine\<close>

record pending =
  pd_ident :: string
  pd_conn :: nat
  pd_session :: nat
  pd_writer :: response_writer

record 're overlap =
  ov_server :: "'re server"
  ov_pending :: "nat \<rightharpoonup> pending"

datatype 're overlap_event =
    OvStep "'re server_event"
  | OvBegin nat connect_env http_request bool
  | OvFinish nat connect_env

fun overlap_step :: "'re server_conf \<Rightarrow> 're runtime \<times> 're overlap_event \<Rightarrow> 're overlap \<Rightarrow> 're overlap" where
  "overlap_step cf (rt, OvStep ev) s = s\<lparr>ov_server := server_step cf (rt, ev) (ov_server s)\<rparr>"
| "overlap_step cf (rt, OvBegin n env r hj) s =
     (if ov_pending s n \<noteq> None \<or> \<not> isControlRequest cf r then s
      else (case checkConnect_begin rt cf env r (fresh_writer hj) (ov_server s) of
        (None, _, sv1) \<Rightarrow> s\<lparr>ov_server := sv1\<rparr>
      | (Some conn, w1, sv1) \<Rightarrow>
          s\<lparr>ov_server := sv1,
            ov_pending := (ov_pending s)(n \<mapsto>
              \<lparr>pd_ident = Header_Get (rq_header r) ClientIdentifierHeader, pd_conn = conn,
               pd_session = projr (ce_session env), pd_writer = w1\<rparr>)\<rparr>))"
| "overlap_step cf (rt, OvFinish n env) s =
     (case ov_pending s n of
        None \<Rightarrow> s
      | Some p \<Rightarrow>
          s\<lparr>ov_server := snd (checkConnect_finish rt env (pd_ident p) (pd_conn p) (pd_writer p) (ov_server s)),
            ov_pending := (ov_pending s)(n := None)\<rparr>)"

definition overlap_run :: "'re server_conf \<Rightarrow> ('re runtime \<times> 're overlap_event) list \<Rightarrow> 're overlap \<Rightarrow> 're overlap" where
  "overlap_run cf = fold (overlap_step cf)"

definition idle :: "'re server \<Rightarrow> 're overlap" where
  "idle sv = \<lparr>ov_server = sv, ov_pending = Map.empty\<rparr>"

lemma overlap_run_simps [simp]:
  "overlap_run cf [] s = s" "overlap_run cf (e # es) s = overlap_run cf es (overlap_step cf e s)"
  "overlap_run cf (es @ fs) s = overlap_run cf fs (overlap_run cf es s)"
  by (simp_all add: overlap_run_def)

subsection \<open>What holds in every run\<close>

lemma core_inv_begin:
  assumes "checkConnect_begin rt cf env r w sv = (res, w1, sv1)" "runtime_ok rt" "core_inv sv"
  shows "core_inv sv1"
proof -
  obtain a sv2 where c: "connect_checks rt cf r w sv = (a, sv2)" by fastforce
  obtain b w3 sv3 where o: "connect_open rt cf env r w sv2 = (b, w3, sv3)" using prod_cases3 by blast
  have "core_inv sv2" using core_inv_connect_checks [OF assms(2,3), of cf r w] c by simp
  moreover from this have "core_inv sv3" by (rule core_inv_connect_open [OF o])
  then have "core_inv (snd (connect_done rt (Header_Get (rq_header r) ClientIdentifierHeader) e w3 sv3))" for e
    by (rule core_inv_connect_done)
  ultimately show ?thesis
    using assms(1) c o \<open>core_inv sv3\<close>
    by (auto simp: checkConnect_begin_def split: option.splits sum.splits) (metis snd_conv)
qed

lemma core_inv_finish: "core_inv sv \<Longrightarrow> core_inv (snd (checkConnect_finish rt env i conn w sv))"
  using core_inv_handshake [of sv rt env i conn]
  by (auto simp: checkConnect_finish_def core_inv_connect_done split: prod.splits)

lemma core_inv_overlap_step:
  assumes "core_inv (ov_server s)" "runtime_ok rt"
  shows "core_inv (ov_server (overlap_step cf (rt, ev) s))"
  using assms
  by (cases ev) (auto simp: core_inv_step core_inv_finish dest: core_inv_begin split: prod.splits option.splits)

interpretation overlap: invariant_steps "overlap_step cf" "\<lambda>s. core_inv (ov_server s)" "\<lambda>(rt, _). runtime_ok rt" for cf
  by unfold_locales (auto simp: core_inv_overlap_step)

subsection \<open>What the two halves change\<close>

text \<open>The tables of the server that a step can change: sessions, control connections, hosts.\<close>

definition same_tables :: "'re server \<Rightarrow> 're server \<Rightarrow> bool" where
  "same_tables sv sv' \<longleftrightarrow> sv_sessions sv' = sv_sessions sv \<and> sv_controls sv' = sv_controls sv \<and> sv_vhosts sv' = sv_vhosts sv"

lemma same_tables_simps:
  assumes "same_tables sv sv'"
  shows "sv_sessions sv' = sv_sessions sv" "server_getControl j sv' = server_getControl j sv"
    "host_owner sv' = host_owner sv" "sessions_cover sv' = sessions_cover sv" "control_routed sv' = control_routed sv"
  using assms host_owner_cong [of sv' sv]
  by (simp_all add: same_tables_def server_getControl_def sessions_cover_def control_routed_def)

lemma same_tables_frame [simp]:
  "same_tables sv sv" "same_tables sv (emit es sv') = same_tables sv sv'"
  "same_tables sv (snd (connect_done rt i res w sv')) = same_tables sv sv'"
  by (auto simp: same_tables_def connect_done_def Let_def split: option.splits)

lemma connect_checks_granted:
  assumes "connect_checks rt cf r w sv = (None, sv1)"
  shows "\<exists>d rules. sv1 = snd (server_AddHost rt d (Header_Get (rq_header r) ClientIdentifierHeader) rules sv)"
    "rq_method r = sf_control_method cf" "checkIdentifier cf (Header_Get (rq_header r) ClientIdentifierHeader)"
  using assms unfolding connect_checks_def Let_def
  by (auto split: if_splits option.splits sum.splits prod.splits) (metis snd_conv)

lemma connect_open_cases:
  assumes "connect_open rt cf env r w sv = (b, w', sv')"
    and "ident = Header_Get (rq_header r) ClientIdentifierHeader"
  shows "(\<exists>e. b = Inl e \<and> same_tables sv sv') \<or>
    (\<exists>e p. b = Inl e \<and> server_getControl ident sv = Some p \<and> sv' = teardown rt ident p sv) \<or>
    (\<exists>conn s. b = Inr conn \<and> server_getControl ident sv = None \<and> snd (getHost rt ident sv) \<and>
       ce_session env = Inr s \<and> sv' = addSession ident s (emit [WriteConn conn connected_line] sv) \<and>
       checkIdentifierSignature ident (sf_signature_key cf) (Header_Get (rq_header r) ClientIdentifierSignature))"
proof (cases "checkIdentifierSignature ident (sf_signature_key cf) (Header_Get (rq_header r) ClientIdentifierSignature) \<and>
    snd (getHost rt ident sv) \<and> server_getControl ident sv = None \<and> rw_hijackable w \<and>
    ce_write env = None \<and> ce_deadline env = None \<and> (\<exists>conn s. ce_hijack env = Inr conn \<and> ce_session env = Inr s)")
  case True
  then obtain conn s where c: "ce_hijack env = Inr conn" "ce_session env = Inr s" by blast
  have "b = Inr conn" "sv' = addSession ident s (emit [WriteConn conn connected_line] sv)"
    using assms True c by (auto simp: connect_open_def Let_def)
  then show ?thesis using True c by blast
next
  case False
  then have "\<exists>e. b = Inl e"
    using assms by (auto simp: connect_open_def Let_def split: if_splits option.splits sum.splits)
  moreover have "same_tables sv sv' \<or> (\<exists>p. server_getControl ident sv = Some p \<and> sv' = teardown rt ident p sv)"
    using assms False
    by (auto simp: connect_open_def Let_def teardown_def split: if_splits option.splits sum.splits)
  ultimately show ?thesis by blast
qed

text \<open>
  How the first half ends: with the host claimed at most, with the client's earlier connection torn
  down, or waiting for the client's stream.
\<close>

lemma begin_cases:
  assumes "checkConnect_begin rt cf env r w sv = (res, w', sv')"
    and "ident = Header_Get (rq_header r) ClientIdentifierHeader"
  obtains (ended) "res = None" "same_tables sv sv'"
  | (claimed) d rules where "res = None" "same_tables (snd (server_AddHost rt d ident rules sv)) sv'"
  | (torn) d rules p where "res = None" "server_getControl ident sv = Some p"
      "same_tables (teardown rt ident p (snd (server_AddHost rt d ident rules sv))) sv'"
  | (waiting) d rules conn s where "res = Some conn" "server_getControl ident sv = None"
      "snd (getHost rt ident (snd (server_AddHost rt d ident rules sv)))" "ce_session env = Inr s"
      "sv' = addSession ident s (emit [WriteConn conn connected_line] (snd (server_AddHost rt d ident rules sv)))"
      "rq_method r = sf_control_method cf" "checkIdentifier cf ident"
      "Header_Get (rq_header r) ClientIdentifierSignature = signIdentifier ident (sf_signature_key cf)"
proof -
  obtain a sv1 where c: "connect_checks rt cf r w sv = (a, sv1)" by fastforce
  obtain b w2 sv2 where o: "connect_open rt cf env r w sv1 = (b, w2, sv2)" using prod_cases3 by blast
  show thesis
  proof (cases a)
    case (Some w1)
    with assms(1) c have r: "res = None" "sv' = sv1" by (simp_all add: checkConnect_begin_def)
    consider (same) "sv1 = sv" | (added) d rules where "sv1 = snd (server_AddHost rt d ident rules sv)"
      using connect_checks_state [of rt cf r w sv] c assms(2) by auto
    then show thesis
    proof cases
      case same
      then show thesis using r by (intro ended) simp_all
    next
      case (added d rules)
      then show thesis using r by (intro claimed [of d rules]) simp_all
    qed
  next
    case None
    then obtain d rules where d: "sv1 = snd (server_AddHost rt d ident rules sv)"
      "rq_method r = sf_control_method cf" "checkIdentifier cf ident"
      using connect_checks_granted [of rt cf r w sv sv1] c assms(2) by blast
    from connect_open_cases [OF o assms(2)] show thesis
    proof (elim disjE exE conjE)
      fix e assume "b = Inl e" "same_tables sv1 sv2"
      moreover from this None assms(1) c o have "res = None"
        "sv' = snd (connect_done rt (Header_Get (rq_header r) ClientIdentifierHeader) (Some e) w2 sv2)"
        by (simp_all add: checkConnect_begin_def split: prod.splits)
      ultimately show thesis using d(1) by (intro claimed [of d rules]) simp_all
    next
      fix e p assume "b = Inl e" "server_getControl ident sv1 = Some p" "sv2 = teardown rt ident p sv1"
      moreover from this None assms(1) c o have "res = None"
        "sv' = snd (connect_done rt (Header_Get (rq_header r) ClientIdentifierHeader) (Some e) w2 sv2)"
        by (simp_all add: checkConnect_begin_def split: prod.splits)
      ultimately show thesis using d(1) by (intro torn [of p d rules]) simp_all
    next
      fix conn s assume "b = Inr conn" "server_getControl ident sv1 = None" "snd (getHost rt ident sv1)"
        "ce_session env = Inr s" "sv2 = addSession ident s (emit [WriteConn conn connected_line] sv1)"
        "checkIdentifierSignature ident (sf_signature_key cf) (Header_Get (rq_header r) ClientIdentifierSignature)"
      then show thesis
        using None assms(1) c o d
        by (intro waiting [of conn d rules s]) (simp_all add: checkConnect_begin_def sig.check_iff)
    qed
  qed
qed

text \<open>How the second half ends.\<close>

lemma finish_cases:
  obtains (aborted) st es cs where "fst (handshake rt env i conn sv) \<noteq> None"
      "same_tables (abort_connect rt i st conn (emit es sv)) (snd (checkConnect_finish rt env i conn w sv))"
      "sv_effects (snd (checkConnect_finish rt env i conn w sv)) =
         sv_effects (abort_connect rt i st conn (emit es sv)) @ map RunCallback cs"
  | (established) st where "fst (handshake rt env i conn sv) = None"
      "same_tables (establish i st sv) (snd (checkConnect_finish rt env i conn w sv))"
proof (rule handshake_cases [of rt env i conn sv])
  fix err st es
  assume "handshake rt env i conn sv = (Some (ErrAfterHijack err), abort_connect rt i st conn (emit es sv))"
  moreover obtain cs where
    "sv_effects (snd (connect_done rt i (Some (ErrAfterHijack err)) w (abort_connect rt i st conn (emit es sv)))) =
       sv_effects (abort_connect rt i st conn (emit es sv)) @ map RunCallback cs"
    using connect_done_effects [OF prod.collapse [symmetric]] by blast
  ultimately show thesis by (intro aborted [of st es cs]) (simp_all add: checkConnect_finish_def)
next
  fix st
  assume "handshake rt env i conn sv = (None, establish i st (emit [ReplyHandshake st HandshakeResponse] sv))"
  then show thesis
    by (intro established [of st])
       (simp_all add: checkConnect_finish_def connect_done_def same_tables_def alloc_control_def)
qed

subsection \<open>Other clients\<close>

text \<open>Nothing of the tables that belongs to a client other than \<open>i\<close> differs.\<close>

definition others_kept :: "string \<Rightarrow> 're server \<Rightarrow> 're server \<Rightarrow> bool" where
  "others_kept i sv sv' \<longleftrightarrow> (\<forall>j. j \<noteq> i \<longrightarrow>
     server_getControl j sv' = server_getControl j sv \<and> sv_sessions sv' j = sv_sessions sv j \<and>
     (\<forall>h. host_owner sv' h = Some j \<longleftrightarrow> host_owner sv h = Some j))"

lemma others_kept_refl [simp]: "others_kept i sv sv"
  by (simp add: others_kept_def)

lemma others_kept_trans: "others_kept i sv sv1 \<Longrightarrow> others_kept i sv1 sv2 \<Longrightarrow> others_kept i sv sv2"
  by (simp add: others_kept_def)

lemma others_kept_tables: "same_tables sv1 sv2 \<Longrightarrow> others_kept i sv sv1 \<Longrightarrow> others_kept i sv sv2"
  by (simp add: others_kept_def same_tables_simps)

lemma others_kept_frame [simp]:
  "others_kept i sv (emit es sv') = others_kept i sv sv'"
  "others_kept i sv (addSession i s sv') = others_kept i sv sv'"
  "others_kept i sv (establish i st sv') = others_kept i sv sv'"
  by (auto simp: others_kept_def getControl_establish)

lemma others_kept_AddHost:
  assumes "runtime_ok rt" "core_inv sv"
  shows "others_kept i sv (snd (server_AddHost rt d i rs sv))"
proof (cases "fst (server_AddHost rt d i rs sv) = None")
  case True
  have inv: "vhosts_inv (sv_vhosts sv)" using assms(2) by (simp add: core_inv_def)
  with True have "host_owner sv d \<in> {None, Some i}" using server_AddHost_granted_iff [OF assms(1)] by blast
  then show ?thesis by (auto simp: others_kept_def host_owner_AddHost [OF assms(1) inv True])
qed (simp add: server_AddHost_refused)

lemma others_kept_teardown: "runtime_ok rt \<Longrightarrow> core_inv sv \<Longrightarrow> others_kept i sv (teardown rt i p sv)"
  by (simp add: others_kept_def getControl_teardown host_owner_teardown core_inv_def)

lemma others_kept_abort: "runtime_ok rt \<Longrightarrow> core_inv sv \<Longrightarrow> others_kept i sv (abort_connect rt i st c sv)"
  by (simp add: others_kept_def host_owner_abort core_inv_def)

lemma begin_others_kept:
  assumes "checkConnect_begin rt cf env r w sv = (res, w', sv')" "runtime_ok rt" "core_inv sv"
  shows "others_kept (Header_Get (rq_header r) ClientIdentifierHeader) sv sv'"
  using assms(1) refl
proof (cases rule: begin_cases)
  case ended
  show ?thesis by (rule others_kept_tables [OF ended(2)]) simp
next
  case (claimed d rules)
  show ?thesis by (rule others_kept_tables [OF claimed(2) others_kept_AddHost [OF assms(2,3)]])
next
  case (torn d rules p)
  show ?thesis
    by (rule others_kept_tables [OF torn(3)], rule others_kept_trans [OF others_kept_AddHost [OF assms(2,3)]])
       (rule others_kept_teardown [OF assms(2) core_inv_AddHost [OF assms(2,3)]])
next
  case (waiting d rules conn s)
  show ?thesis unfolding waiting(5) by (simp add: others_kept_AddHost [OF assms(2,3)])
qed

lemma finish_others_kept:
  assumes "runtime_ok rt" "core_inv sv"
  shows "others_kept i sv (snd (checkConnect_finish rt env i conn w sv))"
proof (rule finish_cases [of rt env i conn sv w])
  fix st es
  assume "same_tables (abort_connect rt i st conn (emit es sv)) (snd (checkConnect_finish rt env i conn w sv))"
  moreover have "others_kept i (emit es sv) (abort_connect rt i st conn (emit es sv))"
    using assms by (intro others_kept_abort) simp_all
  then have "others_kept i sv (abort_connect rt i st conn (emit es sv))"
    by (rule others_kept_trans [rotated]) simp
  ultimately show ?thesis by (rule others_kept_tables)
next
  fix st assume "same_tables (establish i st sv) (snd (checkConnect_finish rt env i conn w sv))"
  then show ?thesis by (rule others_kept_tables) simp
qed

lemma checkConnect_others_kept:
  assumes "runtime_ok rt" "core_inv sv"
  shows "others_kept (Header_Get (rq_header r) ClientIdentifierHeader) sv (snd (checkConnect rt cf env r w sv))"
proof -
  obtain res w1 sv1 where b: "checkConnect_begin rt cf env r w sv = (res, w1, sv1)" using prod_cases3 by blast
  note kept = begin_others_kept [OF b assms]
  show ?thesis
  proof (cases res)
    case None
    then show ?thesis using b kept by (simp add: checkConnect_split)
  next
    case (Some conn)
    show ?thesis
      using others_kept_trans [OF kept finish_others_kept [OF assms(1) core_inv_begin [OF b assms]]] b Some
      by (simp add: checkConnect_split)
  qed
qed

subsection \<open>Runs in which no event of a client comes between the halves of its connect\<close>

text \<open>The events that act on the connection of client \<open>i\<close>.\<close>

fun concerns :: "'re server_conf \<Rightarrow> 're server \<Rightarrow> string \<Rightarrow> 're server_event \<Rightarrow> bool" where
  "concerns cf sv i (EvServe cenv henv r hj) \<longleftrightarrow>
     isControlRequest cf r \<and> Header_Get (rq_header r) ClientIdentifierHeader = i"
| "concerns cf sv i (EvControl cenv r hj) \<longleftrightarrow>
     isControlRequest cf r \<and> Header_Get (rq_header r) ClientIdentifierHeader = i"
| "concerns cf sv i (EvListenError p err) \<longleftrightarrow> ct_identifier (ck_heap (sv_controls sv) p) = i"
| "concerns cf sv i _ \<longleftrightarrow> False"

fun separated :: "'re server_conf \<Rightarrow> 're runtime \<times> 're overlap_event \<Rightarrow> 're overlap \<Rightarrow> bool" where
  "separated cf (rt, OvStep ev) s \<longleftrightarrow>
     (\<forall>n p. ov_pending s n = Some p \<longrightarrow> \<not> concerns cf (ov_server s) (pd_ident p) ev)"
| "separated cf (rt, OvBegin n env r hj) s \<longleftrightarrow>
     (\<forall>m p. ov_pending s m = Some p \<longrightarrow> pd_ident p \<noteq> Header_Get (rq_header r) ClientIdentifierHeader)"
| "separated cf (rt, OvFinish n env) s \<longleftrightarrow> True"

fun separated_run :: "'re server_conf \<Rightarrow> ('re runtime \<times> 're overlap_event) list \<Rightarrow> 're overlap \<Rightarrow> bool" where
  "separated_run cf [] s \<longleftrightarrow> True"
| "separated_run cf (e # es) s \<longleftrightarrow> separated cf e s \<and> separated_run cf es (overlap_step cf e s)"

abbreviation hosted :: "string \<Rightarrow> 're server \<Rightarrow> bool" where
  "hosted i sv \<equiv> \<exists>h. host_owner sv h = Some i"

lemma others_keptD:
  assumes "others_kept i sv sv'" "j \<noteq> i"
  shows "server_getControl j sv' = server_getControl j sv" "sv_sessions sv' j = sv_sessions sv j"
    "hosted j sv' \<longleftrightarrow> hosted j sv"
  using assms by (auto simp: others_kept_def)

lemma hosted_AddHost:
  assumes "runtime_ok rt" "core_inv sv" "hosted j sv"
  shows "hosted j (snd (server_AddHost rt d i rs sv))"
proof (cases "j = i \<and> fst (server_AddHost rt d i rs sv) = None")
  case True
  then have "host_owner (snd (server_AddHost rt d i rs sv)) d = Some j"
    using host_owner_AddHost [OF assms(1), of sv d i rs] assms(2) by (simp add: core_inv_def)
  then show ?thesis by blast
next
  case False
  then show ?thesis
    using assms others_keptD(3) [OF others_kept_AddHost [OF assms(1,2), of i d rs], of j]
    by (cases "j = i") (simp_all add: server_AddHost_refused)
qed

text \<open>Client \<open>i\<close> keeps its session and gets no control connection; it keeps a host, too, if \<open>hosts\<close>.\<close>

definition stays :: "string \<Rightarrow> bool \<Rightarrow> 're server \<Rightarrow> 're server \<Rightarrow> bool" where
  "stays i hosts sv sv' \<longleftrightarrow> sv_sessions sv' i = sv_sessions sv i \<and>
     (server_getControl i sv = None \<longrightarrow> server_getControl i sv' = None) \<and>
     (hosts \<longrightarrow> hosted i sv \<longrightarrow> hosted i sv')"

lemma stays_frame [simp]:
  "stays i b sv sv"
  "stays i b sv (onConnect rt j sv') = stays i b sv sv'" "stays i b sv (onDisconnect rt j e sv') = stays i b sv sv'"
  "stays i b sv (OnConnect j fn sv') = stays i b sv sv'" "stays i b sv (OnDisconnect j fn sv') = stays i b sv sv'"
  by (simp_all add: stays_def OnConnect_def [of _ _ sv'] OnDisconnect_def [of _ _ sv'] server_getControl_def
      host_owner_def)

lemma stays_others: "others_kept j sv sv' \<Longrightarrow> j \<noteq> i \<Longrightarrow> stays i b sv sv'"
  by (simp add: stays_def others_keptD)

lemma stays_PublicHandler: "stays i b sv (snd (PublicHandler rt cf env r w sv))"
  using http_change_PublicHandler [of sv rt cf env r w]
  unfolding stays_def host_owner_PublicHandler
  by (auto simp: http_change_def server_getControl_def ctl.entry_remove)

lemma stays_listen_error:
  assumes "runtime_ok rt" "core_inv sv" "ct_identifier (ck_heap (sv_controls sv) p) \<noteq> i"
  shows "stays i b sv (listen_error rt p err sv)"
  unfolding listen_error_def Let_def teardown_def [symmetric] stays_frame
  using others_kept_teardown [OF assms(1,2)] assms(3) by (rule stays_others)

lemma stays_checkConnect:
  assumes "runtime_ok rt" "core_inv sv" "Header_Get (rq_header r) ClientIdentifierHeader \<noteq> i"
  shows "stays i b sv (snd (checkConnect rt cf env r w sv))"
  using checkConnect_others_kept [OF assms(1,2)] assms(3) by (rule stays_others)

lemma stays_AddHost:
  "runtime_ok rt \<Longrightarrow> core_inv sv \<Longrightarrow> stays i b sv (snd (server_AddHost rt d j rs sv))"
  using hosted_AddHost [of rt sv i d j rs] by (simp add: stays_def)

lemma step_unconcerned:
  assumes "core_inv sv" "runtime_ok rt" "\<not> concerns cf sv i ev"
  shows "stays i (keeps_hosts ev) sv (server_step cf (rt, ev) sv)"
proof (cases ev)
  case (EvDeleteHost h)
  then show ?thesis by (simp add: stays_def)
qed (use assms in \<open>simp_all add: ServeHTTP_def ControlHandler_def listen_start_def listen_message_def
  stays_PublicHandler stays_listen_error stays_checkConnect stays_AddHost\<close>)

text \<open>
  What holds in these runs: a session for every control connection and for every pending connect, whose
  client has no control connection and no other connect pending; and, unless hosts are deleted from
  outside, a host for each of them.
\<close>

definition separated_inv :: "bool \<Rightarrow> 're overlap \<Rightarrow> bool" where
  "separated_inv hosts s \<longleftrightarrow>
     core_inv (ov_server s) \<and> sessions_cover (ov_server s) \<and> (hosts \<longrightarrow> control_routed (ov_server s)) \<and>
     (\<forall>n p. ov_pending s n = Some p \<longrightarrow>
        sv_sessions (ov_server s) (pd_ident p) \<noteq> None \<and> server_getControl (pd_ident p) (ov_server s) = None \<and>
        (hosts \<longrightarrow> hosted (pd_ident p) (ov_server s)) \<and>
        (\<forall>m q. ov_pending s m = Some q \<and> pd_ident q = pd_ident p \<longrightarrow> m = n))"

lemma cover_others:
  assumes "others_kept i sv sv'" "sessions_cover sv"
    and "server_getControl i sv' \<noteq> None \<Longrightarrow> sv_sessions sv' i \<noteq> None"
  shows "sessions_cover sv'"
  unfolding sessions_cover_def
proof (intro allI impI)
  fix j assume "server_getControl j sv' \<noteq> None"
  then show "sv_sessions sv' j \<noteq> None"
    using assms others_keptD(1,2) [OF assms(1), of j] by (cases "j = i") (auto simp: sessions_cover_def)
qed

lemma routed_others:
  assumes "others_kept i sv sv'" "control_routed sv"
    and "server_getControl i sv' \<noteq> None \<Longrightarrow> hosted i sv'"
  shows "control_routed sv'"
  unfolding control_routed_def
proof (intro allI impI)
  fix j assume "server_getControl j sv' \<noteq> None"
  then show "hosted j sv'"
    using assms others_keptD(1,3) [OF assms(1), of j] by (cases "j = i") (auto simp: control_routed_def)
qed

lemma separated_inv_server:
  assumes "separated_inv hosts s" "others_kept i (ov_server s) sv'" "core_inv sv'"
    and "server_getControl i sv' \<noteq> None \<Longrightarrow> sv_sessions sv' i \<noteq> None \<and> (hosts \<longrightarrow> hosted i sv')"
    and "\<And>n p. ps n = Some p \<Longrightarrow> ov_pending s n = Some p \<and> pd_ident p \<noteq> i"
  shows "separated_inv hosts (s\<lparr>ov_server := sv', ov_pending := ps\<rparr>)"
  using assms cover_others [OF assms(2)] routed_others [OF assms(2)] others_keptD [OF assms(2)]
  by (simp add: separated_inv_def) metis

lemma separated_inv_finish:
  assumes "separated_inv hosts s" "runtime_ok rt"
  shows "separated_inv hosts (overlap_step cf (rt, OvFinish n env) s)"
proof (cases "ov_pending s n")
  case (Some p)
  let ?sv = "ov_server s" and ?i = "pd_ident p"
  let ?sv' = "snd (checkConnect_finish rt env ?i (pd_conn p) (pd_writer p) ?sv)"
  have core: "core_inv ?sv" using assms(1) by (simp add: separated_inv_def)
  have p: "sv_sessions ?sv ?i \<noteq> None" "server_getControl ?i ?sv = None" "hosts \<longrightarrow> hosted ?i ?sv"
    "\<And>m q. ov_pending s m = Some q \<Longrightarrow> pd_ident q = ?i \<Longrightarrow> m = n"
    using assms(1) Some by (auto simp: separated_inv_def)
  have own: "server_getControl ?i ?sv' \<noteq> None \<Longrightarrow> sv_sessions ?sv' ?i \<noteq> None \<and> (hosts \<longrightarrow> hosted ?i ?sv')"
    by (rule finish_cases [of rt env ?i "pd_conn p" ?sv "pd_writer p"])
       (use p in \<open>simp_all add: same_tables_simps\<close>)
  have "separated_inv hosts (s\<lparr>ov_server := ?sv', ov_pending := (ov_pending s)(n := None)\<rparr>)"
    by (rule separated_inv_server [OF assms(1) finish_others_kept [OF assms(2) core] core_inv_finish [OF core] own])
       (use p(4) in \<open>auto split: if_splits\<close>)
  with Some show ?thesis by simp
qed (use assms in simp)

lemma separated_inv_step:
  assumes "separated_inv hosts s" "runtime_ok rt" "hosts \<longrightarrow> keeps_hosts ev" "separated cf (rt, OvStep ev) s"
  shows "separated_inv hosts (overlap_step cf (rt, OvStep ev) s)"
proof -
  let ?sv = "ov_server s" and ?sv' = "server_step cf (rt, ev) (ov_server s)"
  have core: "core_inv ?sv" and inv: "server_inv ?sv" using assms(1) by (auto simp: separated_inv_def server_inv_core)
  have "server_inv ?sv'" by (rule server_inv_step [OF inv assms(2)])
  moreover have "hosts \<longrightarrow> control_routed ?sv'"
    using assms(1-3) inv by (auto simp: separated_inv_def intro: control_routed_step)
  moreover have "stays (pd_ident p) (keeps_hosts ev) ?sv ?sv'" if "ov_pending s n = Some p" for n p
    using step_unconcerned [OF core assms(2)] assms(4) that by auto
  ultimately show ?thesis
    using assms(1,3) by (simp add: separated_inv_def stays_def server_inv_core)
qed

lemma separated_inv_begin:
  assumes "separated_inv hosts s" "runtime_ok rt" "separated cf (rt, OvBegin n env r hj) s"
  shows "separated_inv hosts (overlap_step cf (rt, OvBegin n env r hj) s)"
proof (cases "ov_pending s n \<noteq> None \<or> \<not> isControlRequest cf r")
  case False
  let ?sv = "ov_server s" and ?i = "Header_Get (rq_header r) ClientIdentifierHeader"
  obtain res w sv' where b: "checkConnect_begin rt cf env r (fresh_writer hj) ?sv = (res, w, sv')"
    using prod_cases3 by blast
  have core: "core_inv ?sv" and cover: "sessions_cover ?sv" and routed: "hosts \<longrightarrow> control_routed ?sv"
    using assms(1) by (auto simp: separated_inv_def)
  have core': "core_inv (snd (server_AddHost rt d j rs ?sv))" for d j rs
    by (rule core_inv_AddHost [OF assms(2) core])
  have own: "server_getControl ?i sv' \<noteq> None \<Longrightarrow> sv_sessions sv' ?i \<noteq> None \<and> (hosts \<longrightarrow> hosted ?i sv')"
    using b refl
  proof (cases rule: begin_cases)
    case (claimed d rules)
    assume "server_getControl ?i sv' \<noteq> None"
    then show ?thesis
      using claimed(2) cover routed hosted_AddHost [OF assms(2) core, of ?i d ?i rules]
      by (auto simp: same_tables_simps sessions_cover_def control_routed_def)
  next
    case ended
    assume "server_getControl ?i sv' \<noteq> None"
    then show ?thesis
      using ended(2) cover routed by (auto simp: same_tables_simps sessions_cover_def control_routed_def)
  next
    case (torn d rules p)
    assume "server_getControl ?i sv' \<noteq> None"
    then show ?thesis by (simp add: same_tables_simps [OF torn(3)] getControl_teardown)
  next
    case (waiting d rules conn t)
    assume "server_getControl ?i sv' \<noteq> None"
    then show ?thesis by (simp add: waiting(2,5))
  qed
  have rest: "separated_inv hosts (s\<lparr>ov_server := sv', ov_pending := ov_pending s\<rparr>)"
    by (rule separated_inv_server [OF assms(1) begin_others_kept [OF b assms(2) core] core_inv_begin [OF b assms(2) core] own])
       (use assms(3) in auto)
  show ?thesis
  proof (cases res)
    case None
    then show ?thesis using rest False b by simp
  next
    case (Some conn)
    from b refl have "sv_sessions sv' ?i \<noteq> None \<and> server_getControl ?i sv' = None \<and> hosted ?i sv'"
    proof (cases rule: begin_cases)
      case (waiting d rules conn' t)
      then show ?thesis using core' [of d ?i rules] by (simp add: getHost_iff [OF assms(2)] core_inv_def)
    qed (use Some in simp_all)
    moreover have free: "ov_pending s m = Some q \<Longrightarrow> pd_ident q \<noteq> ?i" for m q using assms(3) by simp
    ultimately show ?thesis
      using rest False b Some by (auto simp: separated_inv_def dest: free free [symmetric])
  qed
qed (use assms in auto)

lemma separated_inv_run:
  assumes "separated_inv hosts s" "list_all (\<lambda>(rt, _). runtime_ok rt) evs" "separated_run cf evs s"
    and "hosts \<longrightarrow> list_all (\<lambda>(_, e). \<forall>ev. e = OvStep ev \<longrightarrow> keeps_hosts ev) evs"
  shows "separated_inv hosts (overlap_run cf evs s)"
  using assms
proof (induction evs arbitrary: s)
  case (Cons e evs)
  obtain rt ev where e: "e = (rt, ev)" by (cases e)
  have "separated_inv hosts (overlap_step cf e s)"
    using Cons.prems
    by (cases ev) (auto simp: e simp del: overlap_step.simps
        intro!: separated_inv_step separated_inv_begin separated_inv_finish)
  then show ?case using Cons by simp
qed simp

lemma idle_simps [simp]: "ov_server (idle sv) = sv" "ov_pending (idle sv) = Map.empty"
  by (simp_all add: idle_def)

lemma separated_inv_initial:
  "(\<And>c. ch = Some c \<Longrightarrow> chan_ok c) \<Longrightarrow> separated_inv hosts (idle (initial_server ch))"
  using server_inv_initial [of ch] by (simp add: separated_inv_def server_inv_core control_routed_def)

subsection \<open>Where control connections come from\<close>

fun authentic_event :: "'re server_conf \<Rightarrow> string \<Rightarrow> 're overlap_event \<Rightarrow> bool" where
  "authentic_event cf i (OvStep (EvServe cenv henv r hj)) \<longleftrightarrow> authentic cf r i"
| "authentic_event cf i (OvStep (EvControl cenv r hj)) \<longleftrightarrow> authentic cf r i"
| "authentic_event cf i (OvBegin n env r hj) \<longleftrightarrow> authentic cf r i"
| "authentic_event cf i _ \<longleftrightarrow> False"

text \<open>Client \<open>i\<close> has a control connection, or a connect that passed the first half.\<close>

definition admitted :: "string \<Rightarrow> 're overlap \<Rightarrow> bool" where
  "admitted i s \<longleftrightarrow> server_getControl i (ov_server s) \<noteq> None \<or> (\<exists>n p. ov_pending s n = Some p \<and> pd_ident p = i)"

lemma admitted_server_step:
  assumes "core_inv sv" "runtime_ok rt" "server_getControl i (server_step cf (rt, ev) sv) \<noteq> None"
  shows "server_getControl i sv \<noteq> None \<or> authentic_event cf i (OvStep ev)"
proof (cases "concerns cf sv i ev")
  case False
  then show ?thesis using step_unconcerned [OF assms(1,2) False] assms(3) by (auto simp: stays_def)
next
  case True
  then show ?thesis
    using assms(3) checkConnect_unauthentic [of cf _ rt]
    by (cases ev) (auto simp: ServeHTTP_def ControlHandler_def listen_error_def Let_def teardown_def [symmetric]
        getControl_teardown)
qed

lemma admitted_begin:
  assumes "checkConnect_begin rt cf env r w sv = (res, w', sv')" "isControlRequest cf r"
  shows "(server_getControl i sv' \<noteq> None \<longrightarrow> server_getControl i sv \<noteq> None) \<and>
    (res \<noteq> None \<longrightarrow> authentic cf r (Header_Get (rq_header r) ClientIdentifierHeader))"
  using assms(1) refl
proof (cases rule: begin_cases)
  case (torn d rules p)
  then show ?thesis by (simp add: same_tables_simps [OF torn(3)] getControl_teardown)
next
  case (waiting d rules conn s)
  then show ?thesis using assms(2) by (simp add: authentic_def)
qed (simp_all add: same_tables_simps)

lemma admitted_finish:
  assumes "server_getControl i (snd (checkConnect_finish rt env j conn w sv)) \<noteq> None"
  shows "server_getControl i sv \<noteq> None \<or> i = j"
  by (rule finish_cases [of rt env j conn sv w])
    (use assms in \<open>auto simp: same_tables_simps getControl_establish split: if_splits\<close>)

lemma admitted_step:
  assumes "core_inv (ov_server s)" "runtime_ok rt" "admitted i (overlap_step cf (rt, e) s)"
  shows "admitted i s \<or> authentic_event cf i e"
proof (cases e)
  case (OvStep ev)
  then show ?thesis using admitted_server_step [OF assms(1,2), of i cf ev] assms(3) by (auto simp: admitted_def)
next
  case (OvBegin n env r hj)
  obtain res w sv' where b: "checkConnect_begin rt cf env r (fresh_writer hj) (ov_server s) = (res, w, sv')"
    using prod_cases3 by blast
  show ?thesis
    using assms(3) OvBegin b admitted_begin [OF b]
    by (auto simp: admitted_def split: option.splits if_splits)
next
  case (OvFinish n env)
  then show ?thesis
    using assms(3) admitted_finish
    by (cases "ov_pending s n") (fastforce simp: admitted_def split: if_splits)+
qed

lemma admitted_run:
  assumes "core_inv (ov_server s)" "list_all (\<lambda>(rt, _). runtime_ok rt) evs" "admitted i (overlap_run cf evs s)"
  shows "admitted i s \<or> (\<exists>(rt, e) \<in> set evs. authentic_event cf i e)"
  using assms
proof (induction evs arbitrary: s)
  case (Cons e evs)
  obtain rt ev where e: "e = (rt, ev)" by (cases e)
  have "core_inv (ov_server (overlap_step cf e s))" using Cons.prems by (simp add: e core_inv_overlap_step)
  with Cons admitted_step [of s rt i cf ev] show ?case by (auto simp: e)
qed simp

subsection \<open>Properties\<close>

definition runtimes_ok :: "('re runtime \<times> 're overlap_event) list \<Rightarrow> bool" where
  "runtimes_ok evs \<longleftrightarrow> list_all (\<lambda>(rt, _). runtime_ok rt) evs"

lemma overlap_run_core:
  assumes "NewServer rt opts = Inr (cf, sv0, warned)"
    and "\<forall>ch. so_state_changes opts = Some ch \<longrightarrow> chan_ok ch" "runtimes_ok evs"
  shows "core_inv (ov_server (overlap_run cf evs (idle sv0)))"
proof -
  have "server_inv sv0" using assms(2) by (simp add: NewServer_initial [OF assms(1)] server_inv_initial)
  then have "core_inv (ov_server (idle sv0))" by (simp add: server_inv_core)
  then show ?thesis
    using assms(3) unfolding overlap_run_def runtimes_ok_def by (rule overlap.run_inv)
qed

lemma overlap_run_separated:
  assumes "NewServer rt opts = Inr (cf, sv0, warned)"
    and "\<forall>ch. so_state_changes opts = Some ch \<longrightarrow> chan_ok ch" "runtimes_ok evs"
    and "separated_run cf evs (idle sv0)"
    and "hosts \<longrightarrow> list_all (\<lambda>(_, e). \<forall>ev. e = OvStep ev \<longrightarrow> keeps_hosts ev) evs"
  shows "separated_inv hosts (overlap_run cf evs (idle sv0))"
  using assms
  by (intro separated_inv_run) (simp_all add: NewServer_initial [OF assms(1)] separated_inv_initial runtimes_ok_def)

text \<open>
  A run for the witnesses: \<open>alice\<close> connects, and connects again while the server still waits for the
  stream of her first connect; the second handshake is completed.
\<close>

definition ex_first :: "(string runtime \<times> string overlap_event) list" where
  "ex_first = [(ex_runtime, OvBegin 0 ex_cenv (ex_connect ''alice'' ''a'') True)]"

definition ex_overlap :: "(string runtime \<times> string overlap_event) list" where
  "ex_overlap = ex_first @
     [(ex_runtime, OvBegin 1 (ex_cenv\<lparr>ce_hijack := Inr 4, ce_session := Inr 5\<rparr>) (ex_connect ''alice'' ''a'') True),
      (ex_runtime, OvFinish 1 (ex_cenv\<lparr>ce_accept := Accepted 6\<rparr>))]"

lemma ex_begin:
  assumes "server_getControl i sv = None" "ce_write env = None" "ce_deadline env = None"
    and "ce_hijack env = Inr conn" "ce_session env = Inr s"
    and "host_owner sv ''app.example.com'' \<in> {None, Some i}" "vhosts_inv (sv_vhosts sv)"
  shows "checkConnect_begin ex_runtime ex_conf env (ex_connect i ''a'') (fresh_writer True) sv =
    (Some conn, (fresh_writer True)\<lparr>rw_hijacked := True\<rparr>,
     addSession i s (emit [WriteConn conn connected_line]
       (snd (server_AddHost ex_runtime ''app.example.com'' i ex_rules sv))))"
proof -
  let ?add = "server_AddHost ex_runtime ''app.example.com'' i ex_rules sv"
  have none: "fst ?add = None"
    using server_AddHost_granted_iff [OF ex_runtime_ok assms(7)] assms(6) by blast
  then obtain sv1 where granted: "?add = (None, sv1)" by (metis prod.collapse)
  have "vhosts_inv (sv_vhosts sv1)" "host_owner sv1 ''app.example.com'' = Some i" "server_getControl i sv1 = None"
    using vhosts_inv_AddHost [OF ex_runtime_ok assms(7), of "''app.example.com''" i ex_rules]
      host_owner_AddHost [OF ex_runtime_ok assms(7) none] granted assms(1)
      getControl_frame(3) [of i ex_runtime "''app.example.com''" i ex_rules sv] by simp_all
  moreover from this have "snd (getHost ex_runtime i sv1)" by (auto simp: getHost_iff)
  ultimately show ?thesis using granted assms
    by (simp add: checkConnect_begin_def connect_checks_def connect_open_def Let_def sig.check_iff fresh_writer_def)
qed

abbreviation overlapped :: "string overlap" where
  "overlapped \<equiv> overlap_run ex_conf ex_overlap (idle (initial_server (Some ex_chan)))"

lemma ex_overlap_simps:
  "server_getControl ''alice'' (ov_server overlapped) = Some 0"
  "sv_sessions (ov_server overlapped) ''alice'' = Some 5"
  "\<exists>p. ov_pending overlapped 0 = Some p \<and> pd_ident p = ''alice''"
proof -
  let ?sv0 = "initial_server (Some ex_chan) :: string server"
  let ?add = "\<lambda>sv. snd (server_AddHost ex_runtime ''app.example.com'' ''alice'' ex_rules sv)"
  let ?sv1 = "addSession ''alice'' 2 (emit [WriteConn 1 connected_line] (?add ?sv0))"
  let ?sv2 = "addSession ''alice'' 5 (emit [WriteConn 4 connected_line] (?add ?sv1))"
  have inv: "vhosts_inv (sv_vhosts ?sv0)" by (simp add: vhosts_inv_def)
  have inv1: "vhosts_inv (sv_vhosts ?sv1)" using vhosts_inv_AddHost [OF ex_runtime_ok inv] by simp
  have "fst (server_AddHost ex_runtime ''app.example.com'' ''alice'' ex_rules ?sv0) = None"
    unfolding server_AddHost_granted_iff [OF ex_runtime_ok inv] by simp
  from host_owner_AddHost [OF ex_runtime_ok inv this]
  have owner1: "host_owner ?sv1 ''app.example.com'' = Some ''alice''" by simp
  have b: "checkConnect_begin ex_runtime ex_conf ex_cenv (ex_connect ''alice'' ''a'') (fresh_writer True) ?sv0 =
      (Some 1, (fresh_writer True)\<lparr>rw_hijacked := True\<rparr>, ?sv1)"
    "checkConnect_begin ex_runtime ex_conf (ex_cenv\<lparr>ce_hijack := Inr 4, ce_session := Inr 5\<rparr>)
       (ex_connect ''alice'' ''a'') (fresh_writer True) ?sv1 =
      (Some 4, (fresh_writer True)\<lparr>rw_hijacked := True\<rparr>, ?sv2)"
    using inv inv1 owner1 by (intro ex_begin; simp)+
  have "server_getControl ''alice'' ?sv2 = None" by simp
  moreover have "ck_next (sv_controls ?sv2) = 0" by (simp add: initial_server_def newControls_def)
  ultimately show "server_getControl ''alice'' (ov_server overlapped) = Some 0"
    "sv_sessions (ov_server overlapped) ''alice'' = Some 5"
    "\<exists>p. ov_pending overlapped 0 = Some p \<and> pd_ident p = ''alice''"
    by (simp_all add: ex_overlap_def ex_first_def b checkConnect_finish_def handshake_def connect_done_def Let_def
        server_getControl_def alloc_control_def addControl_def getControl_def del: One_nat_def)
qed

lemma ex_overlap_ok: "runtimes_ok ex_overlap"
  by (simp add: runtimes_ok_def ex_overlap_def ex_first_def)

text \<open>And one in which \<open>alice\<close> connects without another event of hers in between.\<close>

definition ex_serial :: "(string runtime \<times> string overlap_event) list" where
  "ex_serial = [(ex_runtime, OvStep (ex_join ''alice'')), (ex_runtime, OvStep (EvListenStart 0))]"

lemma ex_serial_simps:
  "server_getControl ''alice'' (ov_server (overlap_run ex_conf ex_serial (idle (initial_server (Some ex_chan))))) = Some 0"
  "separated_run ex_conf ex_serial (idle (initial_server (Some ex_chan)))" "runtimes_ok ex_serial"
  by (simp_all add: ex_serial_def runtimes_ok_def listen_start_def)

text \<open>
  C14: Whatever requests, listener events and API calls a new server has seen, in whatever order and
  however the connects of its clients overlap: no client holds two hosts, every registered control
  connection is open, carries the identifier it is registered under and no other, and the channel of
  state changes is within its capacity.  Every control connection comes with a session if no event of
  a client (another connect, or the end of a control connection) came between the halves of one of
  its connects.
\<close>

theorem reachable_server:
  assumes "NewServer rt opts = Inr (cf, sv0, warned)"
    and "\<forall>ch. so_state_changes opts = Some ch \<longrightarrow> chan_ok ch"
    and "runtimes_ok evs"
    and "sv = ov_server (overlap_run cf evs (idle sv0))"
  shows "(host_owner sv h = Some i \<and> host_owner sv h' = Some i \<longrightarrow> h' = h) \<and>
    (server_getControl i sv = Some p \<longrightarrow>
       ct_identifier (ck_heap (sv_controls sv) p) = i \<and> \<not> ct_closed (ck_heap (sv_controls sv) p) \<and>
       (\<forall>j. server_getControl j sv = Some p \<longrightarrow> j = i)) \<and>
    (\<forall>ch. sv_stateCh sv = Some ch \<longrightarrow> length (ch_buf ch) \<le> ch_cap ch) \<and>
    (separated_run cf evs (idle sv0) \<and> server_getControl i sv \<noteq> None \<longrightarrow> sv_sessions sv i \<noteq> None)"
proof -
  have inv: "core_inv sv" unfolding assms(4) using assms(1-3) by (rule overlap_run_core)
  have "sessions_cover sv" if "separated_run cf evs (idle sv0)"
    using overlap_run_separated [OF assms(1-3) that, of False] by (simp add: assms(4) separated_inv_def)
  then show ?thesis
    using core_inv_control [OF inv] inv
    by (auto simp: core_inv_def sessions_cover_def state_chan_ok_def chan_ok_def intro: host_owner_unique)
qed

theorem reachable_server_witness:
  "ct_identifier (ck_heap (sv_controls (ov_server overlapped)) 0) = ''alice'' \<and>
   sv_sessions (ov_server (overlap_run ex_conf ex_serial (idle (initial_server (Some ex_chan))))) ''alice'' \<noteq> None"
proof
  show "ct_identifier (ck_heap (sv_controls (ov_server overlapped)) 0) = ''alice''"
    using reachable_server [OF ex_NewServer ex_options_chan ex_overlap_ok refl] ex_overlap_simps(1) by blast
  show "sv_sessions (ov_server (overlap_run ex_conf ex_serial (idle (initial_server (Some ex_chan))))) ''alice'' \<noteq> None"
    using reachable_server [OF ex_NewServer ex_options_chan ex_serial_simps(3) refl, THEN conjunct2, THEN conjunct2,
        THEN conjunct2, THEN mp] ex_serial_simps(1,2) by blast
qed

text \<open>
  C15: In a run in which no event of a client came between the halves of one of its connects, and in
  which the embedding program deleted no host, a client with a control connection can be routed to:
  it holds exactly one host, and its session is there to open streams on.
\<close>

theorem connected_client_routable:
  assumes "NewServer rt opts = Inr (cf, sv0, warned)"
    and "\<forall>ch. so_state_changes opts = Some ch \<longrightarrow> chan_ok ch"
    and "runtimes_ok evs" "list_all (\<lambda>(_, e). \<forall>ev. e = OvStep ev \<longrightarrow> keeps_hosts ev) evs"
    and "separated_run cf evs (idle sv0)"
    and "sv = ov_server (overlap_run cf evs (idle sv0))" "server_getControl i sv = Some p"
  shows "(\<exists>!h. host_owner sv h = Some i) \<and> (\<exists>s. getSession i sv = Inr s)"
proof -
  have inv: "core_inv sv" "sessions_cover sv" "control_routed sv"
    using overlap_run_separated [OF assms(1-3,5), of True] assms(4) by (simp_all add: assms(6) separated_inv_def)
  then have "sv_sessions sv i \<noteq> None" "hosted i sv"
    using assms(7) by (auto simp: sessions_cover_def control_routed_def)
  then show ?thesis
    using inv(1) by (auto simp: getSession_def core_inv_def intro: host_owner_unique)
qed

theorem connected_client_routable_witness:
  "\<exists>s. getSession ''alice'' (ov_server (overlap_run ex_conf ex_serial (idle (initial_server (Some ex_chan))))) = Inr s"
  using connected_client_routable [OF ex_NewServer ex_options_chan ex_serial_simps(3) _ ex_serial_simps(2) refl
      ex_serial_simps(1)] by (simp add: ex_serial_def)

text \<open>
  C20: The condition on the runs is needed.  When a connect of a client was overtaken by a newer one
  and its handshake then fails, its clean-up takes the newer connection for its own: it closes and
  forgets the newer session and releases the client's host.  The newer control connection
  stays open and registered, so the client counts as connected, and no request reaches it.
\<close>

theorem older_handshake_strands_newer:
  assumes "runtime_ok rt" "core_inv (ov_server s)" "ov_pending s n = Some p" "pd_ident p = i"
    and "server_getControl i (ov_server s) = Some q" "sv_sessions (ov_server s) i = Some newer"
    and "fst (handshake rt env i (pd_conn p) (ov_server s)) \<noteq> None"
    and "sv = ov_server (overlap_step cf (rt, OvFinish n env) s)"
  shows "server_getControl i sv = Some q \<and> \<not> ct_closed (ck_heap (sv_controls sv) q) \<and>
    SessionClose newer \<in> set (since (ov_server s) sv) \<and> sv_sessions sv i = None \<and>
    (\<forall>h. host_owner sv h \<noteq> Some i) \<and> dial sent accepted i proto port sv = (Inl (ErrNoSession i), sv)"
proof -
  let ?sv0 = "ov_server s"
  have sv: "sv = snd (checkConnect_finish rt env i (pd_conn p) (pd_writer p) ?sv0)"
    using assms(3,4,8) by simp
  obtain st es cs where a: "same_tables (abort_connect rt i st (pd_conn p) (emit es ?sv0)) sv"
    "sv_effects sv = sv_effects (abort_connect rt i st (pd_conn p) (emit es ?sv0)) @ map RunCallback cs"
    unfolding sv by (rule finish_cases [of rt env i "pd_conn p" ?sv0 "pd_writer p"]) (use assms(7) in simp_all)
  have ctl: "server_getControl i sv = Some q" "sv_controls sv = sv_controls ?sv0" "sv_sessions sv i = None"
    using a(1) assms(5) by (simp_all add: same_tables_simps) (simp add: same_tables_def)
  moreover have "\<not> ct_closed (ck_heap (sv_controls sv) q)"
    using core_inv_control(2) [OF assms(2,5)] ctl by simp
  moreover have "since ?sv0 sv = es @ (case st of None \<Rightarrow> [] | Some x \<Rightarrow> [CloseStream x]) @
      [SessionGoAway newer, SessionClose newer] @ [CloseConn (pd_conn p)] @ map RunCallback cs"
    using a(2) assms(6) by (intro since_append) (simp add: abort_connect_effects)
  moreover have "host_owner sv h \<noteq> Some i" for h
  proof -
    have "vhosts_inv (sv_vhosts (emit es ?sv0))" using assms(2) by (simp add: core_inv_def)
    from host_owner_abort [OF assms(1) this, of i st "pd_conn p" h] show ?thesis
      using assms(6) by (simp add: same_tables_simps(3) [OF a(1)])
  qed
  moreover have "dial sent accepted i proto port sv = (Inl (ErrNoSession i), sv)"
    using ctl by (simp add: dial_def getSession_def)
  ultimately show ?thesis by simp
qed

text \<open>The client's first connection breaks after the second has been completed.\<close>

theorem older_handshake_strands_newer_witness:
  "server_getControl ''alice'' (ov_server (overlap_step ex_conf
     (ex_runtime, OvFinish 0 (ex_cenv\<lparr>ce_accept := AcceptTimeout\<rparr>)) overlapped)) = Some 0 \<and>
   sv_sessions (ov_server (overlap_step ex_conf
     (ex_runtime, OvFinish 0 (ex_cenv\<lparr>ce_accept := AcceptTimeout\<rparr>)) overlapped)) ''alice'' = None"
proof -
  obtain p where p: "ov_pending overlapped 0 = Some p" "pd_ident p = ''alice''" using ex_overlap_simps(3) by blast
  have core: "core_inv (ov_server overlapped)"
    using ex_NewServer ex_options_chan ex_overlap_ok by (rule overlap_run_core)
  show ?thesis
    using older_handshake_strands_newer [OF ex_runtime_ok core p ex_overlap_simps(1,2) _ refl]
    by (simp add: handshake_def del: overlap_step.simps)
qed

text \<open>
  C36: However connects overlap, a client has a control connection only if it asked for it: the run
  contains a request of the client on the control path, with the control method, an allowed
  identifier, and the signature of that identifier.
\<close>

theorem overlapping_controls_authentic:
  assumes "NewServer rt opts = Inr (cf, sv0, warned)"
    and "\<forall>ch. so_state_changes opts = Some ch \<longrightarrow> chan_ok ch" "runtimes_ok evs"
    and "server_getControl i (ov_server (overlap_run cf evs (idle sv0))) \<noteq> None"
  shows "\<exists>(rt', e) \<in> set evs. authentic_event cf i e"
proof -
  have "core_inv (ov_server (idle sv0))"
    using overlap_run_core [OF assms(1,2), of "[]"] by (simp add: runtimes_ok_def)
  moreover have "\<not> admitted i (idle sv0)"
    by (simp add: admitted_def NewServer_initial [OF assms(1)])
  moreover have "admitted i (overlap_run cf evs (idle sv0))" using assms(4) by (simp add: admitted_def)
  ultimately show ?thesis using admitted_run assms(3) unfolding runtimes_ok_def by blast
qed

theorem overlapping_controls_authentic_witness:
  "\<exists>(rt', e) \<in> set ex_overlap. authentic_event ex_conf ''alice'' e"
  by (rule overlapping_controls_authentic [OF ex_NewServer ex_options_chan ex_overlap_ok])
     (simp add: ex_overlap_simps(1))

text \<open>The client for which a step of a connect is taken.\<close>

fun connect_of :: "'re overlap_event \<Rightarrow> 're overlap \<Rightarrow> string option" where
  "connect_of (OvStep ev) s = None"
| "connect_of (OvBegin n env r hj) s = Some (Header_Get (rq_header r) ClientIdentifierHeader)"
| "connect_of (OvFinish n env) s = map_option pd_ident (ov_pending s n)"

text \<open>
  C19: What overlapping connects spoil stays within one client.  Neither half of a connect of \<open>i\<close>, whatever the
  network answers and whatever is pending, changes a control connection, a session, a host or a pending
  connect of another client.
\<close>

theorem overlapping_connects_isolated:
  assumes "runtime_ok rt" "core_inv (ov_server s)" "connect_of e s = Some i" "j \<noteq> i"
    and "s' = overlap_step cf (rt, e) s"
  shows "server_getControl j (ov_server s') = server_getControl j (ov_server s) \<and>
    sv_sessions (ov_server s') j = sv_sessions (ov_server s) j \<and>
    (\<forall>h. host_owner (ov_server s') h = Some j \<longleftrightarrow> host_owner (ov_server s) h = Some j) \<and>
    (\<forall>n p. pd_ident p = j \<longrightarrow> (ov_pending s' n = Some p \<longleftrightarrow> ov_pending s n = Some p))"
proof -
  have "others_kept i (ov_server s) (ov_server s') \<and>
      (\<forall>n p. pd_ident p = j \<longrightarrow> (ov_pending s' n = Some p \<longleftrightarrow> ov_pending s n = Some p))"
  proof (cases e)
    case (OvBegin n env r hj)
    obtain res w sv' where b: "checkConnect_begin rt cf env r (fresh_writer hj) (ov_server s) = (res, w, sv')"
      using prod_cases3 by blast
    show ?thesis
      using begin_others_kept [OF b assms(1,2)] assms(3-5) b by (auto simp: OvBegin split: option.splits)
  next
    case (OvFinish n env)
    then show ?thesis
      using finish_others_kept [OF assms(1,2)] assms(3-5) by (auto split: if_splits)
  qed (use assms(3) in simp)
  then show ?thesis using assms(4) by (simp add: others_kept_def)
qed

text \<open>\<open>bob\<close> asks for the host of \<open>alice\<close> while two connects of hers overlap.\<close>

theorem overlapping_connects_isolated_witness:
  "sv_sessions (ov_server (overlap_step ex_conf
     (ex_runtime, OvBegin 7 ex_cenv (ex_connect ''bob'' ''a'') True) overlapped)) ''alice'' = Some 5"
proof -
  have "core_inv (ov_server overlapped)"
    using ex_NewServer ex_options_chan ex_overlap_ok by (rule overlap_run_core)
  then show ?thesis
    using overlapping_connects_isolated [OF ex_runtime_ok, where i = "''bob''" and j = "''alice''"]
      ex_overlap_simps(2) by (simp del: overlap_step.simps)
qed

end
