(* ===== verification/Custom_Headers.thy ===== *)
theory Custom_Headers
  imports Go_Http
begin

section \<open>Custom headers (tunnel/customheaders.go)\<close>

text \<open>
  The headers that the client sets on every request to the local server.  They are a Go map,
  so the loops take the order of the iteration as \<open>r\<close>.
\<close>

fun applyCustomHeaders :: "(string \<times> string) list \<Rightarrow> http_request \<Rightarrow> http_request" where
  "applyCustomHeaders [] req = req"
| "applyCustomHeaders ((name, value) # r) req =
     applyCustomHeaders r
       (if EqualFold name ''Host'' then req\<lparr>rq_host := value\<rparr>
        else req\<lparr>rq_header := Header_Set (rq_header req) name value\<rparr>)"

text \<open>
  \<open>isTokenRune\<close> on the bytes of a name.  A rune outside ASCII is no token rune, and a byte
  above 127 is always part of such a rune.
\<close>

definition isTokenRune :: "char \<Rightarrow> bool" where
  "isTokenRune c \<longleftrightarrow>
     in_range (CHR ''a'') (CHR ''z'') c \<or> in_range (CHR ''A'') (CHR ''Z'') c \<or>
     in_range (CHR ''0'') (CHR ''9'') c \<or> c \<in> set (''!#$%&'' @ [CHR 0x27] @ ''*+-.^_`|~'')"

definition validHeaderName :: "string \<Rightarrow> bool" where
  "validHeaderName name \<longleftrightarrow> list_all isTokenRune name"

fun validateCustomHeaders :: "(string \<times> string) list \<Rightarrow> go_error option" where
  "validateCustomHeaders [] = None"
| "validateCustomHeaders ((name, value) # r) =
     (if name = '''' then Some (ErrConfig ''custom header name must not be empty'' [])
      else if CanonicalMIMEHeaderKey name = '''' \<or> \<not> validHeaderName name
        then Some (ErrConfig ''invalid custom header name'' [name])
      else if ContainsAny value [CHR 0x0D, CHR 0x0A]
        then Some (ErrConfig ''custom header has a value containing a line break'' [name])
      else validateCustomHeaders r)"

subsection \<open>What is accepted\<close>

text \<open>
  A header that cannot smuggle anything: a non-empty token for a name, no line break in the
  value.
\<close>

definition header_sendable :: "string \<times> string \<Rightarrow> bool" where
  "header_sendable nv \<longleftrightarrow>
     fst nv \<noteq> [] \<and> list_all valid_field_byte (fst nv) \<and>
     CHR 0x0D \<notin> set (snd nv) \<and> CHR 0x0A \<notin> set (snd nv)"

lemma isTokenRune_field_byte: "isTokenRune c = valid_field_byte c"
  by (auto simp: isTokenRune_def valid_field_byte_def)

lemma validHeaderName_field: "validHeaderName name = list_all valid_field_byte name"
  by (simp add: validHeaderName_def list_all_iff isTokenRune_field_byte)

text \<open>
  The test \<open>CanonicalMIMEHeaderKey(name) == ""\<close> never fires: the canonical form of a non-empty
  name is not empty.
\<close>

lemma validate_None_iff: "validateCustomHeaders r = None \<longleftrightarrow> list_all header_sendable r"
  by (induction r rule: validateCustomHeaders.induct)
     (auto simp: header_sendable_def validHeaderName_field CanonicalMIMEHeaderKey_Nil_iff
       ContainsAny_def list_ex_iff)

subsection \<open>What is set\<close>

text \<open>
  The place a header goes to: \<open>None\<close> is the \<open>Host\<close> field of the request, \<open>Some k\<close> the entry of
  the header map under \<open>k\<close>.
\<close>

definition header_slot :: "string \<Rightarrow> string option" where
  "header_slot name = (if EqualFold name ''Host'' then None else Some (CanonicalMIMEHeaderKey name))"

definition slot_value :: "http_request \<Rightarrow> string option \<Rightarrow> string list option" where
  "slot_value req slot = (case slot of None \<Rightarrow> Some [rq_host req] | Some k \<Rightarrow> rq_header req k)"

lemma slot_value_step:
  "slot_value (if EqualFold name ''Host'' then req\<lparr>rq_host := value\<rparr>
       else req\<lparr>rq_header := Header_Set (rq_header req) name value\<rparr>) slot =
     (if slot = header_slot name then Some [value] else slot_value req slot)"
  by (auto simp: slot_value_def header_slot_def Header_Set_def split: option.splits)

lemma slot_value_apply_other:
  "slot \<notin> (header_slot \<circ> fst) ` set r \<Longrightarrow> slot_value (applyCustomHeaders r req) slot = slot_value req slot"
  by (induction r req rule: applyCustomHeaders.induct) (simp_all add: slot_value_step)

lemma slot_value_apply:
  "distinct (map (header_slot \<circ> fst) r) \<Longrightarrow> (name, value) \<in> set r \<Longrightarrow>
     slot_value (applyCustomHeaders r req) (header_slot name) = Some [value]"
proof (induction r req rule: applyCustomHeaders.induct)
  case (2 n v r req)
  show ?case
  proof (cases "(name, value) = (n, v)")
    case True
    with "2.prems"(1) have "header_slot n \<notin> (header_slot \<circ> fst) ` set r" by simp
    with True show ?thesis by (simp add: slot_value_apply_other slot_value_step)
  qed (use 2 in auto)
qed simp

text \<open>The other fields of the request stay.\<close>

lemma apply_frame:
  "rq_method (applyCustomHeaders r req) = rq_method req"
  "rq_scheme (applyCustomHeaders r req) = rq_scheme req"
  "rq_urlhost (applyCustomHeaders r req) = rq_urlhost req"
  "rq_path (applyCustomHeaders r req) = rq_path req"
  "rq_uri (applyCustomHeaders r req) = rq_uri req"
  "rq_query (applyCustomHeaders r req) = rq_query req"
  "rq_body (applyCustomHeaders r req) = rq_body req"
  by (induction r req rule: applyCustomHeaders.induct) auto

lemma slot_value_ext:
  assumes "\<And>slot. slot_value req slot = slot_value req' slot"
  shows "rq_host req = rq_host req'" "rq_header req = rq_header req'"
  using assms [of None] assms [of "Some _"] by (auto simp: slot_value_def fun_eq_iff)

lemma apply_order_irrelevant:
  assumes "distinct (map (header_slot \<circ> fst) r)" "range_of r' r"
  shows "applyCustomHeaders r req = applyCustomHeaders r' req"
proof -
  have r': "set r' = set r" "distinct (map (header_slot \<circ> fst) r')"
    using assms by (simp_all add: range_of_set range_of_distinct_map)
  have "slot_value (applyCustomHeaders r req) slot = slot_value (applyCustomHeaders r' req) slot" for slot
  proof (cases "slot \<in> (header_slot \<circ> fst) ` set r")
    case True
    then obtain n v where "(n, v) \<in> set r" "slot = header_slot n" by auto
    with assms(1) r' show ?thesis by (simp add: slot_value_apply)
  next
    case False
    with r' show ?thesis by (simp add: slot_value_apply_other)
  qed
  note * = slot_value_ext [OF this]
  show ?thesis by (intro http_request.equality) (simp_all add: * apply_frame)
qed

end
