(* ===== verification/Go_Url.thy ===== *)
theory Go_Url
  imports Go_Net
begin

section \<open>net/url.Parse\<close>

text \<open>
  The URL parser of the standard library (Go 1.20), which the program applies to the configured
  targets and to the control URL.  The functions follow the library's, with the same checks
  in the same order; a \<open>Userinfo\<close> is only recorded as present.
\<close>

record url =
  ur_scheme :: string
  ur_opaque :: string
  ur_user :: bool
  ur_host :: string
  ur_path :: string
  ur_query :: string

definition empty_url :: url where
  "empty_url = \<lparr>ur_scheme = '''', ur_opaque = '''', ur_user = False, ur_host = '''', ur_path = '''',
     ur_query = ''''\<rparr>"

text \<open>\<open>strings.Cut\<close>: what stands before and after the first \<open>c\<close>.\<close>

definition Cut :: "string \<Rightarrow> char \<Rightarrow> string \<times> string" where
  "Cut s c = (case IndexByte s c of None \<Rightarrow> (s, '''') | Some i \<Rightarrow> (take i s, drop (i + 1) s))"

definition is_alpha :: "char \<Rightarrow> bool" where
  "is_alpha c \<longleftrightarrow> in_range (CHR ''a'') (CHR ''z'') c \<or> in_range (CHR ''A'') (CHR ''Z'') c"

definition is_digit :: "char \<Rightarrow> bool" where
  "is_digit c \<longleftrightarrow> in_range (CHR ''0'') (CHR ''9'') c"

definition is_ctl :: "char \<Rightarrow> bool" where
  "is_ctl c \<longleftrightarrow> byte_of c < 32 \<or> byte_of c = 127"

text \<open>The scheme and the rest of a URL; \<open>n\<close> is the index of the character that is looked at.\<close>

fun scheme_len :: "nat \<Rightarrow> string \<Rightarrow> go_error + nat" where
  "scheme_len n [] = Inr 0"
| "scheme_len n (c # cs) =
     (if is_alpha c then scheme_len (Suc n) cs
      else if is_digit c \<or> c \<in> set ''+-.'' then (if n = 0 then Inr 0 else scheme_len (Suc n) cs)
      else if c = CHR '':'' then (if n = 0 then Inl (ErrExternal ''missing protocol scheme'') else Inr n)
      else Inr 0)"

definition getScheme :: "string \<Rightarrow> go_error + string \<times> string" where
  "getScheme raw =
     (case scheme_len 0 raw of
        Inl e \<Rightarrow> Inl e
      | Inr n \<Rightarrow> Inr (if n = 0 then ('''', raw) else (take n raw, drop (n + 1) raw)))"

subsection \<open>Escapes\<close>

datatype url_mode = EncodeHost | EncodeZone | EncodeOther

definition ishex :: "char \<Rightarrow> bool" where
  "ishex c \<longleftrightarrow> is_digit c \<or> in_range (CHR ''a'') (CHR ''f'') c \<or> in_range (CHR ''A'') (CHR ''F'') c"

definition unhex :: "char \<Rightarrow> nat" where
  "unhex c =
     (if is_digit c then byte_of c - 48
      else if in_range (CHR ''a'') (CHR ''f'') c then byte_of c - 87
      else byte_of c - 55)"

text \<open>\<open>shouldEscape(c, encodeHost)\<close> for an ASCII character.\<close>

definition host_escape :: "char \<Rightarrow> bool" where
  "host_escape c \<longleftrightarrow>
     \<not> (is_alpha c \<or> is_digit c \<or> c \<in> set (''!$&'' @ [CHR 0x27] @ ''()*+,;=:[]<>'' @ [CHR 0x22]) \<or>
        c \<in> set ''-_.~'')"

definition errEscape :: go_error where
  "errEscape = ErrExternal ''invalid URL escape''"

fun unescape :: "url_mode \<Rightarrow> string \<Rightarrow> go_error + string" where
  "unescape mode [] = Inr []"
| "unescape mode (c # cs) =
     (if c = CHR ''%'' then
        (case cs of
           a # b # r \<Rightarrow>
             if \<not> ishex a \<or> \<not> ishex b then Inl errEscape
             else if mode = EncodeHost \<and> unhex a < 8 \<and> (a, b) \<noteq> (CHR ''2'', CHR ''5'') then Inl errEscape
             else if mode = EncodeZone \<and> (a, b) \<noteq> (CHR ''2'', CHR ''5'') \<and>
                     16 * unhex a + unhex b \<noteq> 32 \<and>
                     (128 \<le> 16 * unhex a + unhex b \<or> host_escape (char_of (16 * unhex a + unhex b)))
               then Inl errEscape
             else (case unescape mode r of
                     Inl e \<Rightarrow> Inl e
                   | Inr s \<Rightarrow> Inr (char_of (16 * unhex a + unhex b) # s))
         | _ \<Rightarrow> Inl errEscape)
      else if mode \<noteq> EncodeOther \<and> is_ascii c \<and> host_escape c
        then Inl (ErrExternal ''invalid character in host name'')
      else (case unescape mode cs of Inl e \<Rightarrow> Inl e | Inr s \<Rightarrow> Inr (c # s)))"

subsection \<open>The authority\<close>

definition validOptionalPort :: "string \<Rightarrow> bool" where
  "validOptionalPort port = (case port of [] \<Rightarrow> True | c # cs \<Rightarrow> c = CHR '':'' \<and> list_all is_digit cs)"

definition errPort :: go_error where
  "errPort = ErrExternal ''invalid port after host''"

fun find_zone :: "string \<Rightarrow> nat option" where
  "find_zone [] = None"
| "find_zone (c # cs) = (if take 3 (c # cs) = ''%25'' then Some 0 else map_option Suc (find_zone cs))"

definition parseHost :: "string \<Rightarrow> go_error + string" where
  "parseHost host =
     (if HasPrefix host ''['' then
        (case LastIndexByte host (CHR '']'') of
           None \<Rightarrow> Inl errMissingBracket
         | Some i \<Rightarrow>
             if \<not> validOptionalPort (drop (i + 1) host) then Inl errPort
             else (case find_zone (take i host) of
                     None \<Rightarrow> unescape EncodeHost host
                   | Some z \<Rightarrow>
                       (case unescape EncodeHost (take z host) of
                          Inl e \<Rightarrow> Inl e
                        | Inr h1 \<Rightarrow>
                            (case unescape EncodeZone (drop z (take i host)) of
                               Inl e \<Rightarrow> Inl e
                             | Inr h2 \<Rightarrow>
                                 (case unescape EncodeHost (drop i host) of
                                    Inl e \<Rightarrow> Inl e
                                  | Inr h3 \<Rightarrow> Inr (h1 @ h2 @ h3))))))
      else
        (case LastIndexByte host (CHR '':'') of
           Some i \<Rightarrow> if \<not> validOptionalPort (drop i host) then Inl errPort else unescape EncodeHost host
         | None \<Rightarrow> unescape EncodeHost host))"

definition validUserinfo :: "string \<Rightarrow> bool" where
  "validUserinfo s = list_all (\<lambda>c. is_alpha c \<or> is_digit c \<or>
     c \<in> set (''-._:~!$&'' @ [CHR 0x27] @ ''()*+,;=%@'')) s"

text \<open>The host, and whether there is a userinfo before it.\<close>

definition parseAuthority :: "string \<Rightarrow> go_error + bool \<times> string" where
  "parseAuthority authority =
     (case LastIndexByte authority (CHR ''@'') of
        None \<Rightarrow> (case parseHost authority of Inl e \<Rightarrow> Inl e | Inr h \<Rightarrow> Inr (False, h))
      | Some i \<Rightarrow>
          (case parseHost (drop (i + 1) authority) of
             Inl e \<Rightarrow> Inl e
           | Inr h \<Rightarrow>
               (let userinfo = take i authority; (u, p) = Cut userinfo (CHR '':'')
                in if \<not> validUserinfo userinfo then Inl (ErrExternal ''net/url: invalid userinfo'')
                   else (case unescape EncodeOther u of
                           Inl e \<Rightarrow> Inl e
                         | Inr _ \<Rightarrow>
                             (case unescape EncodeOther p of Inl e \<Rightarrow> Inl e | Inr _ \<Rightarrow> Inr (True, h))))))"

subsection \<open>The parser\<close>

definition set_path :: "url \<Rightarrow> string \<Rightarrow> go_error + url" where
  "set_path u rest = (case unescape EncodeOther rest of Inl e \<Rightarrow> Inl e | Inr p \<Rightarrow> Inr (u\<lparr>ur_path := p\<rparr>))"

definition parse_nofrag :: "string \<Rightarrow> go_error + url" where
  "parse_nofrag raw =
     (if list_ex is_ctl raw then Inl (ErrExternal ''net/url: invalid control character in URL'')
      else if raw = ''*'' then Inr (empty_url\<lparr>ur_path := ''*''\<rparr>)
      else (case getScheme raw of
        Inl e \<Rightarrow> Inl e
      | Inr (scheme0, rest0) \<Rightarrow>
          (let scheme = map lower_ascii scheme0; (rest, query) = Cut rest0 (CHR ''?'');
               u = empty_url\<lparr>ur_scheme := scheme, ur_query := query\<rparr>
           in if \<not> HasPrefix rest ''/'' \<and> scheme \<noteq> '''' then Inr (u\<lparr>ur_opaque := rest\<rparr>)
              else if \<not> HasPrefix rest ''/'' \<and> IndexByte (fst (Cut rest (CHR ''/''))) (CHR '':'') \<noteq> None
                then Inl (ErrExternal ''first path segment in URL cannot contain colon'')
              else if (scheme \<noteq> '''' \<or> \<not> HasPrefix rest ''///'') \<and> HasPrefix rest ''//'' then
                (let (authority, rest') = (case IndexByte (drop 2 rest) (CHR ''/'') of
                         None \<Rightarrow> (drop 2 rest, '''')
                       | Some i \<Rightarrow> (take i (drop 2 rest), drop i (drop 2 rest)))
                 in case parseAuthority authority of
                      Inl e \<Rightarrow> Inl e
                    | Inr (user, h) \<Rightarrow> set_path (u\<lparr>ur_user := user, ur_host := h\<rparr>) rest')
              else set_path u rest)))"

definition url_Parse :: "string \<Rightarrow> go_error + url" where
  "url_Parse raw =
     (let (u, frag) = Cut raw (CHR ''#'')
      in case parse_nofrag u of
           Inl e \<Rightarrow> Inl e
         | Inr r \<Rightarrow> (case unescape EncodeOther frag of Inl e \<Rightarrow> Inl e | Inr _ \<Rightarrow> Inr r))"

text \<open>\<open>splitHostPort\<close> of net/url, with \<open>Hostname\<close> and \<open>Port\<close>.\<close>

definition url_split_host :: "string \<Rightarrow> string \<times> string" where
  "url_split_host hostPort =
     (let (host, port) = (case LastIndexByte hostPort (CHR '':'') of
            None \<Rightarrow> (hostPort, '''')
          | Some i \<Rightarrow> if validOptionalPort (drop i hostPort) then (take i hostPort, drop (i + 1) hostPort)
                      else (hostPort, ''''))
      in (if HasPrefix host ''['' \<and> HasSuffix host '']'' then drop 1 (take (length host - 1) host) else host,
          port))"

definition url_Hostname :: "url \<Rightarrow> string" where
  "url_Hostname u = fst (url_split_host (ur_host u))"

definition url_Port :: "url \<Rightarrow> string" where
  "url_Port u = snd (url_split_host (ur_host u))"

text \<open>A port is a sequence of digits.\<close>

lemma url_Port_digits: "list_all is_digit (url_Port u)"
proof -
  have "list_all is_digit (drop (i + 1) s)" if "validOptionalPort (drop i s)" for i and s :: string
  proof (cases "drop i s")
    case (Cons c cs)
    then have "drop (i + 1) s = cs" by (metis add.commute drop_drop drop_Suc_Cons drop0 One_nat_def plus_1_eq_Suc)
    with that Cons show ?thesis by (simp add: validOptionalPort_def)
  qed simp
  then show ?thesis
    by (auto simp: url_Port_def url_split_host_def split: option.splits)
qed

end
