(* ===== verification/Local_Proxy.thy ===== *)
theory Local_Proxy
  imports Custom_Headers Go_Url Proto
begin

section \<open>The client's proxies (tunnel/proxy.go, httpproxy.go, wsproxy.go)\<close>

text \<open>
  What the client does with a stream that the server asked for.  A proxy function gets the
  stream and the control message; here it gets the message and a \<open>proxy_env\<close> with the outcomes
  of its reads, dials and writes, and returns what it does, in order.  \<open>None\<close> is a panic.
\<close>

datatype local_effect =
    RemoteWrite http_response
  | RemoteClose
  | LocalDo http_request
  | LocalDial string bool
  | LocalWrite http_request
  | LocalForward string
  | LocalClose
  | JoinRemoteLocal

record proxy_env =
  px_request :: "go_error + http_request"
  px_do :: "go_error + http_response"
  px_render :: "go_error option"
  px_dial :: "go_error option"
  px_write :: "go_error option"
  px_buffered :: string
  px_forward :: "go_error option"

type_synonym proxy_func = "control_message \<Rightarrow> proxy_env \<Rightarrow> local_effect list option"

subsection \<open>Error responses\<close>

definition noLocalServer :: http_response where
  "noLocalServer = \<lparr>rs_status = 503, rs_header = Map.empty, rs_body = ''no local server''\<rparr>"

definition sendErrorResponse :: "proxy_env \<Rightarrow> http_response \<Rightarrow> local_effect list" where
  "sendErrorResponse env resp =
     (if px_render env \<noteq> None then [RemoteClose] else [RemoteWrite resp, RemoteClose])"

subsection \<open>HTTP\<close>

text \<open>\<open>hp_headers\<close> is the map of custom headers in the order in which this call iterates over it.\<close>

record http_proxy =
  hp_target :: string
  hp_headers :: "(string \<times> string) list"
  hp_error :: "http_response option"

definition patchRequest :: "http_proxy \<Rightarrow> http_request \<Rightarrow> go_error + http_request" where
  "patchRequest p req =
     (case url_Parse (hp_target p) of
        Inl err \<Rightarrow> Inl (ErrConfig ''invalid target'' [hp_target p])
      | Inr u \<Rightarrow>
          Inr (applyCustomHeaders (hp_headers p)
            (req\<lparr>rq_uri := '''', rq_scheme := ur_scheme u, rq_urlhost := ur_host u, rq_host := ''''\<rparr>)))"

definition http_sendError :: "http_proxy \<Rightarrow> proxy_env \<Rightarrow> local_effect list" where
  "http_sendError p env =
     sendErrorResponse env (case hp_error p of None \<Rightarrow> noLocalServer | Some r \<Rightarrow> r)"

text \<open>A failed \<open>res.Write\<close> is only logged.\<close>

definition HTTPProxy_Proxy :: "http_proxy \<Rightarrow> proxy_func" where
  "HTTPProxy_Proxy p msg env =
     (if cm_protocol msg \<noteq> proto_HTTP \<and> cm_protocol msg \<noteq> proto_WS then None
      else Some
        (case px_request env of
           Inl err \<Rightarrow> http_sendError p env
         | Inr req \<Rightarrow>
             (case patchRequest p req of
                Inl err \<Rightarrow> http_sendError p env
              | Inr req1 \<Rightarrow>
                  LocalDo req1 #
                  (case px_do env of
                     Inl err \<Rightarrow> http_sendError p env
                   | Inr res \<Rightarrow> [RemoteWrite res]))))"

subsection \<open>Websockets\<close>

record ws_proxy =
  wp_target :: string
  wp_headers :: "(string \<times> string) list"

definition targetAddress :: "string \<Rightarrow> go_error + string \<times> bool" where
  "targetAddress target =
     (case url_Parse target of
        Inl err \<Rightarrow> Inl (ErrConfig ''invalid target'' [target])
      | Inr u \<Rightarrow>
          if ur_scheme u \<notin> {''https'', ''wss'', ''http'', ''ws'', ''''}
            then Inl (ErrConfig ''unsupported target scheme'' [ur_scheme u])
          else if ur_host u = '''' then Inl (ErrConfig ''target names no host'' [target])
          else
            (let useTLS = (ur_scheme u = ''https'' \<or> ur_scheme u = ''wss'')
             in Inr (if url_Port u = ''''
                       then JoinHostPort (url_Hostname u) (if useTLS then ''443'' else ''80'')
                       else ur_host u,
                     useTLS)))"

definition hostHeaderFor :: "string \<Rightarrow> string \<Rightarrow> string" where
  "hostHeaderFor target original =
     (case url_Parse target of
        Inl err \<Rightarrow> original
      | Inr u \<Rightarrow> if ur_host u = '''' then original else ur_host u)"

text \<open>\<open>dialTarget\<close>: the address and whether TLS is used, or the error.\<close>

definition dialTarget :: "string \<Rightarrow> proxy_env \<Rightarrow> local_effect list \<times> bool" where
  "dialTarget target env =
     (case targetAddress target of
        Inl err \<Rightarrow> ([], False)
      | Inr (addr, useTLS) \<Rightarrow> ([LocalDial addr useTLS], px_dial env = None))"

definition WSProxy_Proxy :: "ws_proxy \<Rightarrow> proxy_func" where
  "WSProxy_Proxy p msg env = Some
     (if cm_protocol msg \<noteq> proto_WS then [RemoteClose]
      else (case px_request env of
        Inl err \<Rightarrow> sendErrorResponse env noLocalServer
      | Inr req \<Rightarrow>
          (let (dialled, ok) = dialTarget (wp_target p) env
           in if \<not> ok then dialled @ sendErrorResponse env noLocalServer
              else
                (let req1 = applyCustomHeaders (wp_headers p)
                              (req\<lparr>rq_host := hostHeaderFor (wp_target p) (rq_host req)\<rparr>)
                 in dialled @ [LocalWrite req1] @
                    (if px_write env \<noteq> None then LocalClose # sendErrorResponse env noLocalServer
                     else if px_buffered env \<noteq> '''' then
                       LocalForward (px_buffered env) #
                       (if px_forward env \<noteq> None then [LocalClose] else [JoinRemoteLocal])
                     else [JoinRemoteLocal])))))"

subsection \<open>The choice of the proxy\<close>

record proxy_funcs =
  pf_HTTP :: "proxy_func option"
  pf_TCP :: "proxy_func option"
  pf_WS :: "proxy_func option"

definition DefaultProxyFuncs :: proxy_funcs where
  "DefaultProxyFuncs =
     \<lparr>pf_HTTP = Some (HTTPProxy_Proxy \<lparr>hp_target = '''', hp_headers = [], hp_error = None\<rparr>),
      pf_TCP = None,
      pf_WS = Some (WSProxy_Proxy \<lparr>wp_target = '''', wp_headers = []\<rparr>)\<rparr>"

definition or_default :: "proxy_func option \<Rightarrow> proxy_func option \<Rightarrow> proxy_func option" where
  "or_default f d = (case f of None \<Rightarrow> d | Some g \<Rightarrow> Some g)"

definition select_proxy :: "proxy_funcs \<Rightarrow> int \<Rightarrow> proxy_func option" where
  "select_proxy p protocol =
     (if protocol = proto_HTTP then or_default (pf_HTTP p) (pf_HTTP DefaultProxyFuncs)
      else if protocol = proto_TCP then or_default (pf_TCP p) (pf_TCP DefaultProxyFuncs)
      else if protocol = proto_WS then or_default (pf_WS p) (pf_WS DefaultProxyFuncs)
      else None)"

definition Proxy :: "proxy_funcs \<Rightarrow> proxy_func" where
  "Proxy p msg env =
     (case select_proxy p (cm_protocol msg) of
        None \<Rightarrow> Some [RemoteClose]
      | Some f \<Rightarrow> f msg env)"

subsection \<open>Joined streams\<close>

text \<open>
  \<open>joinStreams(a, b)\<close>: two goroutines copy in opposite directions, and each closes both
  connections when its \<open>io.Copy\<close> returns.  That happens in three cases only: the source has ended (with
  \<open>EOF\<close> or an error) and all that came before has been passed on; the destination takes no byte any more
  and there is one to pass on; a connection has been closed.  Otherwise a copy waits.

  A direction has the bytes that have arrived from its source and were not passed on yet
  (\<open>jd_pending\<close>), those that were (\<open>jd_sent\<close>), whether its source has ended, whether its destination
  is broken, and whether its copy has returned.
\<close>

record direction =
  jd_pending :: string
  jd_sent :: string
  jd_ended :: bool
  jd_broken :: bool
  jd_done :: bool

record joined =
  jn_ab :: direction
  jn_ba :: direction
  jn_open :: bool

definition joinStreams :: joined where
  "joinStreams =
     (let d = \<lparr>jd_pending = '''', jd_sent = '''', jd_ended = False, jd_broken = False, jd_done = False\<rparr>
      in \<lparr>jn_ab = d, jn_ba = d, jn_open = True\<rparr>)"

text \<open>
  The events: what the network does to a direction, and the steps of the two goroutines.  The
  direction from \<open>a\<close> to \<open>b\<close> is \<open>True\<close>.
\<close>

datatype join_event =
    Arrive bool char
  | SourceEnds bool
  | DestinationBreaks bool
  | CopyByte bool
  | EndCopy bool

definition arrive :: "char \<Rightarrow> direction \<Rightarrow> direction option" where
  "arrive c d = (if jd_ended d then None else Some (d\<lparr>jd_pending := jd_pending d @ [c]\<rparr>))"

text \<open>One byte moves, if the copy still runs and both connections work.\<close>

definition copy_byte :: "bool \<Rightarrow> direction \<Rightarrow> direction option" where
  "copy_byte is_open d =
     (if jd_done d \<or> \<not> is_open \<or> jd_broken d then None
      else (case jd_pending d of
              [] \<Rightarrow> None
            | c # cs \<Rightarrow> Some (d\<lparr>jd_pending := cs, jd_sent := jd_sent d @ [c]\<rparr>)))"

definition end_copy :: "bool \<Rightarrow> direction \<Rightarrow> direction option" where
  "end_copy is_open d =
     (if jd_done d then None
      else if \<not> is_open \<or> (if jd_pending d = '''' then jd_ended d else jd_broken d)
        then Some (d\<lparr>jd_done := True\<rparr>)
      else None)"

definition on_direction :: "bool \<Rightarrow> (direction \<Rightarrow> direction option) \<Rightarrow> joined \<Rightarrow> joined option" where
  "on_direction ab f j =
     (if ab then map_option (\<lambda>d. j\<lparr>jn_ab := d\<rparr>) (f (jn_ab j))
      else map_option (\<lambda>d. j\<lparr>jn_ba := d\<rparr>) (f (jn_ba j)))"

fun join_step :: "join_event \<Rightarrow> joined \<Rightarrow> joined option" where
  "join_step (Arrive ab c) j = (if jn_open j then on_direction ab (arrive c) j else None)"
| "join_step (SourceEnds ab) j = on_direction ab (\<lambda>d. Some (d\<lparr>jd_ended := True\<rparr>)) j"
| "join_step (DestinationBreaks ab) j = on_direction ab (\<lambda>d. Some (d\<lparr>jd_broken := True\<rparr>)) j"
| "join_step (CopyByte ab) j = on_direction ab (copy_byte (jn_open j)) j"
| "join_step (EndCopy ab) j =
     map_option (\<lambda>j'. j'\<lparr>jn_open := False\<rparr>) (on_direction ab (end_copy (jn_open j)) j)"

fun join_run :: "join_event list \<Rightarrow> joined \<Rightarrow> joined option" where
  "join_run [] j = Some j"
| "join_run (e # es) j = (case join_step e j of None \<Rightarrow> None | Some j' \<Rightarrow> join_run es j')"

text \<open>\<open>wg.Wait()\<close> returns.\<close>

definition join_returned :: "joined \<Rightarrow> bool" where
  "join_returned j \<longleftrightarrow> jd_done (jn_ab j) \<and> jd_done (jn_ba j)"

end
