(* ===== verification/Client.thy ===== *)
theory Client
  imports Local_Proxy Client_State Signature
begin

section \<open>The tunnel client (tunnel/client.go)\<close>

text \<open>
  The client keeps one control connection to the server alive.  \<open>Start\<close> is a loop that blocks in
  many places while \<open>Close\<close> may run at any time, so it is a machine with a program counter:
  every step is the code between two points where another goroutine can be observed.  The
  outcomes of blocking calls come with the step's event.
\<close>

subsection \<open>Configuration\<close>

text \<open>
  \<open>cg_fetch_*\<close> say whether the \<open>Fetch\<close> functions are set; what they return is part of the
  events.  \<open>cg_yamux\<close> is the outcome of \<open>yamux.VerifyConfig\<close>, \<open>None\<close> when no configuration is given.
\<close>

record client_config =
  cg_identifier :: string
  cg_signature_key :: string
  cg_fetch_identifier :: bool
  cg_server_addr :: string
  cg_fetch_server_addr :: bool
  cg_fetch_signature_key :: bool
  cg_proxy :: "proxy_func option"
  cg_state_changes :: "state_change chan option"
  cg_yamux :: "go_error option option"
  cg_connection :: connection_config
  cg_custom_headers :: "(string \<times> string) list"
  cg_control_path :: string
  cg_control_method :: string

definition verify :: "client_config \<Rightarrow> go_error option" where
  "verify c =
     (if cg_server_addr c = '''' \<and> \<not> cg_fetch_server_addr c
        then Some (ErrClient ''neither ServerAddr nor FetchServerAddr is set'')
      else if cg_identifier c = '''' \<and> \<not> cg_fetch_identifier c
        then Some (ErrClient ''neither Identifier nor FetchIdentifier is set'')
      else (case cg_yamux c of
              Some (Some err) \<Rightarrow> Some err
            | _ \<Rightarrow> validateCustomHeaders (cg_custom_headers c)))"

subsection \<open>State\<close>

datatype client_pc =
    PcIdle
  | PcTop "go_error option"
  | PcSleep "go_error option"
  | PcFetch "go_error option"
  | PcArm "go_error option" string string string
  | PcDial "go_error option" string string string
  | PcHandshake "go_error option"
  | PcListen "go_error option"
  | PcDrain "go_error option" go_error
  | PcCheck "go_error option"
  | PcDone

datatype client_effect =
    CStart
  | CSleep int
  | CDial string
  | CWriteRequest nat http_request
  | COpenStream nat
  | CCloseStream nat
  | CHello nat string
  | CSpawnProxy nat control_message
  | CGoAway nat
  | CCloseSession nat
  | CCloseConn nat

text \<open>
  \<open>'b\<close> is the state of the \<open>Backoff\<close>; \<open>cl_reqs\<close> is the counter of \<open>reqWg\<close>.  \<open>ctrlWg\<close> needs no
  field: \<open>listenControl\<close> runs inside \<open>connect\<close>, so it is zero whenever \<open>connect\<close> waits for it.
\<close>

record 'b client =
  cl_pc :: client_pc
  cl_session :: "nat option"
  cl_proxy :: proxy_func
  cl_notify :: "bool chan"
  cl_closed :: bool
  cl_reqs :: nat
  cl_state :: client_state
  cl_stateCh :: "state_change chan option"
  cl_backoff :: 'b
  cl_effects :: "client_effect list"

text \<open>The methods of a \<open>Backoff\<close>.\<close>

record 'b backoff =
  bo_next :: "'b \<Rightarrow> int \<times> 'b"
  bo_reset :: "'b \<Rightarrow> 'b"

text \<open>
  \<open>expBackoff\<close> hands its calls on to the exponential back-off of the library, here its operations;
  \<open>newForeverBackoff\<close> clears the limit on the elapsed time.
\<close>

record 'b backoff_lib =
  bl_new :: 'b
  bl_no_limit :: "'b \<Rightarrow> 'b"
  bl_next :: "'b \<Rightarrow> int \<times> 'b"
  bl_reset :: "'b \<Rightarrow> 'b"

definition newForeverBackoff :: "'b backoff_lib \<Rightarrow> 'b" where
  "newForeverBackoff lib = bl_no_limit lib (bl_new lib)"

definition NextBackOff :: "'b backoff_lib \<Rightarrow> 'b \<Rightarrow> int \<times> 'b" where
  "NextBackOff lib eb = bl_next lib eb"

definition Reset :: "'b backoff_lib \<Rightarrow> 'b \<Rightarrow> 'b" where
  "Reset lib eb = bl_reset lib eb"

definition expBackoff :: "'b backoff_lib \<Rightarrow> 'b backoff" where
  "expBackoff lib = \<lparr>bo_next = NextBackOff lib, bo_reset = Reset lib\<rparr>"

text \<open>\<open>bo\<close> is the initial state of the back-off, custom or default.\<close>

definition NewClient :: "client_config \<Rightarrow> 'b \<Rightarrow> go_error + 'b client" where
  "NewClient cfg bo =
     (case verify cfg of
        Some err \<Rightarrow> Inl err
      | None \<Rightarrow>
          (let target = hc_target (cc_http (cg_connection cfg));
               f = \<lparr>pf_HTTP = Some (HTTPProxy_Proxy \<lparr>hp_target = target,
                                  hp_headers = cg_custom_headers cfg, hp_error = None\<rparr>),
                    pf_TCP = None,
                    pf_WS = Some (WSProxy_Proxy \<lparr>wp_target = target, wp_headers = cg_custom_headers cfg\<rparr>)\<rparr>
           in Inr \<lparr>cl_pc = PcIdle, cl_session = None, cl_proxy = Proxy f,
                   cl_notify = \<lparr>ch_cap = 1, ch_buf = [], ch_parked = 0, ch_taken = []\<rparr>,
                   cl_closed = False, cl_reqs = 0, cl_state = ClientUnknown,
                   cl_stateCh = cg_state_changes cfg, cl_backoff = bo, cl_effects = []\<rparr>))"

subsection \<open>Elementary operations\<close>

definition cemit :: "client_effect list \<Rightarrow> 'b client \<Rightarrow> 'b client" where
  "cemit es c = c\<lparr>cl_effects := cl_effects c @ es\<rparr>"

definition goto :: "client_pc \<Rightarrow> 'b client \<Rightarrow> 'b client" where
  "goto pc c = c\<lparr>cl_pc := pc\<rparr>"

definition isRetry :: "client_state \<Rightarrow> bool" where
  "isRetry st \<longleftrightarrow> st \<noteq> ClientStarted \<and> st \<noteq> ClientClosed"

text \<open>The state changes only in the goroutine of \<open>Start\<close>, so the compare-and-swap succeeds.\<close>

definition client_changeState :: "client_config \<Rightarrow> client_state \<Rightarrow> go_error option \<Rightarrow> 'b client \<Rightarrow> 'b client" where
  "client_changeState cfg st err c =
     (let change = \<lparr>sc_identifier = cg_identifier cfg, sc_previous = cl_state c, sc_current = st, sc_error = err\<rparr>
      in c\<lparr>cl_stateCh := map_option (\<lambda>ch. fst (try_send change ch)) (cl_stateCh c), cl_state := st\<rparr>)"

definition setClosed :: "bool \<Rightarrow> 'b client \<Rightarrow> 'b client" where
  "setClosed closed c =
     (if closed then c\<lparr>cl_closed := True\<rparr>
      else c\<lparr>cl_closed := False, cl_notify := try_recv (cl_notify c)\<rparr>)"

definition startNotifyIfNeeded :: "'b client \<Rightarrow> 'b client" where
  "startNotifyIfNeeded c =
     (if cl_closed c then c else c\<lparr>cl_notify := fst (try_send True (cl_notify c))\<rparr>)"

text \<open>What a call on \<open>c.session\<close> does.\<close>

definition on_session :: "(nat \<Rightarrow> client_effect list) \<Rightarrow> 'b client \<Rightarrow> 'b client" where
  "on_session f c = cemit (case cl_session c of None \<Rightarrow> [] | Some s \<Rightarrow> f s) c"

subsection \<open>Connecting\<close>

definition scheme :: "bool \<Rightarrow> string" where
  "scheme tls = (if tls then ''https'' else ''http'')"

definition controlURL :: "bool \<Rightarrow> string \<Rightarrow> string \<Rightarrow> string" where
  "controlURL tls remote controlPath = scheme tls @ ''://'' @ remote @ controlPath"

text \<open>\<open>http.NewRequest\<close>: an empty method is GET, the method is a token, the URL has to parse.\<close>

definition removeEmptyPort :: "string \<Rightarrow> string" where
  "removeEmptyPort host =
     (if snd (url_split_host host) = '''' \<and> HasSuffix host '':'' then take (length host - 1) host else host)"

definition NewRequest :: "string \<Rightarrow> string \<Rightarrow> string \<Rightarrow> go_error + http_request" where
  "NewRequest meth url body =
     (let m = (if meth = '''' then ''GET'' else meth)
      in if \<not> list_all valid_field_byte m then Inl (ErrExternal ''net/http: invalid method'')
         else (case url_Parse url of
           Inl err \<Rightarrow> Inl err
         | Inr u \<Rightarrow>
             Inr \<lparr>rq_method = m, rq_scheme = ur_scheme u, rq_urlhost = removeEmptyPort (ur_host u),
                  rq_path = ur_path u, rq_query = ur_query u, rq_host = removeEmptyPort (ur_host u),
                  rq_uri = '''', rq_header = Map.empty, rq_body = body\<rparr>))"

text \<open>The outcomes of the first half of \<open>connect\<close>, up to the session.\<close>

record dial_env =
  dn_dial :: "go_error + nat"
  dn_tls :: bool
  dn_remote :: string
  dn_marshal :: "go_error + string"
  dn_write :: "go_error option"
  dn_response :: "go_error + nat \<times> string \<times> (go_error + string)"
  dn_session :: "go_error + nat"

definition control_path :: "client_config \<Rightarrow> string" where
  "control_path cfg = (if cg_control_path cfg \<noteq> '''' then cg_control_path cfg else DefaultControlPath)"

definition connect_request :: "client_config \<Rightarrow> dial_env \<Rightarrow> string \<Rightarrow> string \<Rightarrow> string \<Rightarrow> go_error + http_request" where
  "connect_request cfg env ident key body =
     (case NewRequest (cg_control_method cfg) (controlURL (dn_tls env) (dn_remote env) (control_path cfg)) body of
        Inl err \<Rightarrow> Inl (ErrClientOp ''error creating request'' err)
      | Inr req \<Rightarrow>
          Inr (req\<lparr>rq_header :=
            Header_Set (Header_Set (rq_header req) ClientIdentifierHeader ident)
              ClientIdentifierSignature (signIdentifier ident key)\<rparr>))"

definition connect_dial :: "client_config \<Rightarrow> dial_env \<Rightarrow> string \<Rightarrow> string \<Rightarrow> string \<Rightarrow> 'b client \<Rightarrow>
    go_error option \<times> 'b client" where
  "connect_dial cfg env ident addr key c =
     (let c1 = cemit [CDial addr] c
      in case dn_dial env of
           Inl err \<Rightarrow> (Some err, c1)
         | Inr conn \<Rightarrow>
             (case dn_marshal env of
                Inl _ \<Rightarrow> (Some (ErrClient ''failed to parse Connection config JSON''), c1)
              | Inr body \<Rightarrow>
                  (case connect_request cfg env ident key body of
                     Inl err \<Rightarrow> (Some err, c1)
                   | Inr req \<Rightarrow>
                       (let c2 = cemit [CWriteRequest conn req] c1
                        in case dn_write env of
                             Some err \<Rightarrow> (Some (ErrClientOp ''writing CONNECT request'' err), c2)
                           | None \<Rightarrow>
                               (case dn_response env of
                                  Inl err \<Rightarrow> (Some (ErrClientOp ''reading CONNECT response'' err), c2)
                                | Inr (code, status, out) \<Rightarrow>
                                    if code \<noteq> 200 \<or> status \<noteq> Connected
                                    then (Some (ErrTunnelServer code out), c2)
                                    else (case dn_session env of
                                            Inl err \<Rightarrow>
                                              (Some (ErrClientOp ''session initialization failed'' err),
                                               c2\<lparr>cl_session := None\<rparr>)
                                          | Inr s \<Rightarrow> (None, c2\<lparr>cl_session := Some s\<rparr>)))))))"

text \<open>
  The second half: a stream is opened and the handshake made on it.  When the opening times
  out, a stream that has arrived in the meantime is closed.
\<close>

datatype open_outcome = Opened nat | OpenFailed go_error | OpenTimeout "nat option"

record hello_env =
  hn_open :: open_outcome
  hn_write :: "go_error option"
  hn_read :: "go_error + string"

definition connect_hello :: "'b backoff \<Rightarrow> hello_env \<Rightarrow> 'b client \<Rightarrow> go_error option \<times> 'b client" where
  "connect_hello bo env c =
     (case hn_open env of
        OpenFailed err \<Rightarrow> (Some (ErrClientOp ''waiting for session to open failed'' err), c)
      | OpenTimeout late \<Rightarrow>
          (Some (ErrClient ''timeout opening session''),
           cemit (case late of None \<Rightarrow> [] | Some s \<Rightarrow> [CCloseStream s]) c)
      | Opened stream \<Rightarrow>
          (let c1 = cemit [COpenStream stream, CHello stream HandshakeRequest] c
           in case hn_write env of
                Some err \<Rightarrow> (Some (ErrClientOp ''writing handshake request failed'' err), c1)
              | None \<Rightarrow>
                  (case hn_read env of
                     Inl err \<Rightarrow> (Some (ErrClientOp ''reading handshake response failed'' err), c1)
                   | Inr arrived \<Rightarrow>
                       (let n = length HandshakeResponse;
                            buf = take n (arrived @ replicate n (CHR 0x00))
                        in if buf \<noteq> HandshakeResponse
                           then (Some (ErrClient (''invalid handshake response, received: '' @ buf)), c1)
                           else (None, startNotifyIfNeeded (c1\<lparr>cl_backoff := bo_reset bo (cl_backoff c1)\<rparr>))))))"

subsection \<open>Listening and closing\<close>

text \<open>
  One turn of \<open>listenControl\<close>: a message makes the client open a stream and start a proxy on it; an
  error ends the loop, and the session is given up once the running HTTP requests are done.
  \<open>client_proxied\<close> is the end of the goroutine that a message has started.
\<close>

definition client_connected :: "client_config \<Rightarrow> go_error option \<Rightarrow> 'b client \<Rightarrow> 'b client" where
  [simp]: "client_connected cfg lastErr c =
     goto (PcListen lastErr) (client_changeState cfg ClientConnected None c)"

definition request_count :: "control_message \<Rightarrow> nat" where
  [simp]: "request_count msg = (if cm_protocol msg = proto_HTTP then 1 else 0)"

definition client_message :: "control_message \<Rightarrow> go_error + nat \<Rightarrow> 'b client \<Rightarrow> 'b client" where
  [simp]: "client_message msg opened c =
     (case opened of
        Inl err \<Rightarrow> goto (PcCheck (Some err)) c
      | Inr remote \<Rightarrow> cemit [CSpawnProxy remote msg] (c\<lparr>cl_reqs := cl_reqs c + request_count msg\<rparr>))"

definition client_proxied :: "nat \<Rightarrow> control_message \<Rightarrow> 'b client \<Rightarrow> 'b client" where
  [simp]: "client_proxied remote msg c =
     cemit [CCloseStream remote] (c\<lparr>cl_reqs := cl_reqs c - request_count msg\<rparr>)"

definition client_drained :: "client_config \<Rightarrow> go_error \<Rightarrow> 'b client \<Rightarrow> 'b client" where
  [simp]: "client_drained cfg err c =
     (if cl_reqs c = 0
      then goto (PcCheck (Some (ErrClientOp ''failure decoding control message'' err)))
             (client_changeState cfg ClientDisconnected (Some err)
               (on_session (\<lambda>s. [CGoAway s, CCloseSession s]) c))
      else c)"

text \<open>
  \<open>Close\<close>: before it waits for the requests, or for ten seconds, and after.  The deferred
  \<open>setClosed(true)\<close> runs on every path.
\<close>

definition Close_begin :: "'b client \<Rightarrow> 'b client" where
  [simp]: "Close_begin c =
     (if cl_session c = None then setClosed True c else on_session (\<lambda>s. [CGoAway s]) c)"

definition Close_end :: "'b client \<Rightarrow> 'b client" where
  [simp]: "Close_end c = setClosed True (on_session (\<lambda>s. [CCloseSession s]) c)"

subsection \<open>The machine\<close>

datatype client_event =
    CvStart
  | CvTop
  | CvWake
  | CvFetch "go_error + string" "go_error + string" "go_error + string"
  | CvArm
  | CvDial dial_env
  | CvHello hello_env
  | CvMessage control_message "go_error + nat"
  | CvDecodeError go_error
  | CvDrained
  | CvProxyDone nat control_message
  | CvCheck
  | CvCloseBegin
  | CvCloseEnd

text \<open>\<open>Start\<close> up to the loop.\<close>

definition client_start :: "client_config \<Rightarrow> 'b backoff \<Rightarrow> 'b client \<Rightarrow> 'b client" where
  "client_start cfg bo c =
     goto (PcTop None)
       (cemit [CStart]
         ((client_changeState cfg ClientStarted None c)\<lparr>cl_backoff := bo_reset bo (cl_backoff c)\<rparr>))"

text \<open>The head of the loop: report, and sleep before a retry.\<close>

definition client_top :: "client_config \<Rightarrow> 'b backoff \<Rightarrow> go_error option \<Rightarrow> 'b client \<Rightarrow> 'b client" where
  "client_top cfg bo lastErr c =
     (let prev = cl_state c; c1 = client_changeState cfg ClientConnecting lastErr c
      in if isRetry prev
         then (let (dur, b) = bo_next bo (cl_backoff c1); c2 = c1\<lparr>cl_backoff := b\<rparr>
               in if dur < 0
                  then goto PcDone (client_changeState cfg ClientClosed (Some ErrRedialAborted) (setClosed True c2))
                  else goto (PcSleep lastErr) (cemit [CSleep dur] c2))
         else goto (PcFetch lastErr) c1)"

text \<open>The three fetches, in order; each falls back to the configured value.\<close>

definition fetched :: "bool \<Rightarrow> string \<Rightarrow> go_error + string \<Rightarrow> go_error + string" where
  "fetched is_set configured outcome = (if is_set then outcome else Inr configured)"

definition client_fetch :: "client_config \<Rightarrow> go_error + string \<Rightarrow> go_error + string \<Rightarrow> go_error + string \<Rightarrow>
    go_error option \<Rightarrow> 'b client \<Rightarrow> 'b client" where
  "client_fetch cfg ident addr key lastErr c =
     (case fetched (cg_fetch_identifier cfg) (cg_identifier cfg) ident of
        Inl err \<Rightarrow> goto (PcTop (Some err)) c
      | Inr i \<Rightarrow>
          (case fetched (cg_fetch_server_addr cfg) (cg_server_addr cfg) addr of
             Inl err \<Rightarrow> goto (PcTop (Some err)) c
           | Inr a \<Rightarrow>
               (case fetched (cg_fetch_signature_key cfg) (cg_signature_key cfg) key of
                  Inl err \<Rightarrow> goto (PcTop (Some err)) c
                | Inr k \<Rightarrow> goto (PcArm lastErr i a k) c)))"

text \<open>The check after a connection attempt and after the sleep.\<close>

definition client_check :: "client_config \<Rightarrow> go_error option \<Rightarrow> client_pc \<Rightarrow> 'b client \<Rightarrow> 'b client" where
  "client_check cfg lastErr next_pc c =
     (if cl_closed c then goto PcDone (client_changeState cfg ClientClosed lastErr c)
      else goto next_pc c)"

text \<open>
  One step; an event that does not belong to the current point of \<open>Start\<close> changes nothing.
  \<open>Close\<close> is two events: before it waits for the requests, and after.
\<close>

fun client_step :: "client_config \<Rightarrow> 'b backoff \<Rightarrow> client_event \<Rightarrow> 'b client \<Rightarrow> 'b client" where
  "client_step cfg bo CvStart c =
     (case cl_pc c of
        PcIdle \<Rightarrow> client_start cfg bo c
      | PcDone \<Rightarrow> client_start cfg bo c
      | _ \<Rightarrow> c)"
| "client_step cfg bo CvTop c = (case cl_pc c of PcTop lastErr \<Rightarrow> client_top cfg bo lastErr c | _ \<Rightarrow> c)"
| "client_step cfg bo CvWake c =
     (case cl_pc c of PcSleep lastErr \<Rightarrow> client_check cfg lastErr (PcFetch lastErr) c | _ \<Rightarrow> c)"
| "client_step cfg bo (CvFetch ident addr key) c =
     (case cl_pc c of PcFetch lastErr \<Rightarrow> client_fetch cfg ident addr key lastErr c | _ \<Rightarrow> c)"
| "client_step cfg bo CvArm c =
     (case cl_pc c of PcArm lastErr i a k \<Rightarrow> goto (PcDial lastErr i a k) (setClosed False c) | _ \<Rightarrow> c)"
| "client_step cfg bo (CvDial env) c =
     (case cl_pc c of
        PcDial lastErr i a k \<Rightarrow>
          (case connect_dial cfg env i a k c of
             (Some err, c1) \<Rightarrow> goto (PcCheck (Some err)) c1
           | (None, c1) \<Rightarrow> goto (PcHandshake lastErr) c1)
      | _ \<Rightarrow> c)"
| "client_step cfg bo (CvHello env) c =
     (case cl_pc c of
        PcHandshake lastErr \<Rightarrow>
          (case connect_hello bo env c of
             (Some err, c1) \<Rightarrow> goto (PcCheck (Some err)) c1
           | (None, c1) \<Rightarrow> client_connected cfg lastErr c1)
      | _ \<Rightarrow> c)"
| "client_step cfg bo (CvMessage msg opened) c =
     (case cl_pc c of
        PcListen lastErr \<Rightarrow> client_message msg opened c
      | _ \<Rightarrow> c)"
| "client_step cfg bo (CvDecodeError err) c =
     (case cl_pc c of PcListen lastErr \<Rightarrow> goto (PcDrain lastErr err) c | _ \<Rightarrow> c)"
| "client_step cfg bo CvDrained c =
     (case cl_pc c of
        PcDrain lastErr err \<Rightarrow> client_drained cfg err c
      | _ \<Rightarrow> c)"
| "client_step cfg bo (CvProxyDone remote msg) c = client_proxied remote msg c"
| "client_step cfg bo CvCheck c =
     (case cl_pc c of PcCheck lastErr \<Rightarrow> client_check cfg lastErr (PcTop lastErr) c | _ \<Rightarrow> c)"
| "client_step cfg bo CvCloseBegin c = Close_begin c"
| "client_step cfg bo CvCloseEnd c = Close_end c"

end
