(* ===== verification/Client_Props.thy ===== *)
theory Client_Props
  imports Client
begin

section \<open>Properties of the client\<close>

subsection \<open>Frame lemmas\<close>

lemma cemit_simps [client_simps, simp]:
  "cl_pc (cemit es c) = cl_pc c" "cl_session (cemit es c) = cl_session c" "cl_closed (cemit es c) = cl_closed c"
  "cl_reqs (cemit es c) = cl_reqs c" "cl_state (cemit es c) = cl_state c" "cl_stateCh (cemit es c) = cl_stateCh c"
  "cl_notify (cemit es c) = cl_notify c" "cl_backoff (cemit es c) = cl_backoff c"
  "cl_effects (cemit es c) = cl_effects c @ es"
  by (simp_all add: cemit_def)

lemma goto_simps [client_simps, simp]:
  "cl_pc (goto pc c) = pc" "cl_session (goto pc c) = cl_session c" "cl_closed (goto pc c) = cl_closed c"
  "cl_reqs (goto pc c) = cl_reqs c" "cl_state (goto pc c) = cl_state c" "cl_stateCh (goto pc c) = cl_stateCh c"
  "cl_notify (goto pc c) = cl_notify c" "cl_backoff (goto pc c) = cl_backoff c"
  "cl_effects (goto pc c) = cl_effects c"
  by (simp_all add: goto_def)

lemma client_changeState_simps [client_simps, simp]:
  "cl_pc (client_changeState cfg st e c) = cl_pc c" "cl_session (client_changeState cfg st e c) = cl_session c"
  "cl_closed (client_changeState cfg st e c) = cl_closed c" "cl_reqs (client_changeState cfg st e c) = cl_reqs c"
  "cl_state (client_changeState cfg st e c) = st" "cl_notify (client_changeState cfg st e c) = cl_notify c"
  "cl_backoff (client_changeState cfg st e c) = cl_backoff c"
  "cl_effects (client_changeState cfg st e c) = cl_effects c"
  by (simp_all add: client_changeState_def)

lemma setClosed_simps [client_simps, simp]:
  "cl_pc (setClosed b c) = cl_pc c" "cl_session (setClosed b c) = cl_session c" "cl_closed (setClosed b c) = b"
  "cl_reqs (setClosed b c) = cl_reqs c" "cl_state (setClosed b c) = cl_state c"
  "cl_backoff (setClosed b c) = cl_backoff c" "cl_effects (setClosed b c) = cl_effects c"
  by (simp_all add: setClosed_def)

lemma startNotify_simps [client_simps, simp]:
  "cl_pc (startNotifyIfNeeded c) = cl_pc c" "cl_session (startNotifyIfNeeded c) = cl_session c"
  "cl_closed (startNotifyIfNeeded c) = cl_closed c" "cl_reqs (startNotifyIfNeeded c) = cl_reqs c"
  "cl_state (startNotifyIfNeeded c) = cl_state c" "cl_backoff (startNotifyIfNeeded c) = cl_backoff c"
  "cl_effects (startNotifyIfNeeded c) = cl_effects c"
  by (simp_all add: startNotifyIfNeeded_def)

lemma on_session_simps [client_simps, simp]:
  "cl_pc (on_session f c) = cl_pc c" "cl_session (on_session f c) = cl_session c"
  "cl_closed (on_session f c) = cl_closed c" "cl_reqs (on_session f c) = cl_reqs c"
  "cl_state (on_session f c) = cl_state c" "cl_backoff (on_session f c) = cl_backoff c"
  "cl_effects (on_session f c) = cl_effects c @ (case cl_session c of None \<Rightarrow> [] | Some s \<Rightarrow> f s)"
  by (simp_all add: on_session_def)

lemma connect_dial_frame:
  assumes "connect_dial cfg env i a k c = (res, c')"
  shows "cl_pc c' = cl_pc c" "cl_closed c' = cl_closed c" "cl_state c' = cl_state c" "cl_reqs c' = cl_reqs c"
    "cl_backoff c' = cl_backoff c"
    "\<exists>ws. cl_effects c' = cl_effects c @ CDial a # ws \<and> (\<forall>w \<in> set ws. \<exists>n r. w = CWriteRequest n r)"
  using assms
  by (auto simp: connect_dial_def Let_def split: sum.splits option.splits if_splits)

lemma connect_hello_frame:
  assumes "connect_hello bo env c = (res, c')"
  shows "cl_pc c' = cl_pc c" "cl_closed c' = cl_closed c" "cl_state c' = cl_state c" "cl_reqs c' = cl_reqs c"
    "cl_session c' = cl_session c"
    "\<exists>ws. cl_effects c' = cl_effects c @ ws \<and> (\<forall>w \<in> set ws. \<forall>a d. w \<noteq> CDial a \<and> w \<noteq> CSleep d \<and> w \<noteq> CStart)"
  using assms
  by (auto simp: connect_hello_def Let_def split: open_outcome.splits option.splits sum.splits if_splits)

subsection \<open>Runs\<close>

definition client_run :: "client_config \<Rightarrow> 'b backoff \<Rightarrow> client_event list \<Rightarrow> 'b client \<Rightarrow> 'b client" where
  "client_run cfg bo = fold (client_step cfg bo)"

text \<open>The states that go with the points of \<open>Start\<close>.\<close>

fun pc_states :: "client_pc \<Rightarrow> client_state set" where
  "pc_states PcIdle = {ClientUnknown}"
| "pc_states (PcTop _) = {ClientStarted, ClientConnecting, ClientConnected, ClientDisconnected}"
| "pc_states (PcListen _) = {ClientConnected}"
| "pc_states (PcDrain _ _) = {ClientConnected}"
| "pc_states (PcCheck _) = {ClientConnecting, ClientConnected, ClientDisconnected}"
| "pc_states PcDone = {ClientClosed}"
| "pc_states _ = {ClientConnecting}"

definition pc_state_ok :: "'b client \<Rightarrow> bool" where
  "pc_state_ok c \<longleftrightarrow> cl_state c \<in> pc_states (cl_pc c)"

lemma pc_state_ok_step: "pc_state_ok c \<Longrightarrow> pc_state_ok (client_step cfg bo ev c)"
  by (cases "cl_pc c"; cases ev)
     (auto simp: pc_state_ok_def client_start_def client_top_def client_fetch_def client_check_def Let_def
       split: prod.splits sum.splits option.splits dest: connect_dial_frame connect_hello_frame)

interpretation cl: invariant_steps "client_step cfg bo" pc_state_ok "\<lambda>_. True" for cfg bo
  by unfold_locales (rule pc_state_ok_step)

lemma NewClient_initial:
  assumes "NewClient cfg b = Inr c"
  shows "cl_pc c = PcIdle" "cl_state c = ClientUnknown" "cl_effects c = []" "cl_closed c = False"
    "cl_session c = None" "cl_reqs c = 0" "cl_backoff c = b" "cl_stateCh c = cg_state_changes cfg"
    "cl_notify c = \<lparr>ch_cap = 1, ch_buf = [], ch_parked = 0, ch_taken = []\<rparr>"
  using assms by (auto simp: NewClient_def Let_def split: option.splits)

lemma client_run_pc_state: "NewClient cfg b = Inr c \<Longrightarrow> pc_state_ok (client_run cfg' bo evs c)"
  unfolding client_run_def
  by (rule cl.run_inv) (auto simp: pc_state_ok_def NewClient_initial list_all_iff)

subsection \<open>State transitions\<close>

text \<open>The transitions that a client reports.\<close>

definition client_transitions :: "(client_state \<times> client_state) set" where
  "client_transitions =
     {(ClientUnknown, ClientStarted), (ClientClosed, ClientStarted), (ClientStarted, ClientConnecting),
      (ClientConnecting, ClientConnected), (ClientConnected, ClientDisconnected),
      (ClientDisconnected, ClientConnecting), (ClientConnected, ClientConnecting),
      (ClientConnecting, ClientClosed), (ClientConnected, ClientClosed), (ClientDisconnected, ClientClosed)}"

text \<open>
  C29: In every run of a client its state only moves along a fixed set of transitions.  It is
  connected only after connecting, and once closed only a new start leaves that state.
\<close>

theorem client_follows_transitions:
  assumes "NewClient cfg b = Inr c0" "c = client_run cfg bo evs c0"
  shows "cl_state (client_step cfg bo ev c) = cl_state c \<or>
    (cl_state c, cl_state (client_step cfg bo ev c)) \<in> client_transitions"
proof -
  have "cl_state c \<in> pc_states (cl_pc c)"
    using client_run_pc_state [OF assms(1)] assms(2) by (simp add: pc_state_ok_def)
  then show ?thesis
    by (cases "cl_pc c"; cases ev)
       (auto simp: client_transitions_def client_start_def client_top_def client_fetch_def client_check_def
         Let_def isRetry_def split: prod.splits sum.splits option.splits
         dest: connect_dial_frame connect_hello_frame)
qed

definition ex_client_config :: client_config where
  "ex_client_config =
     \<lparr>cg_identifier = ''alice'', cg_signature_key = ''k'', cg_fetch_identifier = False,
      cg_server_addr = ''tunnel:80'', cg_fetch_server_addr = False, cg_fetch_signature_key = False,
      cg_proxy = None, cg_state_changes = None, cg_yamux = None,
      cg_connection = \<lparr>cc_http = \<lparr>hc_domain = ''app.example.com'', hc_target = ''http://127.0.0.1:8080'',
                        hc_rewrite = []\<rparr>\<rparr>,
      cg_custom_headers = [], cg_control_path = '''', cg_control_method = ''POST''\<rparr>"

text \<open>A back-off that counts its calls and waits that many seconds.\<close>

definition ex_backoff :: "int backoff" where
  "ex_backoff = \<lparr>bo_next = (\<lambda>n. (n, n + 1)), bo_reset = (\<lambda>_. 0)\<rparr>"

definition ex_client :: "int client" where
  "ex_client = projr (NewClient ex_client_config 0)"

lemma ex_client_ok [simp]: "NewClient ex_client_config 0 = Inr ex_client"
  by (simp add: ex_client_def NewClient_def verify_def ex_client_config_def Let_def)

theorem client_follows_transitions_witness:
  "cl_state (client_step ex_client_config ex_backoff CvTop
      (client_run ex_client_config ex_backoff [CvStart] ex_client)) = ClientStarted \<or>
   (ClientStarted, cl_state (client_step ex_client_config ex_backoff CvTop
      (client_run ex_client_config ex_backoff [CvStart] ex_client))) \<in> client_transitions"
proof -
  have "cl_state (client_run ex_client_config ex_backoff [CvStart] ex_client) = ClientStarted"
    by (simp add: client_run_def client_start_def NewClient_initial [OF ex_client_ok])
  then show ?thesis using client_follows_transitions [OF ex_client_ok refl, of ex_backoff CvTop "[CvStart]"] by simp
qed

subsection \<open>Back-off\<close>

text \<open>
  A connection attempt needs a start or a sleep before it, and every sleep has a duration that
  is not negative.
\<close>

fun dial_credit :: "bool \<Rightarrow> client_effect list \<Rightarrow> bool" where
  "dial_credit b [] = b"
| "dial_credit b (CStart # es) = dial_credit True es"
| "dial_credit b (CSleep d # es) = dial_credit True es"
| "dial_credit b (CDial a # es) = dial_credit False es"
| "dial_credit b (_ # es) = dial_credit b es"

fun dials_spaced :: "bool \<Rightarrow> client_effect list \<Rightarrow> bool" where
  "dials_spaced b [] = True"
| "dials_spaced b (CStart # es) = dials_spaced True es"
| "dials_spaced b (CSleep d # es) = (0 \<le> d \<and> dials_spaced True es)"
| "dials_spaced b (CDial a # es) = (b \<and> dials_spaced False es)"
| "dials_spaced b (_ # es) = dials_spaced b es"

lemma dial_credit_append [simp]: "dial_credit b (xs @ ys) = dial_credit (dial_credit b xs) ys"
  by (induction b xs rule: dial_credit.induct) auto

lemma dials_spaced_append [simp]:
  "dials_spaced b (xs @ ys) = (dials_spaced b xs \<and> dials_spaced (dial_credit b xs) ys)"
  by (induction b xs rule: dials_spaced.induct) auto

lemma no_dials:
  "\<forall>w \<in> set ws. \<forall>a d. w \<noteq> CDial a \<and> w \<noteq> CSleep d \<and> w \<noteq> CStart \<Longrightarrow>
     dial_credit b ws = b \<and> dials_spaced b ws"
  by (induction b ws rule: dials_spaced.induct) auto

fun needs_credit :: "'b client \<Rightarrow> bool" where
  "needs_credit c = (case cl_pc c of
     PcTop _ \<Rightarrow> cl_state c = ClientStarted
   | PcSleep _ \<Rightarrow> True | PcFetch _ \<Rightarrow> True | PcArm _ _ _ _ \<Rightarrow> True | PcDial _ _ _ _ \<Rightarrow> True
   | _ \<Rightarrow> False)"

definition spaced_ok :: "'b client \<Rightarrow> bool" where
  "spaced_ok c \<longleftrightarrow> pc_state_ok c \<and> dials_spaced False (cl_effects c) \<and>
     (needs_credit c \<longrightarrow> dial_credit False (cl_effects c))"

lemma dial_log:
  assumes "connect_dial cfg env i a k c = (res, c')" "dials_spaced False (cl_effects c)"
    "dial_credit False (cl_effects c)"
  shows "dials_spaced False (cl_effects c')"
proof -
  from connect_dial_frame(6) [OF assms(1)] obtain ws where
    ws: "cl_effects c' = cl_effects c @ CDial a # ws" "\<forall>w \<in> set ws. \<exists>n r. w = CWriteRequest n r" by blast
  then have "dials_spaced False ws" by (intro no_dials [THEN conjunct2]) blast
  with ws(1) assms(2,3) show ?thesis by simp
qed

lemma hello_log:
  assumes "connect_hello bo env c = (res, c')"
  shows "dials_spaced b (cl_effects c') = dials_spaced b (cl_effects c)"
proof -
  from connect_hello_frame(6) [OF assms] obtain ws where
    "cl_effects c' = cl_effects c @ ws" "\<forall>w \<in> set ws. \<forall>a d. w \<noteq> CDial a \<and> w \<noteq> CSleep d \<and> w \<noteq> CStart" by blast
  with no_dials [of ws] show ?thesis by simp
qed

lemma spaced_ok_step: "spaced_ok c \<Longrightarrow> spaced_ok (client_step cfg bo ev c)"
proof (cases ev)
  case (CvDial env)
  assume c: "spaced_ok c"
  show ?thesis
  proof (cases "cl_pc c")
    case (PcDial le i a k)
    obtain res c' where d: "connect_dial cfg env i a k c = (res, c')" by fastforce
    have "dials_spaced False (cl_effects c')"
      using d c PcDial by (auto simp: spaced_ok_def intro: dial_log)
    with pc_state_ok_step [of c cfg bo ev] c d PcDial CvDial show ?thesis
      by (auto simp: spaced_ok_def split: option.splits)
  qed (use CvDial c in simp_all)
next
  case (CvHello env)
  assume c: "spaced_ok c"
  show ?thesis
  proof (cases "cl_pc c")
    case (PcHandshake le)
    obtain res c' where d: "connect_hello bo env c = (res, c')" by fastforce
    with pc_state_ok_step [of c cfg bo ev] c PcHandshake CvHello show ?thesis
      by (auto simp: spaced_ok_def hello_log [OF d] split: option.splits)
  qed (use CvHello c in simp_all)
next
  case (CvTop)
  assume c: "spaced_ok c"
  have pc: "pc_state_ok (client_step cfg bo ev c)" using c by (simp add: spaced_ok_def pc_state_ok_step)
  show ?thesis
    using c pc CvTop
    by (cases "cl_pc c")
       (auto simp: spaced_ok_def pc_state_ok_def client_top_def Let_def isRetry_def split: prod.splits)
qed (auto simp: spaced_ok_def pc_state_ok_def client_start_def client_fetch_def client_check_def setClosed_def
      split: client_pc.splits sum.splits option.splits)

interpretation spaced: invariant_steps "client_step cfg bo" spaced_ok "\<lambda>_. True" for cfg bo
  by unfold_locales (rule spaced_ok_step)

text \<open>What a step does to the outside.\<close>

abbreviation new_effects :: "client_config \<Rightarrow> 'b backoff \<Rightarrow> client_event \<Rightarrow> 'b client \<Rightarrow> client_effect list" where
  "new_effects cfg bo ev c \<equiv> drop (length (cl_effects c)) (cl_effects (client_step cfg bo ev c))"

lemma connect_dial_no_sleep:
  assumes "connect_dial cfg env i a k c = (res, c')"
  shows "CSleep d \<notin> set (drop (length (cl_effects c)) (cl_effects c'))"
  using connect_dial_frame(6) [OF assms] by auto

lemma connect_hello_no_sleep:
  assumes "connect_hello bo env c = (res, c')"
  shows "CSleep d \<notin> set (drop (length (cl_effects c)) (cl_effects c'))"
  using connect_hello_frame(6) [OF assms] by auto

lemma sleeps_by_backoff:
  assumes "CSleep d \<in> set (new_effects cfg bo ev c)"
  shows "ev = CvTop \<and> 0 \<le> d \<and> bo_next bo (cl_backoff c) = (d, cl_backoff (client_step cfg bo ev c))"
  using assms
proof (cases ev)
  case (CvDial env)
  then show ?thesis using assms connect_dial_no_sleep
    by (cases "cl_pc c") (fastforce split: prod.splits option.splits)+
next
  case (CvHello env)
  then show ?thesis using assms connect_hello_no_sleep
    by (cases "cl_pc c") (fastforce split: prod.splits option.splits)+
qed (auto simp: client_start_def client_top_def client_fetch_def client_check_def Let_def
       split: client_pc.splits prod.splits sum.splits if_splits option.splits)

text \<open>
  C30: A client never hammers the server: between two connection attempts of one start, however they
  failed and whoever called \<open>Close\<close> in between, it sleeps; and every sleep of every run is at the head
  of the loop, of the length that the back-off gives there, which is not negative, and the back-off
  moves on to its next state.
\<close>

theorem dials_are_spaced:
  assumes "NewClient cfg b = Inr c0" "c = client_run cfg bo evs c0"
  shows "dials_spaced False (cl_effects c) \<and>
    (\<forall>ev d. CSleep d \<in> set (new_effects cfg bo ev c) \<longrightarrow>
       ev = CvTop \<and> 0 \<le> d \<and> bo_next bo (cl_backoff c) = (d, cl_backoff (client_step cfg bo ev c)))"
proof -
  have "spaced_ok c0"
    using NewClient_initial [OF assms(1)] by (simp add: spaced_ok_def pc_state_ok_def)
  then have "spaced_ok c"
    unfolding assms(2) client_run_def by (rule spaced.run_inv) (simp add: list_all_iff)
  then show ?thesis using sleeps_by_backoff by (simp add: spaced_ok_def) blast
qed

text \<open>A first attempt that is refused, the sleep after it, and a second one.\<close>

definition ex_refused :: dial_env where
  "ex_refused =
     \<lparr>dn_dial = Inl (ErrExternal ''connection refused''), dn_tls = False, dn_remote = ''tunnel:80'',
      dn_marshal = Inr ''a'', dn_write = None, dn_response = Inl (ErrExternal ''EOF''), dn_session = Inr 2\<rparr>"

abbreviation ex_fetch :: client_event where
  "ex_fetch \<equiv> CvFetch (Inr '''') (Inr '''') (Inr '''')"

theorem dials_are_spaced_witness:
  "dials_spaced False (cl_effects (client_run ex_client_config ex_backoff
     [CvStart, CvTop, ex_fetch, CvArm, CvDial ex_refused, CvCheck, CvTop, CvWake, ex_fetch, CvArm,
      CvDial ex_refused] ex_client))"
  using dials_are_spaced [OF ex_client_ok refl] by blast

text \<open>
  A back-off that never asks to stop: \<open>ok\<close> describes the states that it can be in.  The
  documentation of the library promises this of an exponential back-off without a time limit.
\<close>

definition patient :: "'b backoff \<Rightarrow> ('b \<Rightarrow> bool) \<Rightarrow> bool" where
  "patient bo ok \<longleftrightarrow>
     (\<forall>b. ok b \<longrightarrow> 0 \<le> fst (bo_next bo b) \<and> ok (snd (bo_next bo b)) \<and> ok (bo_reset bo b))"

lemma patient_step:
  assumes "patient bo ok" "ok (cl_backoff c)" "cl_pc c = PcDone \<or> cl_closed c \<longrightarrow> told"
    and "ev = CvCloseBegin \<or> ev = CvCloseEnd \<longrightarrow> told"
  shows "ok (cl_backoff (client_step cfg bo ev c)) \<and>
    (cl_pc (client_step cfg bo ev c) = PcDone \<or> cl_closed (client_step cfg bo ev c) \<longrightarrow> told)"
proof -
  have reset: "ok (bo_reset bo (cl_backoff c))" using assms(1,2) by (simp add: patient_def)
  show ?thesis
  proof (cases ev)
    case (CvDial env)
    then show ?thesis
      using assms(2,3)
      by (auto split: client_pc.splits prod.splits option.splits dest: connect_dial_frame)
  next
    case (CvHello env)
    have "ok (cl_backoff c')" if "connect_hello bo env c = (res, c')" for res c'
      using that assms(2) reset
      by (auto simp: connect_hello_def Let_def
          split: open_outcome.splits option.splits sum.splits if_splits)
    with CvHello assms(2,3) show ?thesis
      by (auto split: client_pc.splits prod.splits option.splits dest: connect_hello_frame)
  next
    case CvTop
    obtain d b where "bo_next bo (cl_backoff c) = (d, b)" by fastforce
    moreover from this have "0 \<le> d" "ok b" using assms(1,2) unfolding patient_def by (metis fst_conv snd_conv)+
    ultimately show ?thesis
      using CvTop assms(2,3) by (auto simp: client_top_def Let_def split: client_pc.splits)
  qed (use assms(2-4) reset in \<open>auto simp: client_start_def client_fetch_def client_check_def
      split: client_pc.splits sum.splits\<close>)
qed

text \<open>
  C31: A client gives up only when it is told to.  As long as the back-off never asks to stop, as the
  default one does not, \<open>Start\<close> returns only if \<open>Close\<close> was called.
\<close>

theorem patient_client_never_gives_up:
  assumes "NewClient cfg b = Inr c0" "patient bo ok" "ok b" "cl_pc (client_run cfg bo evs c0) = PcDone"
  shows "CvCloseBegin \<in> set evs \<or> CvCloseEnd \<in> set evs"
proof -
  let ?told = "\<lambda>evs. CvCloseBegin \<in> set evs \<or> CvCloseEnd \<in> set evs"
  have "ok (cl_backoff (client_run cfg bo evs c0)) \<and>
    (cl_pc (client_run cfg bo evs c0) = PcDone \<or> cl_closed (client_run cfg bo evs c0) \<longrightarrow> ?told evs)"
  proof (induction evs rule: rev_induct)
    case Nil
    then show ?case using NewClient_initial [OF assms(1)] assms(3) by (simp add: client_run_def)
  next
    case (snoc ev evs)
    have run: "client_run cfg bo (evs @ [ev]) c0 = client_step cfg bo ev (client_run cfg bo evs c0)"
      by (simp add: client_run_def)
    show ?case unfolding run by (rule patient_step [OF assms(2)]) (use snoc in auto)
  qed
  with assms(4) show ?thesis by simp
qed

theorem patient_client_never_gives_up_witness:
  "CvCloseBegin \<in> set [CvStart, CvTop, ex_fetch, CvArm, CvDial ex_refused, CvCloseBegin, CvCheck] \<or>
   CvCloseEnd \<in> set [CvStart, CvTop, ex_fetch, CvArm, CvDial ex_refused, CvCloseBegin, CvCheck]"
proof (rule patient_client_never_gives_up [OF ex_client_ok])
  show "patient ex_backoff (\<lambda>n. 0 \<le> n)" by (simp add: patient_def ex_backoff_def)
  show "cl_pc (client_run ex_client_config ex_backoff
     [CvStart, CvTop, ex_fetch, CvArm, CvDial ex_refused, CvCloseBegin, CvCheck] ex_client) = PcDone"
    by (simp add: client_run_def client_start_def client_top_def isRetry_def client_fetch_def fetched_def
        ex_client_config_def client_check_def connect_dial_def ex_refused_def NewClient_initial [OF ex_client_ok])
qed simp

subsection \<open>Closing\<close>

text \<open>The points of \<open>Start\<close> from which the flag is checked before the next connection attempt.\<close>

fun flag_checked :: "client_pc \<Rightarrow> bool" where
  "flag_checked (PcSleep _) = True"
| "flag_checked (PcHandshake _) = True"
| "flag_checked (PcListen _) = True"
| "flag_checked (PcDrain _ _) = True"
| "flag_checked (PcCheck _) = True"
| "flag_checked PcDone = True"
| "flag_checked _ = False"

lemma close_step:
  assumes "cl_closed c" "flag_checked (cl_pc c)" "ev \<noteq> CvStart"
  shows "cl_closed (client_step cfg bo ev c) \<and> flag_checked (cl_pc (client_step cfg bo ev c)) \<and>
    (\<exists>ws. cl_effects (client_step cfg bo ev c) = cl_effects c @ ws \<and> (\<forall>a. CDial a \<notin> set ws))"
proof (cases ev)
  case (CvHello env)
  show ?thesis
  proof (cases "cl_pc c")
    case (PcHandshake le)
    obtain res c' where d: "connect_hello bo env c = (res, c')" by fastforce
    from connect_hello_frame(6) [OF d] obtain ws where
      "cl_effects c' = cl_effects c @ ws" "\<forall>a. CDial a \<notin> set ws" by blast
    with d PcHandshake CvHello assms connect_hello_frame(1,2) [OF d] show ?thesis
      by (auto split: option.splits)
  qed (use CvHello assms in auto)
qed (use assms in \<open>auto simp: client_check_def split: client_pc.splits sum.splits option.splits\<close>)

text \<open>
  C32: A \<open>Close\<close> that finds the client sleeping, handshaking, connected or winding down is final: until
  the next \<open>Start\<close>, no further connection attempt is made, whatever else happens.
\<close>

theorem close_is_final:
  assumes "cl_closed c" "flag_checked (cl_pc c)" "CvStart \<notin> set evs"
  shows "cl_closed (client_run cfg bo evs c) \<and>
    (\<exists>ws. cl_effects (client_run cfg bo evs c) = cl_effects c @ ws \<and> (\<forall>a. CDial a \<notin> set ws))"
proof -
  have "cl_closed (client_run cfg bo evs c) \<and> flag_checked (cl_pc (client_run cfg bo evs c)) \<and>
    (\<exists>ws. cl_effects (client_run cfg bo evs c) = cl_effects c @ ws \<and> (\<forall>a. CDial a \<notin> set ws))"
    using assms
  proof (induction evs rule: rev_induct)
    case (snoc ev evs)
    let ?c = "client_run cfg bo evs c"
    have run: "client_run cfg bo (evs @ [ev]) c = client_step cfg bo ev ?c" by (simp add: client_run_def)
    from snoc obtain ws where "cl_closed ?c" "flag_checked (cl_pc ?c)"
      "cl_effects ?c = cl_effects c @ ws" "\<forall>a. CDial a \<notin> set ws" by auto
    moreover from this obtain ws' where
      "cl_closed (client_step cfg bo ev ?c)" "flag_checked (cl_pc (client_step cfg bo ev ?c))"
      "cl_effects (client_step cfg bo ev ?c) = cl_effects ?c @ ws'" "\<forall>a. CDial a \<notin> set ws'"
      using close_step [of ?c ev cfg bo] snoc.prems(3) by auto
    ultimately show ?case unfolding run by auto
  qed (auto simp: client_run_def)
  then show ?thesis by blast
qed

theorem close_is_final_witness:
  "cl_closed (client_run ex_client_config ex_backoff [CvWake, CvTop, ex_fetch, CvArm, CvDial ex_refused]
     (ex_client\<lparr>cl_closed := True, cl_pc := PcSleep None\<rparr>))"
  using close_is_final [of "ex_client\<lparr>cl_closed := True, cl_pc := PcSleep None\<rparr>"
      "[CvWake, CvTop, ex_fetch, CvArm, CvDial ex_refused]"] by simp

text \<open>
  A \<open>Close\<close> between the head of the loop and the connection attempt is lost: \<open>Start\<close> clears the
  flag without having looked at it, and goes on to dial.
\<close>

theorem early_close_is_lost:
  assumes "cl_pc c = PcArm le i a k"
  shows "\<not> cl_closed (client_run cfg bo [CvCloseBegin, CvCloseEnd, CvArm] c) \<and>
    cl_pc (client_run cfg bo [CvCloseBegin, CvCloseEnd, CvArm] c) = PcDial le i a k \<and>
    CDial a \<in> set (cl_effects (client_run cfg bo [CvCloseBegin, CvCloseEnd, CvArm, CvDial env] c))"
proof -
  let ?c = "client_run cfg bo [CvCloseBegin, CvCloseEnd, CvArm] c"
  have c: "\<not> cl_closed ?c" "cl_pc ?c = PcDial le i a k" using assms by (simp_all add: client_run_def)
  obtain res c' where d: "connect_dial cfg env i a k ?c = (res, c')" by fastforce
  have "client_run cfg bo [CvCloseBegin, CvCloseEnd, CvArm, CvDial env] c = client_step cfg bo (CvDial env) ?c"
    by (simp add: client_run_def)
  with c d connect_dial_frame(6) [OF d] show ?thesis by (auto split: option.splits)
qed

theorem early_close_is_lost_witness:
  "\<not> cl_closed (client_run ex_client_config ex_backoff [CvCloseBegin, CvCloseEnd, CvArm]
     (ex_client\<lparr>cl_pc := PcArm None ''alice'' ''tunnel:80'' ''k''\<rparr>))"
  using early_close_is_lost [of "ex_client\<lparr>cl_pc := PcArm None ''alice'' ''tunnel:80'' ''k''\<rparr>"] by simp

subsection \<open>Requests, sessions and connections\<close>

text \<open>
  A failed connection attempt leaks: whatever goes wrong after the dial, the connection is not
  closed, and a session that was made is not closed either.
\<close>

theorem failed_connect_leaks:
  assumes "cl_pc c = PcDial le i a k" "dn_dial denv = Inr conn"
    and "c' = client_run cfg bo [CvDial denv, CvHello henv] c" "cl_pc c' = PcCheck (Some err)"
  shows "\<exists>ws. cl_effects c' = cl_effects c @ ws \<and> CDial a \<in> set ws \<and>
    CCloseConn conn \<notin> set ws \<and> (\<forall>s. CCloseSession s \<notin> set ws \<and> CGoAway s \<notin> set ws)"
proof -
  obtain res c1 where d: "connect_dial cfg denv i a k c = (res, c1)" by fastforce
  from connect_dial_frame(6) [OF d] obtain ws where
    ws: "cl_effects c1 = cl_effects c @ CDial a # ws" "\<forall>w \<in> set ws. \<exists>n r. w = CWriteRequest n r" by blast
  show ?thesis
  proof (cases res)
    case (Some e)
    with d assms(1,3) have "cl_effects c' = cl_effects c1" by (simp add: client_run_def)
    with ws show ?thesis by fastforce
  next
    case None
    obtain res2 c2 where h: "connect_hello bo henv (goto (PcHandshake le) c1) = (res2, c2)" by fastforce
    have "\<exists>vs. cl_effects c2 = cl_effects c1 @ vs \<and> CCloseConn conn \<notin> set vs \<and>
      (\<forall>s. CCloseSession s \<notin> set vs \<and> CGoAway s \<notin> set vs)"
      using h by (auto simp: connect_hello_def Let_def
          split: open_outcome.splits option.splits sum.splits if_splits)
    then obtain vs where vs: "cl_effects c2 = cl_effects c1 @ vs" "CCloseConn conn \<notin> set vs"
      "\<forall>s. CCloseSession s \<notin> set vs \<and> CGoAway s \<notin> set vs" by blast
    have "cl_effects c' = cl_effects c2"
      using d h None assms(1,3) by (auto simp: client_run_def split: option.splits)
    with ws vs show ?thesis by fastforce
  qed
qed

theorem failed_connect_leaks_witness:
  "CCloseConn 5 \<notin> set (cl_effects (client_run ex_client_config ex_backoff
     [CvDial (ex_refused\<lparr>dn_dial := Inr 5\<rparr>), CvHello \<lparr>hn_open = Opened 1, hn_write = None, hn_read = Inr ''''\<rparr>]
     (ex_client\<lparr>cl_pc := PcDial None ''alice'' ''tunnel:80'' ''k''\<rparr>)))"
proof -
  let ?c = "ex_client\<lparr>cl_pc := PcDial None ''alice'' ''tunnel:80'' ''k''\<rparr>"
  let ?c' = "client_run ex_client_config ex_backoff
     [CvDial (ex_refused\<lparr>dn_dial := Inr 5\<rparr>), CvHello \<lparr>hn_open = Opened 1, hn_write = None, hn_read = Inr ''''\<rparr>] ?c"
  obtain res c1 where d: "connect_dial ex_client_config (ex_refused\<lparr>dn_dial := Inr 5\<rparr>) ''alice'' ''tunnel:80'' ''k'' ?c
      = (res, c1)" by fastforce
  have "res \<noteq> None"
    using d by (auto simp: connect_dial_def ex_refused_def Let_def split: sum.splits)
  with d have "\<exists>err. cl_pc ?c' = PcCheck (Some err)"
    by (auto simp: client_run_def)
  then obtain err where "cl_pc ?c' = PcCheck (Some err)" by blast
  from failed_connect_leaks [OF _ _ refl this] show ?thesis
    by (auto simp: NewClient_initial [OF ex_client_ok])
qed

end
