(* ===== verification/Local_Props.thy ===== *)
theory Local_Props
  imports Client_Props
begin

section \<open>Properties of the client's proxies\<close>

subsection \<open>Custom headers\<close>

text \<open>
  The configuration accepts exactly the custom headers that can be sent without smuggling
  anything: a non-empty token for the name, no line break in the value.
\<close>

theorem custom_headers_validated:
  "validateCustomHeaders hs = None \<longleftrightarrow> list_all header_sendable hs"
  by (rule validate_None_iff)

text \<open>
  C40: As long as no two of the custom headers go to the same place, the order in which the map is
  iterated does not matter: every request comes out the same, with each header set to its value.
  Two names that differ only in case do go to the same place, and then the last one wins.
\<close>

theorem custom_headers_order_irrelevant:
  assumes "distinct (map (header_slot \<circ> fst) hs)" "range_of hs' hs"
  shows "applyCustomHeaders hs req = applyCustomHeaders hs' req \<and>
    (\<forall>(n, v) \<in> set hs. slot_value (applyCustomHeaders hs' req) (header_slot n) = Some [v])"
  using apply_order_irrelevant [OF assms] slot_value_apply [OF assms(1)] by auto

text \<open>A request as it comes off the tunnel.\<close>

definition ex_req :: http_request where
  "ex_req = \<lparr>rq_method = ''GET'', rq_scheme = '''', rq_urlhost = '''', rq_path = ''/api/cb/1'', rq_query = ''a=1'',
     rq_host = '''', rq_uri = ''/api/cb/1?a=1'', rq_header = [''X-Env'' \<mapsto> [''prod'']], rq_body = ''''\<rparr>"

lemma ex_slots:
  "header_slot ''X-Env'' = Some ''X-Env''" "header_slot ''Host'' = None" "header_slot ''x-env'' = Some ''X-Env''"
  by code_simp+

theorem custom_headers_order_irrelevant_witness:
  "applyCustomHeaders [(''X-Env'', ''dev''), (''Host'', ''app'')] ex_req =
   applyCustomHeaders [(''Host'', ''app''), (''X-Env'', ''dev'')] ex_req"
proof -
  have "range_of [(''Host'', ''app''), (''X-Env'', ''dev'')] [(''X-Env'', ''dev''), (''Host'', ''app'')]"
    by (auto simp: range_of_def)
  then show ?thesis
    using custom_headers_order_irrelevant [of "[(''X-Env'', ''dev''), (''Host'', ''app'')]"] by (simp add: ex_slots)
qed

text \<open>
  Two custom headers whose names differ only in case are both accepted, and which of them is sent
  depends on the order in which Go happens to iterate over the map.
\<close>

theorem custom_headers_case_clash:
  "validateCustomHeaders [(''X-Env'', ''a''), (''x-env'', ''b'')] = None \<and>
   range_of [(''x-env'', ''b''), (''X-Env'', ''a'')] [(''X-Env'', ''a''), (''x-env'', ''b'')] \<and>
   rq_header (applyCustomHeaders [(''X-Env'', ''a''), (''x-env'', ''b'')] req) ''X-Env'' = Some [''b''] \<and>
   rq_header (applyCustomHeaders [(''x-env'', ''b''), (''X-Env'', ''a'')] req) ''X-Env'' = Some [''a'']"
proof -
  have "\<not> EqualFold ''X-Env'' ''Host''" "\<not> EqualFold ''x-env'' ''Host''"
    "CanonicalMIMEHeaderKey ''X-Env'' = ''X-Env''" "CanonicalMIMEHeaderKey ''x-env'' = ''X-Env''"
    by code_simp+
  moreover have "validateCustomHeaders [(''X-Env'', ''a''), (''x-env'', ''b'')] = None" by code_simp
  ultimately show ?thesis by (auto simp: range_of_def Header_Set_def)
qed

subsection \<open>HTTP requests\<close>

lemma http_proxy_exchange:
  assumes "cm_protocol msg = proto_HTTP" "px_request env = Inr req" "url_Parse (hp_target p) = Inr u"
    and "distinct (map (header_slot \<circ> fst) (hp_headers p))"
  shows "\<exists>req'. HTTPProxy_Proxy p msg env =
      Some (LocalDo req' # (case px_do env of Inl _ \<Rightarrow> http_sendError p env | Inr res \<Rightarrow> [RemoteWrite res])) \<and>
    rq_method req' = rq_method req \<and> rq_path req' = rq_path req \<and> rq_query req' = rq_query req \<and>
    rq_body req' = rq_body req \<and> rq_scheme req' = ur_scheme u \<and> rq_urlhost req' = ur_host u \<and>
    (\<forall>(n, v) \<in> set (hp_headers p). slot_value req' (header_slot n) = Some [v]) \<and>
    (None \<notin> (header_slot \<circ> fst) ` set (hp_headers p) \<longrightarrow> rq_host req' = '''') \<and>
    (\<forall>k. Some k \<notin> (header_slot \<circ> fst) ` set (hp_headers p) \<longrightarrow> rq_header req' k = rq_header req k)"
proof -
  let ?r = "req\<lparr>rq_uri := '''', rq_scheme := ur_scheme u, rq_urlhost := ur_host u, rq_host := ''''\<rparr>"
  let ?req' = "applyCustomHeaders (hp_headers p) ?r"
  have "HTTPProxy_Proxy p msg env =
      Some (LocalDo ?req' # (case px_do env of Inl _ \<Rightarrow> http_sendError p env | Inr res \<Rightarrow> [RemoteWrite res]))"
    using assms(1-3) by (simp add: HTTPProxy_Proxy_def patchRequest_def)
  moreover have "\<forall>(n, v) \<in> set (hp_headers p). slot_value ?req' (header_slot n) = Some [v]"
    using slot_value_apply [OF assms(4)] by auto
  moreover have "rq_host ?req' = ''''" if "None \<notin> (header_slot \<circ> fst) ` set (hp_headers p)"
    using slot_value_apply_other [OF that, of ?r] by (simp add: slot_value_def)
  moreover have "rq_header ?req' k = rq_header req k" if "Some k \<notin> (header_slot \<circ> fst) ` set (hp_headers p)" for k
    using slot_value_apply_other [OF that, of ?r] by (simp add: slot_value_def)
  ultimately show ?thesis
    by (intro exI [of _ ?req']) (simp add: apply_frame)
qed

text \<open>
  C37: The local server gets the request as it came off the tunnel: method, path, query and body are
  untouched, scheme and address are those of the target, each custom header has its value
  (\<open>Host\<close> included), and every other header is the visitor's.  Its answer goes back as it is,
  and if there is none the visitor gets the error response.
\<close>

theorem http_proxy_forwards:
  assumes "cm_protocol msg = proto_HTTP" "px_request env = Inr req" "url_Parse (hp_target p) = Inr u"
    and "distinct (map (header_slot \<circ> fst) (hp_headers p))"
  shows "\<exists>req'. HTTPProxy_Proxy p msg env =
      Some (LocalDo req' # (case px_do env of Inl _ \<Rightarrow> http_sendError p env | Inr res \<Rightarrow> [RemoteWrite res])) \<and>
    rq_method req' = rq_method req \<and> rq_path req' = rq_path req \<and> rq_query req' = rq_query req \<and>
    rq_body req' = rq_body req \<and> rq_scheme req' = ur_scheme u \<and> rq_urlhost req' = ur_host u \<and>
    (\<forall>(n, v) \<in> set (hp_headers p). slot_value req' (header_slot n) = Some [v]) \<and>
    (None \<notin> (header_slot \<circ> fst) ` set (hp_headers p) \<longrightarrow> rq_host req' = '''') \<and>
    (\<forall>k. Some k \<notin> (header_slot \<circ> fst) ` set (hp_headers p) \<longrightarrow> rq_header req' k = rq_header req k)"
  by (rule http_proxy_exchange [OF assms])

lemma ex_target: "url_Parse ''http://127.0.0.1:8080'' =
    Inr \<lparr>ur_scheme = ''http'', ur_opaque = '''', ur_user = False, ur_host = ''127.0.0.1:8080'', ur_path = '''', ur_query = ''''\<rparr>"
  by (simp add: url_Parse_def Cut_def parse_nofrag_def is_ctl_def byte_of_def getScheme_def is_alpha_def in_range_def
      is_digit_def empty_url_def HasPrefix_def parseAuthority_def LastIndexByte_def parseHost_def validOptionalPort_def
      host_escape_def set_path_def lower_ascii_def)

text \<open>One exchange with the local server, asked for with a message for an HTTP session.\<close>

definition ex_penv :: proxy_env where
  "ex_penv = \<lparr>px_request = Inr ex_req, px_do = Inr \<lparr>rs_status = 200, rs_header = Map.empty, rs_body = ''ok''\<rparr>,
     px_render = None, px_dial = None, px_write = None, px_buffered = '''', px_forward = None\<rparr>"

definition ex_message :: "int \<Rightarrow> control_message" where
  "ex_message p = \<lparr>cm_action = RequestClientSession, cm_protocol = p, cm_local_port = 0\<rparr>"

theorem http_proxy_forwards_witness:
  "\<exists>req'. HTTPProxy_Proxy \<lparr>hp_target = ''http://127.0.0.1:8080'', hp_headers = [(''X-Env'', ''dev'')], hp_error = None\<rparr>
       (ex_message proto_HTTP) ex_penv =
     Some [LocalDo req', RemoteWrite \<lparr>rs_status = 200, rs_header = Map.empty, rs_body = ''ok''\<rparr>] \<and>
     rq_query req' = ''a=1'' \<and> rq_urlhost req' = ''127.0.0.1:8080'' \<and> rq_header req' ''X-Env'' = Some [''dev'']"
proof -
  let ?p = "\<lparr>hp_target = ''http://127.0.0.1:8080'', hp_headers = [(''X-Env'', ''dev'')], hp_error = None\<rparr>"
  have "url_Parse (hp_target ?p) = Inr \<lparr>ur_scheme = ''http'', ur_opaque = '''', ur_user = False,
      ur_host = ''127.0.0.1:8080'', ur_path = '''', ur_query = ''''\<rparr>" by (simp add: ex_target)
  moreover have "cm_protocol (ex_message proto_HTTP) = proto_HTTP" "px_request ex_penv = Inr ex_req"
    by (simp_all add: ex_message_def ex_penv_def)
  ultimately show ?thesis
    using http_proxy_forwards [of "ex_message proto_HTTP" ex_penv ex_req ?p]
    by (auto simp: ex_slots slot_value_def ex_penv_def ex_req_def)
qed

lemma WSProxy_settles:
  assumes "cm_protocol msg = proto_WS" "px_render env = None" "WSProxy_Proxy p msg env = Some es"
  shows "\<forall>a t. LocalDial a t \<in> set es \<longrightarrow> px_dial env = None \<longrightarrow>
      (LocalClose \<in> set es) \<noteq> (JoinRemoteLocal \<in> set es)"
    and "px_forward env = None \<longrightarrow> (RemoteClose \<in> set es) \<noteq> (JoinRemoteLocal \<in> set es)"
proof -
  have "(\<forall>a t. LocalDial a t \<in> set es \<longrightarrow> px_dial env = None \<longrightarrow>
      (LocalClose \<in> set es) \<noteq> (JoinRemoteLocal \<in> set es)) \<and>
    (px_forward env = None \<longrightarrow> (RemoteClose \<in> set es) \<noteq> (JoinRemoteLocal \<in> set es))"
  proof (cases "px_request env")
    case (Inl err)
    with assms show ?thesis by (auto simp: WSProxy_Proxy_def sendErrorResponse_def)
  next
    case (Inr req)
    show ?thesis
    proof (cases "targetAddress (wp_target p)")
      case (Inl err)
      with Inr assms show ?thesis by (auto simp: WSProxy_Proxy_def sendErrorResponse_def dialTarget_def)
    next
      case target: (Inr at)
      obtain a t where at: "at = (a, t)" by fastforce
      from assms(3) Inr target assms(1,2) at show ?thesis
        by (cases "px_dial env"; cases "px_write env"; cases "px_buffered env = ''''"; cases "px_forward env")
           (auto simp: WSProxy_Proxy_def sendErrorResponse_def dialTarget_def Let_def)
    qed
  qed
  then show "\<forall>a t. LocalDial a t \<in> set es \<longrightarrow> px_dial env = None \<longrightarrow>
      (LocalClose \<in> set es) \<noteq> (JoinRemoteLocal \<in> set es)"
    and "px_forward env = None \<longrightarrow> (RemoteClose \<in> set es) \<noteq> (JoinRemoteLocal \<in> set es)"
    by blast+
qed

text \<open>
  C38: The proxy of a client never panics, whatever the server asks for: it answers a request for an
  HTTP session with exactly one response, it closes a session of a kind it does not know,
  and for a websocket each connection it makes to the local server is closed or joined,
  and the visitor is answered or joined, unless the buffered data cannot be passed on.
\<close>

theorem client_proxy_safe:
  assumes "NewClient cfg b = Inr c" "px_render env = None"
  shows "\<exists>es. cl_proxy c msg env = Some es \<and>
    (cm_protocol msg = proto_HTTP \<longrightarrow>
       length (filter (\<lambda>e. \<exists>r. e = RemoteWrite r) es) = 1 \<and> JoinRemoteLocal \<notin> set es) \<and>
    (cm_protocol msg \<notin> {proto_HTTP, proto_WS} \<longrightarrow> es = [RemoteClose]) \<and>
    (cm_protocol msg = proto_WS \<longrightarrow>
       (\<forall>a t. LocalDial a t \<in> set es \<longrightarrow> px_dial env = None \<longrightarrow>
          (LocalClose \<in> set es) \<noteq> (JoinRemoteLocal \<in> set es)) \<and>
       (px_forward env = None \<longrightarrow>
          (RemoteClose \<in> set es) \<noteq> (JoinRemoteLocal \<in> set es)))"
proof -
  let ?t = "hc_target (cc_http (cg_connection cfg))" and ?hs = "cg_custom_headers cfg"
  have c: "cl_proxy c = Proxy \<lparr>pf_HTTP = Some (HTTPProxy_Proxy \<lparr>hp_target = ?t, hp_headers = ?hs, hp_error = None\<rparr>),
      pf_TCP = None, pf_WS = Some (WSProxy_Proxy \<lparr>wp_target = ?t, wp_headers = ?hs\<rparr>)\<rparr>"
    using assms(1) by (auto simp: NewClient_def Let_def split: option.splits)
  have d: "proto_HTTP \<noteq> proto_TCP" "proto_HTTP \<noteq> proto_WS" "proto_TCP \<noteq> proto_WS"
    by (simp_all add: proto_HTTP_def proto_TCP_def proto_WS_def)
  consider (http) "cm_protocol msg = proto_HTTP" | (ws) "cm_protocol msg = proto_WS"
    | (other) "cm_protocol msg \<notin> {proto_HTTP, proto_WS}" by blast
  then show ?thesis
  proof cases
    case http
    then show ?thesis
      using d assms(2)
      by (auto simp: c Proxy_def select_proxy_def or_default_def HTTPProxy_Proxy_def http_sendError_def
          sendErrorResponse_def split: sum.splits)
  next
    case ws
    then have "cl_proxy c msg env = WSProxy_Proxy \<lparr>wp_target = ?t, wp_headers = ?hs\<rparr> msg env"
      using d by (simp add: c Proxy_def select_proxy_def or_default_def)
    moreover have "\<exists>es. WSProxy_Proxy \<lparr>wp_target = ?t, wp_headers = ?hs\<rparr> msg env = Some es"
      by (simp add: WSProxy_Proxy_def)
    ultimately show ?thesis using ws d assms(2) WSProxy_settles [OF ws assms(2)] by auto
  next
    case other
    then show ?thesis
      by (auto simp: c Proxy_def select_proxy_def or_default_def DefaultProxyFuncs_def)
  qed
qed

theorem client_proxy_safe_witness:
  "\<exists>es. cl_proxy ex_client (ex_message proto_TCP) ex_penv = Some es \<and> es = [RemoteClose]"
proof -
  have "px_render ex_penv = None" by (simp add: ex_penv_def)
  moreover have "cm_protocol (ex_message proto_TCP) \<notin> {proto_HTTP, proto_WS}"
    by (simp add: ex_message_def proto_HTTP_def proto_TCP_def proto_WS_def)
  ultimately show ?thesis using client_proxy_safe [OF ex_client_ok, of ex_penv "ex_message proto_TCP"] by blast
qed

subsection \<open>Targets\<close>

text \<open>
  The address that a websocket is dialled at always has a port: the one of the target, or the one
  its scheme implies, 443 for \<open>https\<close> and \<open>wss\<close> and 80 otherwise; and TLS is used exactly for
  these two schemes.  The dial takes host and port apart again as the target has them.
\<close>

theorem target_address_dialable:
  assumes "targetAddress t = Inr (addr, tls)" "url_Parse t = Inr u"
    and "CHR ''['' \<notin> set (url_Hostname u)" "CHR '']'' \<notin> set (url_Hostname u)"
    and "url_Port u \<noteq> '''' \<longrightarrow> ur_host u = JoinHostPort (url_Hostname u) (url_Port u)"
  shows "SplitHostPort addr =
      Inr (url_Hostname u, if url_Port u \<noteq> '''' then url_Port u else if tls then ''443'' else ''80'') \<and>
    tls = (ur_scheme u \<in> {''https'', ''wss''}) \<and> ur_scheme u \<in> {''https'', ''wss'', ''http'', ''ws'', ''''} \<and>
    ur_host u \<noteq> ''''"
proof -
  have digits: "CHR '':'' \<notin> set (url_Port u)" "CHR ''['' \<notin> set (url_Port u)" "CHR '']'' \<notin> set (url_Port u)"
    using url_Port_digits [of u] by (auto simp: list_all_iff is_digit_def in_range_def byte_of_def)
  then have clean: "host_port_clean (url_Hostname u, url_Port u)" "host_port_clean (url_Hostname u, ''443'')"
    "host_port_clean (url_Hostname u, ''80'')"
    using assms(3,4) by (simp_all add: host_port_clean_def)
  have t: "ur_scheme u \<in> {''https'', ''wss'', ''http'', ''ws'', ''''}" "ur_host u \<noteq> ''''"
    "tls = (ur_scheme u \<in> {''https'', ''wss''})"
    "addr = (if url_Port u = '''' then JoinHostPort (url_Hostname u) (if tls then ''443'' else ''80'') else ur_host u)"
    using assms(1,2) by (auto simp: targetAddress_def Let_def split: if_splits)
  moreover have "SplitHostPort addr =
      Inr (url_Hostname u, if url_Port u \<noteq> '''' then url_Port u else if tls then ''443'' else ''80'')"
    unfolding t(4) using clean assms(5) by (auto simp: SplitHostPort_JoinHostPort)
  ultimately show ?thesis by blast
qed

lemma ex_ws_target: "url_Parse ''wss://[::1]/chat'' =
    Inr \<lparr>ur_scheme = ''wss'', ur_opaque = '''', ur_user = False, ur_host = ''[::1]'', ur_path = ''/chat'', ur_query = ''''\<rparr>"
  by (simp add: url_Parse_def Cut_def parse_nofrag_def is_ctl_def byte_of_def getScheme_def is_alpha_def in_range_def
      is_digit_def empty_url_def HasPrefix_def parseAuthority_def LastIndexByte_def parseHost_def validOptionalPort_def
      host_escape_def set_path_def lower_ascii_def)

theorem target_address_dialable_witness:
  "\<exists>addr. targetAddress ''wss://[::1]/chat'' = Inr (addr, True) \<and> SplitHostPort addr = Inr (''::1'', ''443'')"
proof -
  have h: "url_split_host ''[::1]'' = (''::1'', '''')"
    by (simp add: url_split_host_def LastIndexByte_def validOptionalPort_def is_digit_def in_range_def byte_of_def
        HasPrefix_def HasSuffix_def)
  have "targetAddress ''wss://[::1]/chat'' = Inr (JoinHostPort ''::1'' ''443'', True)"
    by (simp add: targetAddress_def ex_ws_target url_Port_def url_Hostname_def h)
  with target_address_dialable [OF this ex_ws_target] show ?thesis
    by (simp add: url_Port_def url_Hostname_def h)
qed

subsection \<open>Joined streams\<close>

text \<open>The bytes that have arrived for a direction, and the steps that the goroutines themselves take.\<close>

fun arrived :: "bool \<Rightarrow> join_event list \<Rightarrow> string" where
  "arrived ab [] = ''''"
| "arrived ab (Arrive ab' c # es) = (if ab' = ab then c # arrived ab es else arrived ab es)"
| "arrived ab (_ # es) = arrived ab es"

fun own_step :: "join_event \<Rightarrow> bool" where
  "own_step (CopyByte ab) = True"
| "own_step (EndCopy ab) = True"
| "own_step _ = False"

text \<open>A reason of its own for a copy to return.\<close>

definition ended_itself :: "direction \<Rightarrow> bool" where
  "ended_itself d \<longleftrightarrow> jd_done d \<and> (jd_ended d \<and> jd_pending d = '''' \<or> jd_broken d)"

definition join_inv :: "joined \<Rightarrow> bool" where
  "join_inv j \<longleftrightarrow>
     (jn_open j \<longleftrightarrow> \<not> jd_done (jn_ab j) \<and> \<not> jd_done (jn_ba j)) \<and>
     (\<not> jn_open j \<longrightarrow> ended_itself (jn_ab j) \<or> ended_itself (jn_ba j))"

text \<open>How many steps the goroutines have left, as things are.\<close>

definition join_fuel :: "joined \<Rightarrow> nat" where
  "join_fuel j = length (jd_pending (jn_ab j)) + length (jd_pending (jn_ba j)) +
     (if jd_done (jn_ab j) then 0 else 1) + (if jd_done (jn_ba j) then 0 else 1)"

abbreviation stream_of :: "direction \<Rightarrow> string" where
  "stream_of d \<equiv> jd_sent d @ jd_pending d"

lemmas join_defs = on_direction_def arrive_def copy_byte_def end_copy_def

lemma join_step_inv:
  assumes "join_step e j = Some j'" "join_inv j"
  shows "join_inv j'"
proof (cases e)
  case (Arrive ab c)
  then show ?thesis using assms
    by (cases ab) (auto simp: on_direction_def arrive_def join_inv_def ended_itself_def split: if_splits)
next
  case (SourceEnds ab)
  then show ?thesis using assms by (cases ab) (auto simp: on_direction_def join_inv_def ended_itself_def)
next
  case (DestinationBreaks ab)
  then show ?thesis using assms by (cases ab) (auto simp: on_direction_def join_inv_def ended_itself_def)
next
  case (CopyByte ab)
  then show ?thesis using assms
    by (cases ab)
       (auto simp: on_direction_def copy_byte_def join_inv_def ended_itself_def split: if_splits list.splits)
next
  case (EndCopy ab)
  then show ?thesis using assms
    by (cases ab) (auto simp: on_direction_def end_copy_def join_inv_def ended_itself_def split: if_splits)
qed

lemma join_step_stream:
  assumes "join_step e j = Some j'"
  shows "stream_of (jn_ab j') = stream_of (jn_ab j) @ arrived True [e]"
    "stream_of (jn_ba j') = stream_of (jn_ba j) @ arrived False [e]"
  using assms by (cases e; auto simp: join_defs split: if_splits list.splits)+

lemma join_step_fuel:
  assumes "join_step e j = Some j'"
  shows "join_fuel j' + (if own_step e then 1 else 0) =
    join_fuel j + length (arrived True [e]) + length (arrived False [e])"
  using assms by (cases e) (auto simp: join_defs join_fuel_def split: if_splits list.splits)

lemma arrived_Cons: "arrived ab (e # es) = arrived ab [e] @ arrived ab es"
  by (cases e) simp_all

lemma join_run_ok:
  assumes "join_run es j = Some j'" "join_inv j"
  shows "join_inv j' \<and> stream_of (jn_ab j') = stream_of (jn_ab j) @ arrived True es \<and>
    stream_of (jn_ba j') = stream_of (jn_ba j) @ arrived False es \<and>
    join_fuel j' + length (filter own_step es) = join_fuel j + length (arrived True es) + length (arrived False es)"
  using assms
proof (induction es arbitrary: j)
  case (Cons e es)
  then obtain j1 where j1: "join_step e j = Some j1" "join_run es j1 = Some j'" by (auto split: option.splits)
  from Cons.IH [OF j1(2) join_step_inv [OF j1(1) Cons.prems(2)]] join_step_stream [OF j1(1)] join_step_fuel [OF j1(1)]
  show ?case by (auto simp: arrived_Cons [of _ e es] split: if_splits)
qed simp

lemma join_stuck:
  assumes "join_inv j" "\<forall>e. own_step e \<longrightarrow> join_step e j = None" "\<not> join_returned j"
  shows "jn_open j \<and> jd_pending (jn_ab j) = '''' \<and> \<not> jd_ended (jn_ab j) \<and>
    jd_pending (jn_ba j) = '''' \<and> \<not> jd_ended (jn_ba j)"
proof -
  have none: "on_direction ab (copy_byte (jn_open j)) j = None" "on_direction ab (end_copy (jn_open j)) j = None" for ab
    using assms(2) [rule_format, of "CopyByte ab"] assms(2) [rule_format, of "EndCopy ab"] by simp_all
  from none [of True] none [of False] show ?thesis
    using assms(1,3)
    by (auto simp: join_returned_def on_direction_def copy_byte_def end_copy_def join_inv_def
        split: if_splits list.splits)
qed

text \<open>
  C39: Joined streams deliver in order and do not hang once a side has ended.  At any moment, what was passed on in a
  direction, followed by what waits to be, is what has arrived.  The connections are closed only after one of
  the copies had a reason to return: its source had ended and everything was passed on, or its
  destination was broken.  From then on no byte moves, and \<open>joinStreams\<close> returns with both connections closed.
  The two goroutines take one step for each byte that arrives and two more at most, and they stop
  without having returned only while both connections are open, nothing is left to be passed on and neither side
  has ended: when one has, they run on until \<open>joinStreams\<close> returns.
\<close>

theorem joined_streams_end:
  assumes "join_run es joinStreams = Some j"
  shows "jd_sent (jn_ab j) @ jd_pending (jn_ab j) = arrived True es \<and>
    jd_sent (jn_ba j) @ jd_pending (jn_ba j) = arrived False es \<and>
    (\<not> jn_open j \<longrightarrow> ended_itself (jn_ab j) \<or> ended_itself (jn_ba j)) \<and>
    (jd_done (jn_ab j) \<or> jd_done (jn_ba j) \<longrightarrow>
       \<not> jn_open j \<and> join_step (CopyByte True) j = None \<and> join_step (CopyByte False) j = None) \<and>
    length (filter own_step es) \<le> length (arrived True es) + length (arrived False es) + 2 \<and>
    ((\<forall>e. own_step e \<longrightarrow> join_step e j = None) \<longrightarrow> join_returned j \<or>
       (jn_open j \<and> jd_pending (jn_ab j) = '''' \<and> \<not> jd_ended (jn_ab j) \<and>
        jd_pending (jn_ba j) = '''' \<and> \<not> jd_ended (jn_ba j)))"
proof -
  have start: "join_inv joinStreams" "join_fuel joinStreams = 2" "stream_of (jn_ab joinStreams) = ''''"
    "stream_of (jn_ba joinStreams) = ''''"
    by (simp_all add: join_inv_def joinStreams_def join_fuel_def Let_def)
  note run = join_run_ok [OF assms start(1)]
  then have inv: "join_inv j" by blast
  have "\<not> jn_open j \<and> join_step (CopyByte True) j = None \<and> join_step (CopyByte False) j = None"
    if "jd_done (jn_ab j) \<or> jd_done (jn_ba j)"
    using inv that by (auto simp: join_inv_def on_direction_def copy_byte_def)
  moreover have "\<not> jn_open j \<longrightarrow> ended_itself (jn_ab j) \<or> ended_itself (jn_ba j)"
    using inv by (simp add: join_inv_def)
  moreover have "length (filter own_step es) \<le> length (arrived True es) + length (arrived False es) + 2"
    using run start(2) by linarith
  moreover have "stream_of (jn_ab j) = arrived True es" "stream_of (jn_ba j) = arrived False es"
    using run start(3,4) by simp_all
  ultimately show ?thesis using join_stuck [OF inv] by blast
qed

text \<open>The local server ends after its answer, while bytes of the visitor are still on their way.\<close>

definition ex_join_run :: "join_event list" where
  "ex_join_run = [Arrive True (CHR ''h''), Arrive False (CHR ''x''), CopyByte False, SourceEnds False, Arrive True (CHR ''i''),
     CopyByte True, EndCopy False, EndCopy True]"

theorem joined_streams_end_witness:
  "\<exists>j. join_run ex_join_run joinStreams = Some j \<and> jd_sent (jn_ab j) @ jd_pending (jn_ab j) = ''hi'' \<and>
     (ended_itself (jn_ab j) \<or> ended_itself (jn_ba j))"
proof -
  have "\<exists>j. join_run ex_join_run joinStreams = Some j \<and> \<not> jn_open j"
    by (simp add: ex_join_run_def joinStreams_def on_direction_def arrive_def copy_byte_def end_copy_def Let_def)
  then obtain j where j: "join_run ex_join_run joinStreams = Some j" "\<not> jn_open j" by blast
  moreover have "arrived True ex_join_run = ''hi''" by (simp add: ex_join_run_def)
  ultimately show ?thesis using joined_streams_end [OF j(1)] by auto
qed

end
