(* ===== verification/End_To_End.thy ===== *)
theory End_To_End
  imports Server_Life Client_Props
begin

section \<open>Client and server together\<close>

text \<open>
  The two ends of the control protocol fit: what the client writes is what the server checks,
  and what the server answers is what the client waits for.
\<close>

subsection \<open>What a request becomes on the wire\<close>

text \<open>
  \<open>Request.Write\<close> replaces line breaks in a header value by spaces and trims it; the parser at
  the other end delivers the values, the method, the path and the body.
\<close>

definition wire_space :: "char \<Rightarrow> bool" where
  "wire_space c \<longleftrightarrow> c \<in> {CHR '' '', CHR 0x09, CHR 0x0A, CHR 0x0D}"

definition wire_value :: "string \<Rightarrow> string" where
  "wire_value v =
     rev (dropWhile wire_space (rev (dropWhile wire_space
       (map (\<lambda>c. if c = CHR 0x0A \<or> c = CHR 0x0D then CHR '' '' else c) v))))"

text \<open>
  The headers that the writer and the parser keep for themselves are left out; a missing
  \<open>User-Agent\<close> is filled in, an empty one is not sent.
\<close>

definition wire_header :: "header \<Rightarrow> header" where
  "wire_header h k =
     (if k \<in> {''Host'', ''Content-Length'', ''Transfer-Encoding'', ''Trailer''} then None
      else if k = ''User-Agent'' then
        (case h k of
           None \<Rightarrow> Some [''Go-http-client/1.1'']
         | Some vs \<Rightarrow> if Header_Get h k = '''' then None else Some [wire_value (Header_Get h k)])
      else (case h k of Some (v # vs) \<Rightarrow> Some (map wire_value (v # vs)) | _ \<Rightarrow> None))"

text \<open>For a path that starts with a slash, as the request line needs it.\<close>

definition delivered :: "http_request \<Rightarrow> http_request" where
  "delivered r =
     r\<lparr>rq_scheme := '''', rq_urlhost := '''',
       rq_host := (if rq_host r = '''' then rq_urlhost r else rq_host r),
       rq_uri := rq_path r @ (if rq_query r = '''' then '''' else ''?'' @ rq_query r),
       rq_header := wire_header (rq_header r)\<rparr>"

text \<open>The status line as \<open>http.ReadResponse\<close> reads it: the code and the whole status.\<close>

definition ReadResponse_status :: "string \<Rightarrow> (nat \<times> string) option" where
  "ReadResponse_status s =
     (let line = takeWhile (\<lambda>c. c \<noteq> CHR 0x0A) s;
          status = dropWhile (\<lambda>c. c = CHR '' '') (snd (Cut line (CHR '' '')));
          code = fst (Cut status (CHR '' ''))
      in if length code \<noteq> 3 \<or> \<not> list_all is_digit code then None
         else Some (foldl (\<lambda>n c. 10 * n + (byte_of c - 48)) 0 code, status))"

lemma status_of_connected_line: "ReadResponse_status connected_line = Some (200, Connected)"
  by (simp add: ReadResponse_status_def connected_line_def Connected_def Cut_def is_digit_def in_range_def
      byte_of_def)

lemma wire_value_id:
  assumes "list_all printable_ascii v" "v = [] \<or> hd v \<noteq> CHR '' '' \<and> last v \<noteq> CHR '' ''"
  shows "wire_value v = v"
proof -
  have "\<not> printable_ascii (CHR 0x0A)" "\<not> printable_ascii (CHR 0x0D)" "\<not> printable_ascii (CHR 0x09)"
    by (simp_all add: printable_ascii_def byte_of_def)
  with assms(1) have no: "\<forall>c \<in> set v. c \<notin> {CHR 0x0A, CHR 0x0D, CHR 0x09}" by (auto simp: list_all_iff)
  then have m: "map (\<lambda>c. if c = CHR 0x0A \<or> c = CHR 0x0D then CHR '' '' else c) v = v"
    by (intro map_idI) simp
  show ?thesis
  proof (cases "v = []")
    case False
    with assms(2) no have "\<not> wire_space (hd v)" "\<not> wire_space (hd (rev v))"
      by (auto simp: wire_space_def hd_rev)
    moreover have "dropWhile wire_space w = w" if "\<not> wire_space (hd w)" for w :: string
      using that by (cases w) auto
    ultimately show ?thesis unfolding wire_value_def m by simp
  qed (simp add: wire_value_def)
qed

lemma wire_value_signature: "wire_value (signIdentifier i k) = signIdentifier i k"
proof -
  have safe: "list_all printable_ascii (signIdentifier i k)"
    by (rule sig.accepted_header_safe [OF sig.own_signature_accepted])
  have "c \<noteq> CHR '' ''" if "c \<in> set (signIdentifier i k)" for c
  proof -
    have "c \<in> set url_alphabet \<union> {CHR ''=''}"
      using that b64_encode_set unfolding signIdentifier_def by blast
    moreover have "CHR '' '' \<notin> set url_alphabet" by code_simp
    ultimately show ?thesis by auto
  qed
  with wire_value_id [OF safe] show ?thesis by (metis hd_in_set last_in_set)
qed

lemma canonical_ids [simp]:
  "CanonicalMIMEHeaderKey ClientIdentifierHeader = ''X-Tunnel-Identifier''"
  "CanonicalMIMEHeaderKey ClientIdentifierSignature = ''X-Tunnel-Signature''"
  by (simp_all add: ClientIdentifierHeader_def ClientIdentifierSignature_def)

lemma connect_request_fields:
  assumes "connect_request cfg env i k body = Inr req"
  shows "rq_body req = body"
    "Header_Get (rq_header (delivered req)) ClientIdentifierHeader = wire_value i"
    "Header_Get (rq_header (delivered req)) ClientIdentifierSignature = signIdentifier i k"
    "rq_method req = (if cg_control_method cfg = '''' then ''GET'' else cg_control_method cfg)"
  using assms
  by (auto simp: connect_request_def NewRequest_def Let_def delivered_def Header_Set_def Header_Get_def
      wire_header_def wire_value_signature split: sum.splits if_splits)

text \<open>
  A client and a server with the same key, method and control path understand each other: the
  request that the client writes is authentic for the server, provided that its identifier survives
  the header (it has no white space at its ends).
\<close>

theorem client_request_authentic:
  assumes "connect_request cfg env i (sf_signature_key scf) body = Inr req" "wire_value i = i"
    and "Clean (rq_path req) = sf_control_path scf" "rq_method req = sf_control_method scf"
    and "checkIdentifier scf i"
  shows "authentic scf (delivered req) i"
proof -
  have "rq_path (delivered req) = rq_path req" "rq_method (delivered req) = rq_method req"
    by (simp_all add: delivered_def)
  then show ?thesis
    using assms connect_request_fields [OF assms(1)] by (simp add: authentic_def isControlRequest_def)
qed

lemma ex_control_url:
  "url_Parse ''http://tunnel:80/_controlPath'' =
     Inr \<lparr>ur_scheme = ''http'', ur_opaque = '''', ur_user = False, ur_host = ''tunnel:80'',
          ur_path = ''/_controlPath'', ur_query = ''''\<rparr>"
  by (simp add: url_Parse_def Cut_def parse_nofrag_def is_ctl_def byte_of_def getScheme_def is_alpha_def in_range_def
      is_digit_def empty_url_def HasPrefix_def parseAuthority_def LastIndexByte_def parseHost_def validOptionalPort_def
      host_escape_def set_path_def lower_ascii_def)

definition ex_dial :: dial_env where
  "ex_dial = ex_refused\<lparr>dn_dial := Inr 5, dn_response := Inr (200, Connected, Inr '''')\<rparr>"

definition ex_sent :: http_request where
  "ex_sent = projr (connect_request ex_client_config ex_dial ''alice'' ''k'' ''a'')"

lemma ex_sent [simp]:
  "connect_request ex_client_config ex_dial ''alice'' ''k'' ''a'' = Inr ex_sent"
  "rq_path ex_sent = ''/_controlPath''" "rq_method ex_sent = ''POST''" "rq_body ex_sent = ''a''"
  by (simp_all add: ex_sent_def connect_request_def NewRequest_def controlURL_def scheme_def control_path_def
      DefaultControlPath_def ex_client_config_def ex_dial_def ex_refused_def ex_control_url Let_def
      valid_field_byte_def in_range_def byte_of_def)

lemma wire_alice [simp]: "wire_value ''alice'' = ''alice''"
  by (simp add: wire_value_def wire_space_def)

theorem client_request_authentic_witness: "authentic ex_conf (delivered ex_sent) ''alice''"
proof -
  have "connect_request ex_client_config ex_dial ''alice'' (sf_signature_key ex_conf) ''a'' = Inr ex_sent"
    by (simp add: ex_conf_def)
  then show ?thesis
    by (rule client_request_authentic) (simp_all add: ex_conf_def checkIdentifier_def)
qed

text \<open>
  C1: Client and server together reach a connection.  When the client dials a server that knows its
  key, allows its identifier and its domain, and the network delivers what each side writes, then
  the server ends up with the client's control connection registered and its host routed to
  it, and the client ends up listening, in state \<open>ClientConnected\<close>.
\<close>

theorem connect_end_to_end:
  assumes client: "cl_pc c = PcDial le i addr (sf_signature_key scf)" "dn_dial denv = Inr conn"
      "dn_marshal denv = Inr body" "connect_request cfg denv i (sf_signature_key scf) body = Inr req"
      "dn_write denv = None" "dn_session denv = Inr cs" "hn_open henv = Opened cst" "hn_write henv = None"
    and server: "runtime_ok rt" "server_inv sv" "server_getControl i sv = None"
      "rq_method req = sf_control_method scf" "checkIdentifier scf i" "wire_value i = i"
      "rt_decode rt body = Some t" "hc_domain (cc_http t) = d" "checkHost rt scf d"
      "convertHTTPPathRules rt t = Inr rules" "host_owner sv d \<in> {None, Some i}"
      "ce_hijack cenv = Inr sconn" "ce_write cenv = None" "ce_deadline cenv = None" "ce_session cenv = Inr ss"
      "ce_accept cenv = Accepted sst" "ce_reply cenv = None"
      "checkConnect rt scf cenv (delivered req) (fresh_writer True) sv = (w', sv')"
    and network: "\<And>line. WriteConn sconn line \<in> set (since sv sv') \<Longrightarrow>
        \<exists>code status out. dn_response denv = Inr (code, status, out) \<and> ReadResponse_status line = Some (code, status)"
      "ce_read cenv = Inr HandshakeRequest"
      "\<And>reply. ReplyHandshake sst reply \<in> set (since sv sv') \<Longrightarrow> hn_read henv = Inr reply"
  shows "(\<exists>p. server_getControl i sv' = Some p \<and> ct_nc (ck_heap (sv_controls sv') p) = Some sst) \<and>
    host_owner sv' d = Some i \<and>
    cl_pc (client_run cfg bo [CvDial denv, CvHello henv] c) = PcListen le \<and>
    cl_state (client_run cfg bo [CvDial denv, CvHello henv] c) = ClientConnected \<and>
    CHello cst HandshakeRequest \<in> set (cl_effects (client_run cfg bo [CvDial denv, CvHello henv] c))"
proof -
  have "rq_method (delivered req) = rq_method req" "rq_body (delivered req) = rq_body req"
    by (simp_all add: delivered_def)
  then have "claims rt scf (delivered req) sv i d rules"
    using server connect_request_fields [OF client(4)] by (auto simp: claims_def)
  moreover have "handshake_ok cenv sconn ss sst"
    using server network(2) by (simp add: handshake_ok_def)
  ultimately have est: "since sv sv' = [WriteConn sconn connected_line, ReplyHandshake sst HandshakeResponse,
        SpawnListen (ck_next (sv_controls sv))]"
    "server_getControl i sv' = Some (ck_next (sv_controls sv))"
    "ct_nc (ck_heap (sv_controls sv') (ck_next (sv_controls sv))) = Some sst"
    "vh_owner (sv_vhosts sv') d = Some (i, rules)"
    using connect_established [OF server(1,2) _ server(3) _ server(18)] by simp_all
  from network(1) [of connected_line] obtain out where resp: "dn_response denv = Inr (200, Connected, out)"
    by (auto simp: est(1) status_of_connected_line)
  from network(3) [of HandshakeResponse] have reply: "hn_read henv = Inr HandshakeResponse" by (simp add: est(1))
  have "\<exists>c1. connect_dial cfg denv i addr (sf_signature_key scf) c = (None, c1)"
    using client resp by (simp add: connect_dial_def Let_def)
  then obtain c1 where c1: "connect_dial cfg denv i addr (sf_signature_key scf) c = (None, c1)" by blast
  have "\<exists>c2. connect_hello bo henv (goto (PcHandshake le) c1) = (None, c2) \<and>
      CHello cst HandshakeRequest \<in> set (cl_effects c2)"
    using client reply by (simp add: connect_hello_def Let_def)
  then obtain c2 where "connect_hello bo henv (goto (PcHandshake le) c1) = (None, c2)"
    "CHello cst HandshakeRequest \<in> set (cl_effects c2)" by blast
  with c1 client(1) est show ?thesis by (auto simp: client_run_def host_owner_def)
qed

text \<open>\<open>alice\<close> connects to the example server.\<close>

theorem connect_end_to_end_witness:
  "cl_state (client_run ex_client_config ex_backoff
      [CvDial ex_dial, CvHello \<lparr>hn_open = Opened 1, hn_write = None, hn_read = Inr HandshakeResponse\<rparr>]
      (ex_client\<lparr>cl_pc := PcDial None ''alice'' ''tunnel:80'' ''k''\<rparr>)) = ClientConnected"
proof -
  let ?r = "checkConnect ex_runtime ex_conf ex_cenv (delivered ex_sent) (fresh_writer True) (initial_server None)"
  let ?c = "ex_client\<lparr>cl_pc := PcDial None ''alice'' ''tunnel:80'' ''k''\<rparr>"
  let ?h = "\<lparr>hn_open = Opened 1, hn_write = None, hn_read = Inr HandshakeResponse\<rparr>"
  have "claims ex_runtime ex_conf (delivered ex_sent) (initial_server None) ''alice'' ''app.example.com'' ex_rules"
    using connect_request_fields [OF ex_sent(1)]
    by (auto simp: claims_def delivered_def intro!: exI [of _ "ex_config ''app.example.com''"])
  moreover have k: "sv_controls (initial_server None) = newControls" by (simp add: initial_server_def)
  ultimately have c: "claims ex_runtime ex_conf (delivered ex_sent) (initial_server None) ''alice'' ''app.example.com'' ex_rules"
    by simp
  from connect_established [OF ex_runtime_ok ex_initial_inv c _ ex_handshake_ok prod.collapse [symmetric]]
  have since: "since (initial_server None) (snd ?r) =
      [WriteConn 1 connected_line, ReplyHandshake 3 HandshakeResponse, SpawnListen (ck_next newControls)]"
    by (simp add: k ex_initial)
  have "dn_dial ex_dial = Inr 5" "dn_marshal ex_dial = Inr ''a''" "dn_write ex_dial = None" "dn_session ex_dial = Inr 2"
    "dn_response ex_dial = Inr (200, Connected, Inr '''')"
    by (simp_all add: ex_dial_def ex_refused_def)
  then show ?thesis
    using connect_end_to_end [of ?c None "''alice''" "''tunnel:80''" ex_conf ex_dial 5 "''a''" ex_client_config ex_sent 2
        ?h 1 ex_runtime "initial_server None" "ex_config ''app.example.com''" "''app.example.com''" ex_rules ex_cenv 1 2 3
        "fst ?r" "snd ?r" ex_backoff]
    by (simp add: since status_of_connected_line)
qed

end
