(* ===== verification/Client_Life.thy ===== *)
theory Client_Life
  imports End_To_End
begin

section \<open>How a closed client comes to its end\<close>

text \<open>How many of its own steps \<open>Start\<close> is away from its end once the flag is set.\<close>

fun winding :: "client_pc \<Rightarrow> nat" where
  "winding PcDone = 0"
| "winding (PcSleep _) = 1"
| "winding (PcCheck _) = 2"
| "winding (PcDrain _ _) = 3"
| "winding (PcListen _) = 4"
| "winding _ = 5"

definition closing :: "nat \<Rightarrow> 'b client \<Rightarrow> bool" where
  "closing n c \<longleftrightarrow> cl_closed c \<and> flag_checked (cl_pc c) \<and> winding (cl_pc c) \<le> n"

lemma closing_step:
  assumes "closing n c" "ev \<noteq> CvStart"
  shows "closing n (client_step cfg bo ev c)"
proof -
  have c: "cl_closed c" "flag_checked (cl_pc c)" "winding (cl_pc c) \<le> n"
    using assms(1) by (auto simp: closing_def)
  have "winding (cl_pc (client_step cfg bo ev c)) \<le> winding (cl_pc c)"
  proof (cases ev)
    case (CvHello env)
    then show ?thesis
      by (cases "cl_pc c") (auto split: prod.splits option.splits dest: connect_hello_frame)
  qed (use c(1,2) assms(2) in \<open>auto simp: client_check_def
      split: client_pc.splits sum.splits prod.splits option.splits\<close>)
  with c close_step [OF c(1,2) assms(2), of cfg bo] show ?thesis by (simp add: closing_def)
qed

lemma closing_run:
  assumes "closing n c" "CvStart \<notin> set evs"
  shows "closing n (client_run cfg bo evs c)"
  using assms unfolding client_run_def by (induction evs arbitrary: c) (auto simp: closing_step)

text \<open>The steps of \<open>Start\<close> itself lead on.\<close>

lemma closing_own_steps:
  "closing 5 c \<Longrightarrow> closing 4 (client_step cfg bo (CvHello env) c)"
  "closing 4 c \<Longrightarrow> closing 3 (client_step cfg bo (CvDecodeError err) c)"
  "closing 3 c \<Longrightarrow> cl_reqs c = 0 \<Longrightarrow> closing 2 (client_step cfg bo CvDrained c)"
  "closing 2 c \<Longrightarrow> closing 1 (client_step cfg bo CvCheck c)"
  "closing 1 c \<Longrightarrow> closing 0 (client_step cfg bo CvWake c)"
proof -
  assume c: "closing 5 c"
  then show "closing 4 (client_step cfg bo (CvHello env) c)"
    by (cases "cl_pc c")
       (auto simp: closing_def split: prod.splits option.splits dest: connect_hello_frame)
next
  show "closing 4 c \<Longrightarrow> closing 3 (client_step cfg bo (CvDecodeError err) c)"
    by (cases "cl_pc c") (auto simp: closing_def)
next
  show "closing 3 c \<Longrightarrow> cl_reqs c = 0 \<Longrightarrow> closing 2 (client_step cfg bo CvDrained c)"
    by (cases "cl_pc c") (auto simp: closing_def)
next
  show "closing 2 c \<Longrightarrow> closing 1 (client_step cfg bo CvCheck c)"
    by (cases "cl_pc c") (auto simp: closing_def client_check_def)
next
  show "closing 1 c \<Longrightarrow> closing 0 (client_step cfg bo CvWake c)"
    by (cases "cl_pc c") (auto simp: closing_def client_check_def)
qed


lemma ex_dial_facts:
  "dn_dial ex_dial = Inr 5" "dn_marshal ex_dial = Inr ''a''" "dn_write ex_dial = None" "dn_session ex_dial = Inr 2"
  "dn_response ex_dial = Inr (200, Connected, Inr '''')"
  "cg_fetch_identifier ex_client_config = False" "cg_fetch_server_addr ex_client_config = False"
  "cg_fetch_signature_key ex_client_config = False" "cg_identifier ex_client_config = ''alice''"
  "cg_server_addr ex_client_config = ''tunnel:80''" "cg_signature_key ex_client_config = ''k''"
  by (simp_all add: ex_dial_def ex_refused_def ex_client_config_def)

text \<open>What evaluates a run of the example's client.\<close>

lemmas ex_run_facts = ex_dial_facts client_start_def client_top_def isRetry_def client_fetch_def fetched_def
  connect_dial_def connect_hello_def Let_def NewClient_initial [OF ex_client_ok]

text \<open>A client that is closed while it listens to the server.\<close>

definition ex_closing :: "int client" where
  "ex_closing = client_run ex_client_config ex_backoff [CvStart, CvTop, ex_fetch, CvArm, CvDial ex_dial,
     CvHello \<lparr>hn_open = Opened 1, hn_write = None, hn_read = Inr HandshakeResponse\<rparr>, CvCloseBegin, CvCloseEnd] ex_client"

lemma ex_closing: "cl_pc ex_closing = PcListen None" "cl_closed ex_closing" "cl_reqs ex_closing = 0"
  by (simp_all add: ex_closing_def client_run_def ex_run_facts)


end
