(* ===== verification/Client_Requests.thy ===== *)
theory Client_Requests
  imports Client_Life "HOL-Library.Multiset"
begin

section \<open>The requests that a client waits for\<close>

text \<open>
  The proxies that run at some point of a run, with the stream and the message of each.  A proxy
  ends once and only after it was started: \<open>live_step\<close> refuses any other \<open>CvProxyDone\<close>.
\<close>

type_synonym proxies = "(nat \<times> control_message) multiset"

fun live_step :: "client_pc \<Rightarrow> client_event \<Rightarrow> proxies \<Rightarrow> proxies option" where
  "live_step pc (CvProxyDone remote msg) L =
     (if (remote, msg) \<in># L then Some (L - {#(remote, msg)#}) else None)"
| "live_step (PcListen lastErr) (CvMessage msg (Inr remote)) L = Some (add_mset (remote, msg) L)"
| "live_step pc ev L = Some L"

primrec live_after :: "client_config \<Rightarrow> 'b backoff \<Rightarrow> client_event list \<Rightarrow> 'b client \<Rightarrow> proxies \<Rightarrow> proxies option" where
  "live_after cfg bo [] c L = Some L"
| "live_after cfg bo (ev # evs) c L =
     Option.bind (live_step (cl_pc c) ev L) (live_after cfg bo evs (client_step cfg bo ev c))"

abbreviation counted :: "proxies \<Rightarrow> proxies" where
  "counted L \<equiv> {#x \<in># L. cm_protocol (snd x) = proto_HTTP#}"

lemma live_step_counted:
  assumes "cl_reqs c = size (counted L)" "live_step (cl_pc c) ev L = Some L'"
  shows "cl_reqs (client_step cfg bo ev c) = size (counted L')"
  using assms
proof (cases ev)
  case (CvProxyDone remote msg)
  then have "L = add_mset (remote, msg) L'"
    using assms(2) by (auto split: if_splits)
  then show ?thesis using assms(1) CvProxyDone by simp
next
  case (CvMessage msg opened)
  then show ?thesis using assms by (cases "cl_pc c"; cases opened) auto
next
  case (CvDial env)
  then show ?thesis using assms
    by (cases "cl_pc c") (auto split: prod.splits option.splits dest: connect_dial_frame)
next
  case (CvHello env)
  then show ?thesis using assms
    by (cases "cl_pc c") (auto split: prod.splits option.splits dest: connect_hello_frame)
qed (auto simp: client_start_def client_top_def client_fetch_def client_check_def Let_def
       split: client_pc.splits prod.splits sum.splits)

lemma live_after_counted:
  assumes "cl_reqs c = size (counted L)" "live_after cfg bo evs c L = Some L'"
  shows "cl_reqs (client_run cfg bo evs c) = size (counted L')"
  using assms unfolding client_run_def
  by (induction evs arbitrary: c L) (auto simp: bind_eq_Some_conv live_step_counted simp del: client_step.simps)

lemma connect_dial_keeps_sessions:
  assumes "connect_dial cfg env i a k c = (res, c')"
  shows "CCloseSession s \<notin> set (drop (length (cl_effects c)) (cl_effects c'))"
  using connect_dial_frame(6) [OF assms] by auto

lemma connect_hello_keeps_sessions:
  assumes "connect_hello bo env c = (res, c')"
  shows "CCloseSession s \<notin> set (drop (length (cl_effects c)) (cl_effects c'))"
  using assms
  by (auto simp: connect_hello_def Let_def split: open_outcome.splits option.splits sum.splits if_splits)

text \<open>The session is closed by \<open>Close\<close>, or after the counter has come down to zero.\<close>

lemma session_closed_by:
  assumes "CCloseSession s \<in> set (new_effects cfg bo ev c)"
  shows "ev = CvCloseEnd \<or> cl_reqs c = 0"
  using assms
proof (cases ev)
  case (CvDial env)
  then show ?thesis using assms connect_dial_keeps_sessions
    by (cases "cl_pc c") (fastforce split: prod.splits option.splits)+
next
  case (CvHello env)
  then show ?thesis using assms connect_hello_keeps_sessions
    by (cases "cl_pc c") (fastforce split: prod.splits option.splits)+
qed (auto simp: client_start_def client_top_def client_fetch_def client_check_def Let_def
       split: client_pc.splits prod.splits sum.splits if_splits option.splits)

text \<open>
  C28: The client's counter of running requests is exact and bounded by zero from below, so the wait
  group never panics: in every run it is the number of HTTP proxies that have not ended, whatever
  was cut off and connected again in between.  And the session is not closed under them: only
  \<open>Close\<close> does that, which waits ten seconds at most; the connection loop leaves a broken control connection
  exactly when the last of them has ended.  Websocket proxies are not counted.
\<close>

theorem requests_waited_for:
  assumes "NewClient cfg b = Inr c0" "live_after cfg bo evs c0 {#} = Some L" "c = client_run cfg bo evs c0"
  shows "cl_reqs c = size (counted L) \<and>
    (\<forall>x \<in># L. request_count (snd x) \<le> cl_reqs c) \<and>
    (\<forall>ev s. CCloseSession s \<in> set (new_effects cfg bo ev c) \<longrightarrow> ev = CvCloseEnd \<or> counted L = {#}) \<and>
    (\<forall>lastErr err. cl_pc c = PcDrain lastErr err \<longrightarrow>
       (cl_pc (client_step cfg bo CvDrained c) = PcDrain lastErr err \<longleftrightarrow> counted L \<noteq> {#}))"
proof -
  have reqs: "cl_reqs c = size (counted L)"
    using live_after_counted [OF _ assms(2)] NewClient_initial(6) [OF assms(1)] assms(3) by simp
  moreover have "request_count (snd x) \<le> cl_reqs c" if "x \<in># L" for x
  proof (cases "cm_protocol (snd x) = proto_HTTP")
    case True
    then have "x \<in># counted L" using that by simp
    then have "0 < size (counted L)" by (metis empty_not_add_mset mset_add nonempty_has_size)
    then show ?thesis unfolding reqs by simp
  qed simp
  moreover have "ev = CvCloseEnd \<or> counted L = {#}" if "CCloseSession s \<in> set (new_effects cfg bo ev c)" for ev s
    using session_closed_by [OF that] reqs by simp
  ultimately show ?thesis by auto
qed

text \<open>A request and a websocket session are running when the control connection breaks.\<close>

definition ex_busy :: "client_event list" where
  "ex_busy = [CvStart, CvTop, ex_fetch, CvArm, CvDial ex_dial,
     CvHello \<lparr>hn_open = Opened 1, hn_write = None, hn_read = Inr HandshakeResponse\<rparr>,
     CvMessage (session_request proto_HTTP 0) (Inr 3), CvMessage (session_request proto_HTTP 0) (Inr 5),
     CvMessage (session_request proto_WS 0) (Inr 7), CvProxyDone 3 (session_request proto_HTTP 0),
     CvDecodeError (ErrExternal ''EOF'')]"

theorem requests_waited_for_witness:
  "cl_reqs (client_run ex_client_config ex_backoff ex_busy ex_client) = 1 \<and>
   cl_pc (client_step ex_client_config ex_backoff CvDrained (client_run ex_client_config ex_backoff ex_busy ex_client)) =
     PcDrain None (ErrExternal ''EOF'')"
proof -
  have live: "live_after ex_client_config ex_backoff ex_busy ex_client {#} =
      Some {#(5, session_request proto_HTTP 0), (7, session_request proto_WS 0)#}"
    "cl_pc (client_run ex_client_config ex_backoff ex_busy ex_client) = PcDrain None (ErrExternal ''EOF'')"
    by (simp_all add: ex_busy_def client_run_def ex_run_facts add_mset_commute)
  have "counted {#(5, session_request proto_HTTP 0), (7, session_request proto_WS 0)#} = {#(5, session_request proto_HTTP 0)#}"
    by (simp add: session_request_def proto_HTTP_def proto_WS_def)
  with requests_waited_for [OF ex_client_ok live(1) refl] live(2) show ?thesis by simp
qed

end
