(* ===== verification/Env_Config.thy ===== *)
theory Env_Config
  imports Proto Go_Strings
begin

section \<open>The settings of the server command (tunnel/util.go, server/envconfig.go)\<close>

text \<open>
  Where the settings come from: the file, the environment, and the check of what must be there.
  What \<open>os.Open\<close> and \<open>io.ReadAll\<close> give is a \<open>config_file\<close>, the environment a map; the JSON codec is a
  record of functions.
\<close>

datatype config_file = OpenFails go_error | ReadFails go_error | Contents string

type_synonym environment = "string \<rightharpoonup> string"

record json_codec =
  js_server :: "string \<Rightarrow> go_error + server_settings"
  js_client :: "string \<Rightarrow> go_error + client_settings"
  js_strings :: "string \<Rightarrow> go_error + string list"
  js_print_client :: "client_settings \<Rightarrow> go_error + string"

text \<open>\<open>tunnel.GetConfig\<close>; \<open>decode\<close> is \<open>json.Unmarshal\<close> into the zero value.\<close>

fun GetConfig :: "(string \<Rightarrow> go_error + 'a) \<Rightarrow> config_file \<Rightarrow> go_error + 'a" where
  "GetConfig decode (OpenFails err) = Inl err"
| "GetConfig decode (ReadFails err) = Inl err"
| "GetConfig decode (Contents bytes) = decode bytes"

definition zero_server_settings :: server_settings where
  "zero_server_settings =
     \<lparr>ss_debug = False, ss_signature_key = '''', ss_listen = '''', ss_listen_control = '''',
      ss_allowed_hosts = [], ss_allowed_clients = [], ss_control_path = '''', ss_control_method = ''''\<rparr>"

subsection \<open>The environment\<close>

definition envDebug :: string where "envDebug = ''MYLITTLEPROXY_DEBUG''"
definition envListen :: string where "envListen = ''MYLITTLEPROXY_LISTEN''"
definition envListenControl :: string where "envListenControl = ''MYLITTLEPROXY_LISTEN_CONTROL''"
definition envSignatureKey :: string where "envSignatureKey = ''MYLITTLEPROXY_SIGNATURE_KEY''"
definition envAllowedHosts :: string where "envAllowedHosts = ''MYLITTLEPROXY_ALLOWED_HOSTS''"
definition envAllowedClients :: string where "envAllowedClients = ''MYLITTLEPROXY_ALLOWED_CLIENTS''"
definition envControlPath :: string where "envControlPath = ''MYLITTLEPROXY_CONTROL_PATH''"
definition envControlMethod :: string where "envControlMethod = ''MYLITTLEPROXY_CONTROL_METHOD''"

definition applyEnvString :: "environment \<Rightarrow> string \<Rightarrow> string \<Rightarrow> string" where
  "applyEnvString env name target = (case env name of Some value \<Rightarrow> value | None \<Rightarrow> target)"

text \<open>\<open>strconv.ParseBool\<close>.\<close>

definition ParseBool :: "string \<Rightarrow> bool option" where
  "ParseBool s =
     (if s \<in> {''1'', ''t'', ''T'', ''TRUE'', ''true'', ''True''} then Some True
      else if s \<in> {''0'', ''f'', ''F'', ''FALSE'', ''false'', ''False''} then Some False
      else None)"

definition applyEnvBool :: "environment \<Rightarrow> string \<Rightarrow> bool \<Rightarrow> go_error + bool" where
  "applyEnvBool env name target =
     (case env name of
        None \<Rightarrow> Inr target
      | Some value \<Rightarrow>
          (case ParseBool value of
             None \<Rightarrow> Inl (ErrConfig ''must be a boolean'' [name, value])
           | Some parsed \<Rightarrow> Inr parsed))"

fun list_items :: "string list \<Rightarrow> string list" where
  "list_items [] = []"
| "list_items (part # parts) =
     (let trimmed = TrimSpace part
      in if trimmed \<noteq> '''' then trimmed # list_items parts else list_items parts)"

definition applyEnvList :: "json_codec \<Rightarrow> environment \<Rightarrow> string \<Rightarrow> string list \<Rightarrow> go_error + string list" where
  "applyEnvList js env name target =
     (case env name of
        None \<Rightarrow> Inr target
      | Some raw \<Rightarrow>
          (let value = TrimSpace raw
           in if HasPrefix value ''['' then
                (case js_strings js value of
                   Inl err \<Rightarrow> Inl (ErrConfigOp name err)
                 | Inr parsed \<Rightarrow> Inr parsed)
              else Inr (list_items (Split (CHR '','') value))))"

definition applyEnv :: "json_codec \<Rightarrow> environment \<Rightarrow> server_settings \<Rightarrow> go_error + server_settings" where
  "applyEnv js env config =
     (let config1 = config
            \<lparr>ss_listen := applyEnvString env envListen (ss_listen config),
             ss_listen_control := applyEnvString env envListenControl (ss_listen_control config),
             ss_signature_key := applyEnvString env envSignatureKey (ss_signature_key config),
             ss_control_path := applyEnvString env envControlPath (ss_control_path config),
             ss_control_method := applyEnvString env envControlMethod (ss_control_method config)\<rparr>
      in case applyEnvBool env envDebug (ss_debug config1) of
           Inl err \<Rightarrow> Inl err
         | Inr debug \<Rightarrow>
             (case applyEnvList js env envAllowedHosts (ss_allowed_hosts config1) of
                Inl err \<Rightarrow> Inl err
              | Inr hosts \<Rightarrow>
                  (case applyEnvList js env envAllowedClients (ss_allowed_clients config1) of
                     Inl err \<Rightarrow> Inl err
                   | Inr clients \<Rightarrow>
                       Inr (config1\<lparr>ss_debug := debug, ss_allowed_hosts := hosts,
                                   ss_allowed_clients := clients\<rparr>))))"

subsection \<open>Loading\<close>

definition missing_settings :: "server_settings \<Rightarrow> string list" where
  "missing_settings config =
     (if ss_listen config = '''' then [''listen ('' @ envListen @ '')''] else []) @
     (if ss_signature_key config = '''' then [''signatureKey ('' @ envSignatureKey @ '')''] else []) @
     (if ss_allowed_hosts config = [] then [''allowedHosts ('' @ envAllowedHosts @ '')''] else [])"

definition checkRequiredSettings :: "server_settings \<Rightarrow> go_error option" where
  "checkRequiredSettings config =
     (let missing = missing_settings config
      in if missing \<noteq> [] then Some (ErrConfig ''missing required settings'' missing) else None)"

text \<open>\<open>main\<close> does not look at the configuration that comes with an error; it is left out.\<close>

definition loadConfig :: "json_codec \<Rightarrow> environment \<Rightarrow> config_file \<Rightarrow> go_error + server_settings" where
  "loadConfig js env cfile =
     (case (case GetConfig (js_server js) cfile of
              Inr config \<Rightarrow> Inr config
            | Inl err \<Rightarrow>
                if err = ErrNotExist then Inr zero_server_settings
                else Inl (ErrConfigOp ''unable to read config'' err)) of
        Inl err \<Rightarrow> Inl err
      | Inr config \<Rightarrow>
          (case applyEnv js env config of
             Inl err \<Rightarrow> Inl err
           | Inr config1 \<Rightarrow>
               (case checkRequiredSettings config1 of
                  Some err \<Rightarrow> Inl err
                | None \<Rightarrow> Inr config1)))"

end
