(* ===== verification/Listeners.thy ===== *)
theory Listeners
  imports Server_Http Env_Config
begin

section \<open>The listeners of the server command (server/listeners.go, server/server.go)\<close>

definition isAllInterfaces :: "string \<Rightarrow> bool" where
  "isAllInterfaces host \<longleftrightarrow> host = '''' \<or> host = ''0.0.0.0'' \<or> host = ''::''"

definition sameListenAddress :: "string \<Rightarrow> string \<Rightarrow> bool" where
  "sameListenAddress listen control =
     (case SplitHostPort listen of
        Inl _ \<Rightarrow> False
      | Inr (listenHost, listenPort) \<Rightarrow>
          (case SplitHostPort control of
             Inl _ \<Rightarrow> False
           | Inr (controlHost, controlPort) \<Rightarrow>
               if listenPort \<noteq> controlPort then False
               else listenHost = controlHost \<or> isAllInterfaces listenHost \<or> isAllInterfaces controlHost))"

definition checkListenAddresses :: "string \<Rightarrow> string \<Rightarrow> go_error option" where
  "checkListenAddresses listen control =
     (if control = '''' then None
      else if sameListenAddress listen control
        then Some (ErrConfig ''listenControl is the same address as listen'' [control, listen])
      else None)"

text \<open>
  What a listener runs: the whole server, or one of its halves.  \<open>newHTTPServer\<close> bounds the time
  for the headers and the idle time, in seconds, and leaves reading and writing unbounded, which
  is the zero value.
\<close>

datatype handler = WholeServer | ControlOnly | PublicOnly

record http_server =
  hs_addr :: string
  hs_handler :: handler
  hs_read_header_timeout :: nat
  hs_idle_timeout :: nat
  hs_read_timeout :: nat
  hs_write_timeout :: nat

definition readHeaderTimeout :: nat where "readHeaderTimeout = 10"
definition idleTimeout :: nat where "idleTimeout = 120"

definition newHTTPServer :: "string \<Rightarrow> handler \<Rightarrow> http_server" where
  "newHTTPServer addr h =
     \<lparr>hs_addr = addr, hs_handler = h, hs_read_header_timeout = readHeaderTimeout,
      hs_idle_timeout = idleTimeout, hs_read_timeout = 0, hs_write_timeout = 0\<rparr>"

text \<open>How a request is handled that arrives at a listener.\<close>

fun serve_request :: "handler \<Rightarrow> 're runtime \<Rightarrow> 're server_conf \<Rightarrow> connect_env \<Rightarrow> http_env \<Rightarrow> http_request \<Rightarrow>
    response_writer \<Rightarrow> 're server \<Rightarrow> response_writer \<times> 're server" where
  "serve_request WholeServer rt cf cenv henv r w sv = ServeHTTP rt cf cenv henv r w sv"
| "serve_request ControlOnly rt cf cenv henv r w sv = ControlHandler rt cf cenv r w sv"
| "serve_request PublicOnly rt cf cenv henv r w sv = PublicHandler rt cf henv r w sv"

text \<open>
  \<open>serve\<close>: the listeners that are started, and what the call returns.  \<open>ends\<close> has the errors of
  the listeners in the order in which they end; the first one is received from the channel
  and the other one stays in its buffer, which has room for both.
\<close>

definition serve_listeners :: "string \<Rightarrow> string \<Rightarrow> http_server list" where
  "serve_listeners listen control =
     (if control = '''' then [newHTTPServer listen WholeServer]
      else [newHTTPServer control ControlOnly, newHTTPServer listen PublicOnly])"

definition serve :: "string \<Rightarrow> string \<Rightarrow> go_error list \<Rightarrow> http_server list \<times> go_error option" where
  "serve listen control ends =
     (serve_listeners listen control, case ends of [] \<Rightarrow> None | err # _ \<Rightarrow> Some err)"

end
