(* ===== verification/Client_Generation.thy ===== *)
theory Client_Generation
  imports Listeners
begin

section \<open>Generating client configurations (server/clientconfig.go)\<close>

record client_config_options =
  op_identifier :: string
  op_domain :: string
  op_target :: string
  op_address :: string
  op_omit_signature_key :: bool
  op_debug :: bool

definition defaultGeneratedTarget :: string where
  "defaultGeneratedTarget = ''http://127.0.0.1:8080''"

definition clientFacingAddress :: "string \<Rightarrow> string \<Rightarrow> go_error + string" where
  "clientFacingAddress listen override =
     (if override \<noteq> '''' then Inr override
      else (case SplitHostPort listen of
        Inl err \<Rightarrow> Inl (ErrConfigOp ''cannot read an address from listen'' err)
      | Inr (host, port) \<Rightarrow>
          if host = '''' \<or> host = ''0.0.0.0'' \<or> host = ''::''
          then Inl (ErrConfig ''the server listens on every interface'' [listen])
          else Inr (JoinHostPort host port)))"

text \<open>The patterns are tried in order; one that does not compile ends the search.\<close>

fun try_patterns :: "'re runtime \<Rightarrow> string list \<Rightarrow> string \<Rightarrow> go_error option" where
  "try_patterns rt [] domain = Some (ErrConfig ''domain matches none of the patterns'' [domain])"
| "try_patterns rt (h # hs) domain =
     (case rt_compile rt h of
        None \<Rightarrow> Some (ErrInvalidPattern h)
      | Some re \<Rightarrow> if rt_match rt re domain then None else try_patterns rt hs domain)"

definition checkAgainstAllowedHosts :: "'re runtime \<Rightarrow> string list \<Rightarrow> string \<Rightarrow> go_error option" where
  "checkAgainstAllowedHosts rt allowedHosts domain =
     (if allowedHosts = [] then Some (ErrConfig ''the server has no allowedHosts'' [domain])
      else try_patterns rt allowedHosts domain)"

definition checkAgainstAllowedClients :: "string list \<Rightarrow> string \<Rightarrow> go_error option" where
  "checkAgainstAllowedClients allowedClients identifier =
     (if allowedClients = [] then None
      else if list_ex (\<lambda>c. c = identifier) allowedClients then None
      else Some (ErrConfig ''identifier is not in allowedClients'' [identifier]))"

definition or_else :: "string \<Rightarrow> string \<Rightarrow> string" where
  "or_else s d = (if s = '''' then d else s)"

definition buildClientConfig :: "'re runtime \<Rightarrow> server_settings \<Rightarrow> client_config_options \<Rightarrow>
    go_error + client_settings" where
  "buildClientConfig rt server opts =
     (let listen = (if ss_listen_control server \<noteq> '''' then ss_listen_control server else ss_listen server)
      in case clientFacingAddress listen (op_address opts) of
           Inl err \<Rightarrow> Inl err
         | Inr address \<Rightarrow>
             if op_domain opts = '''' then Inl (ErrConfig ''a domain is required'' [])
             else (case checkAgainstAllowedHosts rt (ss_allowed_hosts server) (op_domain opts) of
               Some err \<Rightarrow> Inl err
             | None \<Rightarrow>
                 (case checkAgainstAllowedClients (ss_allowed_clients server) (op_identifier opts) of
                    Some err \<Rightarrow> Inl err
                  | None \<Rightarrow>
                      Inr \<lparr>cs_debug = op_debug opts,
                        cs_identifier = op_identifier opts,
                        cs_server_address = address,
                        cs_signature_key = (if op_omit_signature_key opts then '''' else ss_signature_key server),
                        cs_proxy_http =
                          \<lparr>chs_domain = op_domain opts,
                           chs_target = or_else (op_target opts) defaultGeneratedTarget,
                           chs_rewrite = [\<lparr>pr_from = ''/'', pr_to = ''/''\<rparr>],
                           chs_custom_headers = []\<rparr>,
                        cs_control_path = or_else (ss_control_path server) DefaultControlPath,
                        cs_control_method = or_else (ss_control_method server) DefaultControlMethod\<rparr>)))"

definition marshalClientConfig :: "json_codec \<Rightarrow> client_settings \<Rightarrow> go_error + string" where
  "marshalClientConfig js client =
     (case js_print_client js client of
        Inl err \<Rightarrow> Inl err
      | Inr out \<Rightarrow> Inr (out @ [CHR 0x0A]))"

text \<open>What is written, and the error; \<open>write_err\<close> is the outcome of the write.\<close>

definition generateClientConfig :: "'re runtime \<Rightarrow> json_codec \<Rightarrow> server_settings \<Rightarrow> client_config_options \<Rightarrow>
    go_error option \<Rightarrow> string option \<times> go_error option" where
  "generateClientConfig rt js server opts write_err =
     (case buildClientConfig rt server opts of
        Inl err \<Rightarrow> (None, Some err)
      | Inr client \<Rightarrow>
          (case marshalClientConfig js client of
             Inl err \<Rightarrow> (None, Some err)
           | Inr encoded \<Rightarrow> (Some encoded, write_err)))"

end
