(* ===== verification/Commands.thy ===== *)
theory Commands
  imports Client_Generation Client
begin

section \<open>The two commands (server/server.go, client/client.go)\<close>

text \<open>
  How the programs start: from their files, flags and environment to the running server or
  client, or to the way in which they give up.
\<close>

subsection \<open>The server command\<close>

record server_flags =
  fg_generate :: bool
  fg_options :: client_config_options

datatype 're server_outcome =
    ServerExit go_error
  | ServerPrinted string
  | ServerFatal go_error
  | Serving "'re server_conf" "'re server" "http_server list" "string list"

definition server_config :: "server_settings \<Rightarrow> server_options" where
  "server_config config =
     \<lparr>so_state_changes = None, so_director = None, so_yamux_config = None,
      so_signature_key = ss_signature_key config,
      so_allowed_hosts = ss_allowed_hosts config,
      so_allowed_clients = ss_allowed_clients config,
      so_control_path = or_else (ss_control_path config) DefaultControlPath,
      so_control_method = or_else (ss_control_method config) DefaultControlMethod\<rparr>"

text \<open>\<open>main\<close> up to the call of \<open>serve\<close>, and the listeners that it starts.\<close>

definition server_main :: "'re runtime \<Rightarrow> json_codec \<Rightarrow> environment \<Rightarrow> config_file \<Rightarrow> server_flags \<Rightarrow>
    go_error option \<Rightarrow> 're server_outcome" where
  "server_main rt js env cfile flags write_err =
     (case loadConfig js env cfile of
        Inl err \<Rightarrow> ServerExit err
      | Inr config \<Rightarrow>
          if fg_generate flags then
            (case generateClientConfig rt js config (fg_options flags) write_err of
               (_, Some err) \<Rightarrow> ServerExit err
             | (None, None) \<Rightarrow> ServerPrinted ''''
             | (Some out, None) \<Rightarrow> ServerPrinted out)
          else
            (case NewServer rt (server_config config) of
               Inl err \<Rightarrow> ServerFatal err
             | Inr (cf, sv, warned) \<Rightarrow>
                 (case checkListenAddresses (ss_listen config) (ss_listen_control config) of
                    Some err \<Rightarrow> ServerFatal err
                  | None \<Rightarrow>
                      Serving cf sv (fst (serve (ss_listen config) (ss_listen_control config) [])) warned)))"

subsection \<open>The client command\<close>

datatype 'b client_outcome =
    ClientExit go_error
  | ClientPanic go_error
  | ClientRuns client_config "'b client"

definition getIdentifier_cmd :: "client_settings \<Rightarrow> go_error + string \<Rightarrow> go_error + string" where
  "getIdentifier_cmd config hostname =
     (if cs_identifier config = '''' then
        (case hostname of
           Inl err \<Rightarrow> Inl (ErrConfig ''no identifier and the host name is not detected'' [])
         | Inr name \<Rightarrow> Inr name)
      else Inr (cs_identifier config))"

text \<open>\<open>os.Getenv\<close> gives the empty string for a variable that is not set.\<close>

definition getSignatureKey :: "client_settings \<Rightarrow> environment \<Rightarrow> go_error + string" where
  "getSignatureKey config env =
     (let signatureKey = (if cs_signature_key config = ''''
            then (case env envSignatureKey of Some k \<Rightarrow> k | None \<Rightarrow> '''') else cs_signature_key config)
      in if signatureKey = '''' then Inl (ErrConfig ''signature key must not be empty'' []) else Inr signatureKey)"

definition getTunnelConfig :: "string \<Rightarrow> client_settings \<Rightarrow> path_rule list \<Rightarrow> string \<Rightarrow> client_config" where
  "getTunnelConfig identifier config httpRewrites signatureKey =
     \<lparr>cg_identifier = identifier,
      cg_signature_key = signatureKey,
      cg_fetch_identifier = False,
      cg_server_addr = cs_server_address config,
      cg_fetch_server_addr = False,
      cg_fetch_signature_key = False,
      cg_proxy = None,
      cg_state_changes = None,
      cg_yamux = None,
      cg_connection = \<lparr>cc_http =
        \<lparr>hc_domain = chs_domain (cs_proxy_http config),
         hc_target = chs_target (cs_proxy_http config),
         hc_rewrite = httpRewrites\<rparr>\<rparr>,
      cg_custom_headers = chs_custom_headers (cs_proxy_http config),
      cg_control_path = or_else (cs_control_path config) DefaultControlPath,
      cg_control_method = or_else (cs_control_method config) DefaultControlMethod\<rparr>"

text \<open>The copy of the rewrite rules from one package's type to the other's.\<close>

definition copy_rule :: "path_rule \<Rightarrow> path_rule" where
  "copy_rule r = \<lparr>pr_from = pr_from r, pr_to = pr_to r\<rparr>"

definition client_main :: "json_codec \<Rightarrow> environment \<Rightarrow> config_file \<Rightarrow> go_error + string \<Rightarrow> 'b \<Rightarrow> 'b client_outcome" where
  "client_main js env cfile hostname bo =
     (case GetConfig (js_client js) cfile of
        Inl err \<Rightarrow> ClientExit err
      | Inr config \<Rightarrow>
          (case getIdentifier_cmd config hostname of
             Inl err \<Rightarrow> ClientExit err
           | Inr identifier \<Rightarrow>
               (case getSignatureKey config env of
                  Inl err \<Rightarrow> ClientExit err
                | Inr signatureKey \<Rightarrow>
                    if chs_domain (cs_proxy_http config) = ''''
                      then ClientExit (ErrConfig ''proxied domain name must not be empty'' [])
                    else if chs_target (cs_proxy_http config) = ''''
                      then ClientExit (ErrConfig ''target local address must not be empty'' [])
                    else
                      (let httpRewrites = map copy_rule (chs_rewrite (cs_proxy_http config))
                       in if httpRewrites = []
                          then ClientExit (ErrConfig ''rewrite rules must contain at least one item'' [])
                          else
                            (let cfg = getTunnelConfig identifier config httpRewrites signatureKey
                             in case NewClient cfg bo of
                                  Inl err \<Rightarrow> ClientPanic err
                                | Inr c \<Rightarrow> ClientRuns cfg c)))))"

end
