(* ===== verification/Command_Props.thy ===== *)
theory Command_Props
  imports Commands End_To_End
begin

section \<open>Properties of the commands\<close>

subsection \<open>Where the settings come from\<close>

text \<open>The settings that are strings, with their variables.\<close>

definition string_settings :: "(string \<times> (server_settings \<Rightarrow> string)) list" where
  "string_settings =
     [(envListen, ss_listen), (envListenControl, ss_listen_control), (envSignatureKey, ss_signature_key),
      (envControlPath, ss_control_path), (envControlMethod, ss_control_method)]"

definition list_settings :: "(string \<times> (server_settings \<Rightarrow> string list)) list" where
  "list_settings = [(envAllowedHosts, ss_allowed_hosts), (envAllowedClients, ss_allowed_clients)]"

text \<open>What the file contributes: a file that does not exist contributes the zero value.\<close>

definition file_settings :: "json_codec \<Rightarrow> config_file \<Rightarrow> server_settings option" where
  "file_settings js f =
     (case GetConfig (js_server js) f of
        Inr config \<Rightarrow> Some config
      | Inl err \<Rightarrow> if err = ErrNotExist then Some zero_server_settings else None)"

lemma applyEnv_Inr:
  "applyEnv js env base = Inr c \<longleftrightarrow>
     (\<exists>debug hosts clients.
        applyEnvBool env envDebug (ss_debug base) = Inr debug \<and>
        applyEnvList js env envAllowedHosts (ss_allowed_hosts base) = Inr hosts \<and>
        applyEnvList js env envAllowedClients (ss_allowed_clients base) = Inr clients \<and>
        c = \<lparr>ss_debug = debug, ss_signature_key = applyEnvString env envSignatureKey (ss_signature_key base),
             ss_listen = applyEnvString env envListen (ss_listen base),
             ss_listen_control = applyEnvString env envListenControl (ss_listen_control base),
             ss_allowed_hosts = hosts, ss_allowed_clients = clients,
             ss_control_path = applyEnvString env envControlPath (ss_control_path base),
             ss_control_method = applyEnvString env envControlMethod (ss_control_method base)\<rparr>)"
  by (cases base) (auto simp: applyEnv_def Let_def split: sum.splits)

lemma loadConfig_Inr:
  "loadConfig js env f = Inr c \<longleftrightarrow>
     (\<exists>base. file_settings js f = Some base \<and> applyEnv js env base = Inr c \<and> missing_settings c = [])"
  by (auto simp: loadConfig_def file_settings_def checkRequiredSettings_def Let_def
      split: sum.splits option.splits if_splits)

lemma missing_settings_Nil:
  "missing_settings c = [] \<longleftrightarrow> ss_listen c \<noteq> '''' \<and> ss_signature_key c \<noteq> '''' \<and> ss_allowed_hosts c \<noteq> []"
  by (simp add: missing_settings_def)

lemma list_items_filter: "list_items parts = filter (\<lambda>x. x \<noteq> '''') (map TrimSpace parts)"
  by (induction parts) (simp_all add: Let_def)

text \<open>
  C34: The environment takes precedence, setting by setting: a variable that is set decides, whatever the
  file says, one that is not leaves the file's value alone.  The value of a list is the JSON array that
  the variable holds when it starts with a bracket, and otherwise its items between commas, trimmed and
  without the empty ones; nothing of the file's list is left in it.  A missing file counts as an empty
  one, an unreadable file stops the server, and no server gets past this point without an address
  to listen on, a key and a pattern for hosts.
\<close>

theorem environment_takes_precedence:
  assumes "loadConfig js env f = Inr c"
  shows "\<exists>base. file_settings js f = Some base \<and>
    (\<forall>(name, get) \<in> set string_settings. get c = (case env name of Some v \<Rightarrow> v | None \<Rightarrow> get base)) \<and>
    (\<forall>(name, get) \<in> set list_settings. (env name = None \<longrightarrow> get c = get base) \<and>
       (\<forall>v. env name = Some v \<longrightarrow>
          (if HasPrefix (TrimSpace v) ''['' then js_strings js (TrimSpace v) = Inr (get c)
           else get c = filter (\<lambda>x. x \<noteq> '''') (map TrimSpace (Split (CHR '','') (TrimSpace v)))))) \<and>
    (env envDebug = None \<longrightarrow> ss_debug c = ss_debug base) \<and>
    (\<forall>v. env envDebug = Some v \<longrightarrow> ParseBool v = Some (ss_debug c)) \<and>
    ss_listen c \<noteq> '''' \<and> ss_signature_key c \<noteq> '''' \<and> ss_allowed_hosts c \<noteq> []"
proof -
  from assms obtain base where b: "file_settings js f = Some base" "applyEnv js env base = Inr c" "missing_settings c = []"
    by (auto simp: loadConfig_Inr)
  from b(2) have "\<forall>(name, get) \<in> set string_settings. get c = (case env name of Some v \<Rightarrow> v | None \<Rightarrow> get base)"
    by (auto simp: applyEnv_Inr string_settings_def applyEnvString_def)
  moreover have unset: "env name = None \<longrightarrow> xs = old" if "applyEnvList js env name old = Inr xs" for name old xs
    using that by (auto simp: applyEnvList_def)
  have list: "if HasPrefix (TrimSpace v) ''['' then js_strings js (TrimSpace v) = Inr xs
      else xs = filter (\<lambda>x. x \<noteq> '''') (map TrimSpace (Split (CHR '','') (TrimSpace v)))"
    if "applyEnvList js env name old = Inr xs" "env name = Some v" for name old xs v
    using that by (auto simp: applyEnvList_def Let_def list_items_filter split: if_splits sum.splits)
  from b(2) have "applyEnvList js env envAllowedHosts (ss_allowed_hosts base) = Inr (ss_allowed_hosts c)"
    "applyEnvList js env envAllowedClients (ss_allowed_clients base) = Inr (ss_allowed_clients c)"
    by (auto simp: applyEnv_Inr)
  from this [THEN unset] this [THEN list] have "\<forall>(name, get) \<in> set list_settings. (env name = None \<longrightarrow> get c = get base) \<and>
       (\<forall>v. env name = Some v \<longrightarrow>
          (if HasPrefix (TrimSpace v) ''['' then js_strings js (TrimSpace v) = Inr (get c)
           else get c = filter (\<lambda>x. x \<noteq> '''') (map TrimSpace (Split (CHR '','') (TrimSpace v)))))"
    by (simp add: list_settings_def)
  moreover from b(2) have "(env envDebug = None \<longrightarrow> ss_debug c = ss_debug base) \<and>
    (\<forall>v. env envDebug = Some v \<longrightarrow> ParseBool v = Some (ss_debug c))"
    by (auto simp: applyEnv_Inr applyEnvBool_def split: option.splits)
  ultimately show ?thesis using b(1) b(3) [unfolded missing_settings_Nil] by (intro exI [of _ base] conjI) simp_all
qed

text \<open>A codec that reads nothing.\<close>

definition ex_codec :: json_codec where
  "ex_codec = \<lparr>js_server = (\<lambda>_. Inl (ErrExternal ''json'')), js_client = (\<lambda>_. Inl (ErrExternal ''json'')),
     js_strings = (\<lambda>_. Inl (ErrExternal ''json'')), js_print_client = (\<lambda>_. Inl (ErrExternal ''json''))\<rparr>"

definition ex_env :: environment where
  "ex_env = [envListen \<mapsto> '':8080'', envSignatureKey \<mapsto> ''k'', envAllowedHosts \<mapsto> ''^a$, ^b$'']"

lemma ex_loadConfig:
  "loadConfig ex_codec ex_env (OpenFails ErrNotExist) =
     Inr \<lparr>ss_debug = False, ss_signature_key = ''k'', ss_listen = '':8080'', ss_listen_control = '''',
          ss_allowed_hosts = [''^a$'', ''^b$''], ss_allowed_clients = [], ss_control_path = '''',
          ss_control_method = ''''\<rparr>"
  by (simp add: loadConfig_Inr file_settings_def applyEnv_Inr missing_settings_Nil zero_server_settings_def)
     (auto simp: applyEnvString_def applyEnvBool_def applyEnvList_def ex_env_def Let_def
       envListen_def envSignatureKey_def envAllowedHosts_def envListenControl_def envControlPath_def
       envControlMethod_def envDebug_def envAllowedClients_def TrimSpace_def TrimLeftSpace_def TrimRightSpace_def
       space_runes_def lead_len_def HasPrefix_def)

theorem environment_takes_precedence_witness:
  "\<exists>c base. loadConfig ex_codec ex_env (OpenFails ErrNotExist) = Inr c \<and>
     file_settings ex_codec (OpenFails ErrNotExist) = Some base \<and>
     (\<forall>(name, get) \<in> set string_settings. get c = (case ex_env name of Some v \<Rightarrow> v | None \<Rightarrow> get base)) \<and>
     ss_listen c \<noteq> ''''"
  using environment_takes_precedence [OF ex_loadConfig] ex_loadConfig by blast

subsection \<open>Lists in the environment\<close>

text \<open>An item that can stand in a list that is not written as JSON.\<close>

definition env_item :: "string \<Rightarrow> bool" where
  "env_item x \<longleftrightarrow> x \<noteq> '''' \<and> trimmed x \<and> CHR '','' \<notin> set x"

lemma comma_no_space: "\<forall>r \<in> set space_runes. CHR '','' \<notin> set r"
  by (simp add: space_runes_def)

lemma list_items_id: "\<forall>x \<in> set xs. env_item x \<Longrightarrow> list_items xs = xs"
  by (induction xs) (simp_all add: env_item_def TrimSpace_trimmed [THEN iffD2])

lemma list_items_env_item: "\<forall>p \<in> set ps. CHR '','' \<notin> set p \<Longrightarrow> x \<in> set (list_items ps) \<Longrightarrow> env_item x"
proof (induction ps)
  case (Cons p ps)
  then show ?case
    using TrimSpace_set [of p] by (auto simp: Let_def env_item_def trimmed_TrimSpace split: if_splits)
qed simp

lemma Join_prefix: "xs \<noteq> [] \<Longrightarrow> hd xs \<noteq> [] \<Longrightarrow> HasPrefix (Join sep xs) [c] \<longleftrightarrow> HasPrefix (hd xs) [c]"
  by (cases xs rule: remdups_adj.cases) (auto simp: HasPrefix_iff Cons_eq_append_conv append_eq_Cons_conv)

text \<open>
  C35: A list that is written into the environment with commas is read back as it was, item by item, as
  long as no item contains a comma or has white space at its ends and the first does not look like
  JSON; and whatever is read from a list with commas consists of such items.
\<close>

theorem env_list_roundtrip:
  assumes "\<forall>x \<in> set xs. env_item x" "xs \<noteq> [] \<longrightarrow> \<not> HasPrefix (hd xs) ''[''"
  shows "applyEnvList js (env(name \<mapsto> Join '','' xs)) name old = Inr xs \<and>
    (\<forall>v ys. \<not> HasPrefix (TrimSpace v) ''['' \<longrightarrow> applyEnvList js (env(name \<mapsto> v)) name old = Inr ys \<longrightarrow>
       (\<forall>y \<in> set ys. env_item y))"
proof -
  have "applyEnvList js (env(name \<mapsto> Join '','' xs)) name old = Inr xs"
  proof (cases "xs = []")
    case True
    then show ?thesis
      by (simp add: applyEnvList_def TrimSpace_def TrimLeftSpace_def TrimRightSpace_def HasPrefix_def)
  next
    case False
    have "trimmed (Join '','' xs)"
      using lead_len_Join [OF comma_no_space _ False] assms(1) by (simp add: env_item_def trimmed_def)
    then have t: "TrimSpace (Join '','' xs) = Join '','' xs" by (simp add: TrimSpace_trimmed)
    have "hd xs \<noteq> []" using assms(1) False by (simp add: env_item_def)
    then have "\<not> HasPrefix (Join '','' xs) ''[''" using Join_prefix [OF False] assms(2) False by blast
    moreover have "Split (CHR '','') (Join '','' xs) = xs"
      using Split_Join [OF False] assms(1) by (simp add: env_item_def)
    ultimately show ?thesis
      using list_items_id [OF assms(1)] by (simp add: applyEnvList_def t)
  qed
  moreover have "\<forall>v ys. \<not> HasPrefix (TrimSpace v) ''['' \<longrightarrow>
      applyEnvList js (env(name \<mapsto> v)) name old = Inr ys \<longrightarrow> (\<forall>y \<in> set ys. env_item y)"
    using list_items_env_item [of "Split (CHR '','') _"] Split_parts_no_sep [of _ "CHR '',''"]
    by (auto simp: applyEnvList_def Let_def)
  ultimately show ?thesis by blast
qed

theorem env_list_roundtrip_witness:
  "applyEnvList ex_codec [envAllowedHosts \<mapsto> Join '','' [''^a$'', ''^b[.]c$'']] envAllowedHosts [''old''] =
     Inr [''^a$'', ''^b[.]c$'']"
proof -
  have "\<forall>x \<in> set [''^a$'', ''^b[.]c$'']. env_item x"
    by (simp add: env_item_def trimmed_def lead_len_def space_runes_def HasPrefix_def)
  moreover have "\<not> HasPrefix (hd [''^a$'', ''^b[.]c$'']) ''[''" by (simp add: HasPrefix_def)
  ultimately show ?thesis
    using env_list_roundtrip [of "[''^a$'', ''^b[.]c$'']" ex_codec Map.empty] by blast
qed

subsection \<open>Listeners\<close>

text \<open>The host and port pairs at which a listener takes connections.\<close>

definition bound :: "string \<Rightarrow> string \<Rightarrow> (string \<times> string) set" where
  "bound host port = (if host \<in> {'''', ''0.0.0.0'', ''::''} then UNIV else {host}) \<times> {port}"

subsection \<open>The server command\<close>

lemma compile_hosts_Inr:
  "compile_hosts rt hs = Inr (res, warned) \<Longrightarrow> list_all2 (\<lambda>h re. rt_compile rt h = Some re) hs res"
  by (induction hs arbitrary: res warned) (auto split: option.splits sum.splits prod.splits)

text \<open>The server of the command and what it takes from the settings.\<close>

lemma NewServer_config:
  assumes "NewServer rt (server_config c) = Inr (cf, sv, warned)"
  shows "sv = initial_server None" "sf_signature_key cf = ss_signature_key c"
    "sf_allowed_clients cf = ss_allowed_clients c"
    "list_all2 (\<lambda>h re. rt_compile rt h = Some re) (ss_allowed_hosts c) (sf_allowed_hosts cf)"
    "sf_control_path cf = or_else (ss_control_path c) DefaultControlPath"
    "sf_control_method cf = or_else (ss_control_method c) DefaultControlMethod"
  using assms
  by (auto simp: NewServer_def server_config_def initial_server_def dest: compile_hosts_Inr
      split: sum.splits option.splits)

lemma server_main_Serving:
  "server_main rt js env f flags w = Serving cf sv ls warned \<longleftrightarrow>
     (\<exists>c. loadConfig js env f = Inr c \<and> \<not> fg_generate flags \<and>
        NewServer rt (server_config c) = Inr (cf, sv, warned) \<and>
        checkListenAddresses (ss_listen c) (ss_listen_control c) = None \<and>
        ls = serve_listeners (ss_listen c) (ss_listen_control c))"
  by (auto simp: server_main_def serve_def split: sum.splits option.splits prod.splits)

lemma or_else_not_Nil [simp]: "d \<noteq> '''' \<Longrightarrow> or_else s d \<noteq> ''''"
  by (simp add: or_else_def)

lemma defaults_not_Nil [simp]: "DefaultControlPath \<noteq> ''''" "DefaultControlMethod \<noteq> ''''"
  by (simp_all add: DefaultControlPath_def DefaultControlMethod_def)

lemma checkListenAddresses_disjoint:
  assumes "checkListenAddresses listen control = None" "control \<noteq> ''''"
    and "SplitHostPort listen = Inr (h1, p1)" "SplitHostPort control = Inr (h2, p2)"
  shows "bound h1 p1 \<inter> bound h2 p2 = {}"
  using assms by (auto simp: checkListenAddresses_def sameListenAddress_def isAllInterfaces_def bound_def split: if_splits)

text \<open>
  C12: A server that runs is safe to run: it starts empty, with a signature key, with at least one
  pattern that a claimed host must match, and with a control path and method; the control protocol
  is served at exactly one listener and public traffic at exactly one, and two listeners have no
  address in common.
\<close>

theorem server_command_safe:
  assumes "server_main rt js env f flags w = Serving cf sv ls warned"
  shows "server_inv sv \<and> sv = initial_server None \<and> sf_signature_key cf \<noteq> '''' \<and> sf_allowed_hosts cf \<noteq> [] \<and>
    sf_control_path cf \<noteq> '''' \<and> sf_control_method cf \<noteq> '''' \<and>
    length (filter (\<lambda>l. hs_handler l \<noteq> PublicOnly) ls) = 1 \<and>
    length (filter (\<lambda>l. hs_handler l \<noteq> ControlOnly) ls) = 1 \<and>
    (\<forall>a b h1 p1 h2 p2. ls = [a, b] \<longrightarrow>
       SplitHostPort (hs_addr a) = Inr (h1, p1) \<longrightarrow> SplitHostPort (hs_addr b) = Inr (h2, p2) \<longrightarrow>
       bound h1 p1 \<inter> bound h2 p2 = {})"
proof -
  from assms obtain c where c: "loadConfig js env f = Inr c" "NewServer rt (server_config c) = Inr (cf, sv, warned)"
    "checkListenAddresses (ss_listen c) (ss_listen_control c) = None"
    "ls = serve_listeners (ss_listen c) (ss_listen_control c)"
    by (auto simp: server_main_Serving)
  have sv: "sv = initial_server None" by (rule NewServer_config(1) [OF c(2)])
  then have "server_inv sv" using server_inv_initial [of None] by simp
  moreover from c(1) have "missing_settings c = []" by (auto simp: loadConfig_Inr)
  then have "sf_signature_key cf \<noteq> ''''" "sf_allowed_hosts cf \<noteq> []"
    using NewServer_config(2,4) [OF c(2)] unfolding missing_settings_Nil by auto
  moreover have "sf_control_path cf \<noteq> ''''" "sf_control_method cf \<noteq> ''''"
    by (simp_all add: NewServer_config(5,6) [OF c(2)])
  moreover have "length (filter (\<lambda>l. hs_handler l \<noteq> PublicOnly) ls) = 1"
    "length (filter (\<lambda>l. hs_handler l \<noteq> ControlOnly) ls) = 1"
    by (simp_all add: c(4) serve_listeners_def newHTTPServer_def)
  moreover have "bound h1 p1 \<inter> bound h2 p2 = {}"
    if "ls = [a, b]" "SplitHostPort (hs_addr a) = Inr (h1, p1)" "SplitHostPort (hs_addr b) = Inr (h2, p2)"
    for a b h1 p1 h2 p2
  proof -
    have "ss_listen_control c \<noteq> ''''" "hs_addr a = ss_listen_control c" "hs_addr b = ss_listen c"
      using that(1) c(4) by (auto simp: serve_listeners_def newHTTPServer_def split: if_splits)
    with checkListenAddresses_disjoint [OF c(3), of h2 p2 h1 p1] that(2,3) show ?thesis by (simp add: Int_commute)
  qed
  ultimately show ?thesis using sv by blast
qed

definition ex_options :: client_config_options where
  "ex_options = \<lparr>op_identifier = ''alice'', op_domain = ''b'', op_target = '''', op_address = ''tunnel:80'',
     op_omit_signature_key = False, op_debug = False\<rparr>"

theorem server_command_safe_witness:
  "\<exists>cf sv ls warned. server_main ex_runtime ex_codec ex_env (OpenFails ErrNotExist)
       \<lparr>fg_generate = False, fg_options = ex_options\<rparr> None = Serving cf sv ls warned \<and> sf_signature_key cf \<noteq> ''''"
proof -
  have "\<exists>cf sv ls warned. server_main ex_runtime ex_codec ex_env (OpenFails ErrNotExist)
       \<lparr>fg_generate = False, fg_options = ex_options\<rparr> None = Serving cf sv ls warned"
    by (simp add: server_main_Serving ex_loadConfig)
       (simp add: NewServer_def server_config_def ex_runtime_def checkListenAddresses_def)
  then show ?thesis using server_command_safe by blast
qed

subsection \<open>The control URL\<close>

text \<open>Addresses and paths that stand in a URL as they are.\<close>

definition plain_remote :: "string \<Rightarrow> bool" where
  "plain_remote r \<longleftrightarrow> parseAuthority r = Inr (False, r) \<and>
     list_all (\<lambda>c. c \<notin> set ''/?#'' \<and> \<not> is_ctl c) r"

definition plain_path :: "string \<Rightarrow> bool" where
  "plain_path p \<longleftrightarrow> HasPrefix p ''/'' \<and> list_all (\<lambda>c. c \<notin> set ''?#%'' \<and> \<not> is_ctl c) p"

lemma unescape_plain: "CHR ''%'' \<notin> set s \<Longrightarrow> unescape EncodeOther s = Inr s"
  by (induction s) auto

lemma Cut_no: "c \<notin> set s \<Longrightarrow> Cut s c = (s, '''')"
  by (simp add: Cut_def IndexByte_None_iff [THEN iffD2])

lemma control_url_parses:
  assumes "plain_remote r" "plain_path p"
  shows "url_Parse (controlURL tls r p) =
    Inr \<lparr>ur_scheme = scheme tls, ur_opaque = '''', ur_user = False, ur_host = r, ur_path = p, ur_query = ''''\<rparr>"
proof -
  obtain q where q: "p = CHR ''/'' # q" using assms(2) by (auto simp: plain_path_def HasPrefix_iff)
  have r: "CHR ''/'' \<notin> set r" "CHR ''?'' \<notin> set r" "CHR ''#'' \<notin> set r" "\<not> list_ex is_ctl r"
    "parseAuthority r = Inr (False, r)"
    using assms(1) by (auto simp: plain_remote_def list_all_iff list_ex_iff)
  have p: "CHR ''?'' \<notin> set p" "CHR ''#'' \<notin> set p" "CHR ''%'' \<notin> set p" "\<not> list_ex is_ctl p"
    using assms(2) by (auto simp: plain_path_def list_all_iff list_ex_iff)
  have "CHR ''#'' \<notin> set (controlURL tls r p)" "CHR ''?'' \<notin> set (''//'' @ r @ p)"
    using r p by (auto simp: controlURL_def scheme_def)
  then have cut: "Cut (controlURL tls r p) (CHR ''#'') = (controlURL tls r p, '''')"
    "Cut (''//'' @ r @ p) (CHR ''?'') = (''//'' @ r @ p, '''')" by (simp_all add: Cut_no)
  have ctl: "\<not> list_ex is_ctl (controlURL tls r p)"
    using r p by (auto simp: controlURL_def scheme_def is_ctl_def byte_of_def)
  have sch: "getScheme (controlURL tls r p) = Inr (scheme tls, ''//'' @ r @ p)"
    by (simp add: getScheme_def controlURL_def scheme_def is_alpha_def is_digit_def in_range_def byte_of_def)
  have idx: "IndexByte (r @ p) (CHR ''/'') = Some (length r)"
    using IndexByte_append [OF r(1), of q] by (simp add: q)
  have "parse_nofrag (controlURL tls r p) = set_path (empty_url\<lparr>ur_scheme := scheme tls, ur_host := r\<rparr>) p"
    using r(5) idx sch ctl cut(2)
    by (simp add: parse_nofrag_def controlURL_def scheme_def HasPrefix_def lower_ascii_def in_range_def byte_of_def
        empty_url_def Let_def)
  then show ?thesis
    by (simp add: url_Parse_def cut set_path_def unescape_plain p empty_url_def)
qed

subsection \<open>Generated client configurations\<close>

lemma try_patterns_None:
  "list_all2 (\<lambda>h re. rt_compile rt h = Some re) hs res \<Longrightarrow>
     try_patterns rt hs d = None \<longleftrightarrow> list_ex (\<lambda>re. rt_match rt re d) res"
  by (induction hs res rule: list_all2_induct) auto

lemma generator_agrees:
  assumes "NewServer rt (server_config c) = Inr (cf, sv, warned)"
  shows "(checkAgainstAllowedHosts rt (ss_allowed_hosts c) d = None \<longleftrightarrow> checkHost rt cf d) \<and>
    (checkAgainstAllowedClients (ss_allowed_clients c) i = None \<longleftrightarrow> checkIdentifier cf i)"
proof -
  note cf = NewServer_config [OF assms]
  have "ss_allowed_hosts c = [] \<longleftrightarrow> sf_allowed_hosts cf = []" using cf(4) by auto
  then have "checkAgainstAllowedHosts rt (ss_allowed_hosts c) d = None \<longleftrightarrow> checkHost rt cf d"
    using try_patterns_None [OF cf(4)] by (auto simp: checkAgainstAllowedHosts_def checkHost_def)
  then show ?thesis by (simp add: checkAgainstAllowedClients_def checkIdentifier_def cf(3))
qed

lemma or_else_idem [simp]: "or_else (or_else s d) d = or_else s d"
  by (simp add: or_else_def)

lemma buildClientConfig_Inr:
  "buildClientConfig rt server opts = Inr client \<longleftrightarrow>
     (\<exists>address. clientFacingAddress
          (if ss_listen_control server \<noteq> '''' then ss_listen_control server else ss_listen server) (op_address opts)
          = Inr address \<and>
        op_domain opts \<noteq> '''' \<and>
        checkAgainstAllowedHosts rt (ss_allowed_hosts server) (op_domain opts) = None \<and>
        checkAgainstAllowedClients (ss_allowed_clients server) (op_identifier opts) = None \<and>
        client = \<lparr>cs_debug = op_debug opts, cs_identifier = op_identifier opts, cs_server_address = address,
          cs_signature_key = (if op_omit_signature_key opts then '''' else ss_signature_key server),
          cs_proxy_http = \<lparr>chs_domain = op_domain opts, chs_target = or_else (op_target opts) defaultGeneratedTarget,
            chs_rewrite = [\<lparr>pr_from = ''/'', pr_to = ''/''\<rparr>], chs_custom_headers = []\<rparr>,
          cs_control_path = or_else (ss_control_path server) DefaultControlPath,
          cs_control_method = or_else (ss_control_method server) DefaultControlMethod\<rparr>)"
  by (auto simp: buildClientConfig_def Let_def split: sum.splits option.splits)

lemma clientFacingAddress_exists:
  "(\<exists>a. clientFacingAddress listen override = Inr a) \<longleftrightarrow>
     override \<noteq> '''' \<or> (\<exists>h p. SplitHostPort listen = Inr (h, p) \<and> h \<notin> {'''', ''0.0.0.0'', ''::''})"
  by (auto simp: clientFacingAddress_def split: sum.splits)

text \<open>
  C33: The generator decides as the server does.  For settings that a server starts with, it makes a
  configuration exactly when the domain is not empty and one that the running server lets a client
  claim, the identifier is one that the server admits, and an address is given or can be read off the
  listener of the control protocol.  (The server itself would let an empty domain be claimed if a
  pattern matches it.)  The configuration then has the server's control path and method, and its key
  unless it is to be left out.
\<close>

theorem generator_agrees_with_server:
  assumes "NewServer rt (server_config c) = Inr (cf, sv, warned)"
    and "listen = (if ss_listen_control c = '''' then ss_listen c else ss_listen_control c)"
  shows "((\<exists>client. buildClientConfig rt c opts = Inr client) \<longleftrightarrow>
       op_domain opts \<noteq> '''' \<and> checkHost rt cf (op_domain opts) \<and> checkIdentifier cf (op_identifier opts) \<and>
       (op_address opts \<noteq> '''' \<or>
        (\<exists>h p. SplitHostPort listen = Inr (h, p) \<and> h \<notin> {'''', ''0.0.0.0'', ''::''}))) \<and>
    (\<forall>client. buildClientConfig rt c opts = Inr client \<longrightarrow>
       cs_control_path client = sf_control_path cf \<and> cs_control_method client = sf_control_method cf \<and>
       cs_signature_key client = (if op_omit_signature_key opts then '''' else sf_signature_key cf) \<and>
       cs_identifier client = op_identifier opts \<and> chs_domain (cs_proxy_http client) = op_domain opts)"
proof -
  have listen: "listen = (if ss_listen_control c \<noteq> '''' then ss_listen_control c else ss_listen c)"
    using assms(2) by simp
  show ?thesis
    unfolding clientFacingAddress_exists [symmetric] listen
    using generator_agrees [OF assms(1)] NewServer_config [OF assms(1)] by (auto simp: buildClientConfig_Inr)
qed

text \<open>
  A pattern that does not compile is only noticed if no pattern before it matches: the generator may
  accept settings that the server does not start with.
\<close>

lemma generator_misses_late_pattern:
  assumes "rt_compile rt p = Some re" "rt_match rt re d" "rt_compile rt q = None"
  shows "checkAgainstAllowedHosts rt [p, q] d = None \<and>
    NewServer rt (server_config (c\<lparr>ss_allowed_hosts := [p, q]\<rparr>)) = Inl (ErrInvalidPattern q)"
  using assms by (simp add: checkAgainstAllowedHosts_def NewServer_def server_config_def)

definition ex_settings :: server_settings where
  "ex_settings = \<lparr>ss_debug = False, ss_signature_key = ''k'', ss_listen = ''10.0.0.1:80'', ss_listen_control = '''',
     ss_allowed_hosts = [''.a.'', ''.b.''], ss_allowed_clients = [''alice''], ss_control_path = '''',
     ss_control_method = ''''\<rparr>"

theorem generator_agrees_with_server_witness:
  "(\<nexists>client. buildClientConfig ex_runtime ex_settings (ex_options\<lparr>op_domain := ''c''\<rparr>) = Inr client) \<and>
   (\<nexists>client. buildClientConfig ex_runtime ex_settings (ex_options\<lparr>op_domain := ''''\<rparr>) = Inr client)"
proof -
  have "\<exists>cf sv warned. NewServer ex_runtime (server_config ex_settings) = Inr (cf, sv, warned)"
    by (simp add: NewServer_def server_config_def ex_runtime_def ex_settings_def)
  then obtain cf sv warned where n: "NewServer ex_runtime (server_config ex_settings) = Inr (cf, sv, warned)" by blast
  have "sf_allowed_hosts cf = [''.a.'', ''.b.'']"
    using NewServer_config(4) [OF n] by (auto simp: ex_settings_def ex_runtime_def list_all2_Cons1)
  then have "\<not> checkHost ex_runtime cf ''c''" by (simp add: checkHost_def ex_runtime_def HasPrefix_def)
  with generator_agrees_with_server [OF n refl, of "ex_options\<lparr>op_domain := ''c''\<rparr>"]
    generator_agrees_with_server [OF n refl, of "ex_options\<lparr>op_domain := ''''\<rparr>"] show ?thesis by simp
qed

end
