(* ===== verification/Generated_Client.thy ===== *)
theory Generated_Client
  imports Command_Props
begin

section \<open>From a generated configuration to a connection\<close>

text \<open>
  The generator of the server command, the start of the client command, the client's request and
  the server's handlers, composed.
\<close>

lemma connect_request_plain:
  assumes "plain_remote (dn_remote denv)" "plain_path (control_path cfg)"
    and "cg_control_method cfg \<noteq> ''''" "list_all valid_field_byte (cg_control_method cfg)"
  shows "\<exists>req. connect_request cfg denv i k body = Inr req \<and> rq_path req = control_path cfg \<and>
    rq_method req = cg_control_method cfg \<and> rq_body req = body"
  using assms by (simp add: connect_request_def NewRequest_def control_url_parses)

lemma server_main_Printed:
  "server_main rt js env f flags None = ServerPrinted out \<longleftrightarrow>
     (\<exists>c client enc. loadConfig js env f = Inr c \<and> fg_generate flags \<and>
        buildClientConfig rt c (fg_options flags) = Inr client \<and> js_print_client js client = Inr enc \<and>
        out = enc @ [CHR 0x0A])"
  by (auto simp: server_main_def generateClientConfig_def marshalClientConfig_def
      split: sum.splits option.splits prod.splits)

lemma JoinHostPort_not_Nil: "JoinHostPort h p \<noteq> ''''"
  by (simp add: JoinHostPort_def)

lemma clientFacingAddress_Inr:
  assumes "clientFacingAddress listen override = Inr a"
  shows "a \<noteq> ''''" "override = '''' \<Longrightarrow> SplitHostPort a = SplitHostPort listen"
    "override = '''' \<Longrightarrow> SplitHostPort listen = Inr (h, p) \<Longrightarrow> \<not> isAllInterfaces h"
  using assms
  by (auto simp: clientFacingAddress_def JoinHostPort_not_Nil isAllInterfaces_def SplitHostPort_normalised
      split: sum.splits if_splits)

text \<open>What the client command makes of a configuration that has been generated.\<close>

definition generated :: "client_settings \<Rightarrow> string \<Rightarrow> client_config" where
  "generated client key =
     getTunnelConfig (cs_identifier client) client (chs_rewrite (cs_proxy_http client)) key"

lemma client_main_generated:
  assumes "js_client js out = Inr client" "cs_identifier client \<noteq> ''''"
    and "getSignatureKey client env = Inr key" "cs_server_address client \<noteq> ''''"
    and "chs_domain (cs_proxy_http client) \<noteq> ''''" "chs_target (cs_proxy_http client) \<noteq> ''''"
    and "chs_rewrite (cs_proxy_http client) \<noteq> []" "chs_custom_headers (cs_proxy_http client) = []"
  shows "\<exists>c. client_main js env (Contents out) hostname bo = ClientRuns (generated client key) c \<and>
    NewClient (generated client key) bo = Inr c"
proof -
  have "map copy_rule rs = rs" for rs by (induction rs) (simp_all add: copy_rule_def)
  moreover have "\<exists>c. NewClient (generated client key) bo = Inr c"
    using assms by (simp add: NewClient_def verify_def generated_def getTunnelConfig_def Let_def)
  ultimately show ?thesis
    using assms by (auto simp: client_main_def getIdentifier_cmd_def generated_def)
qed

text \<open>
  What the generator copies: for the server that runs with the same settings, the client gets the
  same control path and method, an identifier that is admitted and a domain that may be claimed.
\<close>

lemma generated_fields:
  assumes "NewServer rt (server_config s) = Inr (cf, sv, warned)" "buildClientConfig rt s opts = Inr client"
  shows "checkHost rt cf (op_domain opts)" "checkIdentifier cf (op_identifier opts)"
    "clientFacingAddress (if ss_listen_control s \<noteq> '''' then ss_listen_control s else ss_listen s) (op_address opts)
       = Inr (cs_server_address client)"
    "control_path (generated client key) = sf_control_path cf"
    "cg_control_method (generated client key) = sf_control_method cf"
    "cg_identifier (generated client key) = op_identifier opts"
    "cg_signature_key (generated client key) = key"
    "cg_server_addr (generated client key) = cs_server_address client"
    "hc_domain (cc_http (cg_connection (generated client key))) = op_domain opts"
    "hc_rewrite (cc_http (cg_connection (generated client key))) = [\<lparr>pr_from = ''/'', pr_to = ''/''\<rparr>]"
proof -
  note cf = NewServer_config [OF assms(1)]
  show "checkHost rt cf (op_domain opts)" "checkIdentifier cf (op_identifier opts)"
    using assms(2) generator_agrees [OF assms(1)] by (auto simp: buildClientConfig_Inr)
qed (use assms(2) NewServer_config [OF assms(1)] in
     \<open>auto simp: buildClientConfig_Inr generated_def getTunnelConfig_def control_path_def\<close>)

lemma generated_client_runs:
  assumes "loadConfig js env f = Inr s" "NewServer rt (server_config s) = Inr (cf, sv, warned)"
    and "buildClientConfig rt s opts = Inr client" "js_client js out = Inr client" "op_identifier opts \<noteq> ''''"
    and "op_omit_signature_key opts \<longrightarrow> client_env envSignatureKey = Some (sf_signature_key cf)"
  shows "\<exists>c. client_main js client_env (Contents out) hostname bo =
    ClientRuns (generated client (sf_signature_key cf)) c"
proof -
  have key: "sf_signature_key cf = ss_signature_key s" by (rule NewServer_config(2) [OF assms(2)])
  have "ss_signature_key s \<noteq> ''''" using assms(1) by (auto simp: loadConfig_Inr missing_settings_Nil)
  with assms(3,6) have "getSignatureKey client client_env = Inr (sf_signature_key cf)"
    by (auto simp: getSignatureKey_def buildClientConfig_Inr key)
  with client_main_generated [of js out client client_env "sf_signature_key cf" hostname bo] assms(3-5)
  show ?thesis
    using clientFacingAddress_Inr(1) by (auto simp: buildClientConfig_Inr defaultGeneratedTarget_def)
qed

text \<open>Its request is granted wherever the control protocol is served.\<close>

lemma generated_request_granted:
  assumes "NewServer rt (server_config s) = Inr (cf, sv, warned)" "buildClientConfig rt s opts = Inr client"
    and "connect_request (generated client k) denv (op_identifier opts) (sf_signature_key cf) body = Inr req"
    and "rq_path req = sf_control_path cf" "rq_method req = sf_control_method cf" "rq_body req = body"
    and "rt_decode rt body = Some (cg_connection (generated client k))" "runtime_ok rt" "rt_compile rt ''/'' = Some re"
    and "wire_value (op_identifier opts) = op_identifier opts" "Clean (sf_control_path cf) = sf_control_path cf"
    and "handshake_ok cenv conn ss st" "h \<noteq> PublicOnly"
  shows "isControlRequest cf (delivered req)"
    "let sv' = snd (serve_request h rt cf cenv henv (delivered req) (fresh_writer True) sv)
     in server_getControl (op_identifier opts) sv' \<noteq> None \<and>
        host_owner sv' (op_domain opts) = Some (op_identifier opts)"
proof -
  let ?i = "op_identifier opts" and ?d = "op_domain opts"
  note fields = generated_fields [OF assms(1,2)]
  have sv: "sv = initial_server None" by (rule NewServer_config(1) [OF assms(1)])
  have dv: "rq_path (delivered req) = rq_path req" "rq_method (delivered req) = rq_method req"
    "rq_body (delivered req) = rq_body req" by (simp_all add: delivered_def)
  show control: "isControlRequest cf (delivered req)" using assms(4,11) by (simp add: isControlRequest_def dv)
  have "convertHTTPPathRules rt (cg_connection (generated client k)) = Inr [\<lparr>rr_re = re, rr_replacement = ''/''\<rparr>]"
    using assms(9) by (simp add: convertHTTPPathRules_def fields)
  then have "claims rt cf (delivered req) sv ?i ?d [\<lparr>rr_re = re, rr_replacement = ''/''\<rparr>]"
    using connect_request_fields [OF assms(3)] fields assms(5-7,10) by (simp add: claims_def dv sv)
  from connect_established [OF assms(8) _ this _ assms(12) prod.collapse [symmetric]]
  have "let sv' = snd (checkConnect rt cf cenv (delivered req) (fresh_writer True) sv)
     in server_getControl ?i sv' \<noteq> None \<and> host_owner sv' ?d = Some ?i"
    using server_inv_initial [of None] by (simp add: sv host_owner_def)
  moreover have "serve_request h rt cf cenv henv (delivered req) (fresh_writer True) sv =
      checkConnect rt cf cenv (delivered req) (fresh_writer True) sv"
    using assms(13) control by (cases h) (simp_all add: ServeHTTP_def ControlHandler_def)
  ultimately show "let sv' = snd (serve_request h rt cf cenv henv (delivered req) (fresh_writer True) sv)
     in server_getControl ?i sv' \<noteq> None \<and> host_owner sv' ?d = Some ?i" by simp
qed

text \<open>
  C4: A generated configuration works.  When the server command prints a client configuration and,
  with the same file and environment, also runs, then the client command runs on what was
  printed, the request it builds is a control request for that server, and at the listener that
  serves the control protocol it is granted: the identifier gets its control connection and the
  domain is routed to it.  Unless the operator gave an address, the client dials the host and
  port of that listener.  This holds if the JSON codec reads back this one configuration as it was
  printed and the server decodes what the client encoded; if the identifier is not empty and
  has no white space at its ends and no line breaks, which the header would not keep; if the control path starts with a
  slash, is clean and needs no escape in a URL, and the control method is one that a request can carry;
  and if the client is given the key when the configuration omits it.
\<close>

theorem generated_client_connects:
  assumes gen: "server_main rt js env f \<lparr>fg_generate = True, fg_options = opts\<rparr> None = ServerPrinted out"
    and run: "server_main rt js env f sflags w = Serving cf sv ls warned" "l \<in> set ls" "hs_handler l \<noteq> PublicOnly"
    and json: "\<forall>s c enc. loadConfig js env f = Inr s \<and> buildClientConfig rt s opts = Inr c \<and>
        js_print_client js c = Inr enc \<longrightarrow> js_client js (enc @ [CHR 0x0A]) = Inr c"
    and regexp: "runtime_ok rt" "rt_compile rt ''/'' = Some re"
    and ident: "op_identifier opts \<noteq> ''''" "wire_value (op_identifier opts) = op_identifier opts"
    and key: "op_omit_signature_key opts \<longrightarrow> client_env envSignatureKey = Some (sf_signature_key cf)"
    and path: "plain_path (sf_control_path cf)" "Clean (sf_control_path cf) = sf_control_path cf"
      "list_all valid_field_byte (sf_control_method cf)"
    and network: "plain_remote (dn_remote denv)" "handshake_ok cenv conn ss st"
  shows "\<exists>cfg c. client_main js client_env (Contents out) hostname bo = ClientRuns cfg c \<and>
    (\<forall>body. rt_decode rt body = Some (cg_connection cfg) \<longrightarrow>
       (\<exists>req. connect_request cfg denv (cg_identifier cfg) (cg_signature_key cfg) body = Inr req \<and>
          isControlRequest cf (delivered req) \<and>
          (let sv' = snd (serve_request (hs_handler l) rt cf cenv henv (delivered req) (fresh_writer True) sv)
           in server_getControl (op_identifier opts) sv' \<noteq> None \<and>
              host_owner sv' (op_domain opts) = Some (op_identifier opts)))) \<and>
    (op_address opts = '''' \<longrightarrow> SplitHostPort (cg_server_addr cfg) = SplitHostPort (hs_addr l))"
proof -
  obtain s client where s: "loadConfig js env f = Inr s" "buildClientConfig rt s opts = Inr client"
    "js_client js out = Inr client"
    using gen json by (auto simp: server_main_Printed)
  have n: "NewServer rt (server_config s) = Inr (cf, sv, warned)"
    "ls = serve_listeners (ss_listen s) (ss_listen_control s)"
    using run(1) s(1) by (auto simp: server_main_Serving)
  let ?cfg = "generated client (sf_signature_key cf)"
  note fields = generated_fields [OF n(1) s(2)]
  obtain c where c: "client_main js client_env (Contents out) hostname bo = ClientRuns ?cfg c"
    using generated_client_runs [OF s(1) n(1) s(2,3) ident(1), of client_env hostname bo] key by blast
  have meth: "sf_control_method cf \<noteq> ''''" by (simp add: NewServer_config(6) [OF n(1)])
  have "\<exists>req. connect_request ?cfg denv (cg_identifier ?cfg) (cg_signature_key ?cfg) body = Inr req \<and>
      isControlRequest cf (delivered req) \<and>
      (let sv' = snd (serve_request (hs_handler l) rt cf cenv henv (delivered req) (fresh_writer True) sv)
       in server_getControl (op_identifier opts) sv' \<noteq> None \<and>
          host_owner sv' (op_domain opts) = Some (op_identifier opts))"
    if body: "rt_decode rt body = Some (cg_connection ?cfg)" for body
  proof -
    obtain req where req: "connect_request ?cfg denv (op_identifier opts) (sf_signature_key cf) body = Inr req"
      "rq_path req = sf_control_path cf" "rq_method req = sf_control_method cf" "rq_body req = body"
      using connect_request_plain [OF network(1), of ?cfg "op_identifier opts" "sf_signature_key cf" body] path meth
      by (auto simp: fields)
    from generated_request_granted [OF n(1) s(2) req body regexp ident(2) path(2) network(2) run(3)] req(1)
    show ?thesis by (auto simp: fields)
  qed
  moreover have "op_address opts = '''' \<longrightarrow> SplitHostPort (cg_server_addr ?cfg) = SplitHostPort (hs_addr l)"
    using clientFacingAddress_Inr(2) [OF fields(3)] run(2,3) n(2) fields(8)
    by (auto simp: serve_listeners_def newHTTPServer_def split: if_splits)
  ultimately show ?thesis using c by blast
qed

text \<open>A codec for one configuration of each kind, and what the server command prints with it.\<close>

definition ex_gen_options :: client_config_options where
  "ex_gen_options = \<lparr>op_identifier = ''alice'', op_domain = ''x.b.y'', op_target = '''', op_address = '''',
     op_omit_signature_key = False, op_debug = False\<rparr>"

definition ex_gen_client :: client_settings where
  "ex_gen_client = projr (buildClientConfig ex_runtime ex_settings ex_gen_options)"

definition ex_gen_codec :: json_codec where
  "ex_gen_codec = \<lparr>js_server = (\<lambda>_. Inr ex_settings),
     js_client = (\<lambda>s. if s = [CHR ''C'', CHR 0x0A] then Inr ex_gen_client else Inl (ErrExternal ''json'')),
     js_strings = (\<lambda>_. Inl (ErrExternal ''json'')),
     js_print_client = (\<lambda>c. if c = ex_gen_client then Inr ''C'' else Inl (ErrExternal ''json''))\<rparr>"

definition ex_gen_runtime :: "string runtime" where
  "ex_gen_runtime = ex_runtime\<lparr>rt_decode := (\<lambda>_. Some (cg_connection (generated ex_gen_client ''k'')))\<rparr>"

lemma ex_gen_build: "buildClientConfig rt ex_settings ex_gen_options = Inr ex_gen_client"
  if "rt_compile rt = rt_compile ex_runtime" "rt_match rt = rt_match ex_runtime"
proof -
  have "SplitHostPort ''10.0.0.1:80'' = Inr (''10.0.0.1'', ''80'')"
    by (simp add: SplitHostPort_def LastIndexByte_def split_tail_def)
  then show ?thesis
    using that
    by (simp add: ex_gen_client_def buildClientConfig_def ex_settings_def ex_gen_options_def Let_def
        clientFacingAddress_def checkAgainstAllowedHosts_def checkAgainstAllowedClients_def ex_runtime_def HasPrefix_def)
qed

lemma ex_gen_load: "loadConfig ex_gen_codec Map.empty (Contents '''') = Inr ex_settings"
  by (simp add: loadConfig_Inr file_settings_def ex_gen_codec_def applyEnv_Inr applyEnvBool_def applyEnvList_def
      applyEnvString_def missing_settings_Nil ex_settings_def)

lemma ex_gen_rules: "cg_connection (generated ex_gen_client k) = cg_connection (generated ex_gen_client ''k'')"
  by (simp add: generated_def getTunnelConfig_def)

definition ex_gen_dial :: dial_env where
  "ex_gen_dial = ex_refused\<lparr>dn_remote := ''10.0.0.1:80''\<rparr>"

lemma ex_plain: "plain_remote (dn_remote ex_gen_dial)" "plain_path DefaultControlPath"
  "Clean DefaultControlPath = DefaultControlPath" "list_all valid_field_byte DefaultControlMethod"
proof -
  show "plain_remote (dn_remote ex_gen_dial)"
    by (simp add: plain_remote_def ex_gen_dial_def ex_refused_def parseAuthority_def LastIndexByte_def parseHost_def
        HasPrefix_def validOptionalPort_def is_digit_def in_range_def byte_of_def host_escape_def is_alpha_def is_ctl_def)
  show "plain_path DefaultControlPath"
    by (simp add: plain_path_def DefaultControlPath_def HasPrefix_def is_ctl_def byte_of_def)
  show "Clean DefaultControlPath = DefaultControlPath" by code_simp
  show "list_all valid_field_byte DefaultControlMethod" by code_simp
qed

theorem generated_client_connects_witness:
  "\<exists>cf sv ls warned. server_main ex_gen_runtime ex_gen_codec Map.empty (Contents '''')
       \<lparr>fg_generate = False, fg_options = ex_gen_options\<rparr> None = Serving cf sv ls warned \<and>
     (\<exists>cfg c. client_main ex_gen_codec Map.empty (Contents [CHR ''C'', CHR 0x0A]) (Inr ''host'') (0 :: int) =
         ClientRuns cfg c \<and> SplitHostPort (cg_server_addr cfg) = Inr (''10.0.0.1'', ''80''))"
proof -
  have l: "loadConfig ex_gen_codec Map.empty (Contents '''') = Inr ex_settings" by (rule ex_gen_load)
  have b: "buildClientConfig ex_gen_runtime ex_settings ex_gen_options = Inr ex_gen_client"
    by (rule ex_gen_build) (simp_all add: ex_gen_runtime_def)
  have gen: "server_main ex_gen_runtime ex_gen_codec Map.empty (Contents '''')
       \<lparr>fg_generate = True, fg_options = ex_gen_options\<rparr> None = ServerPrinted [CHR ''C'', CHR 0x0A]"
    using l b by (auto simp: server_main_Printed ex_gen_codec_def)
  obtain cf sv warned where run: "server_main ex_gen_runtime ex_gen_codec Map.empty (Contents '''')
       \<lparr>fg_generate = False, fg_options = ex_gen_options\<rparr> None =
     Serving cf sv [newHTTPServer ''10.0.0.1:80'' WholeServer] warned"
    by (simp add: server_main_Serving l)
       (simp add: NewServer_def server_config_def ex_gen_runtime_def ex_runtime_def ex_settings_def
         checkListenAddresses_def serve_listeners_def)
  then have n: "NewServer ex_gen_runtime (server_config ex_settings) = Inr (cf, sv, warned)"
    by (simp add: server_main_Serving l)
  have cf: "sf_control_path cf = DefaultControlPath" "sf_control_method cf = DefaultControlMethod"
    using NewServer_config(5,6) [OF n] by (simp_all add: ex_settings_def or_else_def)
  have json: "\<forall>s c enc. loadConfig ex_gen_codec Map.empty (Contents '''') = Inr s \<and>
      buildClientConfig ex_gen_runtime s ex_gen_options = Inr c \<and> js_print_client ex_gen_codec c = Inr enc \<longrightarrow>
      js_client ex_gen_codec (enc @ [CHR 0x0A]) = Inr c"
    by (simp add: ex_gen_codec_def)
  have rt: "runtime_ok ex_gen_runtime" "rt_compile ex_gen_runtime ''/'' = Some ''/''"
    by (simp_all add: ex_gen_runtime_def runtime_ok_def ex_runtime_def)
  have "SplitHostPort ''10.0.0.1:80'' = Inr (''10.0.0.1'', ''80'')"
    by (simp add: SplitHostPort_def LastIndexByte_def split_tail_def)
  with generated_client_connects [OF gen run _ _ json rt _ _ _ _ _ _ ex_plain(1) ex_handshake_ok,
      of "newHTTPServer ''10.0.0.1:80'' WholeServer" Map.empty "Inr ''host''" "0 :: int"] run
  show ?thesis by (simp add: cf ex_plain ex_gen_options_def newHTTPServer_def) blast
qed

end
