(* ===== verification/Request_End_To_End.thy ===== *)
theory Request_End_To_End
  imports End_To_End Local_Props
begin

section \<open>A visitor's request from end to end\<close>

text \<open>The proxy of a client is the one that \<open>NewClient\<close> built.\<close>

lemma client_step_proxy [simp]: "cl_proxy (client_step cfg bo (CvMessage msg opened) c) = cl_proxy c"
  by (cases "cl_pc c") (auto simp: cemit_def goto_def split: sum.splits)

lemma NewClient_proxy:
  assumes "NewClient cfg b = Inr c" "cm_protocol msg = proto_HTTP"
  shows "cl_proxy c msg env = HTTPProxy_Proxy \<lparr>hp_target = hc_target (cc_http (cg_connection cfg)),
      hp_headers = cg_custom_headers cfg, hp_error = None\<rparr> msg env"
  using assms
  by (auto simp: NewClient_def Let_def Proxy_def select_proxy_def or_default_def split: option.splits)

text \<open>
  C2: The purpose of the program: a visitor's request for the host of a connected client reaches the
  client's local server, with the method, query and body of the visitor, the path as the first
  matching rule rewrites it and the address of the target, and the local server's answer is
  what the visitor gets.  Server and client are connected by the network only: the client is
  asked with the message that the server sends, reads the request that the server writes, and the
  server reads the response that the client writes.
\<close>

theorem request_end_to_end:
  assumes server: "runtime_ok rt" "server_inv sv" "sf_director cf = None" "lookup_host rt cf r \<noteq> ''''"
      "routed sv (lookup_host rt cf r) = Some (i, rules)" "first_rule rt rules (rq_path r) = Some q"
      "\<not> isWebsocketConn r" "server_getControl i sv = Some ct"
      "he_send henv = None" "client_stream sv i henv st" "he_write henv = None"
      "PublicHandler rt cf henv r (fresh_writer hj) sv = (w', sv')"
    and client: "NewClient cfg b = Inr c0" "cl_proxy c = cl_proxy c0" "cl_pc c = PcListen le"
      "url_Parse (hc_target (cc_http (cg_connection cfg))) = Inr u"
      "distinct (map (header_slot \<circ> fst) (cg_custom_headers cfg))" "px_do penv = Inr res"
    and path: "HasPrefix (rt_replace rt (rr_re q) (rq_path r) (rr_replacement q)) ''/''"
    and network: "\<And>m. SendControl ct m \<in> set (since sv sv') \<Longrightarrow> m = msg"
      "\<And>req. WriteRequest st req \<in> set (since sv sv') \<Longrightarrow> HasPrefix (rq_path req) ''/'' \<Longrightarrow>
         px_request penv = Inr (delivered req)"
      "\<And>es a. cl_proxy c msg penv = Some es \<Longrightarrow> RemoteWrite a \<in> set es \<Longrightarrow>
         \<exists>resp. he_response henv = Inr resp \<and> rs_status resp = rs_status a \<and> rs_header resp = rs_header a \<and>
           rs_body resp = rs_body a \<and> he_copy henv = None"
  shows "CSpawnProxy st' msg \<in> set (cl_effects (client_step cfg bo (CvMessage msg (Inr st')) c)) \<and>
    (\<exists>req. cl_proxy c msg penv = Some [LocalDo req, RemoteWrite res] \<and>
       rq_method req = rq_method r \<and> rq_query req = rq_query r \<and> rq_body req = rq_body r \<and>
       rq_path req = rt_replace rt (rr_re q) (rq_path r) (rr_replacement q) \<and>
       rq_scheme req = ur_scheme u \<and> rq_urlhost req = ur_host u \<and>
       (\<forall>(n, v) \<in> set (cg_custom_headers cfg). slot_value req (header_slot n) = Some [v]) \<and>
       (\<forall>k. Some k \<notin> (header_slot \<circ> fst) ` set (cg_custom_headers cfg) \<longrightarrow>
          rq_header req k = wire_header (rq_header r) k)) \<and>
    rw_status w' = Some (rs_status res) \<and> rw_header w' = rs_header res \<and>
    rw_body w' = (if rs_body res = '''' then [] else [Bytes (rs_body res)])"
proof -
  let ?q = "tunnelled_request rt q r"
  have d: "directed cf r = r" using server(3) by (simp add: directed_def)
  have sv': "sv' = snd (PublicHandler rt cf henv r (fresh_writer hj) sv)" using server(12) by simp
  have effects: "since sv sv' = [SendControl ct (session_request proto_HTTP 0), WriteRequest st ?q, CloseStream st]"
    unfolding sv' using public_dialled(2) [OF server(1,2,4,5)] server(6-10) d by simp
  have msg: "msg = session_request proto_HTTP 0" using network(1) [of "session_request proto_HTTP 0"] effects by simp
  then have "cm_protocol msg = proto_HTTP" by (simp add: session_request_def)
  note proxy = NewClient_proxy [OF client(1) this, of penv] http_proxy_exchange [OF this]
  have "px_request penv = Inr (delivered ?q)"
    using network(2) [of ?q] effects path by (simp add: tunnelled_request_def)
  from proxy(2) [OF this, of "\<lparr>hp_target = hc_target (cc_http (cg_connection cfg)),
      hp_headers = cg_custom_headers cfg, hp_error = None\<rparr>" u] client(4-6) proxy(1)
  obtain req where req: "cl_proxy c msg penv = Some [LocalDo req, RemoteWrite res]"
    "rq_method req = rq_method (delivered ?q)" "rq_query req = rq_query (delivered ?q)"
    "rq_body req = rq_body (delivered ?q)" "rq_path req = rq_path (delivered ?q)"
    "rq_scheme req = ur_scheme u" "rq_urlhost req = ur_host u"
    "\<forall>(n, v) \<in> set (cg_custom_headers cfg). slot_value req (header_slot n) = Some [v]"
    "\<forall>k. Some k \<notin> (header_slot \<circ> fst) ` set (cg_custom_headers cfg) \<longrightarrow>
       rq_header req k = rq_header (delivered ?q) k"
    by (auto simp: client(2))
  obtain resp where resp: "he_response henv = Inr resp" "rs_status resp = rs_status res"
    "rs_header resp = rs_header res" "rs_body resp = rs_body res" "he_copy henv = None"
    using network(3) [OF req(1)] by auto
  have "w' = \<lparr>rw_hijackable = hj, rw_hijacked = False, rw_status = Some (rs_status resp),
      rw_header = rs_header resp, rw_body = (if rs_body resp = '''' then [] else [Bytes (rs_body resp)])\<rparr>"
    using public_exchange [OF server(1,2,4,5) _ _ server(8-11) resp(1), of q hj] server(6,7,12) d resp(5)
    by (simp add: copied_body_def)
  moreover have "CSpawnProxy st' msg \<in> set (cl_effects (client_step cfg bo (CvMessage msg (Inr st')) c))"
    using client(3) by simp
  ultimately show ?thesis
    using req resp by (simp add: delivered_def tunnelled_request_def)
qed

text \<open>A visitor of \<open>alice\<close>'s host, whose local server answers 201.\<close>

definition ex_exchange :: proxy_env where
  "ex_exchange = ex_penv
     \<lparr>px_request := Inr (delivered (ex_public\<lparr>rq_host := '''', rq_path := ''/api/cb/1''\<rparr>)),
      px_do := Inr \<lparr>rs_status = 201, rs_header = Map.empty, rs_body = ''ok''\<rparr>\<rparr>"

theorem request_end_to_end_witness:
  "\<exists>req. cl_proxy ex_client (session_request proto_HTTP 0) ex_exchange =
       Some [LocalDo req, RemoteWrite \<lparr>rs_status = 201, rs_header = Map.empty, rs_body = ''ok''\<rparr>] \<and>
     rq_method req = ''GET'' \<and> rq_path req = ''/api/cb/1'' \<and> rq_urlhost req = ''127.0.0.1:8080''"
proof -
  let ?r = "PublicHandler ex_runtime ex_conf ex_henv ex_public (fresh_writer True) (ex_server ''alice'')"
  let ?c = "ex_client\<lparr>cl_pc := PcListen None\<rparr>"
  have conf: "sf_director ex_conf = None" by (simp add: ex_conf_def)
  have rule: "first_rule ex_runtime ex_rules (rq_path ex_public) = Some \<lparr>rr_re = ''/cb'', rr_replacement = ''/api/cb''\<rparr>"
    by simp
  have cfg: "hc_target (cc_http (cg_connection ex_client_config)) = ''http://127.0.0.1:8080''"
    "cg_custom_headers ex_client_config = []" by (simp_all add: ex_client_config_def)
  have env: "he_send ex_henv = None" "client_stream (ex_server ''alice'') ''alice'' ex_henv 9" "he_write ex_henv = None"
    by simp_all
  have rewritten: "HasPrefix (rt_replace ex_runtime ''/cb'' ''/cb/1'' ''/api/cb'') ''/''"
    by (simp add: ex_runtime_def HasPrefix_def)
  have get: "rq_method ex_public = ''GET''" by (simp add: ex_public_def ex_request_def)
  have path: "rt_replace ex_runtime ''/cb'' ''/cb/1'' ''/api/cb'' = ''/api/cb/1''"
    by (simp add: ex_runtime_def HasPrefix_def)
  have px: "px_do ex_exchange = Inr \<lparr>rs_status = 201, rs_header = Map.empty, rs_body = ''ok''\<rparr>"
    "px_request ex_exchange = Inr (delivered (ex_public\<lparr>rq_host := '''', rq_path := ''/api/cb/1''\<rparr>))"
    by (simp_all add: ex_exchange_def)
  have answer: "a = \<lparr>rs_status = 201, rs_header = Map.empty, rs_body = ''ok''\<rparr>"
    if "cl_proxy ex_client (session_request proto_HTTP 0) ex_exchange = Some es" "RemoteWrite a \<in> set es" for es a
    using that NewClient_proxy [OF ex_client_ok, of "session_request proto_HTTP 0" ex_exchange]
      http_proxy_exchange [OF _ px(2), of "session_request proto_HTTP 0"
        "\<lparr>hp_target = hc_target (cc_http (cg_connection ex_client_config)),
          hp_headers = cg_custom_headers ex_client_config, hp_error = None\<rparr>"] ex_target cfg px(1)
    by (auto simp: session_request_def)
  have "CSpawnProxy 9 (session_request proto_HTTP 0) \<in> set (cl_effects (client_step ex_client_config ex_backoff
        (CvMessage (session_request proto_HTTP 0) (Inr 9)) ?c)) \<and>
    (\<exists>req. cl_proxy ?c (session_request proto_HTTP 0) ex_exchange =
       Some [LocalDo req, RemoteWrite \<lparr>rs_status = 201, rs_header = Map.empty, rs_body = ''ok''\<rparr>] \<and>
     rq_method req = rq_method ex_public \<and> rq_query req = rq_query ex_public \<and> rq_body req = rq_body ex_public \<and>
     rq_path req = rt_replace ex_runtime ''/cb'' ''/cb/1'' ''/api/cb'' \<and>
     rq_scheme req = ''http'' \<and> rq_urlhost req = ''127.0.0.1:8080'')"
    using request_end_to_end [OF ex_runtime_ok _ conf _ _ rule _ _ env(1-3) surjective_pairing ex_client_ok,
        where ct = 0 and c = ?c and le = None and hj = True
        and msg = "session_request proto_HTTP 0" and bo = ex_backoff and st' = 9 and penv = ex_exchange,
        OF _ _ _ _ _ _ _ ex_target [folded cfg(1)] _ px(1)]
    by (force simp: ex_since cfg env px rewritten dest: answer)
  then show ?thesis by (auto simp: get path)
qed

end
