(* ===== verification/Spec2Isabelle.thy ===== *)
theory Spec2Isabelle
  imports Server_Life Server_Names Host_Table Overlapping_Connects Local_Props Client_Requests Generated_Client
    Request_End_To_End
begin

text \<open>
  \<^bold>\<open>mylittleproxy\<close>, a reverse HTTP tunnel: a client behind a firewall dials a server with a public
  address, proves that it may use an identifier, and claims a host; the server then hands the
  requests for that host to the client, over streams of one multiplexed connection, and the
  client passes them on to a server of its own network.

  \<^bold>\<open>The library under the program.\<close>  \<open>Prelude\<close> has the shared names, errors, channels and the
  locale of state machines with an invariant.  \<open>Go_Strings\<close>, \<open>Go_Net\<close>, \<open>Go_Path\<close>, \<open>Go_Http\<close>,
  \<open>Go_Url\<close> and \<open>Go_Crypto\<close> define what the program uses of Go's standard library: string
  functions, host and port, \<open>path.Clean\<close>, headers and responses, \<open>url.Parse\<close>, SHA-256, HMAC and
  base64.  A Go string is a list of bytes.

  \<^bold>\<open>tunnel/, shared parts.\<close>  \<open>Proto\<close> has the constants and messages of \<open>proto/\<close> and the decoded
  configuration of \<open>appConfig/\<close>.  \<open>Signature\<close> is \<open>signIdentifier\<close> and its check (\<open>util.go\<close>),
  \<open>Callbacks\<close> the one-shot callbacks (\<open>util.go\<close>), \<open>Control\<close> the control connections and their
  registry (\<open>control.go\<close>, objects on a heap because two goroutines share them), \<open>VirtualHosts\<close> the
  host table (\<open>virtualhost.go\<close>), \<open>Custom_Headers\<close> is \<open>customheaders.go\<close> and \<open>Client_State\<close> the
  enumeration with its generated stringer (\<open>client.go\<close>, \<open>clientstate_string.go\<close>).

  \<^bold>\<open>The server (tunnel/server.go).\<close>  \<open>Server_State\<close> has its state, its registries and checks;
  \<open>Server_Connect\<close> the control protocol (\<open>checkConnect\<close>, \<open>controlHandler\<close>, \<open>listenControl\<close>);
  \<open>Server_Http\<close> the public side (\<open>handleHTTP\<close>, \<open>dial\<close>, \<open>handleWSConn\<close> and the handlers).  A step
  is the code between two points at which its goroutine waits for a peer; the outcomes of the
  blocking calls are in a record that comes with the
  step, and what it does to the outside is appended to the list \<open>sv_effects\<close>.  What \<open>Accept\<close> gives is a
  function of the session it is called on (\<open>he_accept\<close>), and how far the copy of a response's body gets
  is an outcome, too (\<open>he_copy\<close>).  A public request is one step, because after its wait for a stream it
  changes nothing of the server's state.  \<open>Server_Lemmas\<close> has the
  lemmas on single operations, \<open>Server_Steps\<close> the events of a server, the invariant \<open>server_inv\<close>
  and its preservation, \<open>Example_Runtime\<close> the concrete instances of the witnesses.
  \<open>Server_Props\<close>, \<open>Server_Traffic\<close>, \<open>Server_Life\<close> and \<open>Server_Names\<close> hold the properties: who may
  claim and keep a host, where requests and responses go, how connections come and go, and which
  names can be reached.  \<open>Host_Table\<close> states what the host table promises, a pair of inverse maps,
  and shows that the table refines it in whatever order Go iterates.

  \<^bold>\<open>Connects that overlap.\<close>  \<open>controlHandler\<close> waits up to ten seconds for the client's stream.
  \<open>Overlapping_Connects\<close> splits \<open>checkConnect\<close> there (\<open>checkConnect_begin\<close>, \<open>checkConnect_finish\<close>); the
  other server theories use the two halves with nothing between them (\<open>checkConnect_split\<close>).  Its runs
  interleave the halves of any number of connects with every other event.  It shows what holds
  in all of them, what an older connect does to a newer one of the same client, that other clients are not
  touched, and which further guarantees hold when no event of a client comes between the halves of its connect
  (\<open>separated_run\<close>).

  \<^bold>\<open>The client.\<close>  \<open>Local_Proxy\<close> has the proxies (\<open>proxy.go\<close>, \<open>httpproxy.go\<close>, \<open>wsproxy.go\<close>) and
  \<open>joinStreams\<close>, \<open>Client\<close> the connection loop (\<open>client.go\<close>).  \<open>Start\<close> blocks in many places while
  \<open>Close\<close> may run at any time; so it is a machine with a program counter, and every step is the code
  between two points at which another goroutine can be observed.  \<open>Client_Props\<close>, \<open>Client_Life\<close>
  and \<open>Client_Requests\<close> hold its properties (the transitions of its state, the spacing of its dials,
  what \<open>Close\<close> ends, which requests are waited for),
  \<open>Local_Props\<close> those of the proxies.

  \<^bold>\<open>The commands.\<close>  \<open>Env_Config\<close> is \<open>server/envconfig.go\<close>, \<open>Listeners\<close> the two listeners of
  \<open>server/server.go\<close>, \<open>Client_Generation\<close> is \<open>server/clientconfig.go\<close>, \<open>Commands\<close> the configuration
  files and both main functions (\<open>server/server.go\<close>, \<open>client/client.go\<close>); \<open>Command_Props\<close> has their
  properties: precedence of the environment, what a running server is known to have, agreement of
  the generator with the server's own checks.

  \<^bold>\<open>Both together.\<close>  \<open>End_To_End\<close> lets a client dial a server, \<open>Generated_Client\<close> takes the client's
  configuration from the server's generator, and \<open>Request_End_To_End\<close> follows a visitor's request
  through the server and the client to the local server and its answer back.  In all three the two
  sides are joined by the bytes on the network only.

  \<^bold>\<open>Parameters.\<close>  Code that is not in the repository is an argument: the JSON codec (\<open>json_codec\<close>), regular
  expressions (\<open>rt_*\<close>, with the hypotheses of \<open>runtime_ok\<close>), yamux and the network (the outcomes
  that come with a step), the exponential back-off (\<open>backoff_lib\<close>, with \<open>patient\<close> for what its
  documentation promises).

  \<^bold>\<open>Bounds.\<close>  No definition needs fuel: every loop of the code that is modelled runs over a finite
  list.  Loops that may run for ever, \<open>Start\<close> and the listeners, are the machines' runs, and a
  claim about them is a claim about every finite run.  Joined streams are such a machine, too: bytes arrive
  and sides end as events, and the bound on the steps of the two goroutines counts the bytes that arrived.

  \<^bold>\<open>Not modelled.\<close>  What other goroutines do inside a step, between two of its locks (\<open>deleteSession\<close>, for one,
  reads the client's host and deletes it under two separate locks); an \<open>Accept\<close> that \<open>dial\<close> has given up
  on, which takes the next stream of its session from a later request; logging; flag parsing and the directory of the executable (their results are
  inputs of the commands); the deployment files; the time that a call takes (a timeout is one of
  the outcomes of the call that it limits); data races (the client's \<open>session\<close> field is read without
  a lock); the bytes that \<open>http.Error\<close> and \<open>Response.Write\<close> add around a body and its headers, and
  the headers that frame a message on the wire (\<open>wire_header\<close> leaves them out).
\<close>

end
